(* ===== verification/Go_Net.thy ===== *)
theory Go_Net
  imports Pet_Prelude
begin

text \<open>
  The part of Go's standard package \<open>net\<close> that the program calls on addresses: \<open>net.ParseIP\<close>,
  \<open>IP.To4\<close>, \<open>IP.String\<close>, \<open>IPMask.Size\<close> and \<open>IPNet.String\<close>, as the library of the toolchain
  named in \<open>go.mod\<close> (Go 1.13) has them. An address is the byte slice it is in Go: 4 or 16 bytes,
  or empty for \<open>nil\<close>. These functions are not part of the repository; they are here because the
  firewall's rules are built from their results.
\<close>

type_synonym ip = bytes

subsection \<open>IPv4\<close>

text \<open>\<open>net.IPv4\<close>: the 16-byte form of an IPv4 address.\<close>

definition IPv4 :: "bytes \<Rightarrow> ip" where
  "IPv4 p = replicate 10 0 @ [255, 255] @ p"

definition To4 :: "ip \<Rightarrow> ip" where
  "To4 ip =
     (if length ip = 4 then ip
      else if length ip = 16 \<and> take 12 ip = replicate 10 0 @ [255, 255] then drop 12 ip
      else [])"

text \<open>\<open>dtoi\<close>: the leading decimal digits, at most \<open>0xFFFFFF\<close>; the rest of the string is returned
  in place of the number of characters read.\<close>

fun dtoi_loop :: "nat \<Rightarrow> string \<Rightarrow> (nat \<times> string) option" where
  "dtoi_loop n [] = Some (n, [])"
| "dtoi_loop n (c # s) =
     (if is_digit c then
        (let n' = n * 10 + digit_val c
         in if n' \<ge> 16777215 then None else dtoi_loop n' s)
      else Some (n, c # s))"

definition dtoi :: "string \<Rightarrow> (nat \<times> string) option" where
  "dtoi s = (case s of [] \<Rightarrow> None | c # _ \<Rightarrow> if is_digit c then dtoi_loop 0 s else None)"

text \<open>\<open>parseIPv4\<close>: the loop over the \<open>k\<close> remaining fields; every field but the first is preceded
  by a dot.\<close>

fun parse_v4_fields :: "nat \<Rightarrow> bool \<Rightarrow> string \<Rightarrow> bytes option" where
  "parse_v4_fields 0 first s = (if s = [] then Some [] else None)"
| "parse_v4_fields (Suc k) first s =
     (if s = [] then None
      else if \<not> first \<and> hd s \<noteq> CHR ''.'' then None
      else case dtoi (if first then s else tl s) of
             None \<Rightarrow> None
           | Some (n, r) \<Rightarrow>
               (if n > 255 then None
                else map_option (Cons (of_nat n)) (parse_v4_fields k False r)))"

definition parseIPv4 :: "string \<Rightarrow> ip option" where
  "parseIPv4 s = map_option IPv4 (parse_v4_fields 4 True s)"

definition v4_string :: "bytes \<Rightarrow> string" where
  "v4_string p = join_with CHR ''.'' (map (\<lambda>b. nat_dec (unat b)) p)"

subsection \<open>IPv6\<close>

definition hex_val :: "char \<Rightarrow> nat option" where
  "hex_val c =
     (if is_digit c then Some (digit_val c)
      else if CHR ''a'' \<le> c \<and> c \<le> CHR ''f'' then Some (of_char c - 87)
      else if CHR ''A'' \<le> c \<and> c \<le> CHR ''F'' then Some (of_char c - 55)
      else None)"

fun xtoi_loop :: "nat \<Rightarrow> string \<Rightarrow> (nat \<times> string) option" where
  "xtoi_loop n [] = Some (n, [])"
| "xtoi_loop n (c # s) =
     (case hex_val c of
        None \<Rightarrow> Some (n, c # s)
      | Some d \<Rightarrow> (let n' = n * 16 + d in if n' \<ge> 16777215 then None else xtoi_loop n' s))"

definition xtoi :: "string \<Rightarrow> (nat \<times> string) option" where
  "xtoi s = (case s of [] \<Rightarrow> None | c # _ \<Rightarrow> if hex_val c = None then None else xtoi_loop 0 s)"

text \<open>\<open>parseIPv6\<close>: \<open>acc\<close> holds the bytes read so far (\<open>i = length acc\<close>), \<open>ell\<close> the position of the
  ellipsis. The fuel counts the 16-bit groups that still fit.\<close>

fun parse_v6_groups :: "nat \<Rightarrow> bytes \<Rightarrow> nat option \<Rightarrow> string \<Rightarrow> (bytes \<times> nat option) option" where
  "parse_v6_groups 0 acc ell s = (if s = [] then Some (acc, ell) else None)"
| "parse_v6_groups (Suc k) acc ell s =
     (case xtoi s of
        None \<Rightarrow> None
      | Some (n, r) \<Rightarrow>
          if n > 65535 then None
          else if r \<noteq> [] \<and> hd r = CHR ''.'' then
            (if ell = None \<and> length acc \<noteq> 12 then None
             else if length acc + 4 > 16 then None
             else map_option (\<lambda>p. (acc @ p, ell)) (parse_v4_fields 4 True s))
          else
            (let acc' = acc @ [of_nat (n div 256), of_nat n] in
             if r = [] then Some (acc', ell)
             else if hd r \<noteq> CHR '':'' \<or> length r = 1 then None
             else if hd (tl r) = CHR '':'' then
               (if ell \<noteq> None then None
                else if tl (tl r) = [] then Some (acc', Some (length acc'))
                else parse_v6_groups k acc' (Some (length acc')) (tl (tl r)))
             else parse_v6_groups k acc' ell (tl r)))"

definition expand_ellipsis :: "bytes \<times> nat option \<Rightarrow> ip option" where
  "expand_ellipsis r = (case r of (acc, ell) \<Rightarrow>
     if length acc < 16 then
       (case ell of
          None \<Rightarrow> None
        | Some e \<Rightarrow> Some (take e acc @ replicate (16 - length acc) 0 @ drop e acc))
     else if ell \<noteq> None then None
     else Some acc)"

definition parseIPv6 :: "string \<Rightarrow> ip option" where
  "parseIPv6 s =
     (if has_prefix s ''::'' then
        (if length s = 2 then Some (replicate 16 0)
         else Option.bind (parse_v6_groups 8 [] (Some 0) (drop 2 s)) expand_ellipsis)
      else Option.bind (parse_v6_groups 8 [] None s) expand_ellipsis)"

text \<open>\<open>net.ParseIP\<close>: the first dot or colon decides; \<open>nil\<close> is the empty slice.\<close>

fun first_sep :: "string \<Rightarrow> char option" where
  "first_sep [] = None"
| "first_sep (c # s) = (if c = CHR ''.'' \<or> c = CHR '':'' then Some c else first_sep s)"

definition ParseIP :: "string \<Rightarrow> ip" where
  "ParseIP s =
     (case first_sep s of
        None \<Rightarrow> []
      | Some c \<Rightarrow> (case (if c = CHR ''.'' then parseIPv4 s else parseIPv6 s) of
                      None \<Rightarrow> [] | Some p \<Rightarrow> p))"

subsection \<open>Printing\<close>

definition hex_digit :: "nat \<Rightarrow> char" where
  "hex_digit d = (if d < 10 then digit_char d else char_of (87 + d))"

definition hex_byte :: "u8 \<Rightarrow> string" where
  "hex_byte b = [hex_digit (unat b div 16), hex_digit (unat b mod 16)]"

definition hex_string :: "bytes \<Rightarrow> string" where
  "hex_string bs = concat (map hex_byte bs)"

text \<open>\<open>appendHex\<close>: no leading zeros.\<close>

fun hex_nat :: "nat \<Rightarrow> string" where
  "hex_nat n = (if n < 16 then [hex_digit n] else hex_nat (n div 16) @ [hex_digit (n mod 16)])"

declare hex_nat.simps [simp del]

fun groups_of :: "bytes \<Rightarrow> nat list" where
  "groups_of (a # b # r) = (unat a * 256 + unat b) # groups_of r"
| "groups_of _ = []"

definition zero_run :: "nat list \<Rightarrow> nat \<Rightarrow> nat" where
  "zero_run gs i = length (takeWhile (\<lambda>g. g = 0) (drop i gs))"

text \<open>The leftmost longest run of zero groups, as start and length.\<close>

definition longest_run :: "nat list \<Rightarrow> nat \<times> nat" where
  "longest_run gs =
     fold (\<lambda>i (e, l). if zero_run gs i > l then (i, zero_run gs i) else (e, l)) [0..<length gs] (0, 0)"

definition v6_string :: "ip \<Rightarrow> string" where
  "v6_string p =
     (let gs = groups_of p; (e, l) = longest_run gs;
          show = (\<lambda>xs. join_with CHR '':'' (map hex_nat xs))
      in if l \<le> 1 then show gs else show (take e gs) @ ''::'' @ show (drop (e + l) gs))"

definition IP_String :: "ip \<Rightarrow> string" where
  "IP_String ip =
     (if ip = [] then ''<nil>''
      else if length (To4 ip) = 4 then v4_string (To4 ip)
      else if length ip \<noteq> 16 then CHR ''?'' # hex_string ip
      else v6_string ip)"

record ipnet =
  net_ip :: ip
  net_mask :: bytes

text \<open>\<open>simpleMaskLength\<close>: the number of leading ones, if only zeros follow.\<close>

definition mask_bits :: "bytes \<Rightarrow> bool list" where
  "mask_bits m = concat (map (\<lambda>b. map (\<lambda>i. bit b (7 - i)) [0..<8]) m)"

definition simpleMaskLength :: "bytes \<Rightarrow> nat option" where
  "simpleMaskLength m =
     (let bs = mask_bits m; ones = takeWhile id bs
      in if list_all Not (drop (length ones) bs) then Some (length ones) else None)"

definition networkNumberAndMask :: "ipnet \<Rightarrow> (ip \<times> bytes) option" where
  "networkNumberAndMask n =
     (let ip4 = To4 (net_ip n); ip = (if ip4 = [] then net_ip n else ip4); m = net_mask n
      in if ip4 = [] \<and> length (net_ip n) \<noteq> 16 then None
         else if length m = 4 then (if length ip \<noteq> 4 then None else Some (ip, m))
         else if length m = 16 then Some (ip, if length ip = 4 then drop 12 m else m)
         else None)"

definition IPNet_String :: "ipnet \<Rightarrow> string" where
  "IPNet_String n =
     (case networkNumberAndMask n of
        None \<Rightarrow> ''<nil>''
      | Some (nn, m) \<Rightarrow>
          (case simpleMaskLength m of
             None \<Rightarrow> IP_String nn @ ''/'' @ hex_string m
           | Some l \<Rightarrow> IP_String nn @ ''/'' @ nat_dec l))"

subsection \<open>Reading back what was printed\<close>

lemma digit_val_le: "is_digit c \<Longrightarrow> digit_val c \<le> 9"
  by (auto simp: is_digit_def digit_val_def less_eq_char_def)

lemma dtoi_loop_append:
  assumes "\<forall>c \<in> set s. is_digit c" and "r = [] \<or> \<not> is_digit (hd r)"
    and "foldl (\<lambda>n c. n * 10 + digit_val c) n s < 16777215"
  shows "dtoi_loop n (s @ r) = Some (foldl (\<lambda>n c. n * 10 + digit_val c) n s, r)"
  using assms
proof (induction s arbitrary: n)
  case Nil
  then show ?case by (cases r) auto
next
  case (Cons c s)
  have mono: "m \<le> foldl (\<lambda>n c. n * 10 + digit_val c) m s" for m
  proof (induction s arbitrary: m)
    case (Cons a s)
    have "m \<le> m * 10 + digit_val a" by simp
    also have "\<dots> \<le> foldl (\<lambda>n c. n * 10 + digit_val c) (m * 10 + digit_val a) s" by (rule Cons.IH)
    finally show ?case by simp
  qed simp
  from mono [of "n * 10 + digit_val c"] Cons show ?case by auto
qed

lemma foldl_nat_dec: "foldl (\<lambda>n c. n * 10 + digit_val c) 0 (nat_dec n) = n"
proof (induction n rule: nat_dec.induct)
  case (1 n)
  then show ?case
    by (cases "n < 10") (auto simp: nat_dec.simps [of n])
qed

lemma dtoi_nat_dec [simp]:
  assumes "n < 16777215" and "r = [] \<or> \<not> is_digit (hd r)"
  shows "dtoi (nat_dec n @ r) = Some (n, r)"
proof -
  obtain c s where cs: "nat_dec n = c # s" by (meson nat_dec_nonempty neq_Nil_conv)
  then have "is_digit c" using nat_dec_digits [of n] by auto
  with cs show ?thesis
    using dtoi_loop_append [of "nat_dec n" r 0] assms nat_dec_digits [of n] foldl_nat_dec [of n]
    by (simp add: dtoi_def)
qed

lemma unat_u8_bound [simp]: "unat (b :: u8) < 256" "unat (b :: u8) \<le> 255" "\<not> 255 < unat (b :: u8)"
proof -
  have "unat b < 2 ^ LENGTH(8)" by (rule unsigned_less)
  then show "unat b < 256" "unat b \<le> 255" "\<not> 255 < unat b" by simp_all
qed

lemma unat_u8_small [simp]: "unat (b :: u8) < 16777215"
  using unat_u8_bound(1) [of b] by linarith

lemma To4_IPv4 [simp]: "length p = 4 \<Longrightarrow> To4 (IPv4 p) = p"
  by (simp add: To4_def IPv4_def)

lemma length_To4: "length (To4 p) = 4 \<or> To4 p = []"
  by (auto simp: To4_def)

lemma v4_cases:
  assumes "length (p :: bytes) = 4"
  obtains a b c d where "p = [a, b, c, d]"
  using assms by (auto simp: length_Suc_conv numeral_eq_Suc)

lemma parse_v4_string:
  assumes "length p = 4"
  shows "parse_v4_fields 4 True (v4_string p) = Some p"
proof -
  obtain a b c d where p: "p = [a, b, c, d]" using assms by (rule v4_cases)
  have four: "(4::nat) = Suc (Suc (Suc (Suc 0)))" by simp
  show ?thesis
    unfolding p v4_string_def four
    by (simp add: dtoi_nat_dec [where r = "[]", simplified])
qed

lemma first_sep_v4: "length p = 4 \<Longrightarrow> first_sep (v4_string p) = Some CHR ''.''"
proof -
  assume "length p = 4"
  then obtain a b c d where p: "p = [a, b, c, d]" by (rule v4_cases)
  have "first_sep (s @ CHR ''.'' # t) = Some CHR ''.''"
    if "\<forall>c \<in> set s. is_digit c" for s t
    using that by (induction s) auto
  then show ?thesis using nat_dec_digits by (simp add: p v4_string_def)
qed

text \<open>An IPv4 address is read back from what \<open>IP.String\<close> prints for it.\<close>

lemma To4_ParseIP_v4_string [simp]: "length p = 4 \<Longrightarrow> To4 (ParseIP (v4_string p)) = p"
  by (simp add: ParseIP_def first_sep_v4 parseIPv4_def parse_v4_string)

lemma To4_ParseIP_IP_String:
  assumes "length (To4 ip) = 4"
  shows "To4 (ParseIP (IP_String ip)) = To4 ip"
proof -
  have "ip \<noteq> []" using assms by (auto simp: To4_def)
  with assms show ?thesis by (simp add: IP_String_def)
qed

end
