(* ===== verification/Rule_Builder.thy ===== *)
theory Rule_Builder
  imports Go_Net
begin

text \<open>
  \<^verbatim>\<open>controllers/firewall/rule-builder.go\<close>: the builder of one nftables rule, which keeps the
  expressions handed to the kernel and, in step with them, the text that is hashed and logged.
  The expression constructors are the structs of \<^verbatim>\<open>github.com/google/nftables/expr\<close> with
  the fields this program sets; fields it leaves at zero are written out where they matter.
\<close>

datatype meta_key = MetaKeyL4PROTO | MetaKeyOIFNAME
datatype payload_base = PayloadBaseNetworkHeader | PayloadBaseTransportHeader
datatype verdict_kind = VerdictAccept | VerdictReturn | VerdictJump | VerdictGoto

datatype nft_expr =
    Meta meta_key (meta_register: nat)
  | CmpEq (cmp_register: nat) (cmp_data: bytes)
  | Payload (pl_dest: nat) payload_base (pl_offset: nat) (pl_len: nat)
  | BitwiseX (bw_source: nat) (bw_dest: nat) (bw_len: nat) (bw_mask: bytes) (bw_xor: bytes)
  | CounterX
  | RejectX (rej_type: nat) (rej_code: nat)
  | VerdictX (vd_kind: verdict_kind) (vd_chain: string)
  | Immediate (imm_register: nat) (imm_data: bytes)
  | DestNAT (nat_family: nat) (nat_addr_min: nat) (nat_addr_max: nat)
      (nat_proto_min: nat) (nat_proto_max: nat)
  | Masq

text \<open>Constants of \<^verbatim>\<open>golang.org/x/sys/unix\<close>.\<close>

definition IPPROTO_ICMP :: u8 where "IPPROTO_ICMP = 1"
definition IPPROTO_TCP :: u8 where "IPPROTO_TCP = 6"
definition IPPROTO_UDP :: u8 where "IPPROTO_UDP = 17"
definition IPPROTO_SCTP :: u8 where "IPPROTO_SCTP = 132"
definition NFPROTO_IPV4 :: nat where "NFPROTO_IPV4 = 2"

lemmas proto_defs = IPPROTO_ICMP_def IPPROTO_TCP_def IPPROTO_UDP_def IPPROTO_SCTP_def

record rule_builder =
  rb_text :: string
  rb_exprs :: "nft_expr list"

definition NewRuleBuilder :: rule_builder where
  "NewRuleBuilder = \<lparr>rb_text = [], rb_exprs = []\<rparr>"

text \<open>\<open>rb.text.String()[1:]\<close> panics on the empty text.\<close>

definition rb_String :: "rule_builder \<Rightarrow> string option" where
  "rb_String rb = (case rb_text rb of [] \<Rightarrow> None | _ # s \<Rightarrow> Some s)"

definition rb_Reset :: "rule_builder \<Rightarrow> rule_builder" where
  "rb_Reset rb = \<lparr>rb_text = [], rb_exprs = []\<rparr>"

text \<open>Every operation of the builder appends expressions and text.\<close>

definition rb_add :: "nft_expr list \<Rightarrow> string \<Rightarrow> rule_builder \<Rightarrow> rule_builder" where
  "rb_add es t rb = \<lparr>rb_text = rb_text rb @ t, rb_exprs = rb_exprs rb @ es\<rparr>"

definition parsePortForNft :: "u16 \<Rightarrow> bytes" where
  "parsePortForNft port = be16 port"

definition parseIpForNft :: "string \<Rightarrow> bytes" where
  "parseIpForNft str = To4 (ParseIP str)"

definition ifname :: "string \<Rightarrow> bytes" where
  "ifname n = take 16 (bytes_of n @ [0] @ replicate 16 0)"

definition IsL4Proto :: "u8 \<Rightarrow> string \<Rightarrow> rule_builder \<Rightarrow> rule_builder" where
  [rb_defs]: "IsL4Proto idb name =
     rb_add [Meta MetaKeyL4PROTO 1, CmpEq 1 [idb]] (CHR '' '' # name)"

definition IsTCP :: "rule_builder \<Rightarrow> rule_builder" where
  [rb_defs]: "IsTCP = IsL4Proto IPPROTO_TCP ''tcp''"

definition IsUDP :: "rule_builder \<Rightarrow> rule_builder" where
  [rb_defs]: "IsUDP = IsL4Proto IPPROTO_UDP ''udp''"

definition IsSCTP :: "rule_builder \<Rightarrow> rule_builder" where
  [rb_defs]: "IsSCTP = IsL4Proto IPPROTO_SCTP ''sctp''"

definition IsDestPort :: "u16 \<Rightarrow> rule_builder \<Rightarrow> rule_builder" where
  [rb_defs]: "IsDestPort port =
     rb_add [Payload 1 PayloadBaseTransportHeader 2 2, CmpEq 1 (parsePortForNft port)]
       ('' dport '' @ nat_dec (unat port))"

definition Counter :: "rule_builder \<Rightarrow> rule_builder" where
  [rb_defs]: "Counter = rb_add [CounterX] '' counter''"

definition RejectAsHostUnreachable :: "rule_builder \<Rightarrow> rule_builder" where
  [rb_defs]: "RejectAsHostUnreachable =
     rb_add [RejectX 0 1] '' reject with icmp type host-unreachable''"

definition RejectAsPortUnreachable :: "rule_builder \<Rightarrow> rule_builder" where
  [rb_defs]: "RejectAsPortUnreachable =
     rb_add [RejectX 0 3] '' reject with icmp type port-unreachable''"

definition Accept :: "rule_builder \<Rightarrow> rule_builder" where
  [rb_defs]: "Accept = rb_add [VerdictX VerdictAccept []] '' accept''"

definition Return :: "rule_builder \<Rightarrow> rule_builder" where
  [rb_defs]: "Return = rb_add [VerdictX VerdictReturn []] '' return''"

definition TranslateIPv4Address :: "string \<Rightarrow> rule_builder \<Rightarrow> rule_builder" where
  [rb_defs]: "TranslateIPv4Address ip =
     rb_add [Immediate 1 (parseIpForNft ip), DestNAT NFPROTO_IPV4 1 0 0 0] ('' dnat to '' @ ip)"

definition TranslateIPv4Destination :: "string \<Rightarrow> u16 \<Rightarrow> rule_builder \<Rightarrow> rule_builder" where
  [rb_defs]: "TranslateIPv4Destination ip port =
     rb_add
       [Immediate 1 (parseIpForNft ip), Immediate 2 (parsePortForNft port),
        DestNAT NFPROTO_IPV4 1 0 2 0]
       ('' dnat to '' @ ip @ '':'' @ nat_dec (unat port))"

definition IsIpProtocol :: "u8 \<Rightarrow> string \<Rightarrow> rule_builder \<Rightarrow> rule_builder" where
  [rb_defs]: "IsIpProtocol idb name =
     rb_add [Payload 1 PayloadBaseNetworkHeader 9 1, CmpEq 1 [idb]] ('' ip protocol '' @ name)"

definition IsICMP :: "rule_builder \<Rightarrow> rule_builder" where
  [rb_defs]: "IsICMP = IsIpProtocol IPPROTO_ICMP ''icmp''"

definition IsIpDestAddress :: "string \<Rightarrow> rule_builder \<Rightarrow> rule_builder" where
  [rb_defs]: "IsIpDestAddress ip =
     rb_add [Payload 1 PayloadBaseNetworkHeader 16 4, CmpEq 1 (parseIpForNft ip)]
       ('' ip daddr '' @ ip)"

definition IsIpSrcAddress :: "ip \<Rightarrow> rule_builder \<Rightarrow> rule_builder" where
  [rb_defs]: "IsIpSrcAddress ip =
     rb_add [Payload 1 PayloadBaseNetworkHeader 12 4, CmpEq 1 (To4 ip)]
       ('' ip saddr '' @ IP_String ip)"

definition IsIpSrcAddressStr :: "string \<Rightarrow> rule_builder \<Rightarrow> rule_builder" where
  [rb_defs]: "IsIpSrcAddressStr ip = IsIpSrcAddress (ParseIP ip)"

definition IsIpSrcNetwork :: "ipnet \<Rightarrow> rule_builder \<Rightarrow> rule_builder" where
  [rb_defs]: "IsIpSrcNetwork n =
     rb_add
       [Payload 1 PayloadBaseNetworkHeader 12 4, BitwiseX 1 1 4 (net_mask n) [0, 0, 0, 0],
        CmpEq 1 (To4 (net_ip n))]
       ('' ip saddr '' @ IPNet_String n)"

definition OutIfaceName :: "string \<Rightarrow> rule_builder \<Rightarrow> rule_builder" where
  [rb_defs]: "OutIfaceName iface =
     rb_add [Meta MetaKeyOIFNAME 1, CmpEq 1 (ifname iface)]
       ('' oifname '' @ [char_of (34::nat)] @ iface @ [char_of (34::nat)])"

definition JumpToChain :: "string \<Rightarrow> rule_builder \<Rightarrow> rule_builder" where
  [rb_defs]: "JumpToChain chain = rb_add [VerdictX VerdictJump chain] ('' jump '' @ chain)"

definition GoToChain :: "string \<Rightarrow> rule_builder \<Rightarrow> rule_builder" where
  [rb_defs]: "GoToChain chain = rb_add [VerdictX VerdictGoto chain] ('' goto '' @ chain)"

definition Masquerade :: "rule_builder \<Rightarrow> rule_builder" where
  [rb_defs]: "Masquerade = rb_add [Masq] '' masquerade''"

subsection \<open>Facts about the builder\<close>

lemma rb_add_sel [simp]:
  "rb_text (rb_add es t rb) = rb_text rb @ t"
  "rb_exprs (rb_add es t rb) = rb_exprs rb @ es"
  by (simp_all add: rb_add_def)

lemma rb_Reset_sel [simp]: "rb_text (rb_Reset rb) = []" "rb_exprs (rb_Reset rb) = []"
  by (simp_all add: rb_Reset_def)

lemma rb_Reset_eq [simp]: "rb_Reset rb = NewRuleBuilder"
  by (simp add: rb_Reset_def NewRuleBuilder_def)

lemma NewRuleBuilder_sel [simp]: "rb_text NewRuleBuilder = []" "rb_exprs NewRuleBuilder = []"
  by (simp_all add: NewRuleBuilder_def)

lemma rb_add_rb_add [simp]: "rb_add es t (rb_add ds s rb) = rb_add (ds @ es) (s @ t) rb"
  by (simp add: rb_add_def)

text \<open>The text can be read exactly when something was written to it.\<close>

lemma rb_String_eq: "rb_String rb = (if rb_text rb = [] then None else Some (tl (rb_text rb)))"
  by (simp add: rb_String_def split: list.splits)

lemma length_ifname [simp]: "length (ifname n) = 16"
  by (simp add: ifname_def)

lemma unat_u16_bound [simp]: "unat (p :: u16) < 65536"
proof -
  have "unat p < 2 ^ LENGTH(16)" by (rule unsigned_less)
  then show ?thesis by simp
qed

text \<open>Network byte order, most significant byte first: no port is lost or confused.\<close>

lemma unat_high_byte: "unat (ucast (drop_bit 8 p) :: u8) = unat (p :: u16) div 256"
proof -
  have "unat (ucast (drop_bit 8 p) :: u8) = (unat p div 256) mod 256"
    by (simp only: unsigned_ucast_eq unsigned_drop_bit_eq)
       (simp add: drop_bit_eq_div take_bit_eq_mod)
  then show ?thesis using unat_u16_bound [of p] by (simp add: less_mult_imp_div_less)
qed

lemma unat_low_byte: "unat (ucast p :: u8) = unat (p :: u16) mod 256"
  by (simp add: unsigned_ucast_eq take_bit_eq_mod)

lemma be16_inject [simp]: "be16 p = be16 q \<longleftrightarrow> p = q"
proof
  assume "be16 p = be16 q"
  then have "unat p div 256 = unat q div 256" "unat p mod 256 = unat q mod 256"
    unfolding be16_def by (metis list.inject unat_high_byte, metis list.inject unat_low_byte)
  then show "p = q" by (metis div_mult_mod_eq word_unat_eq_iff)
qed simp

lemma parsePortForNft_inject [simp]: "parsePortForNft p = parsePortForNft q \<longleftrightarrow> p = q"
  by (simp add: parsePortForNft_def)

end
