(* ===== verification/Hashing_Builder.thy ===== *)
theory Hashing_Builder
  imports Pet_Prelude
begin

unbundle bit_operations_syntax

text \<open>
  \<^verbatim>\<open>controllers/firewall/controller.go\<close>: \<open>HashingBuilder\<close>, the \<open>io.Writer\<close> that collects the
  configuration's text and feeds the same bytes to a running 32-bit FNV-1a hash
  (\<open>hash/fnv.New32a\<close> of the standard library).
\<close>

definition fnv_offset32 :: u32 where "fnv_offset32 = 2166136261"
definition fnv_prime32 :: u32 where "fnv_prime32 = 16777619"

definition fnv_step :: "u8 \<Rightarrow> u32 \<Rightarrow> u32" where
  "fnv_step b h = (h XOR ucast b) * fnv_prime32"

definition fnv1a :: "bytes \<Rightarrow> u32" where
  "fnv1a bs = fold fnv_step bs fnv_offset32"

record hashing_builder =
  hb_builder :: string
  hb_hasher :: u32

definition new_hashing_builder :: hashing_builder where
  "new_hashing_builder = \<lparr>hb_builder = [], hb_hasher = fnv_offset32\<rparr>"

definition hb_Write :: "hashing_builder \<Rightarrow> string \<Rightarrow> hashing_builder" where
  "hb_Write hb p =
     \<lparr>hb_builder = hb_builder hb @ p, hb_hasher = fold fnv_step (bytes_of p) (hb_hasher hb)\<rparr>"

text \<open>\<open>hasher.Sum(nil)\<close>: the state in big-endian order.\<close>

definition hb_Sum :: "hashing_builder \<Rightarrow> bytes" where
  "hb_Sum hb = be32 (hb_hasher hb)"

subsection \<open>The writer contract\<close>

text \<open>
  What the configuration writer relies on: writing is cumulative (the text seen so far grows by
  exactly what was written), and the digest is a function of the text alone, however it was cut
  into writes.
\<close>

locale io_writer =
  fixes wr :: "'w \<Rightarrow> string \<Rightarrow> 'w"
    and content :: "'w \<Rightarrow> string"
    and digest :: "'w \<Rightarrow> 'h"
    and ok :: "'w \<Rightarrow> bool"
    and fresh :: 'w
  assumes ok_fresh: "ok fresh"
    and content_fresh: "content fresh = []"
    and ok_write: "ok w \<Longrightarrow> ok (wr w s)"
    and content_write: "content (wr w s) = content w @ s"
    and digest_content: "ok v \<Longrightarrow> ok w \<Longrightarrow> content v = content w \<Longrightarrow> digest v = digest w"
begin

definition writes :: "string list \<Rightarrow> 'w \<Rightarrow> 'w" where
  "writes ss w = fold (\<lambda>s w. wr w s) ss w"

lemma ok_writes: "ok w \<Longrightarrow> ok (writes ss w)"
  by (induction ss arbitrary: w) (auto simp: writes_def ok_write)

lemma content_writes: "content (writes ss w) = content w @ concat ss"
  by (induction ss arbitrary: w) (auto simp: writes_def content_write)

lemma digest_writes:
  assumes "concat ss = concat ts"
  shows "digest (writes ss fresh) = digest (writes ts fresh)"
proof -
  have "content (writes ss fresh) = content (writes ts fresh)"
    using assms by (simp add: content_writes content_fresh)
  then show ?thesis by (intro digest_content ok_writes ok_fresh)
qed

end

subsection \<open>The hashing builder keeps it\<close>

definition hb_ok :: "hashing_builder \<Rightarrow> bool" where
  "hb_ok hb \<longleftrightarrow> hb_hasher hb = fnv1a (bytes_of (hb_builder hb))"

lemma hb_ok_new [simp]: "hb_ok new_hashing_builder"
  by (simp add: hb_ok_def new_hashing_builder_def fnv1a_def bytes_of_def)

lemma hb_ok_Write [simp]: "hb_ok hb \<Longrightarrow> hb_ok (hb_Write hb s)"
  by (simp add: hb_ok_def hb_Write_def fnv1a_def)

lemma hb_builder_Write [simp]: "hb_builder (hb_Write hb s) = hb_builder hb @ s"
  by (simp add: hb_Write_def)

lemma hb_builder_new [simp]: "hb_builder new_hashing_builder = []"
  by (simp add: new_hashing_builder_def)

interpretation hbw: io_writer hb_Write hb_builder hb_Sum hb_ok new_hashing_builder
  by unfold_locales (auto simp: hb_Sum_def hb_ok_def hb_Write_def fnv1a_def new_hashing_builder_def
    bytes_of_def)

lemma hb_Sum_ok: "hb_ok hb \<Longrightarrow> hb_Sum hb = be32 (fnv1a (bytes_of (hb_builder hb)))"
  by (simp add: hb_Sum_def hb_ok_def)

end
