(* ===== verification/Nft_Writer.thy ===== *)
theory Nft_Writer
  imports Rule_Builder Hashing_Builder
begin

text \<open>
  \<^verbatim>\<open>controllers/firewall/nft-writer.go\<close>: the writer that issues the table, chain and rule
  operations on the netlink connection (\<^verbatim>\<open>github.com/google/nftables\<close>, which queues them until
  \<open>Flush\<close>) and mirrors them as text. The queue is the list \<open>w_ops\<close>, oldest first; the
  connection itself is not under \<^verbatim>\<open>src/\<close> and only receives it.
\<close>

datatype table_family = TableFamilyIPv4

record nft_table =
  tbl_name :: string
  tbl_family :: table_family

text \<open>\<open>nftables.Chain\<close>, without the pointer to its table, which the operations carry.\<close>

record nft_chain =
  ch_name :: string
  ch_type :: string
  ch_hook :: nat
  ch_prio :: int

datatype nft_op =
    AddTable nft_table
  | DelTable nft_table
  | AddChain nft_table nft_chain
  | AddRuleOp "nft_table option" "nft_chain option" "nft_expr list" bytes

record nft_writer =
  w_ops :: "nft_op list"
  w_out :: hashing_builder
  w_table :: "nft_table option"
  w_chain :: "nft_chain option"

definition NewNftWriter :: "hashing_builder \<Rightarrow> nft_writer" where
  "NewNftWriter out = \<lparr>w_ops = [], w_out = out, w_table = None, w_chain = None\<rparr>"

definition w_emit :: "nft_op \<Rightarrow> nft_writer \<Rightarrow> nft_writer" where
  "w_emit op w = w\<lparr>w_ops := w_ops w @ [op]\<rparr>"

definition w_print :: "string \<Rightarrow> nft_writer \<Rightarrow> nft_writer" where
  "w_print s w = w\<lparr>w_out := hb_Write (w_out w) s\<rparr>"

text \<open>The newline and the double quote.\<close>

definition nl :: string where "nl = [char_of (10::nat)]"
definition dq :: string where "dq = [char_of (34::nat)]"

definition EndChain :: "nft_writer \<Rightarrow> nft_writer" where
  "EndChain w =
     (if w_chain w \<noteq> None then (w_print (''  }'' @ nl) w)\<lparr>w_chain := None\<rparr> else w)"

definition EndTable :: "nft_writer \<Rightarrow> nft_writer" where
  "EndTable w =
     (if w_table w \<noteq> None then (w_print (''}'' @ nl) (EndChain w))\<lparr>w_table := None\<rparr> else w)"

definition StartTableReplacement :: "string \<Rightarrow> table_family \<Rightarrow> nft_writer \<Rightarrow> nft_writer" where
  "StartTableReplacement name family w0 =
     (let w = EndTable w0;
          t = \<lparr>tbl_name = name, tbl_family = family\<rparr>;
          familyStr = ''ip'';
          w = w\<lparr>w_table := Some t\<rparr>;
          w = w_emit (AddTable t) w;
          w = w_print (''table '' @ familyStr @ '' '' @ name @ nl) w;
          w = w_emit (DelTable t) w;
          w = w_print (''delete table '' @ name @ nl) w;
          w = w_emit (AddTable t) w
      in w_print (nl @ ''table '' @ familyStr @ '' '' @ name @ '' {'') w)"

text \<open>Netfilter's hook numbers (\<^verbatim>\<open>unix.NF_INET_*\<close>) and the library's chain priorities.\<close>

definition NF_INET_PRE_ROUTING :: nat where "NF_INET_PRE_ROUTING = 0"
definition NF_INET_LOCAL_IN :: nat where "NF_INET_LOCAL_IN = 1"
definition NF_INET_FORWARD :: nat where "NF_INET_FORWARD = 2"
definition NF_INET_LOCAL_OUT :: nat where "NF_INET_LOCAL_OUT = 3"
definition NF_INET_POST_ROUTING :: nat where "NF_INET_POST_ROUTING = 4"
definition ChainPriorityFilter :: int where "ChainPriorityFilter = 0"
definition ChainPriorityNATDest :: int where "ChainPriorityNATDest = -100"
definition ChainPriorityNATSource :: int where "ChainPriorityNATSource = 100"
definition ChainPriorityMangle :: int where "ChainPriorityMangle = -150"

lemmas hook_defs =
  NF_INET_PRE_ROUTING_def NF_INET_LOCAL_IN_def NF_INET_FORWARD_def NF_INET_LOCAL_OUT_def
  NF_INET_POST_ROUTING_def

definition hook_text :: "nat \<Rightarrow> string" where
  "hook_text h =
     (if h = NF_INET_PRE_ROUTING then '' hook prerouting''
      else if h = NF_INET_LOCAL_IN then '' hook input''
      else if h = NF_INET_FORWARD then '' hook forward''
      else if h = NF_INET_LOCAL_OUT then '' hook output''
      else if h = NF_INET_POST_ROUTING then '' hook postrouting''
      else '' hook TODO!'')"

text \<open>\<open>StartChain\<close> does nothing outside a table.\<close>

definition StartChain :: "nft_chain \<Rightarrow> nft_writer \<Rightarrow> nft_writer" where
  "StartChain c w0 =
     (case w_table w0 of
        None \<Rightarrow> w0
      | Some t \<Rightarrow>
          (let w = EndChain w0;
               w = w\<lparr>w_chain := Some c\<rparr>;
               w = w_emit (AddChain t c) w;
               w = w_print (nl @ ''  chain '' @ ch_name c @ '' {'' @ nl) w
           in if ch_type c \<noteq> [] then
                (let w = w_print (''    type '' @ ch_type c) w;
                     w = w_print (hook_text (ch_hook c)) w;
                     w = w_print ('' priority '' @ int_dec (ch_prio c)) w
                 in w_print ('';'' @ nl) w)
              else w))"

definition basic_chain :: "string \<Rightarrow> nft_chain" where
  "basic_chain name = \<lparr>ch_name = name, ch_type = [], ch_hook = 0, ch_prio = 0\<rparr>"

definition StartBasicChain :: "string \<Rightarrow> nft_writer \<Rightarrow> nft_writer" where
  "StartBasicChain name = StartChain (basic_chain name)"

definition maxCommentLength :: nat where "maxCommentLength = 127"

definition makeRuleComment :: "string \<Rightarrow> bytes" where
  "makeRuleComment s =
     (let c = (if length s > maxCommentLength then take maxCommentLength s else s);
          cl = (if length s > maxCommentLength then maxCommentLength else length s)
      in take (cl + 3) ([0, of_nat (cl + 1)] @ bytes_of c @ replicate (cl + 3) 0))"

text \<open>\<open>AddRule\<close> and \<open>AddRuleWithComment\<close> queue the rule, print it and reset the builder;
  \<open>rule.String()\<close> panics on a builder without text.\<close>

definition AddRule :: "rule_builder \<Rightarrow> nft_writer \<Rightarrow> (nft_writer \<times> rule_builder) option" where
  "AddRule rule w =
     (let w = w_emit (AddRuleOp (w_table w) (w_chain w) (rb_exprs rule) []) w
      in case rb_String rule of
           None \<Rightarrow> None
         | Some s \<Rightarrow> Some (w_print (''    '' @ s @ nl) w, rb_Reset rule))"

definition AddRuleWithComment ::
  "rule_builder \<Rightarrow> string \<Rightarrow> nft_writer \<Rightarrow> (nft_writer \<times> rule_builder) option" where
  "AddRuleWithComment rule comment w =
     (let w = w_emit (AddRuleOp (w_table w) (w_chain w) (rb_exprs rule) (makeRuleComment comment)) w
      in case rb_String rule of
           None \<Rightarrow> None
         | Some s \<Rightarrow>
             Some (w_print (''    '' @ s @ '' comment '' @ dq @ comment @ dq @ nl) w, rb_Reset rule))"

subsection \<open>What a queue of operations stands for\<close>

text \<open>
  The abstract view of a queue: the table it is for and the chains it declares, in order, each
  with its rules. \<open>replay\<close> is \<open>None\<close> where the queue is no such script: an operation on a table
  that was not added (or was deleted), a rule without a chain, a rule for a chain other than the
  one being written.
\<close>

type_synonym chain_def = "nft_chain \<times> nft_expr list list"

fun replay_step ::
  "nft_op \<Rightarrow> nft_table option \<times> chain_def list \<Rightarrow> (nft_table option \<times> chain_def list) option" where
  "replay_step (AddTable t) (s, cs) = Some (Some t, if s = Some t then cs else [])"
| "replay_step (DelTable t) (s, cs) = (if s = Some t then Some (None, []) else None)"
| "replay_step (AddChain t c) (s, cs) = (if s = Some t then Some (s, cs @ [(c, [])]) else None)"
| "replay_step (AddRuleOp (Some t) (Some c) es u) (s, cs) =
     (if s = Some t \<and> cs \<noteq> [] \<and> fst (last cs) = c
      then Some (s, butlast cs @ [(c, snd (last cs) @ [es])]) else None)"
| "replay_step (AddRuleOp _ _ es u) (s, cs) = None"

definition replay :: "nft_op list \<Rightarrow> (nft_table option \<times> chain_def list) option" where
  "replay ops = foldM replay_step ops (None, [])"

lemma replay_snoc:
  "replay (ops @ [op]) = (case replay ops of None \<Rightarrow> None | Some s \<Rightarrow> replay_step op s)"
  by (auto simp: replay_def foldM_append split: option.splits)

subsection \<open>References between chains\<close>

definition expr_targets :: "nft_expr \<Rightarrow> string list" where
  "expr_targets e = (case e of
       VerdictX k c \<Rightarrow> (case k of VerdictJump \<Rightarrow> [c] | VerdictGoto \<Rightarrow> [c] | _ \<Rightarrow> [])
     | _ \<Rightarrow> [])"

definition rule_targets :: "nft_expr list \<Rightarrow> string list" where
  "rule_targets es = concat (map expr_targets es)"

definition chain_targets :: "chain_def \<Rightarrow> string list" where
  "chain_targets c = concat (map rule_targets (snd c))"

text \<open>The jump and goto targets that no chain up to and including the one using them declares.\<close>

fun unresolved_from :: "string list \<Rightarrow> chain_def list \<Rightarrow> string list" where
  "unresolved_from known [] = []"
| "unresolved_from known (c # cs) =
     filter (\<lambda>t. t \<notin> set (ch_name (fst c) # known)) (chain_targets c)
     @ unresolved_from (ch_name (fst c) # known) cs"

definition unresolved :: "chain_def list \<Rightarrow> string list" where
  "unresolved cs = unresolved_from [] cs"

definition chain_names :: "chain_def list \<Rightarrow> string list" where
  "chain_names cs = map (\<lambda>c. ch_name (fst c)) cs"

lemma chain_names_simps [simp]:
  "chain_names [] = []" "chain_names (c # cs) = ch_name (fst c) # chain_names cs"
  "chain_names (cs @ ds) = chain_names cs @ chain_names ds"
  by (simp_all add: chain_names_def)

lemma unresolved_from_append:
  "unresolved_from known (cs @ ds) =
     unresolved_from known cs @ unresolved_from (rev (chain_names cs) @ known) ds"
  by (induction cs arbitrary: known) auto

lemma unresolved_snoc:
  "unresolved (cs @ [c]) = unresolved cs
     @ filter (\<lambda>t. t \<notin> set (chain_names (cs @ [c]))) (chain_targets c)"
  by (auto simp: unresolved_def unresolved_from_append intro!: filter_cong)

subsection \<open>What the kernel makes of a batch\<close>

text \<open>
  The documented effect of a flushed batch (\<^verbatim>\<open>nft(8)\<close>, netlink messages with \<open>NLM_F_CREATE\<close>) on
  the kernel's tables: adding a table or a chain that exists changes nothing, deleting a table
  removes it with its chains and fails when there is none, a rule is appended to the chain of that
  name and fails when a chain it jumps to is missing. A batch is a transaction: \<open>load\<close> is
  \<open>None\<close> when one operation fails. This is the specification the operations are judged against; it
  models no code of the repository.
\<close>

type_synonym kernel = "nft_table \<rightharpoonup> chain_def list"

definition declare_chain :: "nft_chain \<Rightarrow> chain_def list \<Rightarrow> chain_def list" where
  "declare_chain c cs = (if ch_name c \<in> set (chain_names cs) then cs else cs @ [(c, [])])"

definition append_rule :: "string \<Rightarrow> nft_expr list \<Rightarrow> chain_def list \<Rightarrow> chain_def list" where
  "append_rule n es = map (\<lambda>(c, rs). (c, if ch_name c = n then rs @ [es] else rs))"

fun kernel_step :: "nft_op \<Rightarrow> kernel \<Rightarrow> kernel option" where
  "kernel_step (AddTable t) k = Some (if k t = None then k(t \<mapsto> []) else k)"
| "kernel_step (DelTable t) k = (if k t = None then None else Some (k(t := None)))"
| "kernel_step (AddChain t c) k =
     (case k t of None \<Rightarrow> None | Some cs \<Rightarrow> Some (k(t \<mapsto> declare_chain c cs)))"
| "kernel_step (AddRuleOp (Some t) (Some c) es u) k =
     (case k t of
        None \<Rightarrow> None
      | Some cs \<Rightarrow>
          if ch_name c \<in> set (chain_names cs) \<and> set (rule_targets es) \<subseteq> set (chain_names cs)
          then Some (k(t \<mapsto> append_rule (ch_name c) es cs)) else None)"
| "kernel_step (AddRuleOp _ _ es u) k = None"

definition load :: "nft_op list \<Rightarrow> kernel \<Rightarrow> kernel option" where
  "load ops k = foldM kernel_step ops k"

text \<open>The chains of a table to which \<open>cs\<close> is written in order: chains of the same name share one
  rule list.\<close>

definition write_chain :: "chain_def \<Rightarrow> chain_def list \<Rightarrow> chain_def list" where
  "write_chain c cs = fold (append_rule (ch_name (fst c))) (snd c) (declare_chain (fst c) cs)"

definition merged :: "chain_def list \<Rightarrow> chain_def list" where
  "merged cs = fold write_chain cs []"

definition replaced :: "nft_table \<Rightarrow> chain_def list \<Rightarrow> kernel \<Rightarrow> kernel option" where
  "replaced t cs k = (if unresolved cs = [] then Some (k(t \<mapsto> merged cs)) else None)"

lemma load_snoc: "load (ops @ [op]) k = (case load ops k of None \<Rightarrow> None | Some k' \<Rightarrow> kernel_step op k')"
  by (auto simp: load_def foldM_append split: option.splits)

lemma append_rule_names [simp]: "chain_names (append_rule n es cs) = chain_names cs"
  by (induction cs) (auto simp: append_rule_def)

lemma declare_chain_names:
  "set (chain_names (declare_chain c cs)) = insert (ch_name c) (set (chain_names cs))"
  by (auto simp: declare_chain_def)

lemma write_chain_names:
  "set (chain_names (write_chain c cs)) = insert (ch_name (fst c)) (set (chain_names cs))"
proof -
  have "chain_names (fold (append_rule n) rs ds) = chain_names ds" for n rs ds
    by (induction rs arbitrary: ds) auto
  then show ?thesis by (simp add: write_chain_def declare_chain_names)
qed

lemma merged_snoc: "merged (cs @ [c]) = write_chain c (merged cs)"
  by (simp add: merged_def)

lemma merged_names: "set (chain_names (merged cs)) = set (chain_names cs)"
  by (induction cs rule: rev_induct) (auto simp: merged_snoc write_chain_names, simp add: merged_def)

lemma merged_distinct: "distinct (chain_names cs) \<Longrightarrow> merged cs = cs"
proof (induction cs rule: rev_induct)
  case Nil
  then show ?case by (simp add: merged_def)
next
  case (snoc c cs)
  have other: "append_rule n es cs = cs" if "n \<notin> set (chain_names cs)" for n es
    using that by (induction cs) (auto simp: append_rule_def)
  have "fold (append_rule (ch_name (fst c))) rs (cs @ [(fst c, qs)]) = cs @ [(fst c, qs @ rs)]" for rs qs
    using snoc.prems by (induction rs arbitrary: qs) (auto simp: append_rule_def other [unfolded append_rule_def])
  with snoc show ?case
    by (simp add: merged_snoc write_chain_def declare_chain_def)
qed

lemma replaced_declare:
  "replaced t cs k = Some k' \<Longrightarrow> kernel_step (AddChain t c) k' = replaced t (cs @ [(c, [])]) k"
  by (auto simp: replaced_def unresolved_snoc chain_targets_def merged_snoc write_chain_def
      split: if_splits)

lemma replaced_rule:
  "replaced t (cs @ [(c, rs)]) k = Some k' \<Longrightarrow>
   kernel_step (AddRuleOp (Some t) (Some c) es u) k' = replaced t (cs @ [(c, rs @ [es])]) k"
  using merged_names [of "cs @ [(c, rs)]"]
  by (auto simp: replaced_def unresolved_snoc chain_targets_def merged_snoc write_chain_def
      filter_empty_conv split: if_splits)

lemma replaced_None:
  "replaced t (cs @ [(c, rs)]) k = None \<Longrightarrow> replaced t (cs @ [(c, rs @ [es])]) k = None"
  "replaced t cs k = None \<Longrightarrow> replaced t (cs @ [c']) k = None"
  by (auto simp: replaced_def unresolved_snoc chain_targets_def split: if_splits)

subsection \<open>The chain-writing contract\<close>

text \<open>
  What the configuration code relies on: between \<open>start\<close> and \<open>finish\<close>, rules go to the chain that
  was started, in order; adding a rule whose builder has text does not panic and leaves the
  builder empty. \<open>closed w cs\<close>: the writer is inside its table, between chains, and has written
  \<open>cs\<close>; \<open>inside w cs c rs\<close>: it is writing chain \<open>c\<close>, with rules \<open>rs\<close> so far, after \<open>cs\<close>.
\<close>

locale chain_sink =
  fixes start :: "nft_chain \<Rightarrow> 'w \<Rightarrow> 'w"
    and add :: "rule_builder \<Rightarrow> 'w \<Rightarrow> ('w \<times> rule_builder) option"
    and addc :: "rule_builder \<Rightarrow> string \<Rightarrow> 'w \<Rightarrow> ('w \<times> rule_builder) option"
    and finish :: "'w \<Rightarrow> 'w"
    and closed :: "'w \<Rightarrow> chain_def list \<Rightarrow> bool"
    and inside :: "'w \<Rightarrow> chain_def list \<Rightarrow> nft_chain \<Rightarrow> nft_expr list list \<Rightarrow> bool"
  assumes start_inside: "closed w cs \<Longrightarrow> inside (start c w) cs c []"
    and add_inside: "inside w cs c rs \<Longrightarrow> rb_text rb \<noteq> [] \<Longrightarrow>
      \<exists>w'. add rb w = Some (w', NewRuleBuilder) \<and> inside w' cs c (rs @ [rb_exprs rb])"
    and addc_inside: "inside w cs c rs \<Longrightarrow> rb_text rb \<noteq> [] \<Longrightarrow>
      \<exists>w'. addc rb cmt w = Some (w', NewRuleBuilder) \<and> inside w' cs c (rs @ [rb_exprs rb])"
    and finish_closed: "inside w cs c rs \<Longrightarrow> closed (finish w) (cs @ [(c, rs)])"
begin

text \<open>A loop that adds one rule per element, always from an empty builder.\<close>

lemma emit_each:
  assumes "inside w cs c rs"
    and "\<And>x w. x \<in> set xs \<Longrightarrow> f x (w, NewRuleBuilder) = addc (bld x) (cmt x) w"
    and "\<And>x. x \<in> set xs \<Longrightarrow> rb_text (bld x) \<noteq> []"
  shows "\<exists>w'. foldM f xs (w, NewRuleBuilder) = Some (w', NewRuleBuilder)
              \<and> inside w' cs c (rs @ map (\<lambda>x. rb_exprs (bld x)) xs)"
  using assms
proof (induction xs arbitrary: w rs)
  case Nil
  then show ?case by simp
next
  case (Cons x xs)
  obtain w1 where w1: "addc (bld x) (cmt x) w = Some (w1, NewRuleBuilder)"
    "inside w1 cs c (rs @ [rb_exprs (bld x)])"
    using addc_inside [OF Cons.prems(1)] Cons.prems(3) by (meson list.set_intros(1))
  have "\<exists>w'. foldM f xs (w1, NewRuleBuilder) = Some (w', NewRuleBuilder)
      \<and> inside w' cs c ((rs @ [rb_exprs (bld x)]) @ map (\<lambda>x. rb_exprs (bld x)) xs)"
    by (rule Cons.IH [OF w1(2)]) (auto simp: Cons.prems(2,3))
  then show ?case by (simp add: Cons.prems(2) w1(1))
qed

text \<open>A chain with a single rule, as the static hook chains are.\<close>

lemma emit_chain1:
  assumes "closed w cs" and "rb_text rb \<noteq> []"
  shows "\<exists>w'. add rb (start c w) = Some (w', NewRuleBuilder)
              \<and> closed (finish w') (cs @ [(c, [rb_exprs rb])])"
  using add_inside [OF start_inside [OF assms(1)] assms(2)] finish_closed by fastforce

end

subsection \<open>The writer keeps it\<close>

definition w_sim :: "nft_table \<Rightarrow> nft_writer \<Rightarrow> chain_def list \<Rightarrow> bool" where
  "w_sim t w cs \<longleftrightarrow> replay (w_ops w) = Some (Some t, cs)
     \<and> (\<forall>k. load (w_ops w) k = replaced t cs k) \<and> w_table w = Some t \<and> hb_ok (w_out w)"

definition w_closed :: "nft_table \<Rightarrow> nft_writer \<Rightarrow> chain_def list \<Rightarrow> bool" where
  "w_closed t w cs \<longleftrightarrow> w_sim t w cs \<and> w_chain w = None"

definition w_inside ::
  "nft_table \<Rightarrow> nft_writer \<Rightarrow> chain_def list \<Rightarrow> nft_chain \<Rightarrow> nft_expr list list \<Rightarrow> bool" where
  "w_inside t w cs c rs \<longleftrightarrow> w_sim t w (cs @ [(c, rs)]) \<and> w_chain w = Some c"

lemma w_print_sel [simp]:
  "w_ops (w_print s w) = w_ops w" "w_table (w_print s w) = w_table w"
  "w_chain (w_print s w) = w_chain w" "w_out (w_print s w) = hb_Write (w_out w) s"
  by (simp_all add: w_print_def)

lemma w_emit_sel [simp]:
  "w_ops (w_emit op w) = w_ops w @ [op]" "w_table (w_emit op w) = w_table w"
  "w_chain (w_emit op w) = w_chain w" "w_out (w_emit op w) = w_out w"
  by (simp_all add: w_emit_def)

lemma StartTableReplacement_closed:
  "hb_ok out \<Longrightarrow>
   w_closed \<lparr>tbl_name = name, tbl_family = fam\<rparr>
     (StartTableReplacement name fam (NewNftWriter out)) []"
  by (auto simp: StartTableReplacement_def EndTable_def NewNftWriter_def Let_def w_closed_def
      w_sim_def replay_def load_def replaced_def unresolved_def merged_def)

lemma w_sim_chain:
  "w_sim t w cs \<Longrightarrow> w_sim t (w_emit (AddChain t c) w) (cs @ [(c, [])])"
  using replaced_declare replaced_None(2)
  by (fastforce simp: w_sim_def replay_snoc load_snoc split: option.splits)

lemma w_sim_rule:
  "w_sim t w (cs @ [(c, rs)]) \<Longrightarrow>
   w_sim t (w_emit (AddRuleOp (Some t) (Some c) es u) w) (cs @ [(c, rs @ [es])])"
  using replaced_rule replaced_None(1)
  by (fastforce simp: w_sim_def replay_snoc load_snoc split: option.splits)

lemma w_sim_print [simp]: "w_sim t w cs \<Longrightarrow> w_sim t (w_print s w) cs"
  by (simp add: w_sim_def)

lemma w_sim_fields [simp]:
  "w_sim t (w\<lparr>w_chain := c\<rparr>) cs = w_sim t w cs"
  by (simp add: w_sim_def)

lemma w_sim_table: "w_sim t w cs \<Longrightarrow> w_table w = Some t"
  by (simp add: w_sim_def)

lemma StartChain_inside: "w_closed t w cs \<Longrightarrow> w_inside t (StartChain c w) cs c []"
  using w_sim_chain [of t "w\<lparr>w_chain := Some c\<rparr>" cs c]
  by (auto simp: StartChain_def EndChain_def Let_def w_closed_def w_inside_def w_sim_table)

lemma AddRule_inside:
  "w_inside t w cs c rs \<Longrightarrow> rb_text rb \<noteq> [] \<Longrightarrow>
   \<exists>w'. AddRule rb w = Some (w', NewRuleBuilder) \<and> w_inside t w' cs c (rs @ [rb_exprs rb])"
  by (auto simp: AddRule_def Let_def w_inside_def w_sim_table w_sim_rule rb_String_eq)

lemma AddRuleWithComment_inside:
  "w_inside t w cs c rs \<Longrightarrow> rb_text rb \<noteq> [] \<Longrightarrow>
   \<exists>w'. AddRuleWithComment rb cmt w = Some (w', NewRuleBuilder)
        \<and> w_inside t w' cs c (rs @ [rb_exprs rb])"
  by (auto simp: AddRuleWithComment_def Let_def w_inside_def w_sim_table w_sim_rule rb_String_eq)

lemma EndChain_closed: "w_inside t w cs c rs \<Longrightarrow> w_closed t (EndChain w) (cs @ [(c, rs)])"
  by (simp add: EndChain_def w_inside_def w_closed_def w_sim_def)

interpretation nft: chain_sink StartChain AddRule AddRuleWithComment EndChain
    "w_closed t" "w_inside t" for t
  by unfold_locales
    (auto intro: StartChain_inside AddRule_inside AddRuleWithComment_inside EndChain_closed)

lemma EndTable_result:
  "w_closed t w cs \<Longrightarrow>
   replay (w_ops (EndTable w)) = Some (Some t, cs)
   \<and> (\<forall>k. load (w_ops (EndTable w)) k = replaced t cs k) \<and> w_table (EndTable w) = None
   \<and> w_chain (EndTable w) = None \<and> hb_ok (w_out (EndTable w))"
  by (simp add: EndTable_def EndChain_def w_closed_def w_sim_def)

end
