(* ===== verification/Firewall_Rules.thy ===== *)
theory Firewall_Rules
  imports Nft_Writer
begin

text \<open>
  \<^verbatim>\<open>controllers/firewall/firewall-rules.go\<close>: the translation of the cluster's services and
  endpoints into the node's nftables configuration, in the order the code issues it, followed by
  the ruleset it promises (\<open>fw_ruleset\<close>) and the proof that the code issues exactly that.
  The objects are the fields of \<^verbatim>\<open>k8s.io/api/core/v1\<close> that are read; the informers' caches are
  arguments.
\<close>

record subset_addr =
  ea_ip :: string
  ea_node :: "string option"

record subset_port =
  sp_name :: string
  sp_port :: u32

record ep_subset =
  es_addrs :: "subset_addr list"
  es_ports :: "subset_port list"

record endpoints =
  ep_ns :: string
  ep_name :: string
  ep_annotations :: "(string \<times> string) list"
  ep_subsets :: "ep_subset list"

record service_port =
  pt_name :: string
  pt_protocol :: string
  pt_port :: u32

record service =
  svc_ns :: string
  svc_name :: string
  svc_uid :: string
  svc_type :: string
  svc_cluster_ip :: string
  svc_ports :: "service_port list"

record firewall =
  fc_node_name :: string
  fc_vpn_iface :: string
  fc_node_ip :: ip
  fc_pod_nets :: "ipnet list"
  fc_latest_hash :: bytes

definition svc_key :: "service \<Rightarrow> string" where
  "svc_key svc = svc_ns svc @ ''/'' @ svc_name svc"

definition ep_key :: "endpoints \<Rightarrow> string" where
  "ep_key ep = ep_ns ep @ ''/'' @ ep_name ep"

text \<open>\<open>sort.Sort(byNamespaceAndName(services))\<close>. The library's sort is not stable, which does not
  show where no two services share a key.\<close>

definition sort_services :: "service list \<Rightarrow> service list" where
  "sort_services svcs = sort_key svc_key svcs"

definition endpoint_map :: "endpoints list \<Rightarrow> (string \<rightharpoonup> endpoints)" where
  "endpoint_map eps = fold (\<lambda>ep m. m(ep_key ep \<mapsto> ep)) eps Map.empty"

text \<open>The guards of the three service loops.\<close>

definition no_cluster_ip :: "service \<Rightarrow> bool" where
  "no_cluster_ip svc \<longleftrightarrow> svc_cluster_ip svc = [] \<or> svc_cluster_ip svc = ''None''"

definition is_external :: "service \<Rightarrow> bool" where
  "is_external svc \<longleftrightarrow> svc_type svc = ''ExternalName''"

definition svc_chain_name :: "service \<Rightarrow> string" where
  "svc_chain_name svc = ''svc-'' @ svc_uid svc @ ''-dnat''"

subsection \<open>One service\<close>

definition healthy_addrs :: "endpoints \<Rightarrow> string list" where
  "healthy_addrs ep = concat (map (\<lambda>s. map ea_ip (es_addrs s)) (ep_subsets ep))"

text \<open>\<open>podIpsServingClusterIps\<close>, a Go map, as an association list with distinct keys.\<close>

definition note_local_pod ::
  "firewall \<Rightarrow> string \<Rightarrow> subset_addr \<Rightarrow> (string \<times> string) list \<Rightarrow> (string \<times> string) list" where
  "note_local_pod fc key a m =
     (case ea_node a of
        None \<Rightarrow> m
      | Some n \<Rightarrow> if n = fc_node_name fc then AList.update (ea_ip a) key m else m)"

definition note_local_pods ::
  "firewall \<Rightarrow> string \<Rightarrow> endpoints \<Rightarrow> (string \<times> string) list \<Rightarrow> (string \<times> string) list" where
  "note_local_pods fc key ep m =
     fold (\<lambda>s. fold (note_local_pod fc key) (es_addrs s)) (ep_subsets ep) m"

text \<open>\<open>samePort\<close> and \<open>tgtPort\<close> of a subset: the last port of that name counts.\<close>

definition subset_target :: "string \<Rightarrow> ep_subset \<Rightarrow> bool \<times> u16" where
  "subset_target name s =
     fold (\<lambda>sp r. if sp_name sp = name then (True, ucast (sp_port sp)) else r) (es_ports s) (False, 0)"

definition port_targets :: "endpoints \<Rightarrow> service_port \<Rightarrow> string list \<times> u16 list" where
  "port_targets ep port =
     fold (\<lambda>s (addrs, ports).
         case subset_target (pt_name port) s of (samePort, tgtPort) \<Rightarrow>
           if samePort then
             (addrs @ map ea_ip (es_addrs s), ports @ map (\<lambda>_. tgtPort) (es_addrs s))
           else (addrs, ports))
       (ep_subsets ep) ([], [])"

definition protocol_match :: "string \<Rightarrow> rule_builder \<Rightarrow> rule_builder" where
  [rb_defs]: "protocol_match protocol rule =
     (if protocol = ''TCP'' then IsTCP rule
      else if protocol = ''UDP'' then IsUDP rule
      else if protocol = ''SCTP'' then IsSCTP rule
      else rule)"

definition port_label :: "service_port \<Rightarrow> string" where
  "port_label port = (if pt_name port = [] then int_dec (sint (pt_port port)) else pt_name port)"

text \<open>The rule of one service port; without targets there is none.\<close>

definition add_port_rule ::
  "string \<Rightarrow> endpoints \<Rightarrow> service_port \<Rightarrow> nft_writer \<times> rule_builder \<Rightarrow>
   (nft_writer \<times> rule_builder) option" where
  "add_port_rule key ep port = (\<lambda>(w, rule).
     case port_targets ep port of (tgtAddrs, tgtPorts) \<Rightarrow>
       (case tgtAddrs of
          [] \<Rightarrow> Some (w, rule)
        | tgtAddr # _ \<Rightarrow>
            let rule = rb_Reset rule;
                rule = protocol_match (pt_protocol port) rule;
                rule = IsDestPort (ucast (pt_port port)) rule;
                rule = Counter rule
            in (case tgtPorts of
                  [] \<Rightarrow> None
                | tgtPort # _ \<Rightarrow>
                    AddRuleWithComment (TranslateIPv4Destination tgtAddr tgtPort rule)
                      (key @ '':'' @ port_label port) w)))"

definition add_icmp_rule ::
  "string \<Rightarrow> endpoints \<Rightarrow> nft_writer \<times> rule_builder \<Rightarrow> (nft_writer \<times> rule_builder) option" where
  "add_icmp_rule key ep = (\<lambda>(w, rule).
     case healthy_addrs ep of
       [] \<Rightarrow> Some (w, rule)
     | addr # _ \<Rightarrow>
         let rule = rb_Reset rule;
             rule = IsICMP rule;
             rule = Counter rule;
             rule = TranslateIPv4Address addr rule
         in AddRuleWithComment rule (key @ '' ICMP'') w)"

text \<open>The body of the first loop over the services.\<close>

definition service_chain ::
  "firewall \<Rightarrow> (string \<rightharpoonup> endpoints) \<Rightarrow> service \<Rightarrow>
   (nft_writer \<times> rule_builder) \<times> (string \<times> string) list \<Rightarrow>
   ((nft_writer \<times> rule_builder) \<times> (string \<times> string) list) option" where
  "service_chain fc epm svc = (\<lambda>((w, rule), podIps).
     let key = svc_key svc
     in case epm key of
          None \<Rightarrow> Some ((w, rule), podIps)
        | Some ep \<Rightarrow>
            if is_external svc then Some ((w, rule), podIps)
            else if no_cluster_ip svc then Some ((w, rule), podIps)
            else
              do {
                let podIps = note_local_pods fc key ep podIps;
                let w = StartBasicChain (svc_chain_name svc) w;
                (w, rule) \<leftarrow> foldM (add_port_rule key ep) (svc_ports svc) (w, rule);
                (w, rule) \<leftarrow> add_icmp_rule key ep (w, rule);
                Some ((EndChain w, rule), podIps)
              })"

subsection \<open>The shared chains\<close>

definition dnat_dispatch ::
  "service \<Rightarrow> nft_writer \<times> rule_builder \<Rightarrow> (nft_writer \<times> rule_builder) option" where
  "dnat_dispatch svc = (\<lambda>(w, rule).
     if is_external svc then Some (w, rule)
     else if no_cluster_ip svc then Some (w, rule)
     else
       (let rule = rb_Reset rule;
            rule = IsIpDestAddress (svc_cluster_ip svc) rule;
            rule = GoToChain (svc_chain_name svc) rule
        in AddRuleWithComment rule (svc_key svc) w))"

definition filter_dispatch ::
  "service \<Rightarrow> nft_writer \<times> rule_builder \<Rightarrow> (nft_writer \<times> rule_builder) option" where
  "filter_dispatch svc = (\<lambda>(w, rule).
     if is_external svc then Some (w, rule)
     else if no_cluster_ip svc then Some (w, rule)
     else
       (let rule = rb_Reset rule;
            rule = IsIpDestAddress (svc_cluster_ip svc) rule;
            rule = RejectAsPortUnreachable (Counter rule)
        in AddRuleWithComment rule (svc_key svc) w))"

definition masq_backing_pod ::
  "(string \<times> string) list \<Rightarrow> string \<Rightarrow> nft_writer \<times> rule_builder \<Rightarrow>
   (nft_writer \<times> rule_builder) option" where
  "masq_backing_pod podIps podIp = (\<lambda>(w, rule).
     let rule = rb_Reset rule;
         rule = IsIpSrcAddressStr podIp rule;
         rule = IsIpDestAddress podIp rule;
         rule = Counter rule;
         rule = Masquerade rule
     in AddRuleWithComment rule
          (''For '' @ (case map_of podIps podIp of None \<Rightarrow> [] | Some key \<Rightarrow> key)) w)"

definition cluster_chains ::
  "service list \<Rightarrow> (nft_writer \<times> rule_builder) \<times> (string \<times> string) list \<Rightarrow>
   (nft_writer \<times> rule_builder) option" where
  "cluster_chains services = (\<lambda>((w, rule), podIps).
     do {
       let w = StartChain (basic_chain ''cluster-ips-dnat'') w;
       (w, rule) \<leftarrow> foldM dnat_dispatch services (w, rule);
       let w = EndChain w;
       let w = StartChain (basic_chain ''cluster-ips-filter'') w;
       (w, rule) \<leftarrow> foldM filter_dispatch services (w, rule);
       let w = EndChain w;
       let podIpsList = sort (map fst podIps);
       let w = StartChain (basic_chain ''cluster-ip-backing-pods-masq'') w;
       (w, rule) \<leftarrow> foldM (masq_backing_pod podIps) podIpsList (w, rule);
       Some (EndChain w, rule)
     })"

definition return_pod_net ::
  "ipnet \<Rightarrow> nft_writer \<times> rule_builder \<Rightarrow> (nft_writer \<times> rule_builder) option" where
  "return_pod_net podNet = (\<lambda>(w, rule).
     AddRuleWithComment (Return (IsIpSrcNetwork podNet rule)) ''From our Pod CNI'' w)"

definition outbound_chain ::
  "firewall \<Rightarrow> nft_writer \<times> rule_builder \<Rightarrow> (nft_writer \<times> rule_builder) option" where
  "outbound_chain fc = (\<lambda>(w, rule).
     do {
       let w = StartChain (basic_chain ''cluster-outbound-masq'') w;
       (w, rule) \<leftarrow>
         AddRuleWithComment (Return (IsIpSrcAddress (fc_node_ip fc) rule)) ''From our Node IP'' w;
       (w, rule) \<leftarrow> foldM return_pod_net (fc_pod_nets fc) (w, rule);
       (w, rule) \<leftarrow>
         AddRuleWithComment (Masquerade (Counter rule)) ''Foreign traffic from us to the cluster'' w;
       Some (EndChain w, rule)
     })"

subsection \<open>The hook chains\<close>

definition filter_forward_hook :: nft_chain where
  "filter_forward_hook = \<lparr>ch_name = ''hook-filter-forward'', ch_type = ''filter'',
     ch_hook = NF_INET_FORWARD, ch_prio = ChainPriorityFilter\<rparr>"

definition filter_local_out_hook :: nft_chain where
  "filter_local_out_hook = \<lparr>ch_name = ''hook-filter-local-out'', ch_type = ''filter'',
     ch_hook = NF_INET_LOCAL_OUT, ch_prio = ChainPriorityFilter\<rparr>"

definition nat_fwd_in_hook :: nft_chain where
  "nat_fwd_in_hook = \<lparr>ch_name = ''hook-nat-fwd-in'', ch_type = ''nat'',
     ch_hook = NF_INET_PRE_ROUTING, ch_prio = ChainPriorityNATDest\<rparr>"

definition nat_local_out_hook :: nft_chain where
  "nat_local_out_hook = \<lparr>ch_name = ''hook-nat-local-out'', ch_type = ''nat'',
     ch_hook = NF_INET_LOCAL_OUT, ch_prio = ChainPriorityMangle\<rparr>"

definition nat_postrouting_hook :: nft_chain where
  "nat_postrouting_hook = \<lparr>ch_name = ''hook-nat-postrouting'', ch_type = ''nat'',
     ch_hook = NF_INET_POST_ROUTING, ch_prio = ChainPriorityNATSource\<rparr>"

definition jump_hook ::
  "nft_chain \<Rightarrow> string \<Rightarrow> nft_writer \<times> rule_builder \<Rightarrow> (nft_writer \<times> rule_builder) option" where
  "jump_hook hook target = (\<lambda>(w, rule).
     do {
       let w = StartChain hook w;
       (w, rule) \<leftarrow> AddRule (JumpToChain target rule) w;
       Some (EndChain w, rule)
     })"

definition masq_pod_net ::
  "ipnet \<Rightarrow> nft_writer \<times> rule_builder \<Rightarrow> (nft_writer \<times> rule_builder) option" where
  "masq_pod_net podNet = (\<lambda>(w, rule).
     AddRuleWithComment (Masquerade (Counter (IsIpSrcNetwork podNet rule))) ''From our Pod CNI'' w)"

definition postrouting_chain ::
  "firewall \<Rightarrow> nft_writer \<times> rule_builder \<Rightarrow> (nft_writer \<times> rule_builder) option" where
  "postrouting_chain fc = (\<lambda>(w, rule).
     do {
       let w = StartChain nat_postrouting_hook w;
       (w, rule) \<leftarrow> AddRule (JumpToChain ''cluster-ip-backing-pods-masq'' rule) w;
       (w, rule) \<leftarrow> AddRule (Return (OutIfaceName ''lo'' rule)) w;
       (w, rule) \<leftarrow>
         AddRule (GoToChain ''cluster-outbound-masq'' (OutIfaceName (fc_vpn_iface fc) rule)) w;
       (w, rule) \<leftarrow> foldM masq_pod_net (fc_pod_nets fc) (w, rule);
       Some (EndChain w, rule)
     })"

subsection \<open>The whole configuration\<close>

text \<open>\<open>BuildConfig\<close>: the outer option is a panic, the inner one the returned error; the two lister
  calls may fail with an error of their own.\<close>

definition BuildConfig ::
  "firewall \<Rightarrow> string + endpoints list \<Rightarrow> string + service list \<Rightarrow> nft_writer \<Rightarrow>
   (nft_writer \<times> string option) option" where
  "BuildConfig fc listEndpoints listServices w =
     (case listEndpoints of
        Inl err \<Rightarrow> Some (w, Some err)
      | Inr eps \<Rightarrow>
          (case listServices of
             Inl err \<Rightarrow> Some (w, Some err)
           | Inr svcs \<Rightarrow>
               do {
                 let epm = endpoint_map eps;
                 let services = sort_services svcs;
                 let w = StartTableReplacement ''kube-pet'' TableFamilyIPv4 w;
                 st \<leftarrow> foldM (service_chain fc epm) services ((w, NewRuleBuilder), []);
                 st \<leftarrow> cluster_chains services st;
                 st \<leftarrow> outbound_chain fc st;
                 st \<leftarrow> jump_hook filter_forward_hook ''cluster-ips-filter'' st;
                 st \<leftarrow> jump_hook filter_local_out_hook ''cluster-ips-filter'' st;
                 st \<leftarrow> jump_hook nat_fwd_in_hook ''cluster-ips-dnat'' st;
                 st \<leftarrow> jump_hook nat_local_out_hook ''cluster-ips-dnat'' st;
                 (w, rule) \<leftarrow> postrouting_chain fc st;
                 Some (EndTable w, None)
               }))"

end
