(* ===== verification/Firewall_Ruleset.thy ===== *)
theory Firewall_Ruleset
  imports Firewall_Rules
begin

text \<open>
  The ruleset that \<open>BuildConfig\<close> promises, stated directly on the cluster objects, and the
  refinement proof: run on a fresh writer, the code never panics and queues exactly the operations
  that replay to this ruleset, and that put it in the place of the table in any kernel.
\<close>

subsection \<open>The promised ruleset\<close>

text \<open>All backends of a service port: the addresses of every subset that offers a port of that
  name, each with that subset's target port.\<close>

definition all_targets :: "endpoints \<Rightarrow> service_port \<Rightarrow> (string \<times> u16) list" where
  "all_targets ep port =
     concat (map (\<lambda>s. if sp_name ` set (es_ports s) \<inter> {pt_name port} = {} then []
                      else map (\<lambda>a. (ea_ip a, snd (subset_target (pt_name port) s))) (es_addrs s))
       (ep_subsets ep))"

definition m_daddr :: "bytes \<Rightarrow> nft_expr list" where
  "m_daddr p = [Payload 1 PayloadBaseNetworkHeader 16 4, CmpEq 1 p]"

definition m_saddr :: "bytes \<Rightarrow> nft_expr list" where
  "m_saddr p = [Payload 1 PayloadBaseNetworkHeader 12 4, CmpEq 1 p]"

definition m_snet :: "ipnet \<Rightarrow> nft_expr list" where
  "m_snet n = [Payload 1 PayloadBaseNetworkHeader 12 4, BitwiseX 1 1 4 (net_mask n) [0, 0, 0, 0],
     CmpEq 1 (To4 (net_ip n))]"

definition m_l4proto :: "string \<Rightarrow> nft_expr list" where
  "m_l4proto p =
     (if p = ''TCP'' then [Meta MetaKeyL4PROTO 1, CmpEq 1 [6]]
      else if p = ''UDP'' then [Meta MetaKeyL4PROTO 1, CmpEq 1 [17]]
      else if p = ''SCTP'' then [Meta MetaKeyL4PROTO 1, CmpEq 1 [132]]
      else [])"

definition m_dport :: "u16 \<Rightarrow> nft_expr list" where
  "m_dport p = [Payload 1 PayloadBaseTransportHeader 2 2, CmpEq 1 (be16 p)]"

definition m_icmp :: "nft_expr list" where
  "m_icmp = [Payload 1 PayloadBaseNetworkHeader 9 1, CmpEq 1 [1]]"

definition m_oif :: "string \<Rightarrow> nft_expr list" where
  "m_oif i = [Meta MetaKeyOIFNAME 1, CmpEq 1 (ifname i)]"

definition port_rule :: "service_port \<Rightarrow> string \<times> u16 \<Rightarrow> nft_expr list" where
  "port_rule port t =
     m_l4proto (pt_protocol port) @ m_dport (ucast (pt_port port)) @
     [CounterX, Immediate 1 (parseIpForNft (fst t)), Immediate 2 (be16 (snd t)),
      DestNAT 2 1 0 2 0]"

definition icmp_rule :: "string \<Rightarrow> nft_expr list" where
  "icmp_rule addr = m_icmp @ [CounterX, Immediate 1 (parseIpForNft addr), DestNAT 2 1 0 0 0]"

definition svc_rules :: "service \<Rightarrow> endpoints \<Rightarrow> nft_expr list list" where
  "svc_rules svc ep =
     map (\<lambda>p. port_rule p (hd (all_targets ep p)))
       (filter (\<lambda>p. all_targets ep p \<noteq> []) (svc_ports svc))
     @ (case healthy_addrs ep of [] \<Rightarrow> [] | a # _ \<Rightarrow> [icmp_rule a])"

text \<open>A service is dispatched when it has a cluster IP, and backed when endpoints exist for it.\<close>

definition dispatched :: "service \<Rightarrow> bool" where
  "dispatched svc \<longleftrightarrow> \<not> is_external svc \<and> \<not> no_cluster_ip svc"

definition backed :: "(string \<rightharpoonup> endpoints) \<Rightarrow> service \<Rightarrow> bool" where
  "backed epm svc \<longleftrightarrow> dispatched svc \<and> epm (svc_key svc) \<noteq> None"

definition svc_chain :: "(string \<rightharpoonup> endpoints) \<Rightarrow> service \<Rightarrow> chain_def" where
  "svc_chain epm svc = (basic_chain (svc_chain_name svc), svc_rules svc (the (epm (svc_key svc))))"

definition local_pods ::
  "firewall \<Rightarrow> (string \<rightharpoonup> endpoints) \<Rightarrow> service list \<Rightarrow> (string \<times> string) list" where
  "local_pods fc epm services =
     fold (\<lambda>svc. note_local_pods fc (svc_key svc) (the (epm (svc_key svc))))
       (filter (backed epm) services) []"

definition shared_chains ::
  "firewall \<Rightarrow> (string \<rightharpoonup> endpoints) \<Rightarrow> service list \<Rightarrow> chain_def list" where
  "shared_chains fc epm services =
     [(basic_chain ''cluster-ips-dnat'',
        map (\<lambda>svc. m_daddr (parseIpForNft (svc_cluster_ip svc))
               @ [VerdictX VerdictGoto (svc_chain_name svc)])
          (filter dispatched services)),
      (basic_chain ''cluster-ips-filter'',
        map (\<lambda>svc. m_daddr (parseIpForNft (svc_cluster_ip svc)) @ [CounterX, RejectX 0 3])
          (filter dispatched services)),
      (basic_chain ''cluster-ip-backing-pods-masq'',
        map (\<lambda>p. m_saddr (parseIpForNft p) @ m_daddr (parseIpForNft p) @ [CounterX, Masq])
          (sort (map fst (local_pods fc epm services)))),
      (basic_chain ''cluster-outbound-masq'',
        (m_saddr (To4 (fc_node_ip fc)) @ [VerdictX VerdictReturn []])
        # map (\<lambda>n. m_snet n @ [VerdictX VerdictReturn []]) (fc_pod_nets fc)
        @ [[CounterX, Masq]])]"

definition hook_chains :: "firewall \<Rightarrow> chain_def list" where
  "hook_chains fc =
     [(filter_forward_hook, [[VerdictX VerdictJump ''cluster-ips-filter'']]),
      (filter_local_out_hook, [[VerdictX VerdictJump ''cluster-ips-filter'']]),
      (nat_fwd_in_hook, [[VerdictX VerdictJump ''cluster-ips-dnat'']]),
      (nat_local_out_hook, [[VerdictX VerdictJump ''cluster-ips-dnat'']]),
      (nat_postrouting_hook,
        [VerdictX VerdictJump ''cluster-ip-backing-pods-masq'']
        # (m_oif ''lo'' @ [VerdictX VerdictReturn []])
        # (m_oif (fc_vpn_iface fc) @ [VerdictX VerdictGoto ''cluster-outbound-masq''])
        # map (\<lambda>n. m_snet n @ [CounterX, Masq]) (fc_pod_nets fc))]"

definition fw_ruleset ::
  "firewall \<Rightarrow> (string \<rightharpoonup> endpoints) \<Rightarrow> service list \<Rightarrow> chain_def list" where
  "fw_ruleset fc epm services =
     map (svc_chain epm) (filter (backed epm) services)
     @ shared_chains fc epm services @ hook_chains fc"

lemmas match_defs = m_daddr_def m_saddr_def m_snet_def m_l4proto_def m_dport_def m_icmp_def m_oif_def
lemmas hook_chain_defs = filter_forward_hook_def filter_local_out_hook_def nat_fwd_in_hook_def
  nat_local_out_hook_def nat_postrouting_hook_def

subsection \<open>The targets of a port\<close>

lemma fold_subset_target:
  "fst (fold (\<lambda>sp r. if sp_name sp = name then (True, ucast (sp_port sp)) else r) ps r)
     \<longleftrightarrow> fst r \<or> name \<in> sp_name ` set ps"
  "name \<notin> sp_name ` set ps \<Longrightarrow>
     fold (\<lambda>sp r. if sp_name sp = name then (True, ucast (sp_port sp)) else r) ps r = r"
  by (induction ps arbitrary: r) auto

lemma subset_target_eq:
  "subset_target name s =
     (if sp_name ` set (es_ports s) \<inter> {name} = {} then (False, 0)
      else (True, snd (subset_target name s)))"
proof (cases "name \<in> sp_name ` set (es_ports s)")
  case True
  then have "fst (subset_target name s)" by (simp add: subset_target_def fold_subset_target(1))
  with True show ?thesis by (metis (full_types) disjoint_insert(1) prod.collapse inf.commute)
next
  case False
  then have "subset_target name s = (False, 0)"
    by (simp add: subset_target_def fold_subset_target(2))
  with False show ?thesis by simp
qed

lemma port_targets_eq:
  "port_targets ep port = (map fst (all_targets ep port), map snd (all_targets ep port))"
proof -
  let ?step = "\<lambda>s (addrs, ports). case subset_target (pt_name port) s of (samePort, tgtPort) \<Rightarrow>
      if samePort then (addrs @ map ea_ip (es_addrs s), ports @ map (\<lambda>_. tgtPort) (es_addrs s))
      else (addrs, ports)"
  let ?ts = "\<lambda>s. if sp_name ` set (es_ports s) \<inter> {pt_name port} = {} then []
      else map (\<lambda>a. (ea_ip a, snd (subset_target (pt_name port) s))) (es_addrs s)"
  have "fold ?step ss (as, ps) =
      (as @ map fst (concat (map ?ts ss)), ps @ map snd (concat (map ?ts ss)))" for ss as ps
  proof (induction ss arbitrary: as ps)
    case Nil
    then show ?case by simp
  next
    case (Cons s ss)
    show ?case
      by (subst fold.simps, subst comp_apply, subst prod.case, subst subset_target_eq)
         (auto simp: Cons comp_def)
  qed
  then show ?thesis by (simp add: port_targets_def all_targets_def)
qed

subsection \<open>The code writes the promised rules\<close>

definition port_builder :: "service_port \<Rightarrow> string \<times> u16 \<Rightarrow> rule_builder" where
  "port_builder port t =
     TranslateIPv4Destination (fst t) (snd t)
       (Counter (IsDestPort (ucast (pt_port port))
          (protocol_match (pt_protocol port) NewRuleBuilder)))"

lemma port_builder_sel [simp]:
  "rb_exprs (port_builder port t) = port_rule port t"
  "rb_text (port_builder port t) \<noteq> []"
  by (simp_all add: port_builder_def rb_defs port_rule_def match_defs proto_defs
      parsePortForNft_def NFPROTO_IPV4_def)

lemma add_port_rule_eq:
  "add_port_rule key ep port (w, rule) =
     (if all_targets ep port \<noteq> [] then
        AddRuleWithComment (port_builder port (hd (all_targets ep port)))
          (key @ '':'' @ port_label port) w
      else Some (w, rule))"
  by (cases "all_targets ep port") (auto simp: add_port_rule_def port_targets_eq port_builder_def)

lemma port_rules_inside:
  assumes "w_inside t w cs c rs"
  shows "\<exists>w'. foldM (add_port_rule key ep) ports (w, NewRuleBuilder) = Some (w', NewRuleBuilder)
    \<and> w_inside t w' cs c (rs @ map (\<lambda>p. port_rule p (hd (all_targets ep p)))
        (filter (\<lambda>p. all_targets ep p \<noteq> []) ports))"
proof -
  let ?P = "\<lambda>p. all_targets ep p \<noteq> []"
  have "foldM (add_port_rule key ep) ports (w, NewRuleBuilder)
      = foldM (add_port_rule key ep) (filter ?P ports) (w, NewRuleBuilder)"
    by (rule foldM_skip) (auto simp: add_port_rule_eq)
  moreover have "\<exists>w'. foldM (add_port_rule key ep) (filter ?P ports) (w, NewRuleBuilder)
      = Some (w', NewRuleBuilder) \<and>
      w_inside t w' cs c (rs @ map (\<lambda>p. rb_exprs (port_builder p (hd (all_targets ep p))))
        (filter ?P ports))"
    by (rule nft.emit_each [OF assms, where cmt = "\<lambda>p. key @ '':'' @ port_label p"])
       (auto simp: add_port_rule_eq)
  ultimately show ?thesis by simp
qed

lemma icmp_rule_inside:
  assumes "w_inside t w cs c rs"
  shows "\<exists>w'. add_icmp_rule key ep (w, NewRuleBuilder) = Some (w', NewRuleBuilder)
    \<and> w_inside t w' cs c (rs @ (case healthy_addrs ep of [] \<Rightarrow> [] | a # _ \<Rightarrow> [icmp_rule a]))"
proof (cases "healthy_addrs ep")
  case Nil
  with assms show ?thesis by (simp add: add_icmp_rule_def)
next
  case (Cons a as)
  let ?rb = "TranslateIPv4Address a (Counter (IsICMP NewRuleBuilder))"
  have "rb_exprs ?rb = icmp_rule a" "rb_text ?rb \<noteq> []"
    by (simp_all add: rb_defs icmp_rule_def match_defs proto_defs NFPROTO_IPV4_def)
  with nft.addc_inside [OF assms, of ?rb "key @ '' ICMP''"] Cons
  show ?thesis by (simp add: add_icmp_rule_def)
qed

lemma service_chain_closed:
  assumes "w_closed t w cs"
  shows "\<exists>w'. service_chain fc epm svc ((w, NewRuleBuilder), m) =
      Some ((w', NewRuleBuilder),
        if backed epm svc then note_local_pods fc (svc_key svc) (the (epm (svc_key svc))) m else m)
    \<and> w_closed t w' (cs @ (if backed epm svc then [svc_chain epm svc] else []))"
proof (cases "backed epm svc")
  case False
  then have "service_chain fc epm svc ((w, NewRuleBuilder), m) = Some ((w, NewRuleBuilder), m)"
    by (cases "epm (svc_key svc)"; cases "is_external svc")
       (auto simp: service_chain_def backed_def dispatched_def Let_def)
  with False assms show ?thesis by simp
next
  case True
  then obtain ep where ep: "epm (svc_key svc) = Some ep"
    "\<not> is_external svc" "\<not> no_cluster_ip svc"
    by (auto simp: backed_def dispatched_def)
  let ?c = "basic_chain (svc_chain_name svc)"
  have "w_inside t (StartChain ?c w) cs ?c []" by (rule nft.start_inside [OF assms])
  from port_rules_inside [OF this, of "svc_key svc" ep "svc_ports svc"]
  obtain w1 where w1:
    "foldM (add_port_rule (svc_key svc) ep) (svc_ports svc) (StartChain ?c w, NewRuleBuilder)
       = Some (w1, NewRuleBuilder)"
    "w_inside t w1 cs ?c (map (\<lambda>p. port_rule p (hd (all_targets ep p)))
        (filter (\<lambda>p. all_targets ep p \<noteq> []) (svc_ports svc)))"
    by auto
  from icmp_rule_inside [OF w1(2), of "svc_key svc" ep]
  obtain w2 where w2:
    "add_icmp_rule (svc_key svc) ep (w1, NewRuleBuilder) = Some (w2, NewRuleBuilder)"
    "w_inside t w2 cs ?c (svc_rules svc ep)"
    by (auto simp: svc_rules_def)
  from nft.finish_closed [OF w2(2)] True ep w1(1) w2(1) show ?thesis
    by (simp add: service_chain_def StartBasicChain_def svc_chain_def)
qed

lemma service_chains_closed:
  assumes "w_closed t w cs"
  shows "\<exists>w'. foldM (service_chain fc epm) svcs ((w, NewRuleBuilder), m) =
      Some ((w', NewRuleBuilder),
        fold (\<lambda>svc. note_local_pods fc (svc_key svc) (the (epm (svc_key svc))))
          (filter (backed epm) svcs) m)
    \<and> w_closed t w' (cs @ map (svc_chain epm) (filter (backed epm) svcs))"
  using assms
proof (induction svcs arbitrary: w cs m)
  case Nil
  then show ?case by simp
next
  case (Cons svc svcs)
  obtain w1 where w1: "service_chain fc epm svc ((w, NewRuleBuilder), m) =
      Some ((w1, NewRuleBuilder),
        if backed epm svc then note_local_pods fc (svc_key svc) (the (epm (svc_key svc))) m else m)"
    "w_closed t w1 (cs @ (if backed epm svc then [svc_chain epm svc] else []))"
    using service_chain_closed [OF Cons.prems] by blast
  from Cons.IH [OF w1(2)] show ?case
    by (cases "backed epm svc") (simp_all add: w1(1))
qed

text \<open>A whole chain whose rules a loop writes.\<close>

lemma chain_of_loop:
  assumes "w_closed t w cs"
    and "\<And>x w. x \<in> set xs \<Longrightarrow> f x (w, NewRuleBuilder) = AddRuleWithComment (bld x) (cmt x) w"
    and "\<And>x. rb_text (bld x) \<noteq> []"
    and "\<And>x. rb_exprs (bld x) = es x"
  shows "\<exists>w'. foldM f xs (StartChain c w, NewRuleBuilder) = Some (w', NewRuleBuilder)
    \<and> w_closed t (EndChain w') (cs @ [(c, map es xs)])"
proof -
  obtain w' where "foldM f xs (StartChain c w, NewRuleBuilder) = Some (w', NewRuleBuilder)"
    "w_inside t w' cs c ([] @ map (\<lambda>x. rb_exprs (bld x)) xs)"
    using nft.emit_each [OF nft.start_inside [OF assms(1)], where f = f and xs = xs and bld = bld]
      assms(2,3) by blast
  with nft.finish_closed [OF this(2)] show ?thesis by (simp add: assms(4))
qed

lemma dispatch_skip:
  "foldM dnat_dispatch svcs s = foldM dnat_dispatch (filter dispatched svcs) s"
  "foldM filter_dispatch svcs s = foldM filter_dispatch (filter dispatched svcs) s"
  by (rule foldM_skip, auto simp: dnat_dispatch_def filter_dispatch_def dispatched_def)+

lemma dnat_chain_closed:
  assumes "w_closed t w cs"
  shows "\<exists>w'. foldM dnat_dispatch svcs (StartChain c w, NewRuleBuilder) = Some (w', NewRuleBuilder)
    \<and> w_closed t (EndChain w') (cs @ [(c,
        map (\<lambda>svc. m_daddr (parseIpForNft (svc_cluster_ip svc))
               @ [VerdictX VerdictGoto (svc_chain_name svc)]) (filter dispatched svcs))])"
  by (subst dispatch_skip, rule chain_of_loop [OF assms, where cmt = svc_key and
        bld = "\<lambda>svc. GoToChain (svc_chain_name svc)
          (IsIpDestAddress (svc_cluster_ip svc) NewRuleBuilder)"])
     (simp_all add: dnat_dispatch_def dispatched_def rb_defs match_defs)

lemma filter_chain_closed:
  assumes "w_closed t w cs"
  shows "\<exists>w'. foldM filter_dispatch svcs (StartChain c w, NewRuleBuilder) = Some (w', NewRuleBuilder)
    \<and> w_closed t (EndChain w') (cs @ [(c,
        map (\<lambda>svc. m_daddr (parseIpForNft (svc_cluster_ip svc)) @ [CounterX, RejectX 0 3])
          (filter dispatched svcs))])"
  by (subst dispatch_skip, rule chain_of_loop [OF assms, where cmt = svc_key and
        bld = "\<lambda>svc. RejectAsPortUnreachable (Counter
          (IsIpDestAddress (svc_cluster_ip svc) NewRuleBuilder))"])
     (simp_all add: filter_dispatch_def dispatched_def rb_defs match_defs)

lemma masq_chain_closed:
  assumes "w_closed t w cs"
  shows "\<exists>w'. foldM (masq_backing_pod m) ps (StartChain c w, NewRuleBuilder)
      = Some (w', NewRuleBuilder)
    \<and> w_closed t (EndChain w') (cs @ [(c,
        map (\<lambda>p. m_saddr (parseIpForNft p) @ m_daddr (parseIpForNft p) @ [CounterX, Masq]) ps)])"
  by (rule chain_of_loop [OF assms, where
        cmt = "\<lambda>p. ''For '' @ (case map_of m p of None \<Rightarrow> [] | Some key \<Rightarrow> key)" and
        bld = "\<lambda>p. Masquerade (Counter (IsIpDestAddress p (IsIpSrcAddressStr p NewRuleBuilder)))"])
     (simp_all add: masq_backing_pod_def rb_defs match_defs parseIpForNft_def)

lemma cluster_chains_closed:
  assumes "w_closed t w cs"
  shows "\<exists>w'. cluster_chains services ((w, NewRuleBuilder), local_pods fc epm services)
      = Some (w', NewRuleBuilder)
    \<and> w_closed t w' (cs @ take 3 (shared_chains fc epm services))"
proof -
  let ?m = "local_pods fc epm services"
  obtain w1 where w1: "foldM dnat_dispatch services
      (StartChain (basic_chain ''cluster-ips-dnat'') w, NewRuleBuilder) = Some (w1, NewRuleBuilder)"
    "w_closed t (EndChain w1) (cs @ take 1 (shared_chains fc epm services))"
    using dnat_chain_closed [OF assms] by (fastforce simp: shared_chains_def)
  obtain w2 where w2: "foldM filter_dispatch services
      (StartChain (basic_chain ''cluster-ips-filter'') (EndChain w1), NewRuleBuilder)
        = Some (w2, NewRuleBuilder)"
    "w_closed t (EndChain w2) (cs @ take 2 (shared_chains fc epm services))"
    using filter_chain_closed [OF w1(2)] by (fastforce simp: shared_chains_def)
  obtain w3 where w3: "foldM (masq_backing_pod ?m) (sort (map fst ?m))
      (StartChain (basic_chain ''cluster-ip-backing-pods-masq'') (EndChain w2), NewRuleBuilder)
        = Some (w3, NewRuleBuilder)"
    "w_closed t (EndChain w3) (cs @ take 3 (shared_chains fc epm services))"
    using masq_chain_closed [OF w2(2)] by (fastforce simp: shared_chains_def numeral_3_eq_3)
  show ?thesis
    using w1(1) w2(1) w3 by (simp add: cluster_chains_def)
qed

lemma outbound_chain_closed:
  assumes "w_closed t w (cs @ take 3 (shared_chains fc epm services))"
  shows "\<exists>w'. outbound_chain fc (w, NewRuleBuilder) = Some (w', NewRuleBuilder)
    \<and> w_closed t w' (cs @ shared_chains fc epm services)"
proof -
  let ?c = "basic_chain ''cluster-outbound-masq''" and ?cs = "cs @ take 3 (shared_chains fc epm services)"
  let ?r1 = "Return (IsIpSrcAddress (fc_node_ip fc) NewRuleBuilder)"
  let ?r3 = "Masquerade (Counter NewRuleBuilder)"
  obtain w1 where w1: "AddRuleWithComment ?r1 ''From our Node IP'' (StartChain ?c w)
      = Some (w1, NewRuleBuilder)" "w_inside t w1 ?cs ?c [rb_exprs ?r1]"
    using nft.addc_inside [OF nft.start_inside [OF assms], of ?r1 "''From our Node IP''"]
    by (auto simp: rb_defs)
  obtain w2 where w2: "foldM return_pod_net (fc_pod_nets fc) (w1, NewRuleBuilder)
      = Some (w2, NewRuleBuilder)"
    "w_inside t w2 ?cs ?c ([rb_exprs ?r1] @
       map (\<lambda>n. rb_exprs (Return (IsIpSrcNetwork n NewRuleBuilder))) (fc_pod_nets fc))"
    using nft.emit_each [OF w1(2), where f = return_pod_net and xs = "fc_pod_nets fc"
      and bld = "\<lambda>n. Return (IsIpSrcNetwork n NewRuleBuilder)"
      and cmt = "\<lambda>n. ''From our Pod CNI''"]
    by (auto simp: return_pod_net_def rb_defs)
  obtain w3 where w3: "AddRuleWithComment ?r3 ''Foreign traffic from us to the cluster'' w2
      = Some (w3, NewRuleBuilder)"
    "w_inside t w3 ?cs ?c (([rb_exprs ?r1] @
       map (\<lambda>n. rb_exprs (Return (IsIpSrcNetwork n NewRuleBuilder))) (fc_pod_nets fc))
       @ [rb_exprs ?r3])"
    using nft.addc_inside [OF w2(2), of ?r3 "''Foreign traffic from us to the cluster''"]
    by (auto simp: rb_defs)
  from nft.finish_closed [OF w3(2)] have "w_closed t (EndChain w3) (cs @ shared_chains fc epm services)"
    by (simp add: shared_chains_def rb_defs match_defs)
  then show ?thesis using w1(1) w2(1) w3(1) by (simp add: outbound_chain_def)
qed

lemma jump_hook_closed:
  assumes "w_closed t w cs"
  shows "\<exists>w'. jump_hook hook target (w, NewRuleBuilder) = Some (w', NewRuleBuilder)
    \<and> w_closed t w' (cs @ [(hook, [[VerdictX VerdictJump target]])])"
  using nft.emit_chain1 [OF assms, of "JumpToChain target NewRuleBuilder" hook]
  by (auto simp: jump_hook_def rb_defs)

lemma postrouting_chain_closed:
  assumes "w_closed t w (cs @ take 4 (hook_chains fc))"
  shows "\<exists>w'. postrouting_chain fc (w, NewRuleBuilder) = Some (w', NewRuleBuilder)
    \<and> w_closed t w' (cs @ hook_chains fc)"
proof -
  let ?c = nat_postrouting_hook and ?cs = "cs @ take 4 (hook_chains fc)"
  let ?r1 = "JumpToChain ''cluster-ip-backing-pods-masq'' NewRuleBuilder"
  let ?r2 = "Return (OutIfaceName ''lo'' NewRuleBuilder)"
  let ?r3 = "GoToChain ''cluster-outbound-masq'' (OutIfaceName (fc_vpn_iface fc) NewRuleBuilder)"
  obtain w1 where w1: "AddRule ?r1 (StartChain ?c w) = Some (w1, NewRuleBuilder)"
    "w_inside t w1 ?cs ?c [rb_exprs ?r1]"
    using nft.add_inside [OF nft.start_inside [OF assms], of ?r1] by (auto simp: rb_defs)
  obtain w2 where w2: "AddRule ?r2 w1 = Some (w2, NewRuleBuilder)"
    "w_inside t w2 ?cs ?c ([rb_exprs ?r1] @ [rb_exprs ?r2])"
    using nft.add_inside [OF w1(2), of ?r2] by (auto simp: rb_defs)
  obtain w3 where w3: "AddRule ?r3 w2 = Some (w3, NewRuleBuilder)"
    "w_inside t w3 ?cs ?c (([rb_exprs ?r1] @ [rb_exprs ?r2]) @ [rb_exprs ?r3])"
    using nft.add_inside [OF w2(2), of ?r3] by (auto simp: rb_defs)
  obtain w4 where w4: "foldM masq_pod_net (fc_pod_nets fc) (w3, NewRuleBuilder)
      = Some (w4, NewRuleBuilder)"
    "w_inside t w4 ?cs ?c ((([rb_exprs ?r1] @ [rb_exprs ?r2]) @ [rb_exprs ?r3]) @
       map (\<lambda>n. rb_exprs (Masquerade (Counter (IsIpSrcNetwork n NewRuleBuilder)))) (fc_pod_nets fc))"
    using nft.emit_each [OF w3(2), where f = masq_pod_net and xs = "fc_pod_nets fc"
      and bld = "\<lambda>n. Masquerade (Counter (IsIpSrcNetwork n NewRuleBuilder))"
      and cmt = "\<lambda>n. ''From our Pod CNI''"]
    by (auto simp: masq_pod_net_def rb_defs)
  from nft.finish_closed [OF w4(2)] have "w_closed t (EndChain w4) (cs @ hook_chains fc)"
    by (simp add: hook_chains_def rb_defs match_defs)
  then show ?thesis using w1(1) w2(1) w3(1) w4(1) by (simp add: postrouting_chain_def)
qed

subsection \<open>Refinement\<close>

lemma hooks_closed:
  assumes "w_closed t w cs"
  shows "\<exists>w'. jump_hook filter_forward_hook ''cluster-ips-filter'' (w, NewRuleBuilder) \<bind>
      jump_hook filter_local_out_hook ''cluster-ips-filter'' \<bind>
      jump_hook nat_fwd_in_hook ''cluster-ips-dnat'' \<bind>
      jump_hook nat_local_out_hook ''cluster-ips-dnat'' \<bind>
      postrouting_chain fc = Some (w', NewRuleBuilder)
    \<and> w_closed t w' (cs @ hook_chains fc)"
proof -
  obtain w1 where w1: "jump_hook filter_forward_hook ''cluster-ips-filter'' (w, NewRuleBuilder)
      = Some (w1, NewRuleBuilder)" "w_closed t w1 (cs @ take 1 (hook_chains fc))"
    using jump_hook_closed [OF assms] by (fastforce simp: hook_chains_def)
  obtain w2 where w2: "jump_hook filter_local_out_hook ''cluster-ips-filter'' (w1, NewRuleBuilder)
      = Some (w2, NewRuleBuilder)" "w_closed t w2 (cs @ take 2 (hook_chains fc))"
    using jump_hook_closed [OF w1(2)] by (fastforce simp: hook_chains_def)
  obtain w3 where w3: "jump_hook nat_fwd_in_hook ''cluster-ips-dnat'' (w2, NewRuleBuilder)
      = Some (w3, NewRuleBuilder)" "w_closed t w3 (cs @ take 3 (hook_chains fc))"
    using jump_hook_closed [OF w2(2)] by (fastforce simp: hook_chains_def numeral_3_eq_3)
  obtain w4 where w4: "jump_hook nat_local_out_hook ''cluster-ips-dnat'' (w3, NewRuleBuilder)
      = Some (w4, NewRuleBuilder)" "w_closed t w4 (cs @ take 4 (hook_chains fc))"
    using jump_hook_closed [OF w3(2)]
    by (fastforce simp: hook_chains_def eval_nat_numeral)
  from postrouting_chain_closed [OF w4(2)] show ?thesis
    by (simp add: w1(1) w2(1) w3(1) w4(1))
qed

lemma BuildConfig_result:
  assumes "hb_ok out"
  shows "\<exists>w. BuildConfig fc (Inr eps) (Inr svcs) (NewNftWriter out) = Some (w, None)
    \<and> replay (w_ops w) = Some (Some \<lparr>tbl_name = ''kube-pet'', tbl_family = TableFamilyIPv4\<rparr>,
        fw_ruleset fc (endpoint_map eps) (sort_services svcs))
    \<and> (\<forall>k. load (w_ops w) k = replaced \<lparr>tbl_name = ''kube-pet'', tbl_family = TableFamilyIPv4\<rparr>
        (fw_ruleset fc (endpoint_map eps) (sort_services svcs)) k)
    \<and> w_table w = None \<and> w_chain w = None \<and> hb_ok (w_out w)"
proof -
  let ?t = "\<lparr>tbl_name = ''kube-pet'', tbl_family = TableFamilyIPv4\<rparr>"
  let ?epm = "endpoint_map eps" and ?ss = "sort_services svcs"
  let ?w0 = "StartTableReplacement ''kube-pet'' TableFamilyIPv4 (NewNftWriter out)"
  let ?cs1 = "map (svc_chain ?epm) (filter (backed ?epm) ?ss)"
  obtain w1 where w1: "foldM (service_chain fc ?epm) ?ss ((?w0, NewRuleBuilder), [])
      = Some ((w1, NewRuleBuilder), local_pods fc ?epm ?ss)" "w_closed ?t w1 ?cs1"
    using service_chains_closed [where t = ?t and w = ?w0 and cs = "[]" and fc = fc and epm = ?epm
        and svcs = ?ss and m = "[]"] StartTableReplacement_closed [OF assms]
    by (auto simp: local_pods_def)
  obtain w2 where w2: "cluster_chains ?ss ((w1, NewRuleBuilder), local_pods fc ?epm ?ss)
      = Some (w2, NewRuleBuilder)" "w_closed ?t w2 (?cs1 @ take 3 (shared_chains fc ?epm ?ss))"
    using cluster_chains_closed [OF w1(2)] by blast
  obtain w3 where w3: "outbound_chain fc (w2, NewRuleBuilder) = Some (w3, NewRuleBuilder)"
    "w_closed ?t w3 (?cs1 @ shared_chains fc ?epm ?ss)"
    using outbound_chain_closed [OF w2(2)] by blast
  obtain w4 where w4: "jump_hook filter_forward_hook ''cluster-ips-filter'' (w3, NewRuleBuilder) \<bind>
      jump_hook filter_local_out_hook ''cluster-ips-filter'' \<bind>
      jump_hook nat_fwd_in_hook ''cluster-ips-dnat'' \<bind>
      jump_hook nat_local_out_hook ''cluster-ips-dnat'' \<bind>
      postrouting_chain fc = Some (w4, NewRuleBuilder)"
    "w_closed ?t w4 ((?cs1 @ shared_chains fc ?epm ?ss) @ hook_chains fc)"
    using hooks_closed [OF w3(2)] by blast
  have "BuildConfig fc (Inr eps) (Inr svcs) (NewNftWriter out) =
      (jump_hook filter_forward_hook ''cluster-ips-filter'' (w3, NewRuleBuilder) \<bind>
       jump_hook filter_local_out_hook ''cluster-ips-filter'' \<bind>
       jump_hook nat_fwd_in_hook ''cluster-ips-dnat'' \<bind>
       jump_hook nat_local_out_hook ''cluster-ips-dnat'' \<bind>
       postrouting_chain fc) \<bind> (\<lambda>(w, rule). Some (EndTable w, None))"
    by (simp add: BuildConfig_def w1(1) w2(1) w3(1) bind_assoc)
  then have "BuildConfig fc (Inr eps) (Inr svcs) (NewNftWriter out) = Some (EndTable w4, None)"
    unfolding w4(1) by simp
  with EndTable_result [OF w4(2)] show ?thesis by (simp add: fw_ruleset_def)
qed

end
