(* ===== verification/Nft_Semantics.thy ===== *)
theory Nft_Semantics
  imports Firewall_Ruleset
begin

text \<open>
  What a ruleset means for a packet: the specification against which the firewall's configuration
  is judged. It is the documented reading (\<^verbatim>\<open>nft(8)\<close>) of the expressions the rule builder can
  emit, over the packet's header bytes: a rule runs its expressions on a register file, a comparison
  that fails ends the rule, \<open>jump\<close> continues after the called chain falls through, \<open>goto\<close> does not
  come back, a NAT or reject expression is final. Nothing here models code of the repository.
\<close>

record packet =
  pk_net :: bytes
  pk_trans :: bytes
  pk_oif :: string

definition pk_daddr :: "packet \<Rightarrow> bytes" where
  "pk_daddr p = take 4 (drop 16 (pk_net p))"

definition pk_proto :: "packet \<Rightarrow> bytes" where
  "pk_proto p = take 1 (drop 9 (pk_net p))"

definition pk_dport :: "packet \<Rightarrow> bytes" where
  "pk_dport p = take 2 (drop 2 (pk_trans p))"

datatype outcome =
    Fall
  | Back
  | Accepted
  | JumpTo string
  | GotoChain string
  | Rejected nat nat
  | Dnat bytes "bytes option"
  | Masqueraded

definition pk_header :: "packet \<Rightarrow> payload_base \<Rightarrow> bytes" where
  "pk_header p b = (case b of PayloadBaseNetworkHeader \<Rightarrow> pk_net p
                            | PayloadBaseTransportHeader \<Rightarrow> pk_trans p)"

text \<open>The expressions of one rule; \<open>Fall\<close> is a rule that did not decide.\<close>

fun eval_exprs :: "packet \<Rightarrow> (nat \<Rightarrow> bytes) \<Rightarrow> nft_expr list \<Rightarrow> outcome" where
  "eval_exprs p regs [] = Fall"
| "eval_exprs p regs (Meta k r # es) =
     eval_exprs p (regs(r := (case k of MetaKeyL4PROTO \<Rightarrow> pk_proto p
                                      | MetaKeyOIFNAME \<Rightarrow> ifname (pk_oif p)))) es"
| "eval_exprs p regs (CmpEq r d # es) = (if regs r = d then eval_exprs p regs es else Fall)"
| "eval_exprs p regs (Payload r b off len # es) =
     (if off + len \<le> length (pk_header p b)
      then eval_exprs p (regs(r := take len (drop off (pk_header p b)))) es else Fall)"
| "eval_exprs p regs (BitwiseX s d len m x # es) =
     eval_exprs p (regs(d := map2 (XOR) (map2 (AND) (regs s) m) x)) es"
| "eval_exprs p regs (CounterX # es) = eval_exprs p regs es"
| "eval_exprs p regs (RejectX t c # es) = Rejected t c"
| "eval_exprs p regs (VerdictX k c # es) =
     (case k of VerdictAccept \<Rightarrow> Accepted | VerdictReturn \<Rightarrow> Back
              | VerdictJump \<Rightarrow> JumpTo c | VerdictGoto \<Rightarrow> GotoChain c)"
| "eval_exprs p regs (Immediate r d # es) = eval_exprs p (regs(r := d)) es"
| "eval_exprs p regs (DestNAT fam amin amax pmin pmax # es) =
     Dnat (regs amin) (if pmin = 0 then None else Some (regs pmin))"
| "eval_exprs p regs (Masq # es) = Masqueraded"

definition eval_rule :: "packet \<Rightarrow> nft_expr list \<Rightarrow> outcome" where
  "eval_rule p es = eval_exprs p (\<lambda>_. []) es"

text \<open>Running the rules of a chain, with the number of nested chain calls that are still allowed
  (the kernel's limit is 16); \<open>None\<close> where it is exceeded or a chain does not exist.\<close>

fun run_rules ::
  "nat \<Rightarrow> (string \<rightharpoonup> nft_expr list list) \<Rightarrow> packet \<Rightarrow> nft_expr list list \<Rightarrow> outcome option" where
  "run_rules n ch p [] = Some Fall"
| "run_rules n ch p (r # rs) =
     (case eval_rule p r of
        Fall \<Rightarrow> run_rules n ch p rs
      | Back \<Rightarrow> Some Fall
      | JumpTo c \<Rightarrow>
          (case n of
             0 \<Rightarrow> None
           | Suc k \<Rightarrow>
               (case ch c of
                  None \<Rightarrow> None
                | Some crs \<Rightarrow>
                    (case run_rules k ch p crs of
                       None \<Rightarrow> None
                     | Some Fall \<Rightarrow> run_rules n ch p rs
                     | Some out \<Rightarrow> Some out)))
      | GotoChain c \<Rightarrow>
          (case n of
             0 \<Rightarrow> None
           | Suc k \<Rightarrow> (case ch c of None \<Rightarrow> None | Some crs \<Rightarrow> run_rules k ch p crs))
      | out \<Rightarrow> Some out)"

definition chain_map :: "chain_def list \<Rightarrow> (string \<rightharpoonup> nft_expr list list)" where
  "chain_map cs = map_of (map (\<lambda>(c, rs). (ch_name c, rs)) cs)"

definition run_chain :: "chain_def list \<Rightarrow> string \<Rightarrow> packet \<Rightarrow> outcome option" where
  "run_chain cs name p = Option.bind (chain_map cs name) (run_rules 16 (chain_map cs) p)"

subsection \<open>References between the chains of the ruleset\<close>

lemma unresolved_from_no_targets:
  "(\<And>c. c \<in> set cs \<Longrightarrow> chain_targets c = []) \<Longrightarrow> unresolved_from known cs = []"
  by (induction cs arbitrary: known) auto

lemma expr_targets_simps [simp]:
  "expr_targets (Meta k r) = []" "expr_targets (CmpEq r d) = []"
  "expr_targets (Payload r b off len) = []" "expr_targets (BitwiseX s r len m x) = []"
  "expr_targets CounterX = []" "expr_targets (RejectX t rc) = []"
  "expr_targets (VerdictX VerdictJump c) = [c]" "expr_targets (VerdictX VerdictGoto c) = [c]"
  "expr_targets (VerdictX VerdictReturn c) = []" "expr_targets (VerdictX VerdictAccept c) = []"
  "expr_targets (Immediate r d) = []" "expr_targets (DestNAT f a1 a2 p1 p2) = []"
  "expr_targets Masq = []"
  by (simp_all add: expr_targets_def)

lemma concat_map_Nil: "concat (map (\<lambda>x. []) xs) = []"
  by (induction xs) auto

lemma svc_chain_no_targets [simp]: "chain_targets (svc_chain epm svc) = []"
  by (auto simp: chain_targets_def rule_targets_def svc_chain_def svc_rules_def port_rule_def icmp_rule_def match_defs
      split: list.splits)

lemma basic_chain_sel [simp]: "ch_name (basic_chain n) = n"
  by (simp add: basic_chain_def)

lemma svc_chain_sel [simp]:
  "ch_name (fst (svc_chain epm svc)) = svc_chain_name svc"
  "snd (svc_chain epm svc) = svc_rules svc (the (epm (svc_key svc)))"
  by (simp_all add: svc_chain_def)

lemma shared_chains_targets:
  "map chain_targets (shared_chains fc epm services) =
     [map svc_chain_name (filter dispatched services), [], [], []]"
  by (simp add: shared_chains_def chain_targets_def rule_targets_def match_defs comp_def concat_map_Nil)

lemma unresolved_shared:
  "unresolved_from known (shared_chains fc epm services) =
     filter (\<lambda>t. t \<notin> set (''cluster-ips-dnat'' # known)) (map svc_chain_name (filter dispatched services))"
  using shared_chains_targets [of fc epm services]
  by (simp add: shared_chains_def)

lemma unresolved_hooks:
  "{''cluster-ips-filter'', ''cluster-ips-dnat'', ''cluster-ip-backing-pods-masq'',
    ''cluster-outbound-masq''} \<subseteq> set known \<Longrightarrow> unresolved_from known (hook_chains fc) = []"
  by (simp add: hook_chains_def chain_targets_def rule_targets_def match_defs comp_def concat_map_Nil hook_chain_defs)

lemma svc_chain_name_neq [simp]: "svc_chain_name svc \<noteq> ''cluster-ips-dnat''"
  by (simp add: svc_chain_name_def)

lemma unresolved_ruleset:
  "unresolved (fw_ruleset fc epm services) =
     filter (\<lambda>t. t \<notin> svc_chain_name ` set (filter (backed epm) services))
       (map svc_chain_name (filter dispatched services))"
proof -
  let ?svcs = "map (svc_chain epm) (filter (backed epm) services)"
  let ?known = "rev (chain_names ?svcs)"
  have known: "set ?known = svc_chain_name ` set (filter (backed epm) services)"
    by (auto simp: svc_chain_def chain_names_def)
  have "unresolved_from [] ?svcs = []" by (rule unresolved_from_no_targets) auto
  moreover have "unresolved_from (rev (chain_names (shared_chains fc epm services)) @ ?known)
      (hook_chains fc) = []"
    by (rule unresolved_hooks) (simp add: shared_chains_def)
  ultimately have "unresolved (fw_ruleset fc epm services) =
      unresolved_from ?known (shared_chains fc epm services)"
    by (simp add: unresolved_def fw_ruleset_def unresolved_from_append)
  also have "\<dots> = filter (\<lambda>t. t \<notin> svc_chain_name ` set (filter (backed epm) services))
       (map svc_chain_name (filter dispatched services))"
    unfolding unresolved_shared by (rule filter_cong) (auto simp: known [unfolded set_rev])
  finally show ?thesis .
qed

text \<open>With unique service UIDs the ruleset declares every chain once, so nothing is merged.\<close>

lemma fw_ruleset_names:
  "chain_names (fw_ruleset fc epm services) = map svc_chain_name (filter (backed epm) services)
     @ [''cluster-ips-dnat'', ''cluster-ips-filter'', ''cluster-ip-backing-pods-masq'',
        ''cluster-outbound-masq'', ''hook-filter-forward'', ''hook-filter-local-out'',
        ''hook-nat-fwd-in'', ''hook-nat-local-out'', ''hook-nat-postrouting'']"
  by (simp add: fw_ruleset_def chain_names_def shared_chains_def hook_chains_def hook_chain_defs
      comp_def)

lemma fw_ruleset_merged:
  assumes "distinct (map svc_uid services)"
  shows "merged (fw_ruleset fc epm services) = fw_ruleset fc epm services"
proof (rule merged_distinct)
  have "distinct (map svc_chain_name (filter (backed epm) services))"
    using assms by (induction services) (auto simp: svc_chain_name_def)
  then show "distinct (chain_names (fw_ruleset fc epm services))"
    by (auto simp: fw_ruleset_names svc_chain_name_def)
qed

subsection \<open>Looking chains up\<close>

lemma chain_map_append:
  "chain_map (cs @ ds) n = (case chain_map cs n of None \<Rightarrow> chain_map ds n | Some r \<Rightarrow> Some r)"
  by (simp add: chain_map_def map_add_def split: option.splits)

lemma chain_map_svcs:
  "chain_map (map (svc_chain epm) svcs) n =
     map_of (map (\<lambda>s. (svc_chain_name s, svc_rules s (the (epm (svc_key s))))) svcs) n"
  by (simp add: chain_map_def comp_def svc_chain_def)

lemma chain_map_static:
  assumes "n \<notin> range svc_chain_name"
  shows "chain_map (fw_ruleset fc epm services) n
    = chain_map (shared_chains fc epm services @ hook_chains fc) n"
proof -
  have "chain_map (map (svc_chain epm) (filter (backed epm) services)) n = None"
    using assms by (auto simp: chain_map_svcs map_of_eq_None_iff)
  then show ?thesis by (simp add: fw_ruleset_def chain_map_append)
qed

lemma not_svc_chain [simp]:
  "CHR ''h'' # x \<notin> range svc_chain_name" "CHR ''c'' # x \<notin> range svc_chain_name"
  by (auto simp: svc_chain_name_def)

lemma chain_map_svc:
  assumes "svc \<in> set services" and "backed epm svc"
    and "\<And>s. s \<in> set services \<Longrightarrow> backed epm s \<Longrightarrow> svc_uid s = svc_uid svc \<Longrightarrow> s = svc"
  shows "chain_map (fw_ruleset fc epm services) (svc_chain_name svc)
    = Some (svc_rules svc (the (epm (svc_key svc))))"
proof -
  have "map_of (map (\<lambda>s. (svc_chain_name s, svc_rules s (the (epm (svc_key s))))) svcs)
      (svc_chain_name svc) = Some (svc_rules svc (the (epm (svc_key svc))))"
    if "svc \<in> set svcs" "\<And>s. s \<in> set svcs \<Longrightarrow> svc_uid s = svc_uid svc \<Longrightarrow> s = svc" for svcs
    using that
  proof (induction svcs)
    case Nil
    then show ?case by simp
  next
    case (Cons s svcs)
    show ?case
    proof (cases "svc_uid s = svc_uid svc")
      case True
      with Cons.prems(2) [of s] show ?thesis by simp
    next
      case False
      with Cons show ?thesis by (auto simp: svc_chain_name_def)
    qed
  qed
  from this [of "filter (backed epm) services"] assms show ?thesis
    by (simp add: fw_ruleset_def chain_map_append chain_map_svcs)
qed

lemma chain_map_hooks:
  "chain_map (fw_ruleset fc epm services) ''hook-nat-fwd-in''
     = Some [[VerdictX VerdictJump ''cluster-ips-dnat'']]"
  "chain_map (fw_ruleset fc epm services) ''hook-nat-local-out''
     = Some [[VerdictX VerdictJump ''cluster-ips-dnat'']]"
  "chain_map (fw_ruleset fc epm services) ''hook-filter-forward''
     = Some [[VerdictX VerdictJump ''cluster-ips-filter'']]"
  "chain_map (fw_ruleset fc epm services) ''hook-filter-local-out''
     = Some [[VerdictX VerdictJump ''cluster-ips-filter'']]"
  by (simp_all add: chain_map_static, simp_all add: chain_map_def shared_chains_def hook_chains_def
      hook_chain_defs)

lemma chain_map_clusters:
  "chain_map (fw_ruleset fc epm services) ''cluster-ips-dnat'' =
     Some (map (\<lambda>svc. m_daddr (parseIpForNft (svc_cluster_ip svc))
             @ [VerdictX VerdictGoto (svc_chain_name svc)]) (filter dispatched services))"
  "chain_map (fw_ruleset fc epm services) ''cluster-ips-filter'' =
     Some (map (\<lambda>svc. m_daddr (parseIpForNft (svc_cluster_ip svc)) @ [CounterX, RejectX 0 3])
       (filter dispatched services))"
  by (simp_all add: chain_map_static, simp_all add: chain_map_def shared_chains_def)

subsection \<open>Evaluating the rules\<close>

lemma eval_m_daddr:
  "eval_exprs p regs (m_daddr d @ es) =
     (if 20 \<le> length (pk_net p) \<and> pk_daddr p = d then eval_exprs p (regs(1 := d)) es else Fall)"
  by (auto simp: m_daddr_def pk_header_def pk_daddr_def)

lemma eval_m_dport:
  "eval_exprs p regs (m_dport q @ es) =
     (if 4 \<le> length (pk_trans p) \<and> pk_dport p = be16 q then eval_exprs p (regs(1 := be16 q)) es
      else Fall)"
  by (auto simp: m_dport_def pk_header_def pk_dport_def)

definition proto_number :: "string \<Rightarrow> u8" where
  "proto_number s = (if s = ''TCP'' then 6 else if s = ''UDP'' then 17 else 132)"

definition known_proto :: "string \<Rightarrow> bool" where
  "known_proto s \<longleftrightarrow> s = ''TCP'' \<or> s = ''UDP'' \<or> s = ''SCTP''"

lemma eval_m_l4proto:
  "known_proto pr \<Longrightarrow> eval_exprs p regs (m_l4proto pr @ es) =
     (if pk_proto p = [proto_number pr] then eval_exprs p (regs(1 := [proto_number pr])) es else Fall)"
  by (auto simp: m_l4proto_def known_proto_def proto_number_def)

lemma proto_number_inject:
  "known_proto a \<Longrightarrow> known_proto b \<Longrightarrow> proto_number a = proto_number b \<longleftrightarrow> a = b"
  by (auto simp: known_proto_def proto_number_def)

lemma eval_port_rule:
  "known_proto (pt_protocol q) \<Longrightarrow> eval_rule p (port_rule q t) =
     (if pk_proto p = [proto_number (pt_protocol q)] \<and> 4 \<le> length (pk_trans p)
         \<and> pk_dport p = be16 (ucast (pt_port q))
      then Dnat (parseIpForNft (fst t)) (Some (be16 (snd t))) else Fall)"
  by (simp add: eval_rule_def port_rule_def eval_m_l4proto eval_m_dport)

text \<open>Rules that do not decide are skipped.\<close>

lemma run_rules_skip:
  "(\<And>r. r \<in> set pre \<Longrightarrow> eval_rule p r = Fall) \<Longrightarrow>
   run_rules n ch p (pre @ rs) = run_rules n ch p rs"
  by (induction pre) auto

lemma run_rules_none:
  "(\<And>r. r \<in> set rs \<Longrightarrow> eval_rule p r = Fall) \<Longrightarrow> run_rules n ch p rs = Some Fall"
  using run_rules_skip [of rs p n ch "[]"] by simp

lemma run_rules_first:
  assumes "x \<in> set xs" and "eval_rule p (r x) = out" and "out \<noteq> Fall"
    and "\<And>y. y \<in> set xs \<Longrightarrow> eval_rule p (r y) \<noteq> Fall \<Longrightarrow> y = x"
  shows "\<exists>post. run_rules n ch p (map r xs @ rest) = run_rules n ch p (r x # post)"
proof -
  obtain pre post where xs: "xs = pre @ x # post" "x \<notin> set pre"
    using assms(1) by (meson split_list_first)
  have "eval_rule p q = Fall" if q: "q \<in> set (map r pre)" for q
  proof (rule ccontr)
    assume "eval_rule p q \<noteq> Fall"
    moreover obtain y where "y \<in> set pre" "q = r y" using q by auto
    ultimately show False using assms(4) [of y] xs by auto
  qed
  then have "run_rules n ch p (map r pre @ (r x # (map r post @ rest)))
      = run_rules n ch p (r x # (map r post @ rest))"
    by (rule run_rules_skip)
  then show ?thesis by (auto simp: xs(1))
qed

lemma run_rules_goto:
  "eval_rule p r = GotoChain c \<Longrightarrow> ch c = Some crs \<Longrightarrow>
   run_rules (Suc k) ch p (r # rs) = run_rules k ch p crs"
  by simp

lemma run_rules_jump:
  "eval_rule p r = JumpTo c \<Longrightarrow> ch c = Some crs \<Longrightarrow> run_rules k ch p crs = Some out \<Longrightarrow>
   run_rules (Suc k) ch p [r] = Some out"
  by (cases out) simp_all

lemma svc_rules_dnat:
  assumes "port \<in> set (svc_ports svc)" and "all_targets ep port = t # ts"
    and "\<And>q. q \<in> set (svc_ports svc) \<Longrightarrow> known_proto (pt_protocol q)"
    and "\<And>q. q \<in> set (svc_ports svc) \<Longrightarrow> pt_protocol q = pt_protocol port \<Longrightarrow>
        (ucast (pt_port q) :: u16) = ucast (pt_port port) \<Longrightarrow> q = port"
    and "pk_proto p = [proto_number (pt_protocol port)]" "4 \<le> length (pk_trans p)"
    and "pk_dport p = be16 (ucast (pt_port port))"
  shows "run_rules n ch p (svc_rules svc ep)
    = Some (Dnat (parseIpForNft (fst t)) (Some (be16 (snd t))))"
proof -
  let ?xs = "filter (\<lambda>q. all_targets ep q \<noteq> []) (svc_ports svc)"
  let ?r = "\<lambda>q. port_rule q (hd (all_targets ep q))"
  let ?out = "Dnat (parseIpForNft (fst t)) (Some (be16 (snd t)))"
  have out: "eval_rule p (?r port) = ?out"
    using assms by (simp add: eval_port_rule)
  have "y = port" if "y \<in> set ?xs" "eval_rule p (?r y) \<noteq> Fall" for y
  proof -
    have y: "y \<in> set (svc_ports svc)" "known_proto (pt_protocol y)" using that(1) assms(3) by auto
    with that(2) have "pk_proto p = [proto_number (pt_protocol y)]"
      "pk_dport p = be16 (ucast (pt_port y))"
      by (auto simp: eval_port_rule split: if_splits)
    with assms(1,3,5,7) y show ?thesis
      by (intro assms(4)) (auto simp: proto_number_inject)
  qed
  moreover have "port \<in> set ?xs" using assms(1,2) by simp
  ultimately have "\<exists>post. run_rules n ch p (svc_rules svc ep) = run_rules n ch p (?r port # post)"
    unfolding svc_rules_def
    using run_rules_first [where x = port and xs = ?xs and r = ?r and out = ?out and p = p] out
    by blast
  with out show ?thesis by auto
qed

lemma eval_dispatch:
  "eval_rule p (m_daddr d @ [VerdictX VerdictGoto c]) =
     (if 20 \<le> length (pk_net p) \<and> pk_daddr p = d then GotoChain c else Fall)"
  "eval_rule p (m_daddr d @ [CounterX, RejectX a b]) =
     (if 20 \<le> length (pk_net p) \<and> pk_daddr p = d then Rejected a b else Fall)"
  by (simp_all add: eval_rule_def eval_m_daddr)

lemma eval_jump [simp]: "eval_rule p [VerdictX VerdictJump c] = JumpTo c"
  by (simp add: eval_rule_def)

text \<open>The NAT hooks hand a packet for a service's cluster IP to that service's chain.\<close>

lemma run_dnat_hook:
  assumes "hook \<in> {''hook-nat-fwd-in'', ''hook-nat-local-out''}"
    and "svc \<in> set services" "backed epm svc"
    and "20 \<le> length (pk_net p)" "pk_daddr p = parseIpForNft (svc_cluster_ip svc)"
    and "\<And>s. s \<in> set services \<Longrightarrow> dispatched s \<Longrightarrow>
        parseIpForNft (svc_cluster_ip s) = parseIpForNft (svc_cluster_ip svc) \<Longrightarrow> s = svc"
    and "\<And>s. s \<in> set services \<Longrightarrow> backed epm s \<Longrightarrow> svc_uid s = svc_uid svc \<Longrightarrow> s = svc"
    and "run_rules 14 (chain_map (fw_ruleset fc epm services)) p
        (svc_rules svc (the (epm (svc_key svc)))) = Some out"
  shows "run_chain (fw_ruleset fc epm services) hook p = Some out"
proof -
  let ?ch = "chain_map (fw_ruleset fc epm services)"
  let ?r = "\<lambda>svc. m_daddr (parseIpForNft (svc_cluster_ip svc))
      @ [VerdictX VerdictGoto (svc_chain_name svc)]"
  have goto: "eval_rule p (?r svc) = GotoChain (svc_chain_name svc)"
    using assms(4,5) by (simp add: eval_dispatch)
  have "dispatched svc" using assms(3) by (simp add: backed_def)
  then have "svc \<in> set (filter dispatched services)" using assms(2) by simp
  moreover have "y = svc" if "y \<in> set (filter dispatched services)" "eval_rule p (?r y) \<noteq> Fall" for y
    using that assms(5) by (intro assms(6)) (auto simp: eval_dispatch split: if_splits)
  ultimately obtain post where
    "run_rules (Suc 14) ?ch p (map ?r (filter dispatched services) @ [])
      = run_rules (Suc 14) ?ch p (?r svc # post)"
    using run_rules_first [where x = svc and xs = "filter dispatched services" and r = ?r
      and out = "GotoChain (svc_chain_name svc)" and p = p] goto by blast
  also have "\<dots> = run_rules 14 ?ch p (svc_rules svc (the (epm (svc_key svc))))"
    by (rule run_rules_goto [OF goto]) (rule chain_map_svc [OF assms(2,3,7)])
  also note assms(8)
  finally have "run_rules 15 ?ch p (map ?r (filter dispatched services)) = Some out" by simp
  from run_rules_jump [OF eval_jump, OF chain_map_clusters(1) this]
  have "run_rules 16 ?ch p [[VerdictX VerdictJump ''cluster-ips-dnat'']] = Some out" by simp
  then show ?thesis using assms(1) chain_map_hooks by (auto simp: run_chain_def)
qed

text \<open>The filter hooks.\<close>

lemma run_filter_hook:
  assumes "hook \<in> {''hook-filter-forward'', ''hook-filter-local-out''}"
    and "20 \<le> length (pk_net p)"
  shows "run_chain (fw_ruleset fc epm services) hook p =
    Some (if pk_daddr p \<in> (\<lambda>s. parseIpForNft (svc_cluster_ip s)) ` {s \<in> set services. dispatched s}
      then Rejected 0 3 else Fall)"
proof -
  let ?ch = "chain_map (fw_ruleset fc epm services)"
  let ?r = "\<lambda>svc. m_daddr (parseIpForNft (svc_cluster_ip svc)) @ [CounterX, RejectX 0 3]"
  have "run_rules n ?ch p (map ?r svcs) =
      Some (if pk_daddr p \<in> (\<lambda>s. parseIpForNft (svc_cluster_ip s)) ` set svcs
        then Rejected 0 3 else Fall)" for n svcs
    using assms(2) by (induction svcs) (auto simp: eval_dispatch)
  from this [of 15 "filter dispatched services"]
  have "run_rules 15 ?ch p (map ?r (filter dispatched services)) =
      Some (if pk_daddr p \<in> (\<lambda>s. parseIpForNft (svc_cluster_ip s)) ` {s \<in> set services. dispatched s}
        then Rejected 0 3 else Fall)"
    by (simp only: set_filter)
  from run_rules_jump [OF eval_jump, OF chain_map_clusters(2) this]
  have "run_rules 16 ?ch p [[VerdictX VerdictJump ''cluster-ips-filter'']] =
      Some (if pk_daddr p \<in> (\<lambda>s. parseIpForNft (svc_cluster_ip s)) ` {s \<in> set services. dispatched s}
        then Rejected 0 3 else Fall)"
    by simp
  then show ?thesis using assms(1) chain_map_hooks by (auto simp: run_chain_def)
qed

end
