(* ===== verification/Firewall_Sync.thy ===== *)
theory Firewall_Sync
  imports Nft_Semantics
begin

text \<open>
  \<^verbatim>\<open>controllers/firewall/controller.go\<close>: \<open>Sync\<close>, which builds the configuration, compares the hash
  of its text with the last one the kernel took and flushes the queued operations when they
  differ, and the handler of endpoint updates. The kernel's answer to a flush is a parameter:
  \<open>None\<close> for success, \<open>Some e\<close> for an error with text \<open>e\<close>. Then the firewall's main properties.
\<close>

definition enobufs_error :: string where
  "enobufs_error = ''Receive: netlink receive: recvmsg: no buffer space available''"

definition NewFirewallController ::
  "string \<Rightarrow> string \<Rightarrow> ip \<Rightarrow> ipnet list \<Rightarrow> firewall" where
  "NewFirewallController nodeName vpnIface nodeIP podNets =
     \<lparr>fc_node_name = nodeName, fc_vpn_iface = vpnIface, fc_node_ip = nodeIP,
      fc_pod_nets = podNets, fc_latest_hash = []\<rparr>"

text \<open>The result holds the operations that were flushed, if any.\<close>

definition Sync ::
  "(nft_op list \<Rightarrow> string option) \<Rightarrow> string + endpoints list \<Rightarrow> string + service list \<Rightarrow> firewall \<Rightarrow>
   (firewall \<times> nft_op list option) option" where
  "Sync flush listEndpoints listServices fc =
     (case BuildConfig fc listEndpoints listServices (NewNftWriter new_hashing_builder) of
        None \<Rightarrow> None
      | Some (w, _) \<Rightarrow>
          let h = hb_Sum (w_out w)
          in if fc_latest_hash fc \<noteq> h then
               (case flush (w_ops w) of
                  Some err \<Rightarrow>
                    if err = enobufs_error then Some (fc\<lparr>fc_latest_hash := h\<rparr>, Some (w_ops w))
                    else Some (fc, Some (w_ops w))
                | None \<Rightarrow> Some (fc\<lparr>fc_latest_hash := h\<rparr>, Some (w_ops w)))
             else Some (fc, None))"

text \<open>The endpoint handlers: additions and deletions always schedule a sync; an update does not
  when the object before it is a control-plane election record. \<open>None\<close> is an object of another
  type.\<close>

definition leader_annotation :: string where
  "leader_annotation = ''control-plane.alpha.kubernetes.io/leader''"

definition update_schedules_sync :: "endpoints option \<Rightarrow> bool" where
  "update_schedules_sync before =
     (case before of
        None \<Rightarrow> True
      | Some ep \<Rightarrow>
          \<not> (ep_ns ep = ''kube-system'' \<and> map_of (ep_annotations ep) leader_annotation \<noteq> None))"

subsection \<open>The configuration of a cluster state\<close>

definition fw_writer :: "firewall \<Rightarrow> endpoints list \<Rightarrow> service list \<Rightarrow> nft_writer" where
  "fw_writer fc eps svcs =
     (case BuildConfig fc (Inr eps) (Inr svcs) (NewNftWriter new_hashing_builder) of
        None \<Rightarrow> NewNftWriter new_hashing_builder
      | Some (w, _) \<Rightarrow> w)"

definition fw_text :: "firewall \<Rightarrow> endpoints list \<Rightarrow> service list \<Rightarrow> string" where
  "fw_text fc eps svcs = hb_builder (w_out (fw_writer fc eps svcs))"

text \<open>The table of the firewall.\<close>

definition kube_pet_table :: nft_table where
  "kube_pet_table = \<lparr>tbl_name = ''kube-pet'', tbl_family = TableFamilyIPv4\<rparr>"

definition text_hash :: "string \<Rightarrow> bytes" where
  "text_hash s = be32 (fnv1a (bytes_of s))"

definition accepted :: "string option \<Rightarrow> bool" where
  "accepted r \<longleftrightarrow> r = None \<or> r = Some enobufs_error"

lemma BuildConfig_writer:
  "BuildConfig fc (Inr eps) (Inr svcs) (NewNftWriter new_hashing_builder)
     = Some (fw_writer fc eps svcs, None)"
  using BuildConfig_result [OF hb_ok_new, of fc eps svcs] by (auto simp: fw_writer_def)

lemma fw_writer_facts:
  "replay (w_ops (fw_writer fc eps svcs)) =
     Some (Some \<lparr>tbl_name = ''kube-pet'', tbl_family = TableFamilyIPv4\<rparr>,
       fw_ruleset fc (endpoint_map eps) (sort_services svcs))"
  "load (w_ops (fw_writer fc eps svcs)) k = replaced kube_pet_table
     (fw_ruleset fc (endpoint_map eps) (sort_services svcs)) k"
  "hb_ok (w_out (fw_writer fc eps svcs))"
  using BuildConfig_result [OF hb_ok_new, of fc eps svcs]
  by (auto simp: BuildConfig_writer kube_pet_table_def)

text \<open>What the kernel holds after it took the batch, where UIDs identify services.\<close>

lemma loaded_ruleset:
  assumes "BuildConfig fc (Inr eps) (Inr svcs) (NewNftWriter new_hashing_builder) = Some (w, err)"
    and "load (w_ops w) k = Some k'" and "distinct (map svc_uid svcs)"
  shows "k' = k(kube_pet_table \<mapsto> fw_ruleset fc (endpoint_map eps) (sort_services svcs))"
proof -
  have "w = fw_writer fc eps svcs" using assms(1) by (simp add: BuildConfig_writer)
  moreover have "distinct (map svc_uid (sort_services svcs))"
    using assms(3) by (simp add: sort_services_def distinct_map inj_on_def)
  ultimately show ?thesis
    using assms(2) by (auto simp: fw_writer_facts(2) replaced_def fw_ruleset_merged split: if_splits)
qed

lemma fw_hash: "hb_Sum (w_out (fw_writer fc eps svcs)) = text_hash (fw_text fc eps svcs)"
  by (simp add: text_hash_def fw_text_def hb_Sum_ok fw_writer_facts(3))

lemma Sync_eq:
  "Sync flush (Inr eps) (Inr svcs) fc =
     (if fc_latest_hash fc = text_hash (fw_text fc eps svcs) then Some (fc, None)
      else Some (if accepted (flush (w_ops (fw_writer fc eps svcs)))
                 then fc\<lparr>fc_latest_hash := text_hash (fw_text fc eps svcs)\<rparr> else fc,
                 Some (w_ops (fw_writer fc eps svcs))))"
  by (auto simp: Sync_def BuildConfig_writer fw_hash Let_def accepted_def split: option.splits)

text \<open>The configuration does not depend on the recorded hash.\<close>

lemma BuildConfig_latest_hash:
  "BuildConfig (fc\<lparr>fc_latest_hash := h\<rparr>) eps svcs w = BuildConfig fc eps svcs w"
proof -
  have nlp: "note_local_pod (fc\<lparr>fc_latest_hash := h\<rparr>) = note_local_pod fc"
    by (simp add: fun_eq_iff note_local_pod_def split: option.split)
  have sc: "service_chain (fc\<lparr>fc_latest_hash := h\<rparr>) = service_chain fc"
    by (intro ext) (unfold service_chain_def note_local_pods_def nlp, rule refl)
  have oc: "outbound_chain (fc\<lparr>fc_latest_hash := h\<rparr>) = outbound_chain fc"
    "postrouting_chain (fc\<lparr>fc_latest_hash := h\<rparr>) = postrouting_chain fc"
    by (intro ext, simp add: outbound_chain_def, intro ext, simp add: postrouting_chain_def)
  show ?thesis unfolding BuildConfig_def sc oc ..
qed

lemma fw_text_latest_hash [simp]:
  "fw_text (fc\<lparr>fc_latest_hash := h\<rparr>) eps svcs = fw_text fc eps svcs"
  by (simp add: fw_text_def fw_writer_def BuildConfig_latest_hash)

text \<open>The order in which the caches list their objects does not matter.\<close>

lemma endpoint_map_perm:
  assumes "mset eps = mset eps'" and "distinct (map ep_key eps)"
  shows "endpoint_map eps = endpoint_map eps'"
proof -
  have map: "endpoint_map es = map_of (map (\<lambda>e. (ep_key e, e)) es)" if "distinct (map ep_key es)" for es
  proof -
    have "fold (\<lambda>ep m. m(ep_key ep \<mapsto> ep)) es m = m ++ map_of (map (\<lambda>e. (ep_key e, e)) es)"
      if "distinct (map ep_key es)" for m
      using that
    proof (induction es arbitrary: m)
      case (Cons e es)
      have "map_of (map (\<lambda>e. (ep_key e, e)) es) (ep_key e) = None"
        using Cons.prems by (auto simp: map_of_eq_None_iff)
      with Cons show ?case by (auto simp: fun_eq_iff map_add_def split: option.splits)
    qed simp
    with that show ?thesis by (simp add: endpoint_map_def)
  qed
  have "mset (map ep_key eps) = mset (map ep_key eps')" using assms(1) by simp
  then have "distinct (map ep_key eps')" using assms(2) by (metis mset_eq_imp_distinct_iff)
  moreover have "set (map (\<lambda>e. (ep_key e, e)) eps) = set (map (\<lambda>e. (ep_key e, e)) eps')"
    using mset_eq_setD [OF assms(1)] by simp
  ultimately show ?thesis
    using assms(2) by (simp only: map, subst map_of_inject_set) (simp_all add: comp_def)
qed

lemma sort_services_perm:
  "mset svcs = mset svcs' \<Longrightarrow> distinct (map svc_key svcs) \<Longrightarrow> sort_services svcs = sort_services svcs'"
  unfolding sort_services_def by (rule sort_key_perm)

end
