(* ===== verification/Firewall_Props.thy ===== *)
theory Firewall_Props
  imports Firewall_Sync
begin

text \<open>The properties of the firewall component, each with its witness.\<close>

subsection \<open>A small cluster for the witnesses\<close>

definition ex_ep :: endpoints where
  "ex_ep = \<lparr>ep_ns = ''default'', ep_name = ''web'', ep_annotations = [],
     ep_subsets = [\<lparr>es_addrs = [\<lparr>ea_ip = ''10.8.0.5'', ea_node = Some ''pet-a''\<rparr>],
       es_ports = [\<lparr>sp_name = ''http'', sp_port = 8080\<rparr>]\<rparr>]\<rparr>"

definition ex_port :: service_port where
  "ex_port = \<lparr>pt_name = ''http'', pt_protocol = ''TCP'', pt_port = 80\<rparr>"

definition ex_svc :: service where
  "ex_svc = \<lparr>svc_ns = ''default'', svc_name = ''web'', svc_uid = ''u1'', svc_type = ''ClusterIP'',
     svc_cluster_ip = ''10.6.0.9'', svc_ports = [ex_port]\<rparr>"

definition ex_orphan :: service where
  "ex_orphan = \<lparr>svc_ns = ''default'', svc_name = ''bare'', svc_uid = ''u2'', svc_type = ''ClusterIP'',
     svc_cluster_ip = ''10.6.0.7'', svc_ports = [ex_port]\<rparr>"

definition ex_fc :: firewall where
  "ex_fc = NewFirewallController ''pet-a'' ''wg-gke'' [10, 6, 240, 3]
     [\<lparr>net_ip = [10, 8, 0, 0], net_mask = [255, 255, 255, 0]\<rparr>]"

text \<open>A TCP segment for 10.6.0.9, port 80.\<close>

definition ex_packet :: packet where
  "ex_packet = \<lparr>pk_net = [0x45, 0, 0, 40, 0, 0, 0, 0, 64, 6, 0, 0, 192, 168, 0, 2, 10, 6, 0, 9],
     pk_trans = [0xC0, 0, 0, 80], pk_oif = ''eth0''\<rparr>"

lemmas ex_defs = ex_ep_def ex_port_def ex_svc_def ex_orphan_def ex_fc_def ex_packet_def

lemma ex_parse:
  "parseIpForNft ''10.6.0.9'' = [10, 6, 0, 9]" "parseIpForNft ''10.6.0.7'' = [10, 6, 0, 7]"
  "parseIpForNft ''10.8.0.5'' = [10, 8, 0, 5]"
  using To4_ParseIP_v4_string [of "[10, 6, 0, 9]"] To4_ParseIP_v4_string [of "[10, 6, 0, 7]"]
    To4_ParseIP_v4_string [of "[10, 8, 0, 5]"]
  by (simp_all add: v4_string_def nat_dec.simps parseIpForNft_def)

lemma ex_backed: "backed (endpoint_map [ex_ep]) ex_svc"
  by (simp add: backed_def dispatched_def is_external_def no_cluster_ip_def endpoint_map_def
      svc_key_def ep_key_def ex_defs)

lemma ex_orphan_facts:
  "dispatched ex_orphan" "\<not> backed (endpoint_map [ex_ep]) ex_orphan"
  by (simp_all add: ex_defs dispatched_def is_external_def no_cluster_ip_def backed_def
      endpoint_map_def svc_key_def ep_key_def)

text \<open>The kernel before the first sync of the witnesses: an old table of the same name with a rule
  in it, and the table of another program.\<close>

definition ex_other_table :: nft_table where
  "ex_other_table = \<lparr>tbl_name = ''libvirt'', tbl_family = TableFamilyIPv4\<rparr>"

definition ex_kernel :: kernel where
  "ex_kernel = [kube_pet_table \<mapsto> [(basic_chain ''stale'', [[Masq]])], ex_other_table \<mapsto> []]"

lemma ex_resolved: "unresolved (fw_ruleset ex_fc (endpoint_map [ex_ep]) (sort_services [ex_svc])) = []"
  by (subst unresolved_ruleset) (simp add: sort_services_def ex_backed)

lemma ex_loaded:
  "load (w_ops (fw_writer ex_fc [ex_ep] [ex_svc])) k =
     Some (k(kube_pet_table \<mapsto> fw_ruleset ex_fc (endpoint_map [ex_ep]) (sort_services [ex_svc])))"
proof -
  have "distinct (map svc_uid (sort_services [ex_svc]))" by (simp add: sort_services_def)
  then show ?thesis by (simp add: fw_writer_facts(2) replaced_def ex_resolved fw_ruleset_merged)
qed

subsection \<open>What BuildConfig configures\<close>

text \<open>C2 (refinement): where the informers list the cluster's objects, \<open>BuildConfig\<close> runs without a
  panic or an error and leaves the table and the chain closed. Loaded into a kernel that holds
  anything before, an older table \<open>kube-pet\<close> included, the operations it queued put exactly the
  promised ruleset in the table \<open>kube-pet\<close> (one chain per service with a cluster IP and endpoints,
  the dispatch, masquerade and hook chains, in that order, each with its rules in order) and touch
  no other table; the kernel refuses them exactly when the ruleset has an undeclared target. Chains
  of the same name are merged, which with unique service UIDs changes nothing. A listing error is
  returned, with nothing queued.\<close>

theorem BuildConfig_refines_ruleset:
  "(\<exists>w. BuildConfig fc (Inr eps) (Inr svcs) (NewNftWriter new_hashing_builder) = Some (w, None)
     \<and> w_table w = None \<and> w_chain w = None
     \<and> (\<forall>k. load (w_ops w) k =
          (if unresolved (fw_ruleset fc (endpoint_map eps) (sort_services svcs)) = []
           then Some (k(\<lparr>tbl_name = ''kube-pet'', tbl_family = TableFamilyIPv4\<rparr> \<mapsto>
             merged (fw_ruleset fc (endpoint_map eps) (sort_services svcs))))
           else None)))
   \<and> (distinct (map svc_uid svcs) \<longrightarrow>
        merged (fw_ruleset fc (endpoint_map eps) (sort_services svcs))
          = fw_ruleset fc (endpoint_map eps) (sort_services svcs))
   \<and> BuildConfig fc (Inl err) lsvcs w0 = Some (w0, Some err)
   \<and> BuildConfig fc (Inr eps) (Inl err) w0 = Some (w0, Some err)"
proof -
  have "distinct (map svc_uid svcs) \<Longrightarrow> distinct (map svc_uid (sort_services svcs))"
    by (simp add: sort_services_def distinct_map inj_on_def)
  then show ?thesis
    using BuildConfig_result [OF hb_ok_new, of fc eps svcs]
    by (auto simp: replaced_def fw_ruleset_merged BuildConfig_def)
qed

theorem BuildConfig_refines_ruleset_witness:
  "\<exists>w k'. BuildConfig ex_fc (Inr [ex_ep]) (Inr [ex_svc]) (NewNftWriter new_hashing_builder)
       = Some (w, None)
     \<and> load (w_ops w) ex_kernel = Some k'
     \<and> k' kube_pet_table = Some (fw_ruleset ex_fc (endpoint_map [ex_ep]) (sort_services [ex_svc]))
     \<and> k' ex_other_table = Some []"
  using BuildConfig_refines_ruleset [of ex_fc "[ex_ep]" "[ex_svc]" "[]" "Inl []" "NewNftWriter new_hashing_builder"]
  by (auto simp: ex_resolved ex_kernel_def kube_pet_table_def ex_other_table_def)

text \<open>C3 (functional): once the kernel has taken the operations of a configuration, a packet for a
  service's cluster IP, of the protocol and port of one of its ports, is sent by either NAT hook of
  the table \<open>kube-pet\<close> to the first backend of that port: its address and its target port, high byte
  first. It holds whatever the kernel held before, where cluster IPs and UIDs identify services and
  protocol and port number identify a service's ports, as the API server guarantees.\<close>

theorem service_packet_reaches_backend:
  assumes "BuildConfig fc (Inr eps) (Inr svcs) (NewNftWriter new_hashing_builder) = Some (w, None)"
    and "load (w_ops w) k = Some k'" and "distinct (map svc_uid svcs)"
    and "hook = ''hook-nat-fwd-in'' \<or> hook = ''hook-nat-local-out''"
    and "svc \<in> set svcs" "dispatched svc" "endpoint_map eps (svc_key svc) = Some ep"
    and "\<And>s. s \<in> set svcs \<Longrightarrow> dispatched s \<Longrightarrow>
        parseIpForNft (svc_cluster_ip s) = parseIpForNft (svc_cluster_ip svc) \<Longrightarrow> s = svc"
    and "port \<in> set (svc_ports svc)" "all_targets ep port = (addr, tgt) # others"
    and "\<And>q. q \<in> set (svc_ports svc) \<Longrightarrow> known_proto (pt_protocol q)"
    and "\<And>q. q \<in> set (svc_ports svc) \<Longrightarrow> pt_protocol q = pt_protocol port \<Longrightarrow>
        (ucast (pt_port q) :: u16) = ucast (pt_port port) \<Longrightarrow> q = port"
    and "20 \<le> length (pk_net p)" "4 \<le> length (pk_trans p)"
    and "pk_daddr p = parseIpForNft (svc_cluster_ip svc)"
    and "pk_proto p = [proto_number (pt_protocol port)]"
    and "pk_dport p = [ucast (drop_bit 8 (ucast (pt_port port) :: u16)),
        ucast (ucast (pt_port port) :: u16)]"
  shows "Option.bind (k' kube_pet_table) (\<lambda>chains. run_chain chains hook p)
    = Some (Dnat (parseIpForNft addr) (Some [ucast (drop_bit 8 tgt), ucast tgt]))"
proof -
  let ?epm = "endpoint_map eps" and ?ss = "sort_services svcs"
  have set: "set ?ss = set svcs" by (simp add: sort_services_def)
  have dport: "pk_dport p = be16 (ucast (pt_port port))" using assms(17) by (simp add: be16_def)
  have uid: "s = svc" if "s \<in> set svcs" "svc_uid s = svc_uid svc" for s
    using that assms(3,5) by (auto simp: distinct_map inj_on_def)
  have "run_chain (fw_ruleset fc ?epm ?ss) hook p
      = Some (Dnat (parseIpForNft addr) (Some (be16 tgt)))"
  proof (rule run_dnat_hook [where svc = svc])
    show "run_rules 14 (chain_map (fw_ruleset fc ?epm ?ss)) p
        (svc_rules svc (the (?epm (svc_key svc)))) = Some (Dnat (parseIpForNft addr) (Some (be16 tgt)))"
      unfolding assms(7) option.sel
      by (rule svc_rules_dnat [OF assms(9,10,11,12,16,14) dport, unfolded fst_conv snd_conv])
  qed (use assms set uid in \<open>auto simp: backed_def\<close>)
  then show ?thesis using loaded_ruleset [OF assms(1-3)] by (simp add: be16_def)
qed

theorem service_packet_reaches_backend_witness:
  "\<exists>w k'. BuildConfig ex_fc (Inr [ex_ep]) (Inr [ex_svc]) (NewNftWriter new_hashing_builder)
       = Some (w, None)
     \<and> load (w_ops w) ex_kernel = Some k'
     \<and> Option.bind (k' kube_pet_table) (\<lambda>chains. run_chain chains ''hook-nat-fwd-in'' ex_packet)
       = Some (Dnat [10, 8, 0, 5] (Some [31, 144]))"
proof -
  have "Option.bind ((ex_kernel(kube_pet_table \<mapsto>
        fw_ruleset ex_fc (endpoint_map [ex_ep]) (sort_services [ex_svc]))) kube_pet_table)
      (\<lambda>chains. run_chain chains ''hook-nat-fwd-in'' ex_packet)
      = Some (Dnat (parseIpForNft ''10.8.0.5'')
          (Some [ucast (drop_bit 8 (8080 :: u16)), ucast (8080 :: u16)]))"
    by (rule service_packet_reaches_backend [where svc = ex_svc and port = ex_port and ep = ex_ep
          and others = "[]", OF BuildConfig_writer ex_loaded])
       (simp_all add: ex_defs endpoint_map_def svc_key_def ep_key_def all_targets_def
          subset_target_def known_proto_def pk_daddr_def pk_proto_def pk_dport_def
          proto_number_def ex_parse dispatched_def is_external_def no_cluster_ip_def)
  then show ?thesis
    using BuildConfig_writer [of ex_fc "[ex_ep]" "[ex_svc]"] ex_loaded [of ex_kernel]
    by (auto simp: ex_parse)
qed

text \<open>C9 (safety): once the kernel has taken the operations of a configuration, the filter hooks of
  the table \<open>kube-pet\<close> reject exactly the packets that are still addressed to the cluster IP of some
  dispatched service when they get there (no DNAT rule took them), with the ICMP code for an
  unreachable port, and let every other packet fall through.\<close>

theorem filter_rejects_exactly_cluster_ips:
  assumes "BuildConfig fc (Inr eps) (Inr svcs) (NewNftWriter new_hashing_builder) = Some (w, None)"
    and "load (w_ops w) k = Some k'" and "distinct (map svc_uid svcs)"
    and "hook = ''hook-filter-forward'' \<or> hook = ''hook-filter-local-out''"
    and "20 \<le> length (pk_net p)"
  shows "Option.bind (k' kube_pet_table) (\<lambda>chains. run_chain chains hook p) =
    Some (if \<exists>s \<in> set svcs. dispatched s \<and> pk_daddr p = parseIpForNft (svc_cluster_ip s)
          then Rejected 0 3 else Fall)"
proof -
  have "run_chain (fw_ruleset fc (endpoint_map eps) (sort_services svcs)) hook p =
    Some (if pk_daddr p \<in> (\<lambda>s. parseIpForNft (svc_cluster_ip s)) ` {s \<in> set svcs. dispatched s}
          then Rejected 0 3 else Fall)"
    using run_filter_hook [of hook p fc "endpoint_map eps" "sort_services svcs"] assms(4,5)
    by (simp add: sort_services_def)
  then show ?thesis using loaded_ruleset [OF assms(1-3)] by (auto split: if_splits)
qed

theorem filter_rejects_exactly_cluster_ips_witness:
  "\<exists>w k'. BuildConfig ex_fc (Inr [ex_ep]) (Inr [ex_svc]) (NewNftWriter new_hashing_builder)
       = Some (w, None)
     \<and> load (w_ops w) ex_kernel = Some k'
     \<and> Option.bind (k' kube_pet_table) (\<lambda>chains. run_chain chains ''hook-filter-forward'' ex_packet)
       = Some (Rejected 0 3)"
  using filter_rejects_exactly_cluster_ips [OF BuildConfig_writer ex_loaded, where
      hook = "''hook-filter-forward''" and p = ex_packet and k = ex_kernel]
    BuildConfig_writer [of ex_fc "[ex_ep]" "[ex_svc]"] ex_loaded [of ex_kernel]
  by (auto simp: ex_defs dispatched_def is_external_def no_cluster_ip_def pk_daddr_def ex_parse)

text \<open>C10 (safety): the jump and goto targets that the operations of a configuration use and do not
  declare first are exactly the chains of the services that have a cluster IP but no endpoints
  object (and whose chain no other service declares): the loop that writes the dispatch rules lacks
  the endpoint check of the loop that writes the chains. So the kernel refuses the batch exactly
  when there is such a service, whatever it held before.\<close>

theorem unresolved_targets_exact:
  assumes "BuildConfig fc (Inr eps) (Inr svcs) (NewNftWriter new_hashing_builder) = Some (w, None)"
  shows "(\<exists>t cs. replay (w_ops w) = Some (Some t, cs) \<and> set (unresolved cs) =
      {svc_chain_name svc | svc. svc \<in> set svcs \<and> dispatched svc
         \<and> (\<forall>s \<in> set svcs. svc_chain_name s = svc_chain_name svc \<longrightarrow> \<not> backed (endpoint_map eps) s)})
    \<and> (load (w_ops w) k = None \<longleftrightarrow>
        (\<exists>svc \<in> set svcs. dispatched svc
         \<and> (\<forall>s \<in> set svcs. svc_chain_name s = svc_chain_name svc \<longrightarrow> \<not> backed (endpoint_map eps) s)))"
proof -
  let ?rules = "fw_ruleset fc (endpoint_map eps) (sort_services svcs)"
  have w: "w = fw_writer fc eps svcs" using assms by (simp add: BuildConfig_writer)
  have "set (unresolved ?rules) = svc_chain_name ` {svc \<in> set svcs. dispatched svc}
      - svc_chain_name ` {s \<in> set svcs. backed (endpoint_map eps) s}"
    unfolding unresolved_ruleset by (auto simp: sort_services_def)
  then have un: "set (unresolved ?rules) = {svc_chain_name svc | svc. svc \<in> set svcs \<and> dispatched svc
      \<and> (\<forall>s \<in> set svcs. svc_chain_name s = svc_chain_name svc \<longrightarrow> \<not> backed (endpoint_map eps) s)}"
    by (auto simp: image_iff) (metis+)?
  have "load (w_ops w) k = None \<longleftrightarrow> set (unresolved ?rules) \<noteq> {}"
    by (simp add: w fw_writer_facts(2) replaced_def)
  also have "\<dots> \<longleftrightarrow> (\<exists>svc \<in> set svcs. dispatched svc
      \<and> (\<forall>s \<in> set svcs. svc_chain_name s = svc_chain_name svc \<longrightarrow> \<not> backed (endpoint_map eps) s))"
    unfolding un by auto
  finally show ?thesis using un by (simp add: w fw_writer_facts(1) kube_pet_table_def [symmetric])
qed

theorem unresolved_targets_exact_witness:
  "load (w_ops (fw_writer ex_fc [ex_ep] [ex_svc, ex_orphan])) ex_kernel = None"
proof -
  have "\<exists>svc \<in> set [ex_svc, ex_orphan]. dispatched svc \<and> (\<forall>s \<in> set [ex_svc, ex_orphan].
      svc_chain_name s = svc_chain_name svc \<longrightarrow> \<not> backed (endpoint_map [ex_ep]) s)"
    using ex_orphan_facts by (simp add: svc_chain_name_def ex_svc_def ex_orphan_def)
  then show ?thesis
    using unresolved_targets_exact [OF BuildConfig_writer, of ex_fc "[ex_ep]" "[ex_svc, ex_orphan]"
      ex_kernel] by blast
qed

text \<open>C25 (invariant): the order in which the informer caches list services and endpoints has no
  influence: permuted lists give the same operations and the same text, hence the same hash, where
  namespace and name identify the objects. So a re-listing never causes a reload.\<close>

theorem BuildConfig_order_independent:
  assumes "mset eps = mset eps'" "mset svcs = mset svcs'"
    and "distinct (map ep_key eps)" "distinct (map svc_key svcs)"
  shows "BuildConfig fc (Inr eps) (Inr svcs) w = BuildConfig fc (Inr eps') (Inr svcs') w"
  using endpoint_map_perm [OF assms(1,3)] sort_services_perm [OF assms(2,4)]
  by (simp add: BuildConfig_def)

theorem BuildConfig_order_independent_witness:
  "BuildConfig ex_fc (Inr [ex_ep]) (Inr [ex_svc, ex_orphan]) (NewNftWriter new_hashing_builder)
   = BuildConfig ex_fc (Inr [ex_ep]) (Inr [ex_orphan, ex_svc]) (NewNftWriter new_hashing_builder)"
  by (rule BuildConfig_order_independent) (simp_all add: ex_defs svc_key_def)

subsection \<open>Synchronisation with the kernel\<close>

text \<open>C22 (functional): what one \<open>Sync\<close> does. With the recorded hash equal to the hash of the current
  text it sends nothing and changes nothing; otherwise it flushes the operations of the current
  configuration once, and records the new hash exactly when the kernel took them (success, or the
  receive-buffer error that comes after the update), so a refused update is sent again next time
  and an accepted one is not.\<close>

theorem Sync_outcome:
  "Sync flush (Inr eps) (Inr svcs) fc =
     Some (if fc_latest_hash fc = text_hash (fw_text fc eps svcs) then (fc, None)
           else (if accepted (flush (w_ops (fw_writer fc eps svcs)))
                 then fc\<lparr>fc_latest_hash := text_hash (fw_text fc eps svcs)\<rparr> else fc,
                 Some (w_ops (fw_writer fc eps svcs))))
   \<and> (accepted (flush (w_ops (fw_writer fc eps svcs))) \<longrightarrow>
        (\<forall>fc' sent flush'. Sync flush (Inr eps) (Inr svcs) fc = Some (fc', sent) \<longrightarrow>
           Sync flush' (Inr eps) (Inr svcs) fc' = Some (fc', None)))"
  by (auto simp: Sync_eq split: if_splits)

theorem Sync_outcome_witness:
  "Sync (\<lambda>_. None) (Inr [ex_ep]) (Inr [ex_svc]) ex_fc =
     Some (ex_fc\<lparr>fc_latest_hash := text_hash (fw_text ex_fc [ex_ep] [ex_svc])\<rparr>,
       Some (w_ops (fw_writer ex_fc [ex_ep] [ex_svc])))"
proof -
  have "fc_latest_hash ex_fc \<noteq> text_hash (fw_text ex_fc [ex_ep] [ex_svc])"
    by (simp add: ex_fc_def NewFirewallController_def text_hash_def be32_def)
  then show ?thesis
    using Sync_outcome [of "\<lambda>_. None" "[ex_ep]" "[ex_svc]" ex_fc] by (simp add: accepted_def)
qed

text \<open>C26 (safety): one service with a cluster IP and no endpoints object stops all firewall updates.
  Where the kernel refuses a batch with an undeclared target, as nftables does, every \<open>Sync\<close> sends
  the batch, records nothing and leaves the old ruleset in place.\<close>

theorem missing_endpoints_block_updates:
  assumes "svc \<in> set svcs" "dispatched svc" "endpoint_map eps (svc_key svc) = None"
    and "\<And>s. s \<in> set svcs \<Longrightarrow> svc_uid s = svc_uid svc \<Longrightarrow> s = svc"
    and "\<And>ops t cs. replay ops = Some (t, cs) \<Longrightarrow> unresolved cs \<noteq> [] \<Longrightarrow> flush ops = Some err"
    and "err \<noteq> enobufs_error" "fc_latest_hash fc \<noteq> text_hash (fw_text fc eps svcs)"
  shows "Sync flush (Inr eps) (Inr svcs) fc = Some (fc, Some (w_ops (fw_writer fc eps svcs)))"
proof -
  have "\<not> backed (endpoint_map eps) s" if "s \<in> set svcs" "svc_chain_name s = svc_chain_name svc" for s
  proof -
    have "s = svc" using that by (intro assms(4)) (simp_all add: svc_chain_name_def)
    then show ?thesis using assms(3) by (simp add: backed_def)
  qed
  then have "svc_chain_name svc \<in> set (unresolved (fw_ruleset fc (endpoint_map eps) (sort_services svcs)))"
    unfolding unresolved_ruleset using assms(1,2) by (auto simp: sort_services_def)
  then have "flush (w_ops (fw_writer fc eps svcs)) = Some err"
    by (intro assms(5) [OF fw_writer_facts(1)]) auto
  with assms(6,7) show ?thesis by (simp add: Sync_eq accepted_def)
qed

text \<open>The refusing kernel of the witness.\<close>

definition ex_flush :: "nft_op list \<Rightarrow> string option" where
  "ex_flush ops = (case replay ops of
     Some (_, cs) \<Rightarrow> if unresolved cs \<noteq> [] then Some ''no such file or directory'' else None
   | None \<Rightarrow> None)"

theorem missing_endpoints_block_updates_witness:
  "Sync ex_flush (Inr [ex_ep]) (Inr [ex_svc, ex_orphan]) ex_fc
     = Some (ex_fc, Some (w_ops (fw_writer ex_fc [ex_ep] [ex_svc, ex_orphan])))"
proof (rule missing_endpoints_block_updates [where svc = ex_orphan])
  show "fc_latest_hash ex_fc \<noteq> text_hash (fw_text ex_fc [ex_ep] [ex_svc, ex_orphan])"
    by (simp add: ex_fc_def NewFirewallController_def text_hash_def be32_def)
  show "ex_flush ops = Some ''no such file or directory''"
    if "replay ops = Some (t, cs)" "unresolved cs \<noteq> []" for ops t cs
    using that by (simp add: ex_flush_def)
qed (auto simp: ex_defs dispatched_def is_external_def no_cluster_ip_def endpoint_map_def
      svc_key_def ep_key_def enobufs_error_def)

text \<open>The controller as a state machine: the cluster changes at any time, a sync runs at any time
  and meets any reply of the kernel. \<open>sys_installed\<close> is the text of the last configuration that the
  kernel took.\<close>

record fw_sys =
  sys_fc :: firewall
  sys_eps :: "endpoints list"
  sys_svcs :: "service list"
  sys_installed :: "string option"

inductive fw_step :: "fw_sys \<Rightarrow> fw_sys \<Rightarrow> bool" where
  cluster_changes: "fw_step s (s\<lparr>sys_eps := eps, sys_svcs := svcs\<rparr>)"
| sync_runs: "Sync (\<lambda>_. reply) (Inr (sys_eps s)) (Inr (sys_svcs s)) (sys_fc s) = Some (fc', sent) \<Longrightarrow>
    fw_step s (s\<lparr>sys_fc := fc', sys_installed :=
      (if sent \<noteq> None \<and> accepted reply then Some (fw_text (sys_fc s) (sys_eps s) (sys_svcs s))
       else sys_installed s)\<rparr>)"

inductive fw_reachable :: "fw_sys \<Rightarrow> bool" where
  boot: "fw_reachable \<lparr>sys_fc = NewFirewallController n i ip nets, sys_eps = eps, sys_svcs = svcs,
           sys_installed = None\<rparr>"
| next_state: "fw_reachable s \<Longrightarrow> fw_step s t \<Longrightarrow> fw_reachable t"

inductive_cases fw_stepE: "fw_step s t"

definition fw_inv :: "fw_sys \<Rightarrow> bool" where
  "fw_inv s \<longleftrightarrow> fc_latest_hash (sys_fc s) =
     (case sys_installed s of None \<Rightarrow> [] | Some text \<Rightarrow> text_hash text)"

lemma fw_step_inv: "fw_step s t \<Longrightarrow> fw_inv s \<Longrightarrow> fw_inv t"
  by (erule fw_stepE) (auto simp: fw_inv_def Sync_eq split: if_splits)

lemma fw_reachable_inv: "fw_reachable s \<Longrightarrow> fw_inv s"
  by (induction rule: fw_reachable.induct)
     (auto simp: fw_inv_def NewFirewallController_def intro: fw_step_inv [unfolded fw_inv_def])

text \<open>C23 (invariant): in every reachable state the recorded hash is that of the installed
  configuration (and empty before the first); and whenever a sync meets a kernel that accepts, the
  configuration installed afterwards has the hash of the current one: it is the current one, unless
  an older text with the same 32-bit hash was installed already.\<close>

theorem installed_matches_recorded_hash:
  assumes "fw_reachable s"
  shows "fc_latest_hash (sys_fc s) =
      (case sys_installed s of None \<Rightarrow> [] | Some text \<Rightarrow> text_hash text)
    \<and> (\<forall>reply fc' sent. accepted reply \<longrightarrow>
        Sync (\<lambda>_. reply) (Inr (sys_eps s)) (Inr (sys_svcs s)) (sys_fc s) = Some (fc', sent) \<longrightarrow>
        (if sent = None then \<exists>text. sys_installed s = Some text
             \<and> text_hash text = text_hash (fw_text (sys_fc s) (sys_eps s) (sys_svcs s))
         else sent = Some (w_ops (fw_writer (sys_fc s) (sys_eps s) (sys_svcs s)))))"
proof -
  have inv: "fc_latest_hash (sys_fc s) =
      (case sys_installed s of None \<Rightarrow> [] | Some text \<Rightarrow> text_hash text)"
    using fw_reachable_inv [OF assms] by (simp add: fw_inv_def)
  have ne: "text_hash u \<noteq> []" "[] \<noteq> text_hash u" for u
    by (simp_all add: text_hash_def be32_def)
  from inv show ?thesis
    by (cases "sys_installed s") (auto simp: Sync_eq ne split: if_splits)
qed

text \<open>The witness: the state after the first sync met an accepting kernel.\<close>

theorem installed_matches_recorded_hash_witness:
  "\<exists>s. fw_reachable s \<and> sys_installed s = Some (fw_text ex_fc [ex_ep] [ex_svc])
     \<and> fc_latest_hash (sys_fc s) = text_hash (fw_text ex_fc [ex_ep] [ex_svc])"
proof -
  let ?s0 = "\<lparr>sys_fc = ex_fc, sys_eps = [ex_ep], sys_svcs = [ex_svc], sys_installed = None\<rparr>"
  let ?fc = "ex_fc\<lparr>fc_latest_hash := text_hash (fw_text ex_fc [ex_ep] [ex_svc])\<rparr>"
  let ?s1 = "\<lparr>sys_fc = ?fc, sys_eps = [ex_ep], sys_svcs = [ex_svc],
      sys_installed = Some (fw_text ex_fc [ex_ep] [ex_svc])\<rparr>"
  have "fc_latest_hash ex_fc \<noteq> text_hash (fw_text ex_fc [ex_ep] [ex_svc])"
    by (simp add: ex_fc_def NewFirewallController_def text_hash_def be32_def)
  then have "Sync (\<lambda>_. None) (Inr (sys_eps ?s0)) (Inr (sys_svcs ?s0)) (sys_fc ?s0)
      = Some (?fc, Some (w_ops (fw_writer ex_fc [ex_ep] [ex_svc])))"
    by (simp add: Sync_eq accepted_def)
  from fw_step.sync_runs [OF this] have "fw_step ?s0 ?s1" by (simp add: accepted_def)
  moreover have "fw_reachable ?s0" unfolding ex_fc_def by (rule fw_reachable.boot)
  ultimately have "fw_reachable ?s1" by (rule fw_reachable.next_state [rotated])
  from installed_matches_recorded_hash [OF this] this show ?thesis by (intro exI [of _ ?s1]) simp
qed

subsection \<open>Rule comments\<close>

text \<open>The comment record of a rule is a type byte 0, a length byte that counts
  exactly the bytes after it (never more than 128, so it does not wrap), the comment cut to 127
  bytes, and a final 0; the comment can be read back from it.\<close>

theorem makeRuleComment_layout:
  "makeRuleComment s = [0, of_nat (min (length s) 127 + 1)] @ bytes_of (take 127 s) @ [0]
   \<and> unat (makeRuleComment s ! 1) = length (drop 2 (makeRuleComment s))
   \<and> length (makeRuleComment s) \<le> 130
   \<and> map char_of_byte (butlast (drop 2 (makeRuleComment s))) = take 127 s"
proof -
  have eq: "makeRuleComment s = [0, of_nat (min (length s) 127 + 1)] @ bytes_of (take 127 s) @ [0]"
  proof (cases "length s > 127")
    case True
    then show ?thesis
      by (simp add: makeRuleComment_def maxCommentLength_def min_def eval_nat_numeral bytes_of_def)
  next
    case False
    then show ?thesis
      by (simp add: makeRuleComment_def maxCommentLength_def min_def bytes_of_def Let_def
          numeral_3_eq_3)
  qed
  have "unat (of_nat (Suc (min (length s) 127)) :: u8) = Suc (min (length s) 127)"
    unfolding unat_of_nat by simp
  then have "unat (1 + of_nat (min (length s) 127) :: u8) = Suc (min (length s) 127)"
    by (simp only: of_nat_Suc)
  then show ?thesis unfolding eq
    by (simp add: bytes_of_def butlast_append map_idI comp_def)
qed

end
