(* ===== verification/Go_Monad.thy ===== *)
theory Go_Monad
  imports Pet_Prelude
begin

text \<open>
  Effectful Go code as explicit state passing. A call on a state gives a result and the next state;
  the result is a value (\<open>Ok\<close>), a returned error (\<open>Err\<close>) or a run-time panic (\<open>Panic\<close>: nil
  dereference, index out of range, division by zero). \<open>bindR\<close> is the idiom
  \<^verbatim>\<open>x, err := f(); if err != nil { return err }\<close>, \<open>tryR\<close> makes the error available to code that
  looks at it, \<open>ignoreR\<close> drops it. The locale \<open>frame_relation\<close> proves by
  composition that an action keeps a relation between the states before and after it.
\<close>


datatype ('e, 'a) res = Ok 'a | Err 'e | Panic

type_synonym ('s, 'e, 'a) act = "'s \<Rightarrow> ('e, 'a) res \<times> 's"

definition ret :: "'a \<Rightarrow> ('s, 'e, 'a) act" where
  "ret a = (\<lambda>s. (Ok a, s))"

definition failR :: "'e \<Rightarrow> ('s, 'e, 'a) act" where
  "failR e = (\<lambda>s. (Err e, s))"

definition panicR :: "('s, 'e, 'a) act" where
  "panicR = (\<lambda>s. (Panic, s))"

definition modifyR :: "('s \<Rightarrow> 's) \<Rightarrow> ('s, 'e, unit) act" where
  "modifyR f = (\<lambda>s. (Ok (), f s))"

definition getR :: "('s \<Rightarrow> 'a) \<Rightarrow> ('s, 'e, 'a) act" where
  "getR f = (\<lambda>s. (Ok (f s), s))"

definition bindR :: "('s, 'e, 'a) act \<Rightarrow> ('a \<Rightarrow> ('s, 'e, 'b) act) \<Rightarrow> ('s, 'e, 'b) act" where
  "bindR m k = (\<lambda>s. case m s of
     (Ok a, s') \<Rightarrow> k a s'
   | (Err e, s') \<Rightarrow> (Err e, s')
   | (Panic, s') \<Rightarrow> (Panic, s'))"

definition thenR :: "('s, 'e, 'a) act \<Rightarrow> ('s, 'e, 'b) act \<Rightarrow> ('s, 'e, 'b) act" where
  "thenR m n = bindR m (\<lambda>_. n)"

definition tryR :: "('s, 'e, 'a) act \<Rightarrow> ('s, 'e, 'e + 'a) act" where
  "tryR m = (\<lambda>s. case m s of
     (Ok a, s') \<Rightarrow> (Ok (Inr a), s')
   | (Err e, s') \<Rightarrow> (Ok (Inl e), s')
   | (Panic, s') \<Rightarrow> (Panic, s'))"

definition ignoreR :: "('s, 'e, 'a) act \<Rightarrow> ('s, 'e, unit) act" where
  "ignoreR m = bindR (tryR m) (\<lambda>_. ret ())"

text \<open>A range loop whose body may return early, with an accumulator for the locals it updates.\<close>

fun foldR :: "('x \<Rightarrow> 'a \<Rightarrow> ('s, 'e, 'a) act) \<Rightarrow> 'x list \<Rightarrow> 'a \<Rightarrow> ('s, 'e, 'a) act" where
  "foldR f [] a = ret a"
| "foldR f (x # xs) a = bindR (f x a) (foldR f xs)"

definition forR :: "('x \<Rightarrow> ('s, 'e, unit) act) \<Rightarrow> 'x list \<Rightarrow> ('s, 'e, unit) act" where
  "forR f xs = foldR (\<lambda>x _. f x) xs ()"

text \<open>A pointer that is dereferenced: nil panics.\<close>

definition derefR :: "'a option \<Rightarrow> ('s, 'e, 'a) act" where
  "derefR p = (case p of None \<Rightarrow> panicR | Some a \<Rightarrow> ret a)"

definition liftE :: "'e + 'a \<Rightarrow> ('s, 'e, 'a) act" where
  "liftE r = (case r of Inl e \<Rightarrow> failR e | Inr a \<Rightarrow> ret a)"

lemma act_simps [simp]:
  "ret a s = (Ok a, s)" "failR e s = (Err e, s)" "panicR s = (Panic, s)"
  "modifyR f s = (Ok (), f s)" "getR g s = (Ok (g s), s)"
  by (simp_all add: ret_def failR_def panicR_def modifyR_def getR_def)

lemma bindR_simps [simp]:
  "m s = (Ok a, s') \<Longrightarrow> bindR m k s = k a s'"
  "m s = (Err e, s') \<Longrightarrow> bindR m k s = (Err e, s')"
  "m s = (Panic, s') \<Longrightarrow> bindR m k s = (Panic, s')"
  by (simp_all add: bindR_def)

lemma bindR_ret_simps [simp]:
  "bindR (ret a) k = k a" "bindR (failR e) k = failR e" "bindR panicR k = panicR"
  by (simp_all add: bindR_def fun_eq_iff)

lemma bindR_modify [simp]: "bindR (modifyR f) k s = k () (f s)" "bindR (getR g) k s = k (g s) s"
  by (simp_all add: bindR_def)

lemma bindR_assoc: "bindR (bindR m k) l = bindR m (\<lambda>a. bindR (k a) l)"
  by (auto simp: bindR_def fun_eq_iff split: prod.split res.split)

lemma bindR_OkE:
  assumes "bindR m k s = (Ok b, t)"
  obtains a s' where "m s = (Ok a, s')" "k a s' = (Ok b, t)"
  using assms by (auto simp: bindR_def split: prod.splits res.splits)

lemma bindR_cases:
  assumes "bindR m k s = (r, t)"
  obtains (goes) a s' where "m s = (Ok a, s')" "k a s' = (r, t)"
  | (stops) "t = snd (m s)" "\<And>a. fst (m s) \<noteq> Ok a" "\<And>a. r \<noteq> Ok a"
proof (cases "m s")
  case (Pair x s')
  with assms goes stops show ?thesis by (cases x) auto
qed

lemma thenR_OkE:
  assumes "thenR m n s = (Ok b, t)"
  obtains a s' where "m s = (Ok a, s')" "n s' = (Ok b, t)"
  using assms unfolding thenR_def by (rule bindR_OkE)

lemma thenR_simps [simp]:
  "m s = (Ok a, s') \<Longrightarrow> thenR m n s = n s'"
  "m s = (Err e, s') \<Longrightarrow> thenR m n s = (Err e, s')"
  "m s = (Panic, s') \<Longrightarrow> thenR m n s = (Panic, s')"
  by (simp_all add: thenR_def)

lemma tryR_simps [simp]:
  "m s = (Ok a, s') \<Longrightarrow> tryR m s = (Ok (Inr a), s')"
  "m s = (Err e, s') \<Longrightarrow> tryR m s = (Ok (Inl e), s')"
  "m s = (Panic, s') \<Longrightarrow> tryR m s = (Panic, s')"
  by (simp_all add: tryR_def)

lemma forR_simps [simp]:
  "forR f [] s = (Ok (), s)"
  "forR f (x # xs) = thenR (f x) (forR f xs)"
  by (simp_all add: forR_def thenR_def)

text \<open>An invariant of the accumulator of a loop.\<close>

lemma foldR_invariant:
  assumes "foldR f xs a s = (Ok b, t)" "P a"
    and "\<And>x a s b t. x \<in> set xs \<Longrightarrow> P a \<Longrightarrow> f x a s = (Ok b, t) \<Longrightarrow> P b"
  shows "P b"
  using assms
proof (induction xs arbitrary: a s)
  case Nil
  then show ?case by simp
next
  case (Cons x xs)
  from Cons.prems(1) obtain a' s' where step: "f x a s = (Ok a', s')" "foldR f xs a' s' = (Ok b, t)"
    by (auto elim: bindR_OkE)
  show ?case
  proof (rule Cons.IH [OF step(2)])
    show "P a'" using Cons.prems(3) [OF _ Cons.prems(2) step(1)] by simp
    show "P b'" if "y \<in> set xs" "P c" "f y c u = (Ok b', v)" for y c u b' v
      using Cons.prems(3) [OF _ that(2,3)] that(1) by simp
  qed
qed

subsection \<open>What an action returns\<close>

text \<open>\<open>yields Q m\<close>: every value that \<open>m\<close> returns satisfies \<open>Q\<close>.\<close>

definition yields :: "('a \<Rightarrow> bool) \<Rightarrow> ('s, 'e, 'a) act \<Rightarrow> bool" where
  "yields Q m \<longleftrightarrow> (\<forall>s a t. m s = (Ok a, t) \<longrightarrow> Q a)"

lemma yieldsD: "yields Q m \<Longrightarrow> m s = (Ok a, t) \<Longrightarrow> Q a"
  unfolding yields_def by blast

lemma yields_ret: "Q a \<Longrightarrow> yields Q (ret a)" "yields Q (failR e)" "yields Q panicR"
  by (simp_all add: yields_def)

lemma yields_bind: "(\<And>a. yields Q (k a)) \<Longrightarrow> yields Q (bindR m k)"
  unfolding yields_def by (blast elim: bindR_OkE)

lemma yields_then: "yields Q k \<Longrightarrow> yields Q (thenR m k)"
  unfolding thenR_def by (rule yields_bind)

lemma yields_sum:
  "(\<And>e. r = Inl e \<Longrightarrow> yields Q (m e)) \<Longrightarrow> (\<And>a. r = Inr a \<Longrightarrow> yields Q (k a)) \<Longrightarrow>
   yields Q (case r of Inl e \<Rightarrow> m e | Inr a \<Rightarrow> k a)"
  by (cases r) simp_all

lemmas yields_intros = yields_ret yields_bind yields_then yields_sum

subsection \<open>Relations that every action of a piece of code keeps\<close>

text \<open>\<open>keeps R m\<close>: whatever \<open>m\<close> does, the states before and after it are related by the
  reflexive and transitive relation \<open>R\<close>.\<close>

definition keeps :: "('s \<Rightarrow> 's \<Rightarrow> bool) \<Rightarrow> ('s, 'e, 'a) act \<Rightarrow> bool" where
  "keeps R m \<longleftrightarrow> (\<forall>s. R s (snd (m s)))"

locale frame_relation =
  fixes R :: "'s \<Rightarrow> 's \<Rightarrow> bool"
  assumes R_refl: "R s s"
    and R_trans: "R s t \<Longrightarrow> R t u \<Longrightarrow> R s u"
begin

lemma keeps_ret: "keeps R (ret a)" "keeps R (failR e)" "keeps R panicR" "keeps R (getR g)"
  "keeps R (derefR p)" "keeps R (liftE r)"
  by (simp_all add: keeps_def R_refl derefR_def liftE_def split: option.split sum.split)

lemma keeps_bind: "keeps R m \<Longrightarrow> (\<And>a. keeps R (k a)) \<Longrightarrow> keeps R (bindR m k)"
  unfolding keeps_def bindR_def
  by (auto split: prod.split res.split) (metis R_trans snd_conv)+

lemma keeps_bind_result:
  assumes "keeps R m" "\<And>s a s'. m s = (Ok a, s') \<Longrightarrow> keeps R (k a)"
  shows "keeps R (bindR m k)"
proof -
  have "R s (snd (bindR m k s))" for s
  proof (cases "m s")
    case (Pair r s')
    have "R s s'" using assms(1) Pair by (auto simp: keeps_def dest: spec [of _ s])
    then show ?thesis using assms(2) R_trans Pair by (cases r) (fastforce simp: keeps_def)+
  qed
  then show ?thesis by (simp add: keeps_def)
qed

lemma keeps_then: "keeps R m \<Longrightarrow> keeps R n \<Longrightarrow> keeps R (thenR m n)"
  unfolding thenR_def by (intro keeps_bind)

lemma keeps_try: "keeps R m \<Longrightarrow> keeps R (tryR m)"
  unfolding keeps_def tryR_def by (auto split: prod.split res.split) (metis snd_conv)+

lemma keeps_ignore: "keeps R m \<Longrightarrow> keeps R (ignoreR m)"
  unfolding ignoreR_def by (intro keeps_bind keeps_try keeps_ret)

lemma keeps_fold: "(\<And>x a. x \<in> set xs \<Longrightarrow> keeps R (f x a)) \<Longrightarrow> keeps R (foldR f xs a)"
  by (induction xs arbitrary: a) (auto intro: keeps_bind keeps_ret)

lemma keeps_for: "(\<And>x. x \<in> set xs \<Longrightarrow> keeps R (f x)) \<Longrightarrow> keeps R (forR f xs)"
  unfolding forR_def by (intro keeps_fold)

lemma keeps_modify: "(\<And>s. R s (f s)) \<Longrightarrow> keeps R (modifyR f)"
  by (simp add: keeps_def)

lemma keeps_if: "(b \<Longrightarrow> keeps R m) \<Longrightarrow> (\<not> b \<Longrightarrow> keeps R n) \<Longrightarrow> keeps R (if b then m else n)"
  by simp

lemma keeps_option:
  "(p = None \<Longrightarrow> keeps R m) \<Longrightarrow> (\<And>a. p = Some a \<Longrightarrow> keeps R (n a)) \<Longrightarrow>
   keeps R (case p of None \<Rightarrow> m | Some a \<Rightarrow> n a)"
  by (cases p) simp_all

lemma keeps_sum:
  "(\<And>e. r = Inl e \<Longrightarrow> keeps R (m e)) \<Longrightarrow> (\<And>a. r = Inr a \<Longrightarrow> keeps R (n a)) \<Longrightarrow>
   keeps R (case r of Inl e \<Rightarrow> m e | Inr a \<Rightarrow> n a)"
  by (cases r) simp_all

lemma keeps_prod: "(\<And>a b. p = (a, b) \<Longrightarrow> keeps R (m a b)) \<Longrightarrow> keeps R (case p of (a, b) \<Rightarrow> m a b)"
  by (cases p) simp

lemma keeps_prod_app:
  "(\<And>a b. p = (a, b) \<Longrightarrow> keeps R (m a b c)) \<Longrightarrow> keeps R ((case p of (a, b) \<Rightarrow> m a b) c)"
  by (cases p) simp

lemmas keeps_intros = keeps_ret keeps_bind keeps_then keeps_try keeps_ignore keeps_fold keeps_for
  keeps_if keeps_option keeps_sum keeps_prod keeps_prod_app

end

lemma keepsD: "keeps R m \<Longrightarrow> m s = (r, t) \<Longrightarrow> R s t"
  unfolding keeps_def by (metis snd_conv)

text \<open>Partial-correctness triples for the runs that return a value, with their rules.\<close>

definition triple :: "('s \<Rightarrow> bool) \<Rightarrow> ('s, 'e, 'a) act \<Rightarrow> ('a \<Rightarrow> 's \<Rightarrow> bool) \<Rightarrow> bool" where
  "triple P m Q \<longleftrightarrow> (\<forall>s a t. P s \<longrightarrow> m s = (Ok a, t) \<longrightarrow> Q a t)"

lemma tripleD: "triple P m Q \<Longrightarrow> P s \<Longrightarrow> m s = (Ok a, t) \<Longrightarrow> Q a t"
  unfolding triple_def by blast

lemma triple_bind: "triple P m Q \<Longrightarrow> (\<And>a. triple (Q a) (k a) R) \<Longrightarrow> triple P (bindR m k) R"
  unfolding triple_def by (blast elim: bindR_OkE)

lemma triple_then: "triple P m (\<lambda>_. Q) \<Longrightarrow> triple Q k R \<Longrightarrow> triple P (thenR m k) R"
  unfolding thenR_def by (rule triple_bind)

lemma triple_ret: "(\<And>s. P s \<Longrightarrow> Q a s) \<Longrightarrow> triple P (ret a) Q"
  by (simp add: triple_def)

lemma triple_weaken: "triple P m Q \<Longrightarrow> (\<And>s. P' s \<Longrightarrow> P s) \<Longrightarrow> (\<And>a s. Q a s \<Longrightarrow> Q' a s) \<Longrightarrow> triple P' m Q'"
  unfolding triple_def by blast

lemma triple_frame: "keeps (\<lambda>s t. f s = f t) m \<Longrightarrow> triple (\<lambda>s. P (f s)) m (\<lambda>_ s. P (f s))"
  unfolding triple_def by (auto dest: keepsD)

lemma triple_inv: "keeps (\<lambda>s t. P s \<longrightarrow> P t) m \<Longrightarrow> triple P m (\<lambda>_. P)"
  unfolding triple_def by (auto dest: keepsD)

lemma triple_yields: "triple P m (\<lambda>_. Q) \<Longrightarrow> yields R m \<Longrightarrow> triple P m (\<lambda>a s. Q s \<and> R a)"
  unfolding triple_def yields_def by blast

text \<open>Two relations every state type has: the preservation of a predicate, and that of a
  component.\<close>

interpretation inv_frame: frame_relation "\<lambda>s t. P s \<longrightarrow> P t" for P :: "'s \<Rightarrow> bool"
  by unfold_locales auto

interpretation same_frame: frame_relation "\<lambda>s t. f s = f t" for f :: "'s \<Rightarrow> 'c"
  by unfold_locales auto

end
