(* ===== verification/Go_Json.thy ===== *)
theory Go_Json
  imports Pet_Prelude
begin

text \<open>
  What the program uses of Go's \<^verbatim>\<open>encoding/json\<close>, on JSON values: struct fields with their tags
  (\<open>omitempty\<close>, promoted fields of embedded structs), and decoding into a struct that already has
  values (unknown keys are skipped, keys match exactly or up to case, \<open>null\<close> leaves a field alone,
  a value of the wrong type is remembered as the error and the rest is still decoded). Go maps are
  association lists with distinct keys. A number with a fraction or an exponent keeps its text. The
  text syntax of JSON is a parameter where bytes are read.
\<close>

datatype json =
    JNull
  | JBool bool
  | JNum int
  | JFloat string
  | JStr string
  | JArr "json list"
  | JObj "(string \<times> json) list"

type_synonym jfields = "(string \<times> json) list"
type_synonym smap = "(string \<times> string) list"

subsection \<open>Encoding\<close>

definition jstr :: "string \<Rightarrow> string \<Rightarrow> jfields" where
  "jstr n s = (if s = [] then [] else [(n, JStr s)])"

definition jbool :: "string \<Rightarrow> bool \<Rightarrow> jfields" where
  "jbool n b = (if b then [(n, JBool b)] else [])"

definition jnum :: "string \<Rightarrow> int \<Rightarrow> jfields" where
  "jnum n i = (if i = 0 then [] else [(n, JNum i)])"

definition jlist :: "('a \<Rightarrow> json) \<Rightarrow> string \<Rightarrow> 'a list \<Rightarrow> jfields" where
  "jlist f n xs = (if xs = [] then [] else [(n, JArr (map f xs))])"

definition jstrs :: "string \<Rightarrow> string list \<Rightarrow> jfields" where
  "jstrs = jlist JStr"

definition jptr :: "('a \<Rightarrow> json) \<Rightarrow> string \<Rightarrow> 'a option \<Rightarrow> jfields" where
  "jptr f n p = (case p of None \<Rightarrow> [] | Some a \<Rightarrow> [(n, f a)])"

definition map_json :: "('a \<Rightarrow> json) \<Rightarrow> (string \<times> 'a) list \<Rightarrow> json" where
  "map_json f m = JObj (map (\<lambda>(k, v). (k, f v)) (sort_key fst m))"

definition jmap :: "('a \<Rightarrow> json) \<Rightarrow> string \<Rightarrow> (string \<times> 'a) list \<Rightarrow> jfields" where
  "jmap f n m = (if m = [] then [] else [(n, map_json f m)])"

definition jsmap :: "string \<Rightarrow> smap \<Rightarrow> jfields" where
  "jsmap = jmap JStr"

lemmas jfield_defs = jstr_def jbool_def jnum_def jlist_def jstrs_def jptr_def jmap_def jsmap_def

text \<open>A slice without \<open>omitempty\<close>: nil and the empty slice differ (\<open>null\<close> and \<open>[]\<close>).\<close>

definition slice_json :: "('a \<Rightarrow> json) \<Rightarrow> 'a list option \<Rightarrow> json" where
  "slice_json f p = (case p of None \<Rightarrow> JNull | Some xs \<Rightarrow> JArr (map f xs))"

text \<open>The keys an optional field can contribute: at most its own.\<close>

lemma jfield_keys:
  "map fst (jstr n s) \<in> {[], [n]}" "map fst (jbool n b) \<in> {[], [n]}" "map fst (jnum n i) \<in> {[], [n]}"
  "map fst (jlist f n xs) \<in> {[], [n]}" "map fst (jstrs n ss) \<in> {[], [n]}"
  "map fst (jptr g n p) \<in> {[], [n]}" "map fst (jmap g n m) \<in> {[], [n]}"
  "map fst (jsmap n sm) \<in> {[], [n]}"
  by (auto simp: jfield_defs split: option.split)

subsection \<open>Decoding\<close>

definition ascii_lower :: "char \<Rightarrow> char" where
  "ascii_lower c = (if of_char c \<in> {65..90::nat} then char_of (of_char c + 32 :: nat) else c)"

definition fold_eq :: "string \<Rightarrow> string \<Rightarrow> bool" where
  "fold_eq a b \<longleftrightarrow> map ascii_lower a = map ascii_lower b"

text \<open>A field decoder updates the struct and tells whether the value had the right type.\<close>

type_synonym 'a decoder = "json \<Rightarrow> 'a \<Rightarrow> 'a \<times> bool"

definition find_field :: "(string \<times> 'a decoder) list \<Rightarrow> string \<Rightarrow> 'a decoder option" where
  "find_field fields k =
     (case map_of fields k of
        Some d \<Rightarrow> Some d
      | None \<Rightarrow> map_option snd (find (\<lambda>(n, _). fold_eq n k) fields))"

definition dec_struct :: "(string \<times> 'a decoder) list \<Rightarrow> 'a decoder" where
  "dec_struct fields j s =
     (case j of
        JNull \<Rightarrow> (s, True)
      | JObj kvs \<Rightarrow>
          fold (\<lambda>(k, v) (s, ok).
              case find_field fields k of
                None \<Rightarrow> (s, ok)
              | Some d \<Rightarrow> (case d v s of (s', ok') \<Rightarrow> (s', ok \<and> ok'))) kvs (s, True)
      | _ \<Rightarrow> (s, False))"

definition dec_str :: "(string \<Rightarrow> 'a \<Rightarrow> 'a) \<Rightarrow> 'a decoder" where
  "dec_str upd j s = (case j of JStr x \<Rightarrow> (upd x s, True) | JNull \<Rightarrow> (s, True) | _ \<Rightarrow> (s, False))"

definition dec_bool :: "(bool \<Rightarrow> 'a \<Rightarrow> 'a) \<Rightarrow> 'a decoder" where
  "dec_bool upd j s = (case j of JBool x \<Rightarrow> (upd x s, True) | JNull \<Rightarrow> (s, True) | _ \<Rightarrow> (s, False))"

text \<open>An integer field of \<open>w\<close> bits, signed: a number out of range is an error.\<close>

definition dec_int :: "nat \<Rightarrow> (int \<Rightarrow> 'a \<Rightarrow> 'a) \<Rightarrow> 'a decoder" where
  "dec_int w upd j s =
     (case j of
        JNum x \<Rightarrow> if - (2 ^ (w - 1)) \<le> x \<and> x < 2 ^ (w - 1) then (upd x s, True) else (s, False)
      | JNull \<Rightarrow> (s, True)
      | _ \<Rightarrow> (s, False))"

definition dec_elems :: "'b decoder \<Rightarrow> 'b \<Rightarrow> json list \<Rightarrow> 'b list \<times> bool" where
  "dec_elems d z js =
     (map (\<lambda>j. fst (d j z)) js, \<forall>j \<in> set js. snd (d j z))"

definition dec_list :: "'b decoder \<Rightarrow> 'b \<Rightarrow> ('b list \<Rightarrow> 'a \<Rightarrow> 'a) \<Rightarrow> 'a decoder" where
  "dec_list d z upd j s =
     (case j of
        JArr js \<Rightarrow> (case dec_elems d z js of (xs, ok) \<Rightarrow> (upd xs s, ok))
      | JNull \<Rightarrow> (upd [] s, True)
      | _ \<Rightarrow> (s, False))"

definition plain_str :: "string decoder" where
  "plain_str = dec_str (\<lambda>x _. x)"

text \<open>A map field: the entries of the object are stored into the map the struct has; a nil map
  after \<open>null\<close>.\<close>

definition dec_map ::
  "'b decoder \<Rightarrow> 'b \<Rightarrow> ('a \<Rightarrow> (string \<times> 'b) list) \<Rightarrow> ((string \<times> 'b) list \<Rightarrow> 'a \<Rightarrow> 'a) \<Rightarrow>
   'a decoder" where
  "dec_map d z get upd j s =
     (case j of
        JObj kvs \<Rightarrow>
          (upd (fold (\<lambda>(k, v). AList.update k (fst (d v z))) kvs (get s)) s,
           \<forall>(k, v) \<in> set kvs. snd (d v z))
      | JNull \<Rightarrow> (upd [] s, True)
      | _ \<Rightarrow> (s, False))"

text \<open>A pointer to a struct: \<open>null\<close> is nil, an object decodes into the struct it points to.\<close>

definition dec_ptr ::
  "'b decoder \<Rightarrow> 'b \<Rightarrow> ('a \<Rightarrow> 'b option) \<Rightarrow> ('b option \<Rightarrow> 'a \<Rightarrow> 'a) \<Rightarrow> 'a decoder" where
  "dec_ptr d z get upd j s =
     (case j of
        JNull \<Rightarrow> (upd None s, True)
      | _ \<Rightarrow> (case d j (case get s of None \<Rightarrow> z | Some b \<Rightarrow> b) of (b, ok) \<Rightarrow> (upd (Some b) s, ok)))"

lemmas dec_defs = dec_struct_def find_field_def dec_str_def dec_bool_def dec_int_def dec_elems_def
  dec_list_def dec_map_def dec_ptr_def plain_str_def fold_eq_def

end
