(* ===== verification/Go_Encoding.thy ===== *)
theory Go_Encoding
  imports Pet_Prelude
begin

text \<open>
  What the program uses of Go's \<^verbatim>\<open>encoding/base64\<close> (standard alphabet, padded) and of
  \<^verbatim>\<open>net/url\<close>: parsing a reference that starts with a slash and printing it again.
\<close>

subsection \<open>Base64\<close>

definition b64_alphabet :: string where
  "b64_alphabet = ''ABCDEFGHIJKLMNOPQRSTUVWXYZabcdefghijklmnopqrstuvwxyz0123456789+/''"

definition b64_char :: "nat \<Rightarrow> char" where
  "b64_char n = b64_alphabet ! n"

fun b64_encode :: "bytes \<Rightarrow> string" where
  "b64_encode [] = []"
| "b64_encode [a] =
     (let n = unat a * 65536
      in [b64_char (n div 262144), b64_char (n div 4096 mod 64), CHR ''='', CHR ''=''])"
| "b64_encode [a, b] =
     (let n = unat a * 65536 + unat b * 256
      in [b64_char (n div 262144), b64_char (n div 4096 mod 64), b64_char (n div 64 mod 64), CHR ''=''])"
| "b64_encode (a # b # c # bs) =
     (let n = unat a * 65536 + unat b * 256 + unat c
      in [b64_char (n div 262144), b64_char (n div 4096 mod 64), b64_char (n div 64 mod 64),
          b64_char (n mod 64)] @ b64_encode bs)"

lemma length_b64_encode: "length (b64_encode bs) = (length bs + 2) div 3 * 4"
proof (induction bs rule: b64_encode.induct)
  case (4 a b c bs)
  have "(5 + length bs) div 3 = Suc ((2 + length bs) div 3)" by presburger
  with 4 show ?case by (simp add: Let_def)
qed (simp_all add: Let_def)

subsection \<open>URL paths\<close>

definition is_ctl :: "char \<Rightarrow> bool" where
  "is_ctl c \<longleftrightarrow> (of_char c :: nat) < 32 \<or> (of_char c :: nat) = 127"

definition hex_digit_val :: "char \<Rightarrow> nat option" where
  "hex_digit_val c =
     (let n = of_char c :: nat
      in if 48 \<le> n \<and> n \<le> 57 then Some (n - 48)
         else if 97 \<le> n \<and> n \<le> 102 then Some (n - 87)
         else if 65 \<le> n \<and> n \<le> 70 then Some (n - 55)
         else None)"

definition upper_hex :: "nat \<Rightarrow> char" where
  "upper_hex n = ''0123456789ABCDEF'' ! n"

text \<open>\<open>unescape(s, encodePath)\<close>: an error at an incomplete or wrong escape.\<close>

fun url_unescape :: "string \<Rightarrow> string option" where
  "url_unescape [] = Some []"
| "url_unescape (c # cs) =
     (if c \<noteq> CHR 0x25 then map_option ((#) c) (url_unescape cs)
      else case cs of
             h # l # r \<Rightarrow>
               (case (hex_digit_val h, hex_digit_val l) of
                  (Some a, Some b) \<Rightarrow> map_option ((#) (char_of (16 * a + b))) (url_unescape r)
                | _ \<Rightarrow> None)
           | _ \<Rightarrow> None)"

text \<open>\<open>shouldEscape(c, encodePath)\<close>, negated.\<close>

definition path_safe :: "char \<Rightarrow> bool" where
  "path_safe c \<longleftrightarrow>
     (let n = of_char c :: nat
      in 97 \<le> n \<and> n \<le> 122 \<or> 65 \<le> n \<and> n \<le> 90 \<or> 48 \<le> n \<and> n \<le> 57 \<or>
         c \<in> set ''-_.~$&+,/:;=@'')"

definition url_escape :: "string \<Rightarrow> string" where
  "url_escape s =
     concat (map (\<lambda>c. if path_safe c then [c]
                      else [CHR 0x25, upper_hex (of_char c div 16), upper_hex (of_char c mod 16)]) s)"

text \<open>\<open>validEncodedPath\<close>: the characters that \<open>EscapedPath\<close> lets through from \<open>RawPath\<close>.\<close>

definition raw_path_ok :: "char \<Rightarrow> bool" where
  "raw_path_ok c \<longleftrightarrow> path_safe c \<or> c \<in> set ''!$&()*+,;=:@[]%'' \<or> c = CHR 0x27"

text \<open>A parsed reference: path, raw path (empty when the default escaping of the path gives it
  back), query with its \<open>ForceQuery\<close> flag, fragment.\<close>

record url =
  u_path :: string
  u_raw_path :: string
  u_force_query :: bool
  u_query :: string
  u_fragment :: string

definition split_at :: "char \<Rightarrow> string \<Rightarrow> string \<times> string" where
  "split_at c s = (takeWhile (\<lambda>x. x \<noteq> c) s, drop 1 (dropWhile (\<lambda>x. x \<noteq> c) s))"

definition url_parse :: "string \<Rightarrow> url option" where
  "url_parse s =
     (let (rest, frag) = split_at (CHR ''#'') s;
          force = has_suffix rest ''?'' \<and> length (filter (\<lambda>c. c = CHR ''?'') rest) = 1;
          (p, q) = (if force then (butlast rest, []) else split_at (CHR ''?'') rest)
      in if list_ex is_ctl rest then None
         else case (url_unescape p, url_unescape frag) of
                (Some path, Some fragment) \<Rightarrow>
                  Some \<lparr>u_path = path, u_raw_path = (if url_escape path = p then [] else p),
                        u_force_query = force, u_query = q, u_fragment = fragment\<rparr>
              | _ \<Rightarrow> None)"

definition escaped_path :: "url \<Rightarrow> string" where
  "escaped_path u =
     (if u_raw_path u \<noteq> [] \<and> list_all raw_path_ok (u_raw_path u)
          \<and> url_unescape (u_raw_path u) = Some (u_path u)
      then u_raw_path u
      else if u_path u = ''*'' then ''*''
      else url_escape (u_path u))"

text \<open>\<open>URL.String\<close>; \<open>fragment_escape\<close> differs from the path's by the question mark and the
  characters \<open>!()*\<close>, which it keeps.\<close>

definition fragment_escape :: "string \<Rightarrow> string" where
  "fragment_escape s =
     concat (map (\<lambda>c. if path_safe c \<or> c \<in> set ''?!()*'' then [c]
                      else [CHR 0x25, upper_hex (of_char c div 16), upper_hex (of_char c mod 16)]) s)"

definition url_string :: "url \<Rightarrow> string" where
  "url_string u =
     escaped_path u
     @ (if u_force_query u \<or> u_query u \<noteq> [] then ''?'' @ u_query u else [])
     @ (if u_fragment u \<noteq> [] then ''#'' @ fragment_escape (u_fragment u) else [])"

subsection \<open>Plain references\<close>

definition is_plain :: "string \<Rightarrow> bool" where
  "is_plain s \<longleftrightarrow> list_all path_safe s"

lemma path_safe_not: "path_safe c \<Longrightarrow> c \<noteq> CHR 0x25 \<and> c \<noteq> CHR ''?'' \<and> c \<noteq> CHR ''#'' \<and> \<not> is_ctl c"
  by (auto simp: path_safe_def is_ctl_def Let_def)

lemma plain_unescape: "is_plain s \<Longrightarrow> url_unescape s = Some s"
  by (induction s) (auto simp: is_plain_def dest: path_safe_not)

lemma plain_escape: "is_plain s \<Longrightarrow> url_escape s = s"
  by (induction s) (auto simp: is_plain_def url_escape_def)

lemma plain_split: "is_plain s \<Longrightarrow> split_at (CHR ''?'') s = (s, [])" "is_plain s \<Longrightarrow> split_at (CHR ''#'') s = (s, [])"
  by (induction s) (auto simp: is_plain_def split_at_def dest: path_safe_not)

lemma plain_no_query: "is_plain s \<Longrightarrow> filter (\<lambda>c. c = CHR ''?'') s = []"
  by (induction s) (auto simp: is_plain_def dest: path_safe_not)

lemma plain_no_ctl: "is_plain s \<Longrightarrow> \<not> list_ex is_ctl s"
  by (induction s) (auto simp: is_plain_def dest: path_safe_not)

lemma plain_url:
  assumes "is_plain s"
  shows "url_parse s = Some \<lparr>u_path = s, u_raw_path = [], u_force_query = False, u_query = [],
    u_fragment = []\<rparr>"
  using assms
  by (simp add: url_parse_def plain_split plain_no_query plain_no_ctl plain_unescape plain_escape)

lemma plain_url_string:
  "is_plain s \<Longrightarrow> map_option url_string (url_parse s) = Some s"
  by (auto simp: plain_url url_string_def escaped_path_def plain_escape)

lemma is_plain_append [simp]: "is_plain (s @ t) \<longleftrightarrow> is_plain s \<and> is_plain t"
  by (simp add: is_plain_def)

end
