(* ===== verification/Kube_Types.thy ===== *)
theory Kube_Types
  imports Pet_Prelude
begin

text \<open>
  The part of the Kubernetes API objects (\<^verbatim>\<open>k8s.io/api/core/v1\<close>, a library) that the pod and
  volume controllers read and write: records with the library's fields, pointers as options, maps
  as association lists, times as integers. A \<^verbatim>\<open>resource.Quantity\<close> is given by the three readings
  the code takes of it.
\<close>

record quantity =
  q_value :: int
  q_milli :: int
  q_is_zero :: bool

record env_var =
  ev_name :: string
  ev_value :: string
  ev_value_from :: bool

record volume_mount =
  vm_name :: string
  vm_mount_path :: string
  vm_sub_path :: string
  vm_read_only :: bool

record selinux_options =
  se_user :: string
  se_role :: string
  se_level :: string
  se_type :: string

record security_context =
  sc_privileged :: "bool option"
  sc_run_as_user :: "int option"
  sc_run_as_group :: "int option"
  sc_capabilities :: "(string list \<times> string list) option"
  sc_selinux :: "selinux_options option"
  sc_allow_escalation :: "bool option"
  sc_read_only_root :: "bool option"

record container =
  con_name :: string
  con_image :: string
  con_command :: "string list"
  con_args :: "string list"
  con_working_dir :: string
  con_env :: "env_var list"
  con_cpu_request :: quantity
  con_mem_request :: quantity
  con_cpu_limit :: quantity
  con_mem_limit :: quantity
  con_mounts :: "volume_mount list"
  con_security :: "security_context option"
  con_stdin :: bool
  con_tty :: bool
  con_pull_policy :: string

record key_to_path =
  kp_key :: string
  kp_path :: string
  kp_mode :: "int option"

record secret_source =
  ss_name :: string
  ss_optional :: "bool option"
  ss_mode :: "int option"
  ss_items :: "key_to_path list option"

record token_source =
  ts_audience :: string
  ts_expiration :: "int option"
  ts_path :: string

record projected_source =
  ps_mode :: "int option"
  ps_sources :: "token_source option list"

record volume =
  vol_name :: string
  vol_host_path :: "string option"
  vol_empty_dir :: "string option"
  vol_secret :: "secret_source option"
  vol_projected :: "projected_source option"

record condition =
  cond_type :: string
  cond_status :: string
  cond_time :: int

datatype container_state =
    NoState
  | Waiting (ws_reason: string) (ws_message: string)
  | Running (rs_started: int)
  | Terminated (tm_started: int) (tm_finished: int) (tm_code: int) (tm_reason: string) (tm_id: string)

record container_status =
  cst_name :: string
  cst_image :: string
  cst_image_id :: string
  cst_container_id :: string
  cst_ready :: bool
  cst_restarts :: int
  cst_state :: container_state

record pod_status =
  ps_phase :: string
  ps_conditions :: "condition list"
  ps_containers :: "container_status list"
  ps_pod_ip :: string
  ps_pod_ips :: "string list"
  ps_qos_class :: string

record pod_spec =
  sp_containers :: "container list"
  sp_volumes :: "volume list"
  sp_pull_secrets :: "string list"
  sp_host_network :: bool
  sp_dns_policy :: string
  sp_share_pid :: "bool option"
  sp_service_account :: string
  sp_priority :: "int option"
  sp_security :: "(int option \<times> int option) option"

record pod_meta =
  pm_ns :: string
  pm_name :: string
  pm_uid :: string
  pm_res_version :: string
  pm_annotations :: "(string \<times> string) list"

record kpod =
  kp_meta :: pod_meta
  kp_spec :: pod_spec
  kp_status :: pod_status

record secret =
  se_meta_name :: string
  se_res_version :: string
  se_kind :: string
  se_data :: "(string \<times> string) list"

definition zero_status :: pod_status where
  "zero_status = \<lparr>ps_phase = [], ps_conditions = [], ps_containers = [], ps_pod_ip = [],
     ps_pod_ips = [], ps_qos_class = []\<rparr>"

definition annotation :: "kpod \<Rightarrow> string \<Rightarrow> string option" where
  "annotation p = map_of (pm_annotations (kp_meta p))"

end
