(* ===== verification/Pod_Coord.thy ===== *)
theory Pod_Coord
  imports Pet_Prelude
begin

text \<open>
  \<^verbatim>\<open>controllers/pods/coord.go\<close>: pods are known by namespace and name, in memory under \<open>Key\<close>, on
  disk under \<open>FileName\<close>, in podman under \<open>Key\<close> and \<open>ContainerKey\<close>. The names are injective on
  coordinates without underscore, which Kubernetes names never have; \<open>pod_store\<close> is the contract of
  a table that is indexed by coordinates.
\<close>

record pod_coord =
  co_ns :: string
  co_name :: string

definition underscore :: char where "underscore = CHR ''_''"
definition json_suffix :: string where "json_suffix = ''.json''"

definition ParsePodKey :: "string \<Rightarrow> pod_coord \<times> bool" where
  "ParsePodKey key =
     (case split_on underscore key of
        [ns, name] \<Rightarrow> (\<lparr>co_ns = ns, co_name = name\<rparr>, ns \<noteq> [] \<and> name \<noteq> [])
      | _ \<Rightarrow> (\<lparr>co_ns = [], co_name = []\<rparr>, False))"

definition FileName :: "pod_coord \<Rightarrow> string" where
  "FileName pc = co_ns pc @ underscore # co_name pc @ json_suffix"

definition Key :: "pod_coord \<Rightarrow> string" where
  "Key pc = co_ns pc @ underscore # co_name pc"

definition ContainerKey :: "pod_coord \<Rightarrow> string \<Rightarrow> string" where
  "ContainerKey pc containerName = co_ns pc @ underscore # co_name pc @ underscore # containerName"

text \<open>A proper coordinate: both parts present and without underscore.\<close>

definition proper_coord :: "pod_coord \<Rightarrow> bool" where
  "proper_coord c \<longleftrightarrow> co_ns c \<noteq> [] \<and> co_name c \<noteq> []
     \<and> underscore \<notin> set (co_ns c) \<and> underscore \<notin> set (co_name c)"

lemma ParsePodKey_Key [simp]: "proper_coord c \<Longrightarrow> ParsePodKey (Key c) = (c, True)"
  by (simp add: ParsePodKey_def Key_def proper_coord_def)

lemma ParsePodKey_ok_iff: "ParsePodKey k = (c, True) \<longleftrightarrow> proper_coord c \<and> k = Key c"
proof
  assume a: "ParsePodKey k = (c, True)"
  then obtain ns name where w: "split_on underscore k = [ns, name]"
    and c: "c = \<lparr>co_ns = ns, co_name = name\<rparr>" "ns \<noteq> []" "name \<noteq> []"
    by (auto simp: ParsePodKey_def split: list.splits)
  have "k = join_with underscore [ns, name]" using join_split [of underscore k] w by simp
  moreover have "underscore \<notin> set ns" "underscore \<notin> set name"
    using split_on_sep_free [of _ underscore k] w by auto
  ultimately show "proper_coord c \<and> k = Key c" using c by (simp add: proper_coord_def Key_def)
qed simp

lemma Key_inj: "proper_coord c \<Longrightarrow> proper_coord d \<Longrightarrow> Key c = Key d \<longleftrightarrow> c = d"
  by (metis ParsePodKey_Key fst_conv)

lemma FileName_Key: "FileName c = Key c @ json_suffix"
  by (simp add: FileName_def Key_def)

lemma FileName_inj: "proper_coord c \<Longrightarrow> proper_coord d \<Longrightarrow> FileName c = FileName d \<longleftrightarrow> c = d"
  by (simp add: FileName_Key Key_inj)

lemma FileName_suffix [simp]: "has_suffix (FileName c) json_suffix" "trim_suffix (FileName c) json_suffix = Key c"
  by (simp_all add: FileName_Key)

lemma ContainerKey_parts:
  assumes "proper_coord c"
  shows "split_on underscore (ContainerKey c n) = co_ns c # co_name c # split_on underscore n"
  using assms by (simp add: ContainerKey_def proper_coord_def)

subsection \<open>Tables indexed by coordinates\<close>

locale pod_store =
  fixes store :: "pod_coord \<Rightarrow> 'v \<Rightarrow> 's \<Rightarrow> 's"
    and fetch :: "'s \<Rightarrow> pod_coord \<Rightarrow> 'v option"
    and forget :: "pod_coord \<Rightarrow> 's \<Rightarrow> 's"
    and proper :: "pod_coord \<Rightarrow> bool"
  assumes fetch_store:
      "proper c \<Longrightarrow> proper d \<Longrightarrow> fetch (store c v s) d = (if d = c then Some v else fetch s d)"
    and fetch_forget:
      "proper c \<Longrightarrow> proper d \<Longrightarrow> fetch (forget c s) d = (if d = c then None else fetch s d)"
begin

lemma fetch_forget_all:
  "list_all proper cs \<Longrightarrow> proper d \<Longrightarrow>
     fetch (fold forget cs s) d = (if d \<in> set cs then None else fetch s d)"
  by (induction cs arbitrary: s) (auto simp: fetch_forget)

lemma fetch_store_other: "proper c \<Longrightarrow> proper d \<Longrightarrow> d \<noteq> c \<Longrightarrow> fetch (store c v s) d = fetch s d"
  by (simp add: fetch_store)

lemma store_forget: "proper c \<Longrightarrow> proper d \<Longrightarrow> fetch (forget c (store c v s)) d = fetch (forget c s) d"
  by (simp add: fetch_store fetch_forget)

end

text \<open>A table that can be listed, as a list without repetitions.\<close>

locale listed_pod_store = pod_store +
  fixes listing :: "'s \<Rightarrow> pod_coord list"
    and wf :: "'s \<Rightarrow> bool"
  assumes listing_iff: "wf s \<Longrightarrow> c \<in> set (listing s) \<longleftrightarrow> proper c \<and> fetch s c \<noteq> None"
    and listing_distinct: "wf s \<Longrightarrow> distinct (listing s)"
    and wf_store: "wf s \<Longrightarrow> wf (store c v s)"
    and wf_forget: "wf s \<Longrightarrow> wf (forget c s)"
begin

lemma wf_forget_all: "wf s \<Longrightarrow> wf (fold forget cs s)"
  by (induction cs arbitrary: s) (simp_all add: wf_forget)

text \<open>Dropping every listed pod that fails a test leaves the others.\<close>

lemma reconcile:
  assumes "wf s"
  shows "set (listing (fold forget (filter (\<lambda>c. \<not> P c) (listing s)) s)) = {c \<in> set (listing s). P c}"
proof -
  let ?cs = "filter (\<lambda>c. \<not> P c) (listing s)"
  have "list_all proper ?cs" using assms by (auto simp: list_all_iff listing_iff)
  then show ?thesis
    using assms by (auto simp: listing_iff wf_forget_all fetch_forget_all split: if_splits)
qed

end

end
