(* ===== verification/Node_World.thy ===== *)
theory Node_World
  imports Go_Monad Go_Json Go_Encoding Kube_Types Pod_Coord
begin

text \<open>
  What the pod controllers run against. The node's state holds the trace of everything sent to the
  outside in order (requests to podman and to the Kubernetes API, events, status notifications,
  file operations, archive entries), the files of the pod-spec directory, the heap of pod objects
  (the controllers share pointers to them) and the table of known pods. The outside is the record
  \<open>env\<close> of functions from the trace so far to the next reply, so that it may answer differently
  every time. \<open>visit\<close> is the order in which Go ranges over a map: some permutation of its entries,
  which the environment chooses anew each time. The text syntax of JSON is a parameter: \<open>env_parse\<close>
  reads the first value of a stream, \<open>env_unmarshal\<close> a text that is one value.
\<close>

record http_request =
  rq_method :: string
  rq_url :: url
  rq_headers :: smap
  rq_body :: "json option"

record http_response =
  rs_code :: int
  rs_status :: string
  rs_body :: string

datatype go_error =
    ApiErr http_request (api_cause: string) (api_message: string) (api_status: int)
  | FileErr (file_missing: bool) string
  | PlainErr string

definition rq_path :: "http_request \<Rightarrow> string" where
  "rq_path rq = u_path (rq_url rq)"

datatype file_op =
    MakeDir string
  | OpenDir
  | ReadDir
  | CreateFile string
  | EncodeFile string
  | OpenFile string
  | RemoveFile string

datatype effect =
    Http http_request
  | File file_op
  | Recorded (ev_type: string) (ev_reason: string) (ev_message: string)
  | Notified kpod
  | KubeGet (kg_kind: string) (kg_ns: string) (kg_name: string)
  | KubeToken (kt_ns: string) (kt_account: string) (kt_audience: string) (kt_expiration: "int option")
  | TarStart "string list"
  | TarFile (tf_name: string) (tf_mode: int) (tf_body: string)
  | TarLink (tl_name: string) (tl_target: string)
  | TarClose
  | PipeClose
  | TarWait
  | Ran "string list"
  | DiskRead string
  | DiskWrite string string
  | KubePatch (kp_node: string) (kp_annotations: smap)
  | KubeCreate (kc_kind: string) (kc_ns: string) (kc_name: string)
  | KubeUpdate (ku_kind: string) (ku_ns: string) (ku_name: string)
  | Slept int

record running_pod =
  rp_kube :: nat
  rp_coord :: pod_coord
  rp_pod_id :: string
  rp_containers :: smap

record node =
  n_trace :: "effect list"
  n_files :: smap
  n_heap :: "nat \<Rightarrow> kpod"
  n_next :: nat
  n_known :: "(string \<times> running_pod) list"
  n_disk :: smap

text \<open>What the program asks of a file that the library \<^verbatim>\<open>gopkg.in/ini.v1\<close> has read: the value of a
  key (empty without the key), its values split at commas (of every shadow, when those are allowed),
  its value as an integer if it is one; the comment of a section; the first section of a name (an
  empty one without it) and all of them (an error without any).\<close>

record ini_key =
  ik_string :: string
  ik_strings :: "string list"
  ik_int :: "int option"

record ini_section =
  is_comment :: string
  is_key :: "string \<Rightarrow> ini_key"
  is_hash :: smap

record ini_file =
  if_section :: "string \<Rightarrow> ini_section"
  if_sections :: "string \<Rightarrow> string + ini_section list"

type_synonym 'a run = "(node, go_error, 'a) act"

record env =
  env_http :: "effect list \<Rightarrow> http_request \<Rightarrow> string + http_response"
  env_parse :: "string \<Rightarrow> string + json"
  env_unmarshal :: "string \<Rightarrow> string + json"
  env_file :: "effect list \<Rightarrow> file_op \<Rightarrow> go_error option"
  env_cut :: "effect list \<Rightarrow> string"
  env_encode_pod :: "kpod \<Rightarrow> string + string"
  env_decode_pod :: "string \<Rightarrow> string + kpod"
  env_secret :: "effect list \<Rightarrow> string \<Rightarrow> string \<Rightarrow> string + secret"
  env_token :: "effect list \<Rightarrow> string + string"
  env_docker_auths :: "string \<Rightarrow> string + string"
  env_tar_start :: "effect list \<Rightarrow> string option"
  env_tar_error :: "effect list \<Rightarrow> string option"
  env_now :: "effect list \<Rightarrow> int"
  env_memory :: int
  env_uid :: int
  env_order :: "effect list \<Rightarrow> nat \<Rightarrow> nat list"
  env_command :: "effect list \<Rightarrow> string list \<Rightarrow> string + string"
  env_disk :: "effect list \<Rightarrow> string \<Rightarrow> go_error option"
  env_random :: "effect list \<Rightarrow> string + bytes"
  env_public_key :: "bytes \<Rightarrow> bytes"
  env_ini :: "bool \<Rightarrow> string \<Rightarrow> string + ini_file"
  env_configmap :: "effect list \<Rightarrow> string \<Rightarrow> string \<Rightarrow> string + smap"
  env_kube :: "effect list \<Rightarrow> effect \<Rightarrow> string option"

definition emit :: "effect \<Rightarrow> unit run" where
  "emit e = modifyR (\<lambda>n. n\<lparr>n_trace := n_trace n @ [e]\<rparr>)"

definition now :: "env \<Rightarrow> int run" where
  "now env = getR (\<lambda>n. env_now env (n_trace n))"

definition visit :: "env \<Rightarrow> effect list \<Rightarrow> 'a list \<Rightarrow> 'a list" where
  "visit env tr xs =
     (let p = env_order env tr (length xs)
      in if mset p = mset [0..<length xs] then map (\<lambda>i. xs ! i) p else xs)"

definition range_map :: "env \<Rightarrow> 'a list \<Rightarrow> 'a list run" where
  "range_map env xs = getR (\<lambda>n. visit env (n_trace n) xs)"

definition read_pod :: "nat \<Rightarrow> kpod run" where
  "read_pod p = getR (\<lambda>n. n_heap n p)"

definition set_pod :: "nat \<Rightarrow> (kpod \<Rightarrow> kpod) \<Rightarrow> unit run" where
  "set_pod p f = modifyR (\<lambda>n. n\<lparr>n_heap := (n_heap n)(p := f (n_heap n p))\<rparr>)"

definition alloc_pod :: "kpod \<Rightarrow> nat run" where
  "alloc_pod k = (\<lambda>n. (Ok (n_next n),
     n\<lparr>n_heap := (n_heap n)(n_next n := k), n_next := Suc (n_next n)\<rparr>))"

lemma mset_visit [simp]: "mset (visit env tr xs) = mset xs"
proof -
  have "mset (map (\<lambda>i. xs ! i) p) = mset xs" if "mset p = mset [0..<length xs]" for p
  proof -
    have "mset (map (\<lambda>i. xs ! i) p) = image_mset (\<lambda>i. xs ! i) (mset [0..<length xs])"
      by (simp only: mset_map that)
    also have "\<dots> = mset (map (\<lambda>i. xs ! i) [0..<length xs])" by (simp only: mset_map)
    finally show ?thesis by (simp only: map_nth)
  qed
  then show ?thesis by (simp add: visit_def Let_def)
qed

lemma set_visit [simp]: "set (visit env tr xs) = set xs"
  by (rule mset_eq_setD [OF mset_visit])

lemma distinct_visit [simp]: "distinct (visit env tr xs) \<longleftrightarrow> distinct xs"
  by (rule mset_eq_imp_distinct_iff [OF mset_visit])

lemma world_simps [simp]:
  "emit e n = (Ok (), n\<lparr>n_trace := n_trace n @ [e]\<rparr>)"
  "now env n = (Ok (env_now env (n_trace n)), n)"
  "range_map env xs n = (Ok (visit env (n_trace n) xs), n)"
  "read_pod p n = (Ok (n_heap n p), n)"
  "set_pod p f n = (Ok (), n\<lparr>n_heap := (n_heap n)(p := f (n_heap n p))\<rparr>)"
  "alloc_pod k n = (Ok (n_next n), n\<lparr>n_heap := (n_heap n)(n_next n := k), n_next := Suc (n_next n)\<rparr>)"
  by (simp_all add: emit_def now_def range_map_def read_pod_def set_pod_def alloc_pod_def)

subsection \<open>Frames on the node\<close>

text \<open>\<open>sends Q\<close>: the trace grows at its end, and every new entry satisfies \<open>Q\<close>.\<close>

definition sends :: "(effect \<Rightarrow> bool) \<Rightarrow> node \<Rightarrow> node \<Rightarrow> bool" where
  "sends Q s t \<longleftrightarrow> (\<exists>es. n_trace t = n_trace s @ es \<and> list_all Q es)"

interpretation sends_frame: frame_relation "sends Q" for Q
proof
  show "sends Q s s" for s by (simp add: sends_def)
  show "sends Q s u" if "sends Q s t" "sends Q t u" for s t u
    using that by (auto simp: sends_def)
qed

lemma sends_emit: "Q e \<Longrightarrow> keeps (sends Q) (emit e)"
  by (simp add: keeps_def sends_def)

lemma sends_quiet:
  "keeps (sends Q) (now env)" "keeps (sends Q) (range_map env ks)" "keeps (sends Q) (read_pod p)"
  "keeps (sends Q) (set_pod p f)" "keeps (sends Q) (alloc_pod k)"
  "(\<And>n. n_trace (g n) = n_trace n) \<Longrightarrow> keeps (sends Q) (modifyR g)"
  by (simp_all add: keeps_def sends_def)

lemma sends_weaken: "keeps (sends Q) m \<Longrightarrow> (\<And>e. Q e \<Longrightarrow> Q' e) \<Longrightarrow> keeps (sends Q') m"
  unfolding keeps_def sends_def by (meson list.pred_mono_strong)

text \<open>\<open>same_store\<close>: nothing but the trace changes.\<close>

definition store_of :: "node \<Rightarrow> smap \<times> (nat \<Rightarrow> kpod) \<times> nat \<times> (string \<times> running_pod) list" where
  "store_of n = (n_files n, n_heap n, n_next n, n_known n)"

lemma store_of_emit: "keeps (\<lambda>s t. store_of s = store_of t) (emit e)"
  "keeps (\<lambda>s t. store_of s = store_of t) (now env)"
  "keeps (\<lambda>s t. store_of s = store_of t) (range_map env ks)"
  "keeps (\<lambda>s t. store_of s = store_of t) (read_pod p)"
  by (simp_all add: keeps_def store_of_def)

end
