(* ===== verification/Podman_Spec.thy ===== *)
theory Podman_Spec
  imports Go_Json Go_Net Go_Encoding
begin

text \<open>
  \<^verbatim>\<open>pkg/podman/spec-container.go\<close> and \<^verbatim>\<open>spec-pod.go\<close>: the request bodies for the creation of
  containers and pods, as records with the fields of the Go structs, their zero values, and their
  JSON with the keys and options of the struct tags. A pointer is an option. A field that is a
  struct ignores \<open>omitempty\<close>: it is always there, as an object.
\<close>

subsection \<open>Shared parts\<close>

record Namespace =
  ns_NSMode :: string
  ns_Value :: string

definition zero_Namespace :: Namespace where
  "zero_Namespace = \<lparr>ns_NSMode = [], ns_Value = []\<rparr>"

definition Namespace_json :: "Namespace \<Rightarrow> json" where
  "Namespace_json n = JObj (jstr ''nsmode'' (ns_NSMode n) @ jstr ''string'' (ns_Value n))"

record PortMapping =
  pmap_HostIP :: string
  pmap_ContainerPort :: u16
  pmap_HostPort :: u16
  pmap_Range :: u16
  pmap_Protocol :: string

definition PortMapping_json :: "PortMapping \<Rightarrow> json" where
  "PortMapping_json p =
     JObj (jstr ''host_ip'' (pmap_HostIP p)
       @ [(''container_port'', JNum (uint (pmap_ContainerPort p)))]
       @ jnum ''host_port'' (uint (pmap_HostPort p)) @ jnum ''range'' (uint (pmap_Range p))
       @ jstr ''protocol'' (pmap_Protocol p))"

text \<open>\<open>net.IP\<close> has a text form, \<open>net.HardwareAddr\<close> is encoded as a byte slice.\<close>

definition ip_json :: "ip \<Rightarrow> json" where
  "ip_json p = JStr (if p = [] then [] else IP_String p)"

definition mac_json :: "bytes \<Rightarrow> json" where
  "mac_json b = JStr (b64_encode b)"

record LogConfig =
  lc_Driver :: string
  lc_Path :: string
  lc_Options :: smap

definition LogConfig_json :: "LogConfig \<Rightarrow> json" where
  "LogConfig_json l =
     JObj (jstr ''driver'' (lc_Driver l) @ jstr ''path'' (lc_Path l) @ jsmap ''options'' (lc_Options l))"

record NamedVolume =
  nv_Name :: string
  nv_Dest :: string
  nv_Options :: "string list option"

text \<open>No tags: the Go field names are the keys, and a nil slice is \<open>null\<close>.\<close>

definition NamedVolume_json :: "NamedVolume \<Rightarrow> json" where
  "NamedVolume_json v =
     JObj [(''Name'', JStr (nv_Name v)), (''Dest'', JStr (nv_Dest v)),
           (''Options'', slice_json JStr (nv_Options v))]"

record Mount =
  mnt_Destination :: string
  mnt_Type :: string
  mnt_Source :: string
  mnt_Options :: "string list"

definition Mount_json :: "Mount \<Rightarrow> json" where
  "Mount_json m =
     JObj ([(''destination'', JStr (mnt_Destination m))] @ jstr ''type'' (mnt_Type m)
       @ jstr ''source'' (mnt_Source m) @ jstrs ''options'' (mnt_Options m))"

record LinuxDevice =
  ld_Path :: string
  ld_Type :: string
  ld_Major :: int
  ld_Minor :: int
  ld_FileMode :: "u32 option"
  ld_UID :: "u32 option"
  ld_GID :: "u32 option"

definition u32_json :: "u32 \<Rightarrow> json" where "u32_json w = JNum (uint w)"
definition u64_json :: "u64 \<Rightarrow> json" where "u64_json w = JNum (uint w)"

definition LinuxDevice_json :: "LinuxDevice \<Rightarrow> json" where
  "LinuxDevice_json d =
     JObj ([(''path'', JStr (ld_Path d)), (''type'', JStr (ld_Type d)),
            (''major'', JNum (ld_Major d)), (''minor'', JNum (ld_Minor d))]
       @ jptr u32_json ''fileMode'' (ld_FileMode d) @ jptr u32_json ''uid'' (ld_UID d)
       @ jptr u32_json ''gid'' (ld_GID d))"

subsection \<open>Resource limits\<close>

record LinuxHugepageLimit =
  hl_Pagesize :: string
  hl_Limit :: u64

record LinuxInterfacePriority =
  lip_Name :: string
  lip_Priority :: u32

record LinuxWeightDevice =
  wd_Major :: int
  wd_Minor :: int
  wd_Weight :: "u16 option"
  wd_LeafWeight :: "u16 option"

record LinuxThrottleDevice =
  td_Major :: int
  td_Minor :: int
  td_Rate :: u64

record LinuxBlockIO =
  bio_Weight :: "u16 option"
  bio_LeafWeight :: "u16 option"
  bio_WeightDevice :: "LinuxWeightDevice list"
  bio_ReadBps :: "LinuxThrottleDevice list"
  bio_WriteBps :: "LinuxThrottleDevice list"
  bio_ReadIOPS :: "LinuxThrottleDevice list"
  bio_WriteIOPS :: "LinuxThrottleDevice list"

record LinuxDeviceCgroup =
  dc_Allow :: bool
  dc_Type :: string
  dc_Major :: "int option"
  dc_Minor :: "int option"
  dc_Access :: string

record LinuxMemory =
  mem_Limit :: "int option"
  mem_Reservation :: "int option"
  mem_Swap :: "int option"
  mem_Kernel :: "int option"
  mem_KernelTCP :: "int option"
  mem_Swappiness :: "u64 option"
  mem_DisableOOMKiller :: "bool option"
  mem_UseHierarchy :: "bool option"

record LinuxCPU =
  cpu_Shares :: "u64 option"
  cpu_Quota :: "int option"
  cpu_Period :: "u64 option"
  cpu_RealtimeRuntime :: "int option"
  cpu_RealtimePeriod :: "u64 option"
  cpu_Cpus :: string
  cpu_Mems :: string

record LinuxPids =
  pids_Limit :: int

record LinuxNetwork =
  lnet_ClassID :: "u32 option"
  lnet_Priorities :: "LinuxInterfacePriority list"

record LinuxRdma =
  rdma_HcaHandles :: "u32 option"
  rdma_HcaObjects :: "u32 option"

record LinuxResources =
  lr_Devices :: "LinuxDeviceCgroup list"
  lr_Memory :: "LinuxMemory option"
  lr_CPU :: "LinuxCPU option"
  lr_Pids :: "LinuxPids option"
  lr_BlockIO :: "LinuxBlockIO option"
  lr_HugepageLimits :: "LinuxHugepageLimit list"
  lr_Network :: "LinuxNetwork option"
  lr_Rdma :: "(string \<times> LinuxRdma) list"

record POSIXRlimit =
  rl_Type :: string
  rl_Hard :: u64
  rl_Soft :: u64

definition u16_json :: "u16 \<Rightarrow> json" where "u16_json w = JNum (uint w)"

definition LinuxHugepageLimit_json :: "LinuxHugepageLimit \<Rightarrow> json" where
  "LinuxHugepageLimit_json h =
     JObj [(''pageSize'', JStr (hl_Pagesize h)), (''limit'', u64_json (hl_Limit h))]"

definition LinuxInterfacePriority_json :: "LinuxInterfacePriority \<Rightarrow> json" where
  "LinuxInterfacePriority_json p =
     JObj [(''name'', JStr (lip_Name p)), (''priority'', u32_json (lip_Priority p))]"

text \<open>The embedded \<open>linuxBlockIODevice\<close> has exported fields, so they are promoted.\<close>

definition LinuxWeightDevice_json :: "LinuxWeightDevice \<Rightarrow> json" where
  "LinuxWeightDevice_json d =
     JObj ([(''major'', JNum (wd_Major d)), (''minor'', JNum (wd_Minor d))]
       @ jptr u16_json ''weight'' (wd_Weight d) @ jptr u16_json ''leafWeight'' (wd_LeafWeight d))"

definition LinuxThrottleDevice_json :: "LinuxThrottleDevice \<Rightarrow> json" where
  "LinuxThrottleDevice_json d =
     JObj [(''major'', JNum (td_Major d)), (''minor'', JNum (td_Minor d)), (''rate'', u64_json (td_Rate d))]"

definition LinuxBlockIO_json :: "LinuxBlockIO \<Rightarrow> json" where
  "LinuxBlockIO_json b =
     JObj (jptr u16_json ''weight'' (bio_Weight b) @ jptr u16_json ''leafWeight'' (bio_LeafWeight b)
       @ jlist LinuxWeightDevice_json ''weightDevice'' (bio_WeightDevice b)
       @ jlist LinuxThrottleDevice_json ''throttleReadBpsDevice'' (bio_ReadBps b)
       @ jlist LinuxThrottleDevice_json ''throttleWriteBpsDevice'' (bio_WriteBps b)
       @ jlist LinuxThrottleDevice_json ''throttleReadIOPSDevice'' (bio_ReadIOPS b)
       @ jlist LinuxThrottleDevice_json ''throttleWriteIOPSDevice'' (bio_WriteIOPS b))"

definition LinuxDeviceCgroup_json :: "LinuxDeviceCgroup \<Rightarrow> json" where
  "LinuxDeviceCgroup_json d =
     JObj ([(''allow'', JBool (dc_Allow d))] @ jstr ''type'' (dc_Type d)
       @ jptr JNum ''major'' (dc_Major d) @ jptr JNum ''minor'' (dc_Minor d)
       @ jstr ''access'' (dc_Access d))"

definition LinuxMemory_json :: "LinuxMemory \<Rightarrow> json" where
  "LinuxMemory_json m =
     JObj (jptr JNum ''limit'' (mem_Limit m) @ jptr JNum ''reservation'' (mem_Reservation m)
       @ jptr JNum ''swap'' (mem_Swap m) @ jptr JNum ''kernel'' (mem_Kernel m)
       @ jptr JNum ''kernelTCP'' (mem_KernelTCP m) @ jptr u64_json ''swappiness'' (mem_Swappiness m)
       @ jptr JBool ''disableOOMKiller'' (mem_DisableOOMKiller m)
       @ jptr JBool ''useHierarchy'' (mem_UseHierarchy m))"

definition LinuxCPU_json :: "LinuxCPU \<Rightarrow> json" where
  "LinuxCPU_json c =
     JObj (jptr u64_json ''shares'' (cpu_Shares c) @ jptr JNum ''quota'' (cpu_Quota c)
       @ jptr u64_json ''period'' (cpu_Period c) @ jptr JNum ''realtimeRuntime'' (cpu_RealtimeRuntime c)
       @ jptr u64_json ''realtimePeriod'' (cpu_RealtimePeriod c) @ jstr ''cpus'' (cpu_Cpus c)
       @ jstr ''mems'' (cpu_Mems c))"

definition LinuxPids_json :: "LinuxPids \<Rightarrow> json" where
  "LinuxPids_json p = JObj [(''limit'', JNum (pids_Limit p))]"

definition LinuxNetwork_json :: "LinuxNetwork \<Rightarrow> json" where
  "LinuxNetwork_json n =
     JObj (jptr u32_json ''classID'' (lnet_ClassID n)
       @ jlist LinuxInterfacePriority_json ''priorities'' (lnet_Priorities n))"

definition LinuxRdma_json :: "LinuxRdma \<Rightarrow> json" where
  "LinuxRdma_json r =
     JObj (jptr u32_json ''hcaHandles'' (rdma_HcaHandles r)
       @ jptr u32_json ''hcaObjects'' (rdma_HcaObjects r))"

definition LinuxResources_json :: "LinuxResources \<Rightarrow> json" where
  "LinuxResources_json r =
     JObj (jlist LinuxDeviceCgroup_json ''devices'' (lr_Devices r)
       @ jptr LinuxMemory_json ''memory'' (lr_Memory r) @ jptr LinuxCPU_json ''cpu'' (lr_CPU r)
       @ jptr LinuxPids_json ''pids'' (lr_Pids r) @ jptr LinuxBlockIO_json ''blockIO'' (lr_BlockIO r)
       @ jlist LinuxHugepageLimit_json ''hugepageLimits'' (lr_HugepageLimits r)
       @ jptr LinuxNetwork_json ''network'' (lr_Network r)
       @ jmap LinuxRdma_json ''rdma'' (lr_Rdma r))"

definition POSIXRlimit_json :: "POSIXRlimit \<Rightarrow> json" where
  "POSIXRlimit_json r =
     JObj [(''type'', JStr (rl_Type r)), (''hard'', u64_json (rl_Hard r)), (''soft'', u64_json (rl_Soft r))]"

text \<open>Durations are nanoseconds; the keys without a name in the tag are the Go names.\<close>

record ContainerHealthConfig =
  hc_Test :: "string list"
  hc_StartPeriod :: int
  hc_Interval :: int
  hc_Timeout :: int
  hc_Retries :: int

definition ContainerHealthConfig_json :: "ContainerHealthConfig \<Rightarrow> json" where
  "ContainerHealthConfig_json h =
     JObj (jstrs ''Test'' (hc_Test h) @ jnum ''StartPeriod'' (hc_StartPeriod h)
       @ jnum ''Interval'' (hc_Interval h) @ jnum ''Timeout'' (hc_Timeout h)
       @ jnum ''Retries'' (hc_Retries h))"

end
