(* ===== verification/Podman_SpecGen.thy ===== *)
theory Podman_SpecGen
  imports Podman_Spec "HOL-Library.Sublist"
begin

text \<open>
  \<^verbatim>\<open>pkg/podman/spec-container.go\<close>, the parts of \<open>SpecGenerator\<close>, and \<^verbatim>\<open>spec-pod.go\<close>. The embedded
  parts are promoted: the JSON object of the whole has the fields of the parts, in order. Go drops
  two promoted fields of the same depth and key silently, so the keys have to be distinct; that is
  proved here.
\<close>

subsection \<open>Containers\<close>

record ContainerBasicConfig =
  cb_Name :: string
  cb_Pod :: string
  cb_Entrypoint :: "string list"
  cb_Command :: "string list"
  cb_Env :: smap
  cb_Terminal :: bool
  cb_Stdin :: bool
  cb_Labels :: smap
  cb_Annotations :: smap
  cb_StopSignal :: "int option"
  cb_StopTimeout :: "u64 option"
  cb_LogConfiguration :: "LogConfig option"
  cb_ConmonPidFile :: string
  cb_RestartPolicy :: string
  cb_RestartRetries :: "u64 option"
  cb_OCIRuntime :: string
  cb_Systemd :: string
  cb_Namespace :: string
  cb_PidNS :: Namespace
  cb_UtsNS :: Namespace
  cb_Hostname :: string
  cb_Sysctl :: smap
  cb_Remove :: bool
  cb_PreserveFDs :: u64

definition zero_ContainerBasicConfig :: ContainerBasicConfig where
  "zero_ContainerBasicConfig = \<lparr>cb_Name = [], cb_Pod = [], cb_Entrypoint = [], cb_Command = [],
     cb_Env = [], cb_Terminal = False, cb_Stdin = False, cb_Labels = [], cb_Annotations = [],
     cb_StopSignal = None, cb_StopTimeout = None, cb_LogConfiguration = None, cb_ConmonPidFile = [],
     cb_RestartPolicy = [], cb_RestartRetries = None, cb_OCIRuntime = [], cb_Systemd = [],
     cb_Namespace = [], cb_PidNS = zero_Namespace, cb_UtsNS = zero_Namespace, cb_Hostname = [],
     cb_Sysctl = [], cb_Remove = False, cb_PreserveFDs = 0\<rparr>"

definition ContainerBasicConfig_fields :: "ContainerBasicConfig \<Rightarrow> jfields" where
  "ContainerBasicConfig_fields c =
     jstr ''name'' (cb_Name c) @ jstr ''pod'' (cb_Pod c) @ jstrs ''entrypoint'' (cb_Entrypoint c)
     @ jstrs ''command'' (cb_Command c) @ jsmap ''env'' (cb_Env c)
     @ jbool ''terminal'' (cb_Terminal c) @ jbool ''stdin'' (cb_Stdin c)
     @ jsmap ''labels'' (cb_Labels c) @ jsmap ''annotations'' (cb_Annotations c)
     @ jptr JNum ''stop_signal'' (cb_StopSignal c) @ jptr u64_json ''stop_timeout'' (cb_StopTimeout c)
     @ jptr LogConfig_json ''log_configuration'' (cb_LogConfiguration c)
     @ jstr ''conmon_pid_file'' (cb_ConmonPidFile c) @ jstr ''restart_policy'' (cb_RestartPolicy c)
     @ jptr u64_json ''restart_tries'' (cb_RestartRetries c) @ jstr ''oci_runtime'' (cb_OCIRuntime c)
     @ jstr ''systemd'' (cb_Systemd c) @ jstr ''namespace'' (cb_Namespace c)
     @ [(''pidns'', Namespace_json (cb_PidNS c)), (''utsns'', Namespace_json (cb_UtsNS c))]
     @ jstr ''hostname'' (cb_Hostname c) @ jsmap ''sysctl'' (cb_Sysctl c)
     @ jbool ''remove'' (cb_Remove c)"

record ContainerStorageConfig =
  st_Image :: string
  st_Rootfs :: string
  st_ImageVolumeMode :: string
  st_VolumesFrom :: "string list"
  st_Init :: bool
  st_InitPath :: string
  st_Mounts :: "Mount list"
  st_Volumes :: "NamedVolume list"
  st_Devices :: "LinuxDevice list"
  st_IpcNS :: Namespace
  st_ShmSize :: "int option"
  st_WorkDir :: string
  st_RootfsPropagation :: string

definition zero_ContainerStorageConfig :: ContainerStorageConfig where
  "zero_ContainerStorageConfig = \<lparr>st_Image = [], st_Rootfs = [], st_ImageVolumeMode = [],
     st_VolumesFrom = [], st_Init = False, st_InitPath = [], st_Mounts = [], st_Volumes = [],
     st_Devices = [], st_IpcNS = zero_Namespace, st_ShmSize = None, st_WorkDir = [],
     st_RootfsPropagation = []\<rparr>"

definition ContainerStorageConfig_fields :: "ContainerStorageConfig \<Rightarrow> jfields" where
  "ContainerStorageConfig_fields c =
     [(''image'', JStr (st_Image c))] @ jstr ''rootfs'' (st_Rootfs c)
     @ jstr ''image_volume_mode'' (st_ImageVolumeMode c) @ jstrs ''volumes_from'' (st_VolumesFrom c)
     @ jbool ''init'' (st_Init c) @ jstr ''init_path'' (st_InitPath c)
     @ jlist Mount_json ''mounts'' (st_Mounts c) @ jlist NamedVolume_json ''volumes'' (st_Volumes c)
     @ jlist LinuxDevice_json ''devices'' (st_Devices c)
     @ [(''ipcns'', Namespace_json (st_IpcNS c))] @ jptr JNum ''shm_size'' (st_ShmSize c)
     @ jstr ''work_dir'' (st_WorkDir c) @ jstr ''rootfs_propagation'' (st_RootfsPropagation c)"

record ContainerSecurityConfig =
  sec_Privileged :: bool
  sec_User :: string
  sec_Groups :: "string list"
  sec_CapAdd :: "string list"
  sec_CapDrop :: "string list"
  sec_SelinuxOpts :: "string list"
  sec_ApparmorProfile :: string
  sec_SeccompPolicy :: string
  sec_SeccompProfilePath :: string
  sec_NoNewPrivileges :: bool
  sec_UserNS :: Namespace
  sec_ReadOnlyFilesystem :: bool

definition zero_ContainerSecurityConfig :: ContainerSecurityConfig where
  "zero_ContainerSecurityConfig = \<lparr>sec_Privileged = False, sec_User = [], sec_Groups = [],
     sec_CapAdd = [], sec_CapDrop = [], sec_SelinuxOpts = [], sec_ApparmorProfile = [],
     sec_SeccompPolicy = [], sec_SeccompProfilePath = [], sec_NoNewPrivileges = False,
     sec_UserNS = zero_Namespace, sec_ReadOnlyFilesystem = False\<rparr>"

text \<open>The tag of the last field says \<^verbatim>\<open>omittempty\<close>, which is no option: it is always there.\<close>

definition ContainerSecurityConfig_fields :: "ContainerSecurityConfig \<Rightarrow> jfields" where
  "ContainerSecurityConfig_fields c =
     jbool ''privileged'' (sec_Privileged c) @ jstr ''user'' (sec_User c)
     @ jstrs ''groups'' (sec_Groups c) @ jstrs ''cap_add'' (sec_CapAdd c)
     @ jstrs ''cap_drop'' (sec_CapDrop c) @ jstrs ''selinux_opts'' (sec_SelinuxOpts c)
     @ jstr ''apparmor_profile'' (sec_ApparmorProfile c) @ jstr ''seccomp_policy'' (sec_SeccompPolicy c)
     @ jstr ''seccomp_profile_path'' (sec_SeccompProfilePath c)
     @ jbool ''no_new_privileges'' (sec_NoNewPrivileges c)
     @ [(''userns'', Namespace_json (sec_UserNS c)),
        (''read_only_filesystem'', JBool (sec_ReadOnlyFilesystem c))]"

record ContainerCgroupConfig =
  cg_CgroupNS :: Namespace
  cg_CgroupsMode :: string
  cg_CgroupParent :: string

definition ContainerCgroupConfig_fields :: "ContainerCgroupConfig \<Rightarrow> jfields" where
  "ContainerCgroupConfig_fields c =
     [(''cgroupns'', Namespace_json (cg_CgroupNS c))] @ jstr ''cgroups_mode'' (cg_CgroupsMode c)
     @ jstr ''cgroup_parent'' (cg_CgroupParent c)"

record ContainerNetworkConfig =
  cn_NetNS :: Namespace
  cn_StaticIP :: "ip option"
  cn_StaticIPv6 :: "ip option"
  cn_StaticMAC :: "bytes option"
  cn_PortMappings :: "PortMapping list"
  cn_PublishExposedPorts :: bool
  cn_Expose :: "(u16 \<times> string) list"
  cn_CNINetworks :: "string list"
  cn_UseImageResolvConf :: bool
  cn_DNSServers :: "ip list"
  cn_DNSSearch :: "string list"
  cn_DNSOptions :: "string list"
  cn_UseImageHosts :: bool
  cn_HostAdd :: "string list"

definition zero_ContainerNetworkConfig :: ContainerNetworkConfig where
  "zero_ContainerNetworkConfig = \<lparr>cn_NetNS = zero_Namespace, cn_StaticIP = None,
     cn_StaticIPv6 = None, cn_StaticMAC = None, cn_PortMappings = [], cn_PublishExposedPorts = False,
     cn_Expose = [], cn_CNINetworks = [], cn_UseImageResolvConf = False, cn_DNSServers = [],
     cn_DNSSearch = [], cn_DNSOptions = [], cn_UseImageHosts = False, cn_HostAdd = []\<rparr>"

definition ContainerNetworkConfig_fields :: "ContainerNetworkConfig \<Rightarrow> jfields" where
  "ContainerNetworkConfig_fields c =
     [(''netns'', Namespace_json (cn_NetNS c))] @ jptr ip_json ''static_ip'' (cn_StaticIP c)
     @ jptr ip_json ''static_ipv6'' (cn_StaticIPv6 c) @ jptr mac_json ''static_mac'' (cn_StaticMAC c)
     @ jlist PortMapping_json ''portmappings'' (cn_PortMappings c)
     @ jbool ''publish_image_ports'' (cn_PublishExposedPorts c)
     @ jmap JStr ''expose'' (map (\<lambda>(p, s). (nat_dec (unat p), s)) (cn_Expose c))
     @ jstrs ''cni_networks'' (cn_CNINetworks c)
     @ jbool ''use_image_resolve_conf'' (cn_UseImageResolvConf c)
     @ jlist ip_json ''dns_server'' (cn_DNSServers c) @ jstrs ''dns_search'' (cn_DNSSearch c)
     @ jstrs ''dns_option'' (cn_DNSOptions c) @ jbool ''use_image_hosts'' (cn_UseImageHosts c)
     @ jstrs ''hostadd'' (cn_HostAdd c)"

record ContainerResourceConfig =
  cr_ResourceLimits :: "LinuxResources option"
  cr_Rlimits :: "POSIXRlimit list"
  cr_OOMScoreAdj :: "int option"
  cr_WeightDevice :: "(string \<times> LinuxWeightDevice) list"
  cr_ReadBps :: "(string \<times> LinuxThrottleDevice) list"
  cr_WriteBps :: "(string \<times> LinuxThrottleDevice) list"
  cr_ReadIOPS :: "(string \<times> LinuxThrottleDevice) list"
  cr_WriteIOPS :: "(string \<times> LinuxThrottleDevice) list"

definition zero_ContainerResourceConfig :: ContainerResourceConfig where
  "zero_ContainerResourceConfig = \<lparr>cr_ResourceLimits = None, cr_Rlimits = [], cr_OOMScoreAdj = None,
     cr_WeightDevice = [], cr_ReadBps = [], cr_WriteBps = [], cr_ReadIOPS = [], cr_WriteIOPS = []\<rparr>"

definition ContainerResourceConfig_fields :: "ContainerResourceConfig \<Rightarrow> jfields" where
  "ContainerResourceConfig_fields c =
     jptr LinuxResources_json ''resource_limits'' (cr_ResourceLimits c)
     @ jlist POSIXRlimit_json ''r_limits'' (cr_Rlimits c)
     @ jptr JNum ''oom_score_adj'' (cr_OOMScoreAdj c)
     @ jmap LinuxWeightDevice_json ''weightDevice'' (cr_WeightDevice c)
     @ jmap LinuxThrottleDevice_json ''throttleReadBpsDevice'' (cr_ReadBps c)
     @ jmap LinuxThrottleDevice_json ''throttleWriteBpsDevice'' (cr_WriteBps c)
     @ jmap LinuxThrottleDevice_json ''throttleReadIOPSDevice'' (cr_ReadIOPS c)
     @ jmap LinuxThrottleDevice_json ''throttleWriteIOPSDevice'' (cr_WriteIOPS c)"

record ContainerHealthCheckConfig =
  hcc_HealthConfig :: "ContainerHealthConfig option"

definition ContainerHealthCheckConfig_fields :: "ContainerHealthCheckConfig \<Rightarrow> jfields" where
  "ContainerHealthCheckConfig_fields c =
     jptr ContainerHealthConfig_json ''healthconfig'' (hcc_HealthConfig c)"

record SpecGenerator =
  sg_Basic :: ContainerBasicConfig
  sg_Storage :: ContainerStorageConfig
  sg_Security :: ContainerSecurityConfig
  sg_Cgroup :: ContainerCgroupConfig
  sg_Network :: ContainerNetworkConfig
  sg_Resource :: ContainerResourceConfig
  sg_HealthCheck :: ContainerHealthCheckConfig

definition SpecGenerator_fields :: "SpecGenerator \<Rightarrow> jfields" where
  "SpecGenerator_fields s =
     ContainerBasicConfig_fields (sg_Basic s) @ ContainerStorageConfig_fields (sg_Storage s)
     @ ContainerSecurityConfig_fields (sg_Security s) @ ContainerCgroupConfig_fields (sg_Cgroup s)
     @ ContainerNetworkConfig_fields (sg_Network s) @ ContainerResourceConfig_fields (sg_Resource s)
     @ ContainerHealthCheckConfig_fields (sg_HealthCheck s)"

definition SpecGenerator_json :: "SpecGenerator \<Rightarrow> json" where
  "SpecGenerator_json s = JObj (SpecGenerator_fields s)"

subsection \<open>Pods\<close>

record PodBasicConfig =
  pb_Name :: string
  pb_Hostname :: string
  pb_Labels :: smap
  pb_NoInfra :: bool
  pb_InfraConmonPidFile :: string
  pb_InfraCommand :: "string list"
  pb_InfraImage :: string
  pb_SharedNamespaces :: "string list"

definition zero_PodBasicConfig :: PodBasicConfig where
  "zero_PodBasicConfig = \<lparr>pb_Name = [], pb_Hostname = [], pb_Labels = [], pb_NoInfra = False,
     pb_InfraConmonPidFile = [], pb_InfraCommand = [], pb_InfraImage = [], pb_SharedNamespaces = []\<rparr>"

definition PodBasicConfig_fields :: "PodBasicConfig \<Rightarrow> jfields" where
  "PodBasicConfig_fields p =
     jstr ''name'' (pb_Name p) @ jstr ''hostname'' (pb_Hostname p) @ jsmap ''labels'' (pb_Labels p)
     @ jbool ''no_infra'' (pb_NoInfra p) @ jstr ''infra_conmon_pid_file'' (pb_InfraConmonPidFile p)
     @ jstrs ''infra_command'' (pb_InfraCommand p) @ jstr ''infra_image'' (pb_InfraImage p)
     @ jstrs ''shared_namespaces'' (pb_SharedNamespaces p)"

record PodNetworkConfig =
  pn_NetNS :: Namespace
  pn_StaticIP :: "ip option"
  pn_StaticMAC :: "bytes option"
  pn_PortMappings :: "PortMapping list"
  pn_CNINetworks :: "string list"
  pn_NoManageResolvConf :: bool
  pn_DNSServer :: "ip list"
  pn_DNSSearch :: "string list"
  pn_DNSOption :: "string list"
  pn_NoManageHosts :: bool
  pn_HostAdd :: "string list"

definition zero_PodNetworkConfig :: PodNetworkConfig where
  "zero_PodNetworkConfig = \<lparr>pn_NetNS = zero_Namespace, pn_StaticIP = None, pn_StaticMAC = None,
     pn_PortMappings = [], pn_CNINetworks = [], pn_NoManageResolvConf = False, pn_DNSServer = [],
     pn_DNSSearch = [], pn_DNSOption = [], pn_NoManageHosts = False, pn_HostAdd = []\<rparr>"

definition PodNetworkConfig_fields :: "PodNetworkConfig \<Rightarrow> jfields" where
  "PodNetworkConfig_fields p =
     [(''netns'', Namespace_json (pn_NetNS p))] @ jptr ip_json ''static_ip'' (pn_StaticIP p)
     @ jptr mac_json ''static_mac'' (pn_StaticMAC p)
     @ jlist PortMapping_json ''portmappings'' (pn_PortMappings p)
     @ jstrs ''cni_networks'' (pn_CNINetworks p)
     @ jbool ''no_manage_resolv_conf'' (pn_NoManageResolvConf p)
     @ jlist ip_json ''dns_server'' (pn_DNSServer p) @ jstrs ''dns_search'' (pn_DNSSearch p)
     @ jstrs ''dns_option'' (pn_DNSOption p) @ jbool ''no_manage_hosts'' (pn_NoManageHosts p)
     @ jstrs ''hostadd'' (pn_HostAdd p)"

record PodCgroupConfig =
  pc_CgroupParent :: string

definition PodCgroupConfig_fields :: "PodCgroupConfig \<Rightarrow> jfields" where
  "PodCgroupConfig_fields p = jstr ''cgroup_parent'' (pc_CgroupParent p)"

record PodSpecGenerator =
  pg_Basic :: PodBasicConfig
  pg_Network :: PodNetworkConfig
  pg_Cgroup :: PodCgroupConfig

definition PodSpecGenerator_fields :: "PodSpecGenerator \<Rightarrow> jfields" where
  "PodSpecGenerator_fields p =
     PodBasicConfig_fields (pg_Basic p) @ PodNetworkConfig_fields (pg_Network p)
     @ PodCgroupConfig_fields (pg_Cgroup p)"

definition PodSpecGenerator_json :: "PodSpecGenerator \<Rightarrow> json" where
  "PodSpecGenerator_json p = JObj (PodSpecGenerator_fields p)"

subsection \<open>No two fields share a key\<close>

text \<open>The keys of a list of fields occur in the order of a list of possible keys.\<close>

lemma keys_field:
  "subseq (map fst (jstr n s)) [n]" "subseq (map fst (jbool n b)) [n]" "subseq (map fst (jnum n i)) [n]"
  "subseq (map fst (jlist f n xs)) [n]" "subseq (map fst (jstrs n ss)) [n]"
  "subseq (map fst (jptr g n p)) [n]" "subseq (map fst (jmap g n m)) [n]"
  "subseq (map fst (jsmap n sm)) [n]" "subseq (map fst [(n, j)]) [n]"
  "subseq (map fst [(n, j), (n', j')]) [n, n']"
  by (auto simp: jfield_defs split: option.split)

lemma keys_append:
  "subseq (map fst a) ks \<Longrightarrow> subseq (map fst b) ls \<Longrightarrow> subseq (map fst (a @ b)) (ks @ ls)"
  by (simp add: list_emb_append_mono)

lemma keys_cons:
  "subseq (map fst a) [n] \<Longrightarrow> subseq (map fst b) ls \<Longrightarrow> subseq (map fst (a @ b)) (n # ls)"
  using keys_append [of a "[n]" b ls] by simp

lemma keys_cons2:
  "subseq (map fst b) ls \<Longrightarrow> subseq (map fst ([(n, j), (n', j')] @ b)) (n # n' # ls)"
  by simp

lemmas keys_intros = keys_cons2 keys_cons keys_field

definition basic_keys :: "string list" where
  "basic_keys =
     [''name'', ''pod'', ''entrypoint'', ''command'', ''env'', ''terminal'', ''stdin'', ''labels'',
      ''annotations'', ''stop_signal'', ''stop_timeout'', ''log_configuration'', ''conmon_pid_file'',
      ''restart_policy'', ''restart_tries'', ''oci_runtime'', ''systemd'', ''namespace'', ''pidns'',
      ''utsns'', ''hostname'', ''sysctl'', ''remove'']"

definition storage_keys :: "string list" where
  "storage_keys =
     [''image'', ''rootfs'', ''image_volume_mode'', ''volumes_from'', ''init'', ''init_path'', ''mounts'',
      ''volumes'', ''devices'', ''ipcns'', ''shm_size'', ''work_dir'', ''rootfs_propagation'']"

definition security_keys :: "string list" where
  "security_keys =
     [''privileged'', ''user'', ''groups'', ''cap_add'', ''cap_drop'', ''selinux_opts'',
      ''apparmor_profile'', ''seccomp_policy'', ''seccomp_profile_path'', ''no_new_privileges'',
      ''userns'', ''read_only_filesystem'']"

definition cgroup_keys :: "string list" where
  "cgroup_keys = [''cgroupns'', ''cgroups_mode'', ''cgroup_parent'']"

definition network_keys :: "string list" where
  "network_keys =
     [''netns'', ''static_ip'', ''static_ipv6'', ''static_mac'', ''portmappings'',
      ''publish_image_ports'', ''expose'', ''cni_networks'', ''use_image_resolve_conf'', ''dns_server'',
      ''dns_search'', ''dns_option'', ''use_image_hosts'', ''hostadd'']"

definition resource_keys :: "string list" where
  "resource_keys =
     [''resource_limits'', ''r_limits'', ''oom_score_adj'', ''weightDevice'', ''throttleReadBpsDevice'',
      ''throttleWriteBpsDevice'', ''throttleReadIOPSDevice'', ''throttleWriteIOPSDevice'']"

definition pod_keys :: "string list" where
  "pod_keys =
     [''name'', ''hostname'', ''labels'', ''no_infra'', ''infra_conmon_pid_file'', ''infra_command'',
      ''infra_image'', ''shared_namespaces'', ''netns'', ''static_ip'', ''static_mac'', ''portmappings'',
      ''cni_networks'', ''no_manage_resolv_conf'', ''dns_server'', ''dns_search'', ''dns_option'',
      ''no_manage_hosts'', ''hostadd'', ''cgroup_parent'']"

definition container_keys :: "string list" where
  "container_keys = basic_keys @ storage_keys @ security_keys @ cgroup_keys @ network_keys
     @ resource_keys @ [''healthconfig'']"

lemmas key_list_defs = basic_keys_def storage_keys_def security_keys_def cgroup_keys_def
  network_keys_def resource_keys_def

lemma container_part_keys:
  "subseq (map fst (ContainerBasicConfig_fields c1)) basic_keys"
  "subseq (map fst (ContainerStorageConfig_fields c2)) storage_keys"
  "subseq (map fst (ContainerSecurityConfig_fields c3)) security_keys"
  "subseq (map fst (ContainerCgroupConfig_fields c4)) cgroup_keys"
  "subseq (map fst (ContainerNetworkConfig_fields c5)) network_keys"
  "subseq (map fst (ContainerResourceConfig_fields c6)) resource_keys"
  "subseq (map fst (ContainerHealthCheckConfig_fields c7)) [''healthconfig'']"
  unfolding ContainerBasicConfig_fields_def ContainerStorageConfig_fields_def
    ContainerSecurityConfig_fields_def ContainerCgroupConfig_fields_def
    ContainerNetworkConfig_fields_def ContainerResourceConfig_fields_def
    ContainerHealthCheckConfig_fields_def key_list_defs
  by (intro keys_intros)+

lemma SpecGenerator_keys: "subseq (map fst (SpecGenerator_fields s)) container_keys"
  unfolding SpecGenerator_fields_def container_keys_def
  by (intro keys_append container_part_keys)

lemma PodSpecGenerator_keys: "subseq (map fst (PodSpecGenerator_fields p)) pod_keys"
  unfolding PodSpecGenerator_fields_def PodBasicConfig_fields_def PodNetworkConfig_fields_def
    PodCgroupConfig_fields_def pod_keys_def append_assoc
  by (intro keys_intros)

lemma distinct_container_keys: "distinct container_keys"
  unfolding container_keys_def key_list_defs by simp

lemma distinct_pod_keys: "distinct pod_keys"
  unfolding pod_keys_def by simp

end
