(* ===== verification/Podman_Client.thy ===== *)
theory Podman_Client
  imports Node_World Podman_SpecGen
begin

text \<open>
  \<^verbatim>\<open>pkg/podman/client.go\<close> and \<^verbatim>\<open>urlencode.go\<close>: requests over podman's HTTP socket and the
  classification of the answers. The operations return what the Go functions return, an output
  value and maybe an error; \<open>errR\<close> is the caller's \<^verbatim>\<open>if err != nil { return err }\<close>. Where Go writes
  \<^verbatim>\<open>return out, f(&out)\<close> with a plain variable, the compiler reads \<open>out\<close> after the call, and so does
  the model.
\<close>

type_synonym 'a outcome = "'a \<times> go_error option"

definition errR :: "'a outcome run \<Rightarrow> 'a run" where
  "errR m = bindR m (\<lambda>(out, e). case e of None \<Rightarrow> ret out | Some err \<Rightarrow> failR err)"

definition UrlEncoded :: "string \<Rightarrow> string option" where
  "UrlEncoded str = map_option (\<lambda>u. drop 3 (url_string u)) (url_parse (''/a/'' @ str))"

definition bad_url :: go_error where
  "bad_url = PlainErr ''invalid URL''"

text \<open>\<open>err.Error()\<close>.\<close>

definition errText :: "go_error \<Rightarrow> string" where
  "errText e = (case e of
     ApiErr rq cause message status \<Rightarrow>
       ''HTTP '' @ int_dec status @ '' from '' @ rq_method rq @ '' '' @ rq_path rq @ '' -- '' @ message
   | FileErr _ text \<Rightarrow> text
   | PlainErr text \<Rightarrow> text)"

definition api_prefix :: string where
  "api_prefix = ''/v1.0.0''"

definition new_request :: "string \<Rightarrow> string \<Rightarrow> smap \<Rightarrow> json option \<Rightarrow> http_request option" where
  "new_request meth path headers body =
     map_option (\<lambda>u. \<lparr>rq_method = meth, rq_url = u, rq_headers = headers, rq_body = body\<rparr>)
       (url_parse (api_prefix @ path))"

definition accept_json :: smap where "accept_json = [(''accept'', ''application/json'')]"
definition send_json :: smap where
  "send_json = [(''content-type'', ''application/json''), (''accept'', ''application/json'')]"

subsection \<open>Requests\<close>

record api_error_fields =
  ae_Cause :: string
  ae_Message :: string
  ae_Status :: int

definition api_error_decoder :: "api_error_fields decoder" where
  "api_error_decoder = dec_struct
     [(''cause'', dec_str (\<lambda>x s. s\<lparr>ae_Cause := x\<rparr>)),
      (''message'', dec_str (\<lambda>x s. s\<lparr>ae_Message := x\<rparr>)),
      (''response'', dec_int 64 (\<lambda>x s. s\<lparr>ae_Status := x\<rparr>))]"

definition decode_error :: go_error where
  "decode_error = PlainErr ''json: cannot unmarshal''"

definition decode_into :: "string + json \<Rightarrow> 'a decoder \<Rightarrow> 'a \<Rightarrow> 'a outcome" where
  "decode_into r dec out =
     (case r of
        Inl e \<Rightarrow> (out, Some (PlainErr e))
      | Inr j \<Rightarrow> (case dec j out of (x, ok) \<Rightarrow> (x, if ok then None else Some decode_error)))"

definition happy_status :: "int \<Rightarrow> bool" where
  "happy_status c \<longleftrightarrow> c = 101 \<or> (200 \<le> c \<and> c < 300)"

definition performRequest :: "env \<Rightarrow> http_request \<Rightarrow> http_response run" where
  "performRequest env req =
     bindR (getR (\<lambda>n. env_http env (n_trace n) req)) (\<lambda>r.
     thenR (emit (Http req))
       (case r of
          Inl e \<Rightarrow> failR (PlainErr e)
        | Inr resp \<Rightarrow>
            if happy_status (rs_code resp) then ret resp
            else if rs_code resp = 304 then failR (ApiErr req (rs_status resp) [] (rs_code resp))
            else case decode_into (env_parse env (rs_body resp)) api_error_decoder
                        \<lparr>ae_Cause = [], ae_Message = [], ae_Status = 0\<rparr> of
                   (_, Some err) \<Rightarrow> failR err
                 | (a, None) \<Rightarrow> failR (ApiErr req (ae_Cause a) (ae_Message a) (ae_Status a))))"

text \<open>\<open>performJsonRequest\<close> with an output, and with a nil output.\<close>

definition performJsonRequest :: "env \<Rightarrow> http_request \<Rightarrow> 'a decoder \<Rightarrow> 'a \<Rightarrow> 'a outcome run" where
  "performJsonRequest env req dec out =
     bindR (tryR (performRequest env req)) (\<lambda>r.
       ret (case r of
              Inl err \<Rightarrow> (out, Some err)
            | Inr resp \<Rightarrow> decode_into (env_parse env (rs_body resp)) dec out))"

definition performJsonRequest_nil :: "env \<Rightarrow> http_request \<Rightarrow> unit run" where
  "performJsonRequest_nil env req =
     bindR (performRequest env req) (\<lambda>resp.
       if rs_code resp = 201 \<or> rs_code resp = 204 then ret ()
       else failR (PlainErr (''Client caller didn''
              @ [CHR 0x27] @ ''t expect a body, but we got an HTTP '' @ int_dec (rs_code resp))))"

text \<open>The request is dereferenced before the error of its construction is looked at.\<close>

definition performRawRequest :: "env \<Rightarrow> string \<Rightarrow> string \<Rightarrow> http_response run" where
  "performRawRequest env meth path =
     bindR (derefR (new_request meth path accept_json None)) (performRequest env)"

definition performGet :: "env \<Rightarrow> string \<Rightarrow> 'a decoder \<Rightarrow> 'a \<Rightarrow> 'a outcome run" where
  "performGet env path dec out =
     bindR (derefR (new_request ''GET'' path accept_json None))
       (\<lambda>req. performJsonRequest env req dec out)"

definition performPost :: "env \<Rightarrow> string \<Rightarrow> json \<Rightarrow> 'a decoder \<Rightarrow> 'a \<Rightarrow> 'a outcome run" where
  "performPost env path input dec out =
     bindR (derefR (new_request ''POST'' path send_json (Some input)))
       (\<lambda>req. performJsonRequest env req dec out)"

definition performPost_nil :: "env \<Rightarrow> string \<Rightarrow> json \<Rightarrow> unit run" where
  "performPost_nil env path input =
     bindR (derefR (new_request ''POST'' path send_json (Some input))) (performJsonRequest_nil env)"

definition performDelete :: "env \<Rightarrow> string \<Rightarrow> 'a decoder \<Rightarrow> 'a \<Rightarrow> 'a outcome run" where
  "performDelete env path dec out =
     bindR (derefR (new_request ''DELETE'' path accept_json None))
       (\<lambda>req. performJsonRequest env req dec out)"

definition performDelete_nil :: "env \<Rightarrow> string \<Rightarrow> unit run" where
  "performDelete_nil env path =
     bindR (derefR (new_request ''DELETE'' path accept_json None)) (performJsonRequest_nil env)"

text \<open>A call on a named object: the name is encoded into the path, or its error is returned.\<close>

definition named :: "string \<Rightarrow> 'a \<Rightarrow> (string \<Rightarrow> 'a outcome run) \<Rightarrow> 'a outcome run" where
  "named nameOrId out k =
     (case UrlEncoded nameOrId of None \<Rightarrow> ret (out, Some bad_url) | Some encoded \<Rightarrow> k encoded)"

subsection \<open>What requests do to the node\<close>

lemma performRequest_sends:
  "Q (Http req) \<Longrightarrow> keeps (sends Q) (performRequest env req)"
  unfolding performRequest_def
  by (intro sends_frame.keeps_intros sends_emit)

lemma performRequest_store:
  "keeps (\<lambda>s t. store_of s = store_of t) (performRequest env req)"
  unfolding performRequest_def
  by (intro same_frame.keeps_intros store_of_emit)

lemmas request_defs = performJsonRequest_def performJsonRequest_nil_def performRawRequest_def
  performGet_def performPost_def performPost_nil_def performDelete_def performDelete_nil_def

lemma errR_keeps:
  "keeps (sends Q) m \<Longrightarrow> keeps (sends Q) (errR m)"
  "keeps (\<lambda>s t. store_of s = store_of t) m' \<Longrightarrow> keeps (\<lambda>s t. store_of s = store_of t) (errR m')"
  unfolding errR_def
  by (intro sends_frame.keeps_intros same_frame.keeps_intros; assumption)+

lemma request_store:
  "keeps (\<lambda>s t. store_of s = store_of t) (performJsonRequest env req dec out)"
  "keeps (\<lambda>s t. store_of s = store_of t) (performJsonRequest_nil env req)"
  "keeps (\<lambda>s t. store_of s = store_of t) (performRawRequest env meth path)"
  "keeps (\<lambda>s t. store_of s = store_of t) (performGet env path dec out)"
  "keeps (\<lambda>s t. store_of s = store_of t) (performPost env path input dec out)"
  "keeps (\<lambda>s t. store_of s = store_of t) (performPost_nil env path input)"
  "keeps (\<lambda>s t. store_of s = store_of t) (performDelete env path dec out)"
  "keeps (\<lambda>s t. store_of s = store_of t) (performDelete_nil env path)"
  unfolding request_defs by (intro same_frame.keeps_intros performRequest_store)+

text \<open>A request extends the trace by itself, whatever the answer.\<close>

lemma performRequest_node:
  "performRequest env req n
     = (fst (performRequest env req n), n\<lparr>n_trace := n_trace n @ [Http req]\<rparr>)"
  by (auto simp: performRequest_def prod_eq_iff thenR_def split: sum.split prod.split option.split)

lemma performJsonRequest_node:
  "\<exists>r. (\<forall>e. r \<noteq> Err e)
     \<and> performJsonRequest env req dec out n = (r, n\<lparr>n_trace := n_trace n @ [Http req]\<rparr>)"
  unfolding performJsonRequest_def
  by (subst bindR_def, subst tryR_def, subst performRequest_node)
     (auto split: res.split)

lemma performJsonRequest_nil_node:
  "\<exists>r. performJsonRequest_nil env req n = (r, n\<lparr>n_trace := n_trace n @ [Http req]\<rparr>)"
  unfolding performJsonRequest_nil_def
  by (subst bindR_def, subst performRequest_node) (auto split: res.split)

lemma errR_node: "snd (errR m n) = snd (m n)"
  by (simp add: errR_def bindR_def split: prod.split res.split option.split)

lemma errR_OkD: "errR m n = (Ok r, n') \<Longrightarrow> m n = (Ok (r, None), n')"
  by (auto simp: errR_def bindR_def split: prod.splits res.splits option.splits)

lemma derefR_simps [simp]: "derefR (Some a) = ret a" "derefR None = panicR"
  by (simp_all add: derefR_def)

text \<open>The path of a request for a plain path is that path below the API prefix.\<close>

lemma new_request_plain:
  assumes "is_plain path"
  shows "new_request meth path headers body = Some \<lparr>rq_method = meth,
    rq_url = \<lparr>u_path = api_prefix @ path, u_raw_path = [], u_force_query = False, u_query = [],
      u_fragment = []\<rparr>, rq_headers = headers, rq_body = body\<rparr>"
proof -
  have "is_plain (api_prefix @ path)"
    using assms by (simp add: is_plain_def api_prefix_def path_safe_def)
  then show ?thesis by (simp add: new_request_def plain_url)
qed

lemma UrlEncoded_plain: "is_plain s \<Longrightarrow> UrlEncoded s = Some s"
proof -
  assume "is_plain s"
  then have "is_plain (''/a/'' @ s)" by (simp add: is_plain_def path_safe_def)
  then show ?thesis by (simp add: UrlEncoded_def plain_url url_string_def escaped_path_def plain_escape)
qed

end
