(* ===== verification/Podman_Inspect.thy ===== *)
theory Podman_Inspect
  imports Podman_Client
begin

text \<open>
  What podman tells about a container, from \<^verbatim>\<open>pkg/podman/client-container.go\<close>: the records with all
  their fields, their zero values and their decoders. JSON keys without a field are skipped as Go does.
\<close>

subsection \<open>Numbers\<close>

text \<open>Unsigned fields; and float fields, kept as the text of the number.\<close>

definition dec_uint :: "nat \<Rightarrow> (int \<Rightarrow> 'a \<Rightarrow> 'a) \<Rightarrow> 'a decoder" where
  "dec_uint w upd j s =
     (case j of
        JNum x \<Rightarrow> if 0 \<le> x \<and> x < 2 ^ w then (upd x s, True) else (s, False)
      | JNull \<Rightarrow> (s, True)
      | _ \<Rightarrow> (s, False))"

definition dec_float :: "(string \<Rightarrow> 'a \<Rightarrow> 'a) \<Rightarrow> 'a decoder" where
  "dec_float upd j s =
     (case j of
        JNum x \<Rightarrow> (upd (int_dec x) s, True)
      | JFloat t \<Rightarrow> (upd t s, True)
      | JNull \<Rightarrow> (s, True)
      | _ \<Rightarrow> (s, False))"

definition plain_int :: "int decoder" where
  "plain_int = dec_int 64 (\<lambda>x _. x)"

definition plain_uint :: "int decoder" where
  "plain_uint = dec_uint 64 (\<lambda>x _. x)"

subsection \<open>Containers\<close>

text \<open>A \<^verbatim>\<open>time.Time\<close> is kept as the text that was received.\<close>

record HealthCheckLog =
  hcl_Start :: string
  hcl_End :: string
  hcl_ExitCode :: int
  hcl_Output :: string

definition zero_HealthCheckLog :: HealthCheckLog where
  "zero_HealthCheckLog = \<lparr>hcl_Start = [], hcl_End = [], hcl_ExitCode = 0, hcl_Output = []\<rparr>"

definition HealthCheckLog_decoder :: "HealthCheckLog decoder" where
  "HealthCheckLog_decoder = dec_struct
     [(''Start'', dec_str (\<lambda>x s. s\<lparr>hcl_Start := x\<rparr>)),
      (''End'', dec_str (\<lambda>x s. s\<lparr>hcl_End := x\<rparr>)),
      (''ExitCode'', dec_int 64 (\<lambda>x s. s\<lparr>hcl_ExitCode := x\<rparr>)),
      (''Output'', dec_str (\<lambda>x s. s\<lparr>hcl_Output := x\<rparr>))]"

record HealthCheckResults =
  hcr_Status :: string
  hcr_FailingStreak :: int
  hcr_Log :: "HealthCheckLog list"

definition zero_HealthCheckResults :: HealthCheckResults where
  "zero_HealthCheckResults = \<lparr>hcr_Status = [], hcr_FailingStreak = 0, hcr_Log = []\<rparr>"

definition HealthCheckResults_decoder :: "HealthCheckResults decoder" where
  "HealthCheckResults_decoder = dec_struct
     [(''Status'', dec_str (\<lambda>x s. s\<lparr>hcr_Status := x\<rparr>)),
      (''FailingStreak'', dec_int 64 (\<lambda>x s. s\<lparr>hcr_FailingStreak := x\<rparr>)),
      (''Log'', dec_list HealthCheckLog_decoder zero_HealthCheckLog (\<lambda>x s. s\<lparr>hcr_Log := x\<rparr>))]"

record InspectContainerState =
  ics_OciVersion :: string
  ics_Status :: string
  ics_Running :: bool
  ics_Paused :: bool
  ics_Restarting :: bool
  ics_OOMKilled :: bool
  ics_Dead :: bool
  ics_Pid :: int
  ics_ConmonPid :: int
  ics_ExitCode :: int
  ics_Error :: string
  ics_StartedAt :: string
  ics_FinishedAt :: string
  ics_Healthcheck :: HealthCheckResults

definition zero_InspectContainerState :: InspectContainerState where
  "zero_InspectContainerState = \<lparr>ics_OciVersion = [], ics_Status = [], ics_Running = False,
     ics_Paused = False, ics_Restarting = False, ics_OOMKilled = False, ics_Dead = False, ics_Pid = 0,
     ics_ConmonPid = 0, ics_ExitCode = 0, ics_Error = [], ics_StartedAt = [], ics_FinishedAt = [],
     ics_Healthcheck = zero_HealthCheckResults\<rparr>"

definition InspectContainerState_decoder :: "InspectContainerState decoder" where
  "InspectContainerState_decoder = dec_struct
     [(''OciVersion'', dec_str (\<lambda>x s. s\<lparr>ics_OciVersion := x\<rparr>)),
      (''Status'', dec_str (\<lambda>x s. s\<lparr>ics_Status := x\<rparr>)),
      (''Running'', dec_bool (\<lambda>x s. s\<lparr>ics_Running := x\<rparr>)),
      (''Paused'', dec_bool (\<lambda>x s. s\<lparr>ics_Paused := x\<rparr>)),
      (''Restarting'', dec_bool (\<lambda>x s. s\<lparr>ics_Restarting := x\<rparr>)),
      (''OOMKilled'', dec_bool (\<lambda>x s. s\<lparr>ics_OOMKilled := x\<rparr>)),
      (''Dead'', dec_bool (\<lambda>x s. s\<lparr>ics_Dead := x\<rparr>)),
      (''Pid'', dec_int 64 (\<lambda>x s. s\<lparr>ics_Pid := x\<rparr>)),
      (''ConmonPid'', dec_int 64 (\<lambda>x s. s\<lparr>ics_ConmonPid := x\<rparr>)),
      (''ExitCode'', dec_int 32 (\<lambda>x s. s\<lparr>ics_ExitCode := x\<rparr>)),
      (''Error'', dec_str (\<lambda>x s. s\<lparr>ics_Error := x\<rparr>)),
      (''StartedAt'', dec_str (\<lambda>x s. s\<lparr>ics_StartedAt := x\<rparr>)),
      (''FinishedAt'', dec_str (\<lambda>x s. s\<lparr>ics_FinishedAt := x\<rparr>)),
      (''Healthcheck'', (\<lambda>j s. case HealthCheckResults_decoder j (ics_Healthcheck s) of (x, ok) \<Rightarrow> (s\<lparr>ics_Healthcheck := x\<rparr>, ok)))]"

record InspectContainerConfig =
  icc_Hostname :: string
  icc_DomainName :: string
  icc_User :: string
  icc_AttachStdin :: bool
  icc_AttachStdout :: bool
  icc_AttachStderr :: bool
  icc_Tty :: bool
  icc_OpenStdin :: bool
  icc_StdinOnce :: bool
  icc_Env :: "string list"
  icc_Cmd :: "string list"
  icc_Image :: string
  icc_Volumes :: "(string \<times> unit) list"
  icc_WorkingDir :: string
  icc_Entrypoint :: string
  icc_OnBuild :: "string option"
  icc_Labels :: smap
  icc_Annotations :: smap
  icc_StopSignal :: int
  icc_CreateCommand :: "string list"

definition zero_InspectContainerConfig :: InspectContainerConfig where
  "zero_InspectContainerConfig = \<lparr>icc_Hostname = [], icc_DomainName = [], icc_User = [],
     icc_AttachStdin = False, icc_AttachStdout = False, icc_AttachStderr = False, icc_Tty = False,
     icc_OpenStdin = False, icc_StdinOnce = False, icc_Env = [], icc_Cmd = [], icc_Image = [],
     icc_Volumes = [], icc_WorkingDir = [], icc_Entrypoint = [], icc_OnBuild = None, icc_Labels = [],
     icc_Annotations = [], icc_StopSignal = 0, icc_CreateCommand = []\<rparr>"

definition InspectContainerConfig_decoder :: "InspectContainerConfig decoder" where
  "InspectContainerConfig_decoder = dec_struct
     [(''Hostname'', dec_str (\<lambda>x s. s\<lparr>icc_Hostname := x\<rparr>)),
      (''Domainname'', dec_str (\<lambda>x s. s\<lparr>icc_DomainName := x\<rparr>)),
      (''User'', dec_str (\<lambda>x s. s\<lparr>icc_User := x\<rparr>)),
      (''AttachStdin'', dec_bool (\<lambda>x s. s\<lparr>icc_AttachStdin := x\<rparr>)),
      (''AttachStdout'', dec_bool (\<lambda>x s. s\<lparr>icc_AttachStdout := x\<rparr>)),
      (''AttachStderr'', dec_bool (\<lambda>x s. s\<lparr>icc_AttachStderr := x\<rparr>)),
      (''Tty'', dec_bool (\<lambda>x s. s\<lparr>icc_Tty := x\<rparr>)),
      (''OpenStdin'', dec_bool (\<lambda>x s. s\<lparr>icc_OpenStdin := x\<rparr>)),
      (''StdinOnce'', dec_bool (\<lambda>x s. s\<lparr>icc_StdinOnce := x\<rparr>)),
      (''Env'', dec_list plain_str [] (\<lambda>x s. s\<lparr>icc_Env := x\<rparr>)),
      (''Cmd'', dec_list plain_str [] (\<lambda>x s. s\<lparr>icc_Cmd := x\<rparr>)),
      (''Image'', dec_str (\<lambda>x s. s\<lparr>icc_Image := x\<rparr>)),
      (''Volumes'', dec_map (dec_struct []) () icc_Volumes (\<lambda>x s. s\<lparr>icc_Volumes := x\<rparr>)),
      (''WorkingDir'', dec_str (\<lambda>x s. s\<lparr>icc_WorkingDir := x\<rparr>)),
      (''Entrypoint'', dec_str (\<lambda>x s. s\<lparr>icc_Entrypoint := x\<rparr>)),
      (''OnBuild'', dec_ptr plain_str [] icc_OnBuild (\<lambda>x s. s\<lparr>icc_OnBuild := x\<rparr>)),
      (''Labels'', dec_map plain_str [] icc_Labels (\<lambda>x s. s\<lparr>icc_Labels := x\<rparr>)),
      (''Annotations'', dec_map plain_str [] icc_Annotations (\<lambda>x s. s\<lparr>icc_Annotations := x\<rparr>)),
      (''StopSignal'', dec_uint 64 (\<lambda>x s. s\<lparr>icc_StopSignal := x\<rparr>)),
      (''CreateCommand'', dec_list plain_str [] (\<lambda>x s. s\<lparr>icc_CreateCommand := x\<rparr>))]"

record InspectBasicNetworkConfig =
  ibn_EndpointID :: string
  ibn_Gateway :: string
  ibn_IPAddress :: string
  ibn_IPPrefixLen :: int
  ibn_SecondaryIPAddresses :: "string list"
  ibn_IPv6Gateway :: string
  ibn_GlobalIPv6Address :: string
  ibn_GlobalIPv6PrefixLen :: int
  ibn_SecondaryIPv6Addresses :: "string list"
  ibn_MacAddress :: string
  ibn_AdditionalMacAddresses :: "string list"

definition zero_InspectBasicNetworkConfig :: InspectBasicNetworkConfig where
  "zero_InspectBasicNetworkConfig = \<lparr>ibn_EndpointID = [], ibn_Gateway = [], ibn_IPAddress = [],
     ibn_IPPrefixLen = 0, ibn_SecondaryIPAddresses = [], ibn_IPv6Gateway = [], ibn_GlobalIPv6Address = [],
     ibn_GlobalIPv6PrefixLen = 0, ibn_SecondaryIPv6Addresses = [], ibn_MacAddress = [],
     ibn_AdditionalMacAddresses = []\<rparr>"

text \<open>The fields of the embedded network configuration are promoted.\<close>

definition basic_network_fields ::
  "((InspectBasicNetworkConfig \<Rightarrow> InspectBasicNetworkConfig) \<Rightarrow> 'a \<Rightarrow> 'a) \<Rightarrow> (string \<times> 'a decoder) list" where
  "basic_network_fields up =
     [(''EndpointID'', dec_str (\<lambda>x. up (\<lambda>s. s\<lparr>ibn_EndpointID := x\<rparr>))),
      (''Gateway'', dec_str (\<lambda>x. up (\<lambda>s. s\<lparr>ibn_Gateway := x\<rparr>))),
      (''IPAddress'', dec_str (\<lambda>x. up (\<lambda>s. s\<lparr>ibn_IPAddress := x\<rparr>))),
      (''IPPrefixLen'', dec_int 64 (\<lambda>x. up (\<lambda>s. s\<lparr>ibn_IPPrefixLen := x\<rparr>))),
      (''SecondaryIPAddresses'', dec_list plain_str [] (\<lambda>x. up (\<lambda>s. s\<lparr>ibn_SecondaryIPAddresses := x\<rparr>))),
      (''IPv6Gateway'', dec_str (\<lambda>x. up (\<lambda>s. s\<lparr>ibn_IPv6Gateway := x\<rparr>))),
      (''GlobalIPv6Address'', dec_str (\<lambda>x. up (\<lambda>s. s\<lparr>ibn_GlobalIPv6Address := x\<rparr>))),
      (''GlobalIPv6PrefixLen'', dec_int 64 (\<lambda>x. up (\<lambda>s. s\<lparr>ibn_GlobalIPv6PrefixLen := x\<rparr>))),
      (''SecondaryIPv6Addresses'', dec_list plain_str [] (\<lambda>x. up (\<lambda>s. s\<lparr>ibn_SecondaryIPv6Addresses := x\<rparr>))),
      (''MacAddress'', dec_str (\<lambda>x. up (\<lambda>s. s\<lparr>ibn_MacAddress := x\<rparr>))),
      (''AdditionalMACAddresses'', dec_list plain_str [] (\<lambda>x. up (\<lambda>s. s\<lparr>ibn_AdditionalMacAddresses := x\<rparr>)))]"

record InspectAdditionalNetwork =
  ian_Basic :: InspectBasicNetworkConfig
  ian_NetworkID :: string
  ian_DriverOpts :: smap
  ian_IPAMConfig :: smap
  ian_Links :: "string list"

definition zero_InspectAdditionalNetwork :: InspectAdditionalNetwork where
  "zero_InspectAdditionalNetwork = \<lparr>ian_Basic = zero_InspectBasicNetworkConfig, ian_NetworkID = [],
     ian_DriverOpts = [], ian_IPAMConfig = [], ian_Links = []\<rparr>"

definition InspectAdditionalNetwork_decoder :: "InspectAdditionalNetwork decoder" where
  "InspectAdditionalNetwork_decoder = dec_struct
     (basic_network_fields (\<lambda>f s. s\<lparr>ian_Basic := f (ian_Basic s)\<rparr>) @
      [(''NetworkID'', dec_str (\<lambda>x s. s\<lparr>ian_NetworkID := x\<rparr>)),
       (''DriverOpts'', dec_map plain_str [] ian_DriverOpts (\<lambda>x s. s\<lparr>ian_DriverOpts := x\<rparr>)),
       (''IPAMConfig'', dec_map plain_str [] ian_IPAMConfig (\<lambda>x s. s\<lparr>ian_IPAMConfig := x\<rparr>)),
       (''Links'', dec_list plain_str [] (\<lambda>x s. s\<lparr>ian_Links := x\<rparr>))])"

record InspectHostPort =
  ihp_HostIP :: string
  ihp_HostPort :: string

definition zero_InspectHostPort :: InspectHostPort where
  "zero_InspectHostPort = \<lparr>ihp_HostIP = [], ihp_HostPort = []\<rparr>"

definition InspectHostPort_decoder :: "InspectHostPort decoder" where
  "InspectHostPort_decoder = dec_struct
     [(''HostIp'', dec_str (\<lambda>x s. s\<lparr>ihp_HostIP := x\<rparr>)),
      (''HostPort'', dec_str (\<lambda>x s. s\<lparr>ihp_HostPort := x\<rparr>))]"

record InspectNetworkSettings =
  ins_Basic :: InspectBasicNetworkConfig
  ins_Bridge :: string
  ins_SandboxID :: string
  ins_HairpinMode :: bool
  ins_LinkLocalIPv6Address :: string
  ins_LinkLocalIPv6PrefixLen :: int
  ins_Ports :: "(string \<times> InspectHostPort list) list"
  ins_SandboxKey :: string
  ins_Networks :: "(string \<times> InspectAdditionalNetwork option) list"

definition zero_InspectNetworkSettings :: InspectNetworkSettings where
  "zero_InspectNetworkSettings = \<lparr>ins_Basic = zero_InspectBasicNetworkConfig, ins_Bridge = [],
     ins_SandboxID = [], ins_HairpinMode = False, ins_LinkLocalIPv6Address = [],
     ins_LinkLocalIPv6PrefixLen = 0, ins_Ports = [], ins_SandboxKey = [], ins_Networks = []\<rparr>"

definition InspectNetworkSettings_decoder :: "InspectNetworkSettings decoder" where
  "InspectNetworkSettings_decoder = dec_struct
     (basic_network_fields (\<lambda>f s. s\<lparr>ins_Basic := f (ins_Basic s)\<rparr>) @
      [(''Bridge'', dec_str (\<lambda>x s. s\<lparr>ins_Bridge := x\<rparr>)),
       (''SandboxID'', dec_str (\<lambda>x s. s\<lparr>ins_SandboxID := x\<rparr>)),
       (''HairpinMode'', dec_bool (\<lambda>x s. s\<lparr>ins_HairpinMode := x\<rparr>)),
       (''LinkLocalIPv6Address'', dec_str (\<lambda>x s. s\<lparr>ins_LinkLocalIPv6Address := x\<rparr>)),
       (''LinkLocalIPv6PrefixLen'', dec_int 64 (\<lambda>x s. s\<lparr>ins_LinkLocalIPv6PrefixLen := x\<rparr>)),
       (''Ports'', dec_map (dec_list InspectHostPort_decoder zero_InspectHostPort (\<lambda>xs _. xs)) [] ins_Ports
          (\<lambda>x s. s\<lparr>ins_Ports := x\<rparr>)),
       (''SandboxKey'', dec_str (\<lambda>x s. s\<lparr>ins_SandboxKey := x\<rparr>)),
       (''Networks'', dec_map (dec_ptr InspectAdditionalNetwork_decoder zero_InspectAdditionalNetwork
          (\<lambda>p. p) (\<lambda>p _. p)) None ins_Networks (\<lambda>x s. s\<lparr>ins_Networks := x\<rparr>))])"

record InspectContainerData =
  ic_ID :: string
  ic_Created :: string
  ic_Path :: string
  ic_Args :: "string list"
  ic_State :: "InspectContainerState option"
  ic_Image :: string
  ic_ImageName :: string
  ic_Rootfs :: string
  ic_Pod :: string
  ic_ResolvConfPath :: string
  ic_HostnamePath :: string
  ic_HostsPath :: string
  ic_StaticDir :: string
  ic_OCIConfigPath :: string
  ic_OCIRuntime :: string
  ic_LogPath :: string
  ic_LogTag :: string
  ic_ConmonPidFile :: string
  ic_Name :: string
  ic_RestartCount :: int
  ic_Driver :: string
  ic_MountLabel :: string
  ic_ProcessLabel :: string
  ic_AppArmorProfile :: string
  ic_EffectiveCaps :: "string list"
  ic_BoundingCaps :: "string list"
  ic_ExecIDs :: "string list"
  ic_SizeRw :: "int option"
  ic_SizeRootFs :: int
  ic_Dependencies :: "string list"
  ic_NetworkSettings :: "InspectNetworkSettings option"
  ic_ExitCommand :: "string list"
  ic_Namespace :: string
  ic_IsInfra :: bool
  ic_Config :: "InspectContainerConfig option"

definition zero_InspectContainerData :: InspectContainerData where
  "zero_InspectContainerData = \<lparr>ic_ID = [], ic_Created = [], ic_Path = [], ic_Args = [],
     ic_State = None, ic_Image = [], ic_ImageName = [], ic_Rootfs = [], ic_Pod = [], ic_ResolvConfPath = [],
     ic_HostnamePath = [], ic_HostsPath = [], ic_StaticDir = [], ic_OCIConfigPath = [], ic_OCIRuntime = [],
     ic_LogPath = [], ic_LogTag = [], ic_ConmonPidFile = [], ic_Name = [], ic_RestartCount = 0,
     ic_Driver = [], ic_MountLabel = [], ic_ProcessLabel = [], ic_AppArmorProfile = [],
     ic_EffectiveCaps = [], ic_BoundingCaps = [], ic_ExecIDs = [], ic_SizeRw = None, ic_SizeRootFs = 0,
     ic_Dependencies = [], ic_NetworkSettings = None, ic_ExitCommand = [], ic_Namespace = [],
     ic_IsInfra = False, ic_Config = None\<rparr>"

definition InspectContainerData_decoder :: "InspectContainerData decoder" where
  "InspectContainerData_decoder = dec_struct
     [(''Id'', dec_str (\<lambda>x s. s\<lparr>ic_ID := x\<rparr>)),
      (''Created'', dec_str (\<lambda>x s. s\<lparr>ic_Created := x\<rparr>)),
      (''Path'', dec_str (\<lambda>x s. s\<lparr>ic_Path := x\<rparr>)),
      (''Args'', dec_list plain_str [] (\<lambda>x s. s\<lparr>ic_Args := x\<rparr>)),
      (''State'', dec_ptr InspectContainerState_decoder zero_InspectContainerState ic_State (\<lambda>x s. s\<lparr>ic_State := x\<rparr>)),
      (''Image'', dec_str (\<lambda>x s. s\<lparr>ic_Image := x\<rparr>)),
      (''ImageName'', dec_str (\<lambda>x s. s\<lparr>ic_ImageName := x\<rparr>)),
      (''Rootfs'', dec_str (\<lambda>x s. s\<lparr>ic_Rootfs := x\<rparr>)),
      (''Pod'', dec_str (\<lambda>x s. s\<lparr>ic_Pod := x\<rparr>)),
      (''ResolvConfPath'', dec_str (\<lambda>x s. s\<lparr>ic_ResolvConfPath := x\<rparr>)),
      (''HostnamePath'', dec_str (\<lambda>x s. s\<lparr>ic_HostnamePath := x\<rparr>)),
      (''HostsPath'', dec_str (\<lambda>x s. s\<lparr>ic_HostsPath := x\<rparr>)),
      (''StaticDir'', dec_str (\<lambda>x s. s\<lparr>ic_StaticDir := x\<rparr>)),
      (''OCIConfigPath'', dec_str (\<lambda>x s. s\<lparr>ic_OCIConfigPath := x\<rparr>)),
      (''OCIRuntime'', dec_str (\<lambda>x s. s\<lparr>ic_OCIRuntime := x\<rparr>)),
      (''LogPath'', dec_str (\<lambda>x s. s\<lparr>ic_LogPath := x\<rparr>)),
      (''LogTag'', dec_str (\<lambda>x s. s\<lparr>ic_LogTag := x\<rparr>)),
      (''ConmonPidFile'', dec_str (\<lambda>x s. s\<lparr>ic_ConmonPidFile := x\<rparr>)),
      (''Name'', dec_str (\<lambda>x s. s\<lparr>ic_Name := x\<rparr>)),
      (''RestartCount'', dec_int 32 (\<lambda>x s. s\<lparr>ic_RestartCount := x\<rparr>)),
      (''Driver'', dec_str (\<lambda>x s. s\<lparr>ic_Driver := x\<rparr>)),
      (''MountLabel'', dec_str (\<lambda>x s. s\<lparr>ic_MountLabel := x\<rparr>)),
      (''ProcessLabel'', dec_str (\<lambda>x s. s\<lparr>ic_ProcessLabel := x\<rparr>)),
      (''AppArmorProfile'', dec_str (\<lambda>x s. s\<lparr>ic_AppArmorProfile := x\<rparr>)),
      (''EffectiveCaps'', dec_list plain_str [] (\<lambda>x s. s\<lparr>ic_EffectiveCaps := x\<rparr>)),
      (''BoundingCaps'', dec_list plain_str [] (\<lambda>x s. s\<lparr>ic_BoundingCaps := x\<rparr>)),
      (''ExecIDs'', dec_list plain_str [] (\<lambda>x s. s\<lparr>ic_ExecIDs := x\<rparr>)),
      (''SizeRw'', dec_ptr plain_int 0 ic_SizeRw (\<lambda>x s. s\<lparr>ic_SizeRw := x\<rparr>)),
      (''SizeRootFs'', dec_int 64 (\<lambda>x s. s\<lparr>ic_SizeRootFs := x\<rparr>)),
      (''Dependencies'', dec_list plain_str [] (\<lambda>x s. s\<lparr>ic_Dependencies := x\<rparr>)),
      (''NetworkSettings'', dec_ptr InspectNetworkSettings_decoder zero_InspectNetworkSettings ic_NetworkSettings (\<lambda>x s. s\<lparr>ic_NetworkSettings := x\<rparr>)),
      (''ExitCommand'', dec_list plain_str [] (\<lambda>x s. s\<lparr>ic_ExitCommand := x\<rparr>)),
      (''Namespace'', dec_str (\<lambda>x s. s\<lparr>ic_Namespace := x\<rparr>)),
      (''IsInfra'', dec_bool (\<lambda>x s. s\<lparr>ic_IsInfra := x\<rparr>)),
      (''Config'', dec_ptr InspectContainerConfig_decoder zero_InspectContainerConfig ic_Config (\<lambda>x s. s\<lparr>ic_Config := x\<rparr>))]"

end
