(* ===== verification/Podman_Api.thy ===== *)
theory Podman_Api
  imports Podman_Inspect
begin

text \<open>
  \<^verbatim>\<open>pkg/podman/client-pod.go\<close>, \<^verbatim>\<open>client-volume.go\<close>, \<^verbatim>\<open>client-container.go\<close>, \<^verbatim>\<open>client-image.go\<close> and
  \<^verbatim>\<open>client-exec.go\<close>: the reports as records with their decoders, and the API calls. A time stamp
  is kept as the text that was received. JSON keys without a field are skipped as Go does.
\<close>

subsection \<open>Pods\<close>

record PodActionReport =
  par_Id :: string
  par_Errs :: "string list"

definition PodActionReport_decoder :: "PodActionReport decoder" where
  "PodActionReport_decoder = dec_struct
     [(''Id'', dec_str (\<lambda>x s. s\<lparr>par_Id := x\<rparr>)),
      (''Errs'', dec_list plain_str [] (\<lambda>x s. s\<lparr>par_Errs := x\<rparr>))]"

definition zero_PodActionReport :: PodActionReport where
  "zero_PodActionReport = \<lparr>par_Id = [], par_Errs = []\<rparr>"

record PodCreateReport =
  pcr_Id :: string

definition PodCreateReport_decoder :: "PodCreateReport decoder" where
  "PodCreateReport_decoder = dec_struct [(''Id'', dec_str (\<lambda>x s. s\<lparr>pcr_Id := x\<rparr>))]"

definition PodCreate :: "env \<Rightarrow> PodSpecGenerator \<Rightarrow> PodCreateReport outcome run" where
  "PodCreate env spec =
     performPost env ''/libpod/pods/create'' (PodSpecGenerator_json spec) PodCreateReport_decoder
       \<lparr>pcr_Id = []\<rparr>"

record InspectPodContainerInfo =
  ipc_ID :: string
  ipc_Name :: string
  ipc_State :: string

record InspectPodData =
  ip_ID :: string
  ip_Name :: string
  ip_Namespace :: string
  ip_Created :: string
  ip_CreateCommand :: "string list"
  ip_State :: string
  ip_Hostname :: string
  ip_Labels :: smap
  ip_CgroupParent :: string
  ip_CgroupPath :: string
  ip_InfraContainerID :: string
  ip_SharedNamespaces :: "string list"
  ip_NumContainers :: int
  ip_Containers :: "InspectPodContainerInfo list"

definition zero_InspectPodData :: InspectPodData where
  "zero_InspectPodData = \<lparr>ip_ID = [], ip_Name = [], ip_Namespace = [], ip_Created = [],
     ip_CreateCommand = [],    ip_State = [], ip_Hostname = [], ip_Labels = [], ip_CgroupParent = [], ip_CgroupPath = [],
     ip_InfraContainerID = [], ip_SharedNamespaces = [], ip_NumContainers = 0, ip_Containers = []\<rparr>"

definition InspectPodContainerInfo_decoder :: "InspectPodContainerInfo decoder" where
  "InspectPodContainerInfo_decoder = dec_struct
     [(''Id'', dec_str (\<lambda>x s. s\<lparr>ipc_ID := x\<rparr>)),
      (''Name'', dec_str (\<lambda>x s. s\<lparr>ipc_Name := x\<rparr>)),
      (''State'', dec_str (\<lambda>x s. s\<lparr>ipc_State := x\<rparr>))]"

definition InspectPodData_decoder :: "InspectPodData decoder" where
  "InspectPodData_decoder = dec_struct
     [(''Id'', dec_str (\<lambda>x s. s\<lparr>ip_ID := x\<rparr>)),
      (''Name'', dec_str (\<lambda>x s. s\<lparr>ip_Name := x\<rparr>)),
      (''Namespace'', dec_str (\<lambda>x s. s\<lparr>ip_Namespace := x\<rparr>)),
      (''Created'', dec_str (\<lambda>x s. s\<lparr>ip_Created := x\<rparr>)),
      (''CreateCommand'', dec_list plain_str [] (\<lambda>x s. s\<lparr>ip_CreateCommand := x\<rparr>)),
      (''State'', dec_str (\<lambda>x s. s\<lparr>ip_State := x\<rparr>)),
      (''Hostname'', dec_str (\<lambda>x s. s\<lparr>ip_Hostname := x\<rparr>)),
      (''Labels'', dec_map plain_str [] ip_Labels (\<lambda>x s. s\<lparr>ip_Labels := x\<rparr>)),
      (''CgroupParent'', dec_str (\<lambda>x s. s\<lparr>ip_CgroupParent := x\<rparr>)),
      (''CgroupPath'', dec_str (\<lambda>x s. s\<lparr>ip_CgroupPath := x\<rparr>)),
      (''InfraContainerID'', dec_str (\<lambda>x s. s\<lparr>ip_InfraContainerID := x\<rparr>)),
      (''SharedNamespaces'', dec_list plain_str [] (\<lambda>x s. s\<lparr>ip_SharedNamespaces := x\<rparr>)),
      (''NumContainers'', dec_uint 64 (\<lambda>x s. s\<lparr>ip_NumContainers := x\<rparr>)),
      (''Containers'', dec_list InspectPodContainerInfo_decoder
         \<lparr>ipc_ID = [], ipc_Name = [], ipc_State = []\<rparr> (\<lambda>x s. s\<lparr>ip_Containers := x\<rparr>))]"

definition PodInspect :: "env \<Rightarrow> string \<Rightarrow> InspectPodData outcome run" where
  "PodInspect env nameOrId = named nameOrId zero_InspectPodData (\<lambda>encoded.
     performGet env (''/libpod/pods/'' @ encoded @ ''/json'') InspectPodData_decoder zero_InspectPodData)"

record ListPodsContainer =
  lpc_Id :: string
  lpc_Names :: string
  lpc_Status :: string

record ListPodsReport =
  lp_Cgroup :: string
  lp_Containers :: "ListPodsContainer list"
  lp_Created :: string
  lp_Id :: string
  lp_InfraId :: string
  lp_Name :: string
  lp_Namespace :: string
  lp_Status :: string
  lp_Labels :: smap

definition ListPodsContainer_decoder :: "ListPodsContainer decoder" where
  "ListPodsContainer_decoder = dec_struct
     [(''Id'', dec_str (\<lambda>x s. s\<lparr>lpc_Id := x\<rparr>)),
      (''Names'', dec_str (\<lambda>x s. s\<lparr>lpc_Names := x\<rparr>)),
      (''Status'', dec_str (\<lambda>x s. s\<lparr>lpc_Status := x\<rparr>))]"

definition zero_ListPodsReport :: ListPodsReport where
  "zero_ListPodsReport = \<lparr>lp_Cgroup = [], lp_Containers = [], lp_Created = [], lp_Id = [],
     lp_InfraId = [], lp_Name = [], lp_Namespace = [], lp_Status = [], lp_Labels = []\<rparr>"

definition ListPodsReport_decoder :: "ListPodsReport decoder" where
  "ListPodsReport_decoder = dec_struct
     [(''Cgroup'', dec_str (\<lambda>x s. s\<lparr>lp_Cgroup := x\<rparr>)),
      (''Containers'', dec_list ListPodsContainer_decoder \<lparr>lpc_Id = [], lpc_Names = [], lpc_Status = []\<rparr>
         (\<lambda>x s. s\<lparr>lp_Containers := x\<rparr>)),
      (''Created'', dec_str (\<lambda>x s. s\<lparr>lp_Created := x\<rparr>)),
      (''Id'', dec_str (\<lambda>x s. s\<lparr>lp_Id := x\<rparr>)),
      (''InfraId'', dec_str (\<lambda>x s. s\<lparr>lp_InfraId := x\<rparr>)),
      (''Name'', dec_str (\<lambda>x s. s\<lparr>lp_Name := x\<rparr>)),
      (''Namespace'', dec_str (\<lambda>x s. s\<lparr>lp_Namespace := x\<rparr>)),
      (''Status'', dec_str (\<lambda>x s. s\<lparr>lp_Status := x\<rparr>)),
      (''Labels'', dec_map plain_str [] lp_Labels (\<lambda>x s. s\<lparr>lp_Labels := x\<rparr>))]"

text \<open>A list of pointers: a null element is a nil pointer.\<close>

definition dec_pointers :: "'a decoder \<Rightarrow> 'a \<Rightarrow> 'a option list decoder" where
  "dec_pointers d z = dec_list (dec_ptr d z (\<lambda>p. p) (\<lambda>p _. p)) None (\<lambda>xs _. xs)"

definition PodPs :: "env \<Rightarrow> ListPodsReport option list outcome run" where
  "PodPs env =
     performGet env ''/libpod/pods/json'' (dec_pointers ListPodsReport_decoder zero_ListPodsReport) []"

definition PodRestart :: "env \<Rightarrow> string \<Rightarrow> PodActionReport outcome run" where
  "PodRestart env nameOrId = named nameOrId zero_PodActionReport (\<lambda>encoded.
     performPost env (''/libpod/pods/'' @ encoded @ ''/restart'') JNull PodActionReport_decoder
       zero_PodActionReport)"

record PodRmReport =
  prm_Id :: string
  prm_Err :: string

definition PodRmReport_decoder :: "PodRmReport decoder" where
  "PodRmReport_decoder = dec_struct
     [(''Id'', dec_str (\<lambda>x s. s\<lparr>prm_Id := x\<rparr>)), (''Err'', dec_str (\<lambda>x s. s\<lparr>prm_Err := x\<rparr>))]"

definition PodRm :: "env \<Rightarrow> string \<Rightarrow> bool \<Rightarrow> PodRmReport outcome run" where
  "PodRm env nameOrId force = named nameOrId \<lparr>prm_Id = [], prm_Err = []\<rparr> (\<lambda>encoded.
     performDelete env (''/libpod/pods/'' @ encoded @ (if force then ''?force=true'' else []))
       PodRmReport_decoder \<lparr>prm_Id = [], prm_Err = []\<rparr>)"

definition PodStart :: "env \<Rightarrow> string \<Rightarrow> PodActionReport outcome run" where
  "PodStart env nameOrId = named nameOrId zero_PodActionReport (\<lambda>encoded.
     performPost env (''/libpod/pods/'' @ encoded @ ''/start'') JNull PodActionReport_decoder
       zero_PodActionReport)"

text \<open>A pod that has stopped already is no error.\<close>

definition PodStop :: "env \<Rightarrow> string \<Rightarrow> PodActionReport outcome run" where
  "PodStop env nameOrId = named nameOrId zero_PodActionReport (\<lambda>encoded.
     bindR (performPost env (''/libpod/pods/'' @ encoded @ ''/stop'') JNull PodActionReport_decoder
              zero_PodActionReport) (\<lambda>(out, e).
       ret (case e of
              None \<Rightarrow> (out, None)
            | Some (ApiErr rq cause message status) \<Rightarrow>
                if status = 304 then (\<lparr>par_Id = [], par_Errs = [''Already Stopped'']\<rparr>, None)
                else (zero_PodActionReport, Some (ApiErr rq cause message status))
            | Some err \<Rightarrow> (zero_PodActionReport, Some err))))"

subsection \<open>Volumes\<close>

record VolumeInfo =
  vi_CreatedAt :: string
  vi_Name :: string
  vi_Driver :: string
  vi_Mountpoint :: string
  vi_Labels :: smap
  vi_Options :: smap
  vi_Anonymous :: bool
  vi_UID :: int
  vi_GID :: int
  vi_Scope :: string

definition zero_VolumeInfo :: VolumeInfo where
  "zero_VolumeInfo = \<lparr>vi_CreatedAt = [], vi_Name = [], vi_Driver = [], vi_Mountpoint = [], vi_Labels = [],
     vi_Options = [], vi_Anonymous = False, vi_UID = 0, vi_GID = 0, vi_Scope = []\<rparr>"

definition VolumeInfo_decoder :: "VolumeInfo decoder" where
  "VolumeInfo_decoder = dec_struct
     [(''CreatedAt'', dec_str (\<lambda>x s. s\<lparr>vi_CreatedAt := x\<rparr>)),
      (''Name'', dec_str (\<lambda>x s. s\<lparr>vi_Name := x\<rparr>)),
      (''Driver'', dec_str (\<lambda>x s. s\<lparr>vi_Driver := x\<rparr>)),
      (''Mountpoint'', dec_str (\<lambda>x s. s\<lparr>vi_Mountpoint := x\<rparr>)),
      (''Labels'', dec_map plain_str [] vi_Labels (\<lambda>x s. s\<lparr>vi_Labels := x\<rparr>)),
      (''Options'', dec_map plain_str [] vi_Options (\<lambda>x s. s\<lparr>vi_Options := x\<rparr>)),
      (''Anonymous'', dec_bool (\<lambda>x s. s\<lparr>vi_Anonymous := x\<rparr>)),
      (''UID'', dec_int 64 (\<lambda>x s. s\<lparr>vi_UID := x\<rparr>)),
      (''GID'', dec_int 64 (\<lambda>x s. s\<lparr>vi_GID := x\<rparr>)),
      (''Scope'', dec_str (\<lambda>x s. s\<lparr>vi_Scope := x\<rparr>))]"

text \<open>Nil maps are encoded as \<open>null\<close>.\<close>

record VolumeCreateOptions =
  vo_Name :: string
  vo_Driver :: string
  vo_Label :: "smap option"
  vo_Options :: "smap option"

definition VolumeCreateOptions_json :: "VolumeCreateOptions \<Rightarrow> json" where
  "VolumeCreateOptions_json v =
     (let m = (\<lambda>p. case p of None \<Rightarrow> JNull | Some m \<Rightarrow> map_json JStr m)
      in JObj [(''Name'', JStr (vo_Name v)), (''Driver'', JStr (vo_Driver v)),
               (''Label'', m (vo_Label v)), (''Options'', m (vo_Options v))])"

definition VolumeCreate :: "env \<Rightarrow> VolumeCreateOptions \<Rightarrow> VolumeInfo outcome run" where
  "VolumeCreate env opts =
     performPost env ''/libpod/volumes/create'' (VolumeCreateOptions_json opts) VolumeInfo_decoder
       zero_VolumeInfo"

definition VolumeInspect :: "env \<Rightarrow> string \<Rightarrow> VolumeInfo outcome run" where
  "VolumeInspect env nameOrId = named nameOrId zero_VolumeInfo (\<lambda>encoded.
     performGet env (''/libpod/volumes/'' @ encoded @ ''/json'') VolumeInfo_decoder zero_VolumeInfo)"

text \<open>The filters are marshalled into text: an object of string lists, with the escapes of
  \<^verbatim>\<open>json.Marshal\<close> for ASCII (bytes above are kept).\<close>

definition json_escape :: "char \<Rightarrow> string" where
  "json_escape c =
     (let n = of_char c :: nat
      in if n = 34 \<or> n = 92 then [CHR 0x5C, c]
         else if n = 10 then [CHR 0x5C, CHR ''n''] else if n = 13 then [CHR 0x5C, CHR ''r'']
         else if n = 9 then [CHR 0x5C, CHR ''t'']
         else if n < 32 \<or> n = 60 \<or> n = 62 \<or> n = 38 then
           [CHR 0x5C, CHR ''u'', CHR ''0'', CHR ''0'', hex_digit (n div 16), hex_digit (n mod 16)]
         else [c])"

definition quoted :: "string \<Rightarrow> string" where
  "quoted s = [CHR 0x22] @ concat (map json_escape s) @ [CHR 0x22]"

definition filters_text :: "(string \<times> string list) list \<Rightarrow> string" where
  "filters_text fs =
     ''{'' @ join_with (CHR '','')
        (map (\<lambda>(k, vs). quoted k @ '':['' @ join_with (CHR '','') (map quoted vs) @ '']'')
          (sort_key fst fs)) @ ''}''"

definition VolumeList :: "env \<Rightarrow> (string \<times> string list) list \<Rightarrow> VolumeInfo list outcome run" where
  "VolumeList env filters = named (filters_text filters) [] (\<lambda>encoded.
     performGet env (''/libpod/volumes/json?filters='' @ encoded)
       (dec_list VolumeInfo_decoder zero_VolumeInfo (\<lambda>xs _. xs)) [])"

definition VolumeRm :: "env \<Rightarrow> string \<Rightarrow> bool \<Rightarrow> unit run" where
  "VolumeRm env nameOrId force =
     (case UrlEncoded nameOrId of
        None \<Rightarrow> failR bad_url
      | Some encoded \<Rightarrow>
          performDelete_nil env (''/libpod/volumes/'' @ encoded @ (if force then ''?force=true'' else [])))"

subsection \<open>Containers\<close>

record ContainerCreateReport =
  ccr_Id :: string
  ccr_Warnings :: "string list"

definition ContainerCreateReport_decoder :: "ContainerCreateReport decoder" where
  "ContainerCreateReport_decoder = dec_struct
     [(''Id'', dec_str (\<lambda>x s. s\<lparr>ccr_Id := x\<rparr>)),
      (''Warnings'', dec_list plain_str [] (\<lambda>x s. s\<lparr>ccr_Warnings := x\<rparr>))]"

definition ContainerCreate :: "env \<Rightarrow> SpecGenerator \<Rightarrow> ContainerCreateReport outcome run" where
  "ContainerCreate env spec =
     performPost env ''/libpod/containers/create'' (SpecGenerator_json spec)
       ContainerCreateReport_decoder \<lparr>ccr_Id = [], ccr_Warnings = []\<rparr>"

definition ContainerInspect :: "env \<Rightarrow> string \<Rightarrow> bool \<Rightarrow> InspectContainerData outcome run" where
  "ContainerInspect env nameOrId includeSize = named nameOrId zero_InspectContainerData (\<lambda>encoded.
     performGet env
       (''/libpod/containers/'' @ encoded @ ''/json'' @ (if includeSize then ''?size=true'' else []))
       InspectContainerData_decoder zero_InspectContainerData)"

record ContainerLogsOptions =
  clo_Follow :: bool
  clo_Since :: string
  clo_Until :: string
  clo_Timestamps :: bool
  clo_Tail :: string

definition logs_flags :: "ContainerLogsOptions \<Rightarrow> string" where
  "logs_flags options =
     ''?stdout=true&stderr=true''
     @ (if clo_Follow options then ''&follow=true'' else [])
     @ (if clo_Timestamps options then ''&timestamps=true'' else [])
     @ (if clo_Since options \<noteq> [] then ''&since='' @ clo_Since options else [])
     @ (if clo_Until options \<noteq> [] then ''&until='' @ clo_Until options else [])
     @ (if clo_Tail options \<noteq> [] then ''&tail='' @ clo_Tail options else [])"

definition ContainerLogs :: "env \<Rightarrow> string \<Rightarrow> ContainerLogsOptions \<Rightarrow> string run" where
  "ContainerLogs env nameOrId options =
     (case UrlEncoded nameOrId of
        None \<Rightarrow> failR bad_url
      | Some encoded \<Rightarrow>
          bindR (performRawRequest env ''GET''
                   (''/libpod/containers/'' @ encoded @ ''/logs'' @ logs_flags options))
            (\<lambda>resp. ret (rs_body resp)))"

subsection \<open>Image pulls\<close>

record ImagePullReport =
  ipr_Stream :: string
  ipr_Error :: string
  ipr_Images :: "string list"
  ipr_Id :: string

definition zero_ImagePullReport :: ImagePullReport where
  "zero_ImagePullReport = \<lparr>ipr_Stream = [], ipr_Error = [], ipr_Images = [], ipr_Id = []\<rparr>"

definition ImagePullReport_decoder :: "ImagePullReport decoder" where
  "ImagePullReport_decoder = dec_struct
     [(''Stream'', dec_str (\<lambda>x s. s\<lparr>ipr_Stream := x\<rparr>)),
      (''Error'', dec_str (\<lambda>x s. s\<lparr>ipr_Error := x\<rparr>)),
      (''Images'', dec_list plain_str [] (\<lambda>x s. s\<lparr>ipr_Images := x\<rparr>)),
      (''Id'', dec_str (\<lambda>x s. s\<lparr>ipr_Id := x\<rparr>))]"

text \<open>\<^verbatim>\<open>bufio.Scanner\<close> with its default split: lines without their end, up to the first line that
  does not fit its buffer of 64 KiB.\<close>

definition scan_lines :: "string \<Rightarrow> string list" where
  "scan_lines body =
     (let ls = split_on (CHR 0x0A) body;
          ls = (if ls \<noteq> [] \<and> last ls = [] then butlast ls else ls)
      in map (\<lambda>l. trim_suffix l [CHR 0x0D]) (takeWhile (\<lambda>l. length l < 65536) ls))"

text \<open>One chunk of the stream: its events, and whether the loop goes on. An empty line panics (in
  the reading goroutine, so the process ends).\<close>

definition pull_chunk :: "env \<Rightarrow> string \<Rightarrow> (ImagePullReport list \<times> bool) option" where
  "pull_chunk env chunk =
     (case chunk of
        [] \<Rightarrow> None
      | c # _ \<Rightarrow>
          let failed = (\<lambda>e. ([zero_ImagePullReport\<lparr>ipr_Error := errText e\<rparr>], False))
          in if c = CHR ''['' then
               (case decode_into (env_unmarshal env chunk)
                       (dec_list ImagePullReport_decoder zero_ImagePullReport (\<lambda>xs _. xs)) [] of
                  (events, None) \<Rightarrow> Some (events, True)
                | (_, Some e) \<Rightarrow> Some (failed e))
             else
               (case decode_into (env_unmarshal env chunk) ImagePullReport_decoder zero_ImagePullReport of
                  (event, None) \<Rightarrow> Some ([event], True)
                | (_, Some e) \<Rightarrow> Some (failed e)))"

fun pull_events :: "env \<Rightarrow> string list \<Rightarrow> ImagePullReport list option" where
  "pull_events env [] = Some []"
| "pull_events env (chunk # chunks) =
     (case pull_chunk env chunk of
        None \<Rightarrow> None
      | Some (events, False) \<Rightarrow> Some events
      | Some (events, True) \<Rightarrow> map_option ((@) events) (pull_events env chunks))"

text \<open>The events of a pull, all of them: the consumer reads the channel to its end.\<close>

definition pull_headers :: "string option \<Rightarrow> smap" where
  "pull_headers authConfig =
     (''accept'', ''application/json'')
     # (case authConfig of
          None \<Rightarrow> []
        | Some auth \<Rightarrow> [(''x-registry-auth'', b64_encode (bytes_of auth))])"

definition Pull :: "env \<Rightarrow> string \<Rightarrow> string option \<Rightarrow> ImagePullReport list run" where
  "Pull env reference authConfig =
     (case UrlEncoded reference of
        None \<Rightarrow> failR bad_url
      | Some encoded \<Rightarrow>
          (case new_request ''POST'' (''/libpod/images/pull?reference='' @ encoded)
                  (pull_headers authConfig) None of
             None \<Rightarrow> failR bad_url
           | Some req \<Rightarrow>
               bindR (performRequest env req) (\<lambda>resp.
                 derefR (pull_events env (scan_lines (rs_body resp))))))"

subsection \<open>Exec sessions\<close>

record ContainerExecOptions =
  ceo_AttachStderr :: bool
  ceo_AttachStdin :: bool
  ceo_AttachStdout :: bool
  ceo_Cmd :: "string list option"
  ceo_DetachKeys :: string
  ceo_Env :: "string list option"
  ceo_Privileged :: bool
  ceo_Tty :: bool
  ceo_User :: string
  ceo_WorkingDir :: string

definition ContainerExecOptions_json :: "ContainerExecOptions \<Rightarrow> json" where
  "ContainerExecOptions_json o' =
     JObj [(''AttachStderr'', JBool (ceo_AttachStderr o')), (''AttachStdin'', JBool (ceo_AttachStdin o')),
           (''AttachStdout'', JBool (ceo_AttachStdout o')), (''Cmd'', slice_json JStr (ceo_Cmd o')),
           (''DetachKeys'', JStr (ceo_DetachKeys o')), (''Env'', slice_json JStr (ceo_Env o')),
           (''Privileged'', JBool (ceo_Privileged o')), (''Tty'', JBool (ceo_Tty o')),
           (''User'', JStr (ceo_User o')), (''WorkingDir'', JStr (ceo_WorkingDir o'))]"

record ExecSession =
  es_Id :: string

definition ContainerExec :: "env \<Rightarrow> string \<Rightarrow> ContainerExecOptions \<Rightarrow> ExecSession run" where
  "ContainerExec env nameOrId options = errR (named nameOrId \<lparr>es_Id = []\<rparr> (\<lambda>encoded.
     performPost env (''/libpod/containers/'' @ encoded @ ''/exec'') (ContainerExecOptions_json options)
       (dec_struct [(''Id'', dec_str (\<lambda>x s. s\<lparr>es_Id := x\<rparr>))]) \<lparr>es_Id = []\<rparr>))"

definition ExecResize :: "env \<Rightarrow> ExecSession \<Rightarrow> u16 \<Rightarrow> u16 \<Rightarrow> unit run" where
  "ExecResize env es width height =
     performPost_nil env (''/libpod/exec/'' @ es_Id es @ ''/resize'')
       (JObj [(''w'', JNum (uint width)), (''h'', JNum (uint height))])"

end
