(* ===== verification/Exec_Stream.thy ===== *)
theory Exec_Stream
  imports Pet_Prelude
begin

text \<open>
  \<^verbatim>\<open>DemuxRawStream\<close> of \<^verbatim>\<open>pkg/podman/client-exec.go\<close>: the multiplexed output of a container is a
  sequence of packets, each with an 8-byte header (stream number, three unused bytes, the length in
  big-endian order), which is copied to stdout and stderr. The input is all bytes up to its end; the
  outputs take every write. A nil stderr panics at its first use, the final \<open>Close\<close> at the latest.
\<close>

datatype io_error = EOF | UnexpectedEOF

definition be32_val :: "bytes \<Rightarrow> nat" where
  "be32_val b = foldl (\<lambda>n x. n * 256 + unat x) 0 b"

text \<open>\<open>header[0] >= 2\<close>.\<close>

definition to_stderr :: "u8 \<Rightarrow> bool" where
  "to_stderr h \<longleftrightarrow> 2 \<le> unat h"

definition write_out :: "bool \<Rightarrow> bytes \<Rightarrow> bytes \<times> bytes \<Rightarrow> bytes \<times> bytes" where
  "write_out err bs = (\<lambda>(out, er). if err then (out, er @ bs) else (out @ bs, er))"

text \<open>The loop. \<open>open_err\<close> tells whether stderr is a writer; \<open>None\<close> is a panic.\<close>

function demux_loop ::
  "bool \<Rightarrow> bool \<Rightarrow> bytes \<Rightarrow> bytes \<times> bytes \<Rightarrow> ((bytes \<times> bytes) \<times> io_error) option" where
  "demux_loop open_err addNewLines input outs =
     (if input = [] then Some (outs, EOF)
      else if length input < 8 then Some (outs, UnexpectedEOF)
      else
        let header = take 8 input; rest = drop 8 input;
            pktLen = be32_val (drop 4 header);
            err = to_stderr (hd header);
            pkt = take pktLen rest
        in if err \<and> \<not> open_err then None
           else if length rest < pktLen then Some (write_out err pkt outs, EOF)
           else demux_loop open_err addNewLines (drop pktLen rest)
                  (write_out err (pkt @ (if addNewLines then [0x0A] else [])) outs))"
  by pat_completeness auto
termination by (relation "measure (\<lambda>(_, _, input, _). length input)") auto

declare demux_loop.simps [simp del]

definition DemuxRawStream :: "bool \<Rightarrow> bool \<Rightarrow> bytes \<Rightarrow> ((bytes \<times> bytes) \<times> io_error) option" where
  "DemuxRawStream open_err addNewLines input =
     (case demux_loop open_err addNewLines input ([], []) of
        None \<Rightarrow> None
      | Some r \<Rightarrow> if open_err then Some r else None)"

subsection \<open>The packets of a stream\<close>

text \<open>What podman writes: a packet per chunk of output. The stream number is 1 or 2 (0 is stdin).\<close>

type_synonym packet_of = "u8 \<times> bytes"

definition frame :: "u8 \<times> bytes \<Rightarrow> bytes" where
  "frame p = [fst p, 0, 0, 0] @ be32 (of_nat (length (snd p))) @ snd p"

definition streams :: "bool \<Rightarrow> (u8 \<times> bytes) list \<Rightarrow> bytes \<times> bytes" where
  "streams addNewLines ps =
     (let f = (\<lambda>p. snd p @ (if addNewLines then [0x0A] else []))
      in (concat (map f (filter (\<lambda>p. \<not> to_stderr (fst p)) ps)),
          concat (map f (filter (\<lambda>p. to_stderr (fst p)) ps))))"

lemma div_step: "n div (k * 256) * 256 + n div k mod 256 = n div (k :: nat)"
  by (simp only: div_mult2_eq div_mult_mod_eq)

lemma be32_val_be32: "be32_val (be32 w) = unat w"
proof -
  define n where "n = unat w"
  have "n < 2 ^ 32" using unsigned_less [of w] by (simp add: n_def)
  then have top: "n div 16777216 mod 256 = n div 16777216" by simp
  have "be32_val (be32 w) = ((n div 16777216 mod 256 * 256 + n div 65536 mod 256) * 256
      + n div 256 mod 256) * 256 + n mod 256"
    by (simp add: be32_val_def be32_def n_def unsigned_ucast_eq take_bit_eq_mod unsigned_drop_bit_eq
        drop_bit_eq_div unat_div_distrib)
  also have "\<dots> = n"
    using div_step [of n 65536] div_step [of n 256] div_step [of n 1] by (simp add: top)
  finally show ?thesis by (simp add: n_def)
qed

lemma frame_parts:
  assumes "length (snd p) < 2 ^ 32"
  shows "8 \<le> length (frame p @ r)"
    "take 8 (frame p @ r) = [fst p, 0, 0, 0] @ be32 (of_nat (length (snd p)))"
    "drop 8 (frame p @ r) = snd p @ r" "be32_val (be32 (of_nat (length (snd p)))) = length (snd p)"
  using assms by (simp_all add: frame_def be32_def be32_val_be32 [unfolded be32_def] unat_of_nat)

lemma demux_step:
  assumes "8 \<le> length inp" "take 8 inp = h # hs" "be32_val (drop 3 hs) = length pkt"
    "drop 8 inp = pkt @ r" "to_stderr h \<Longrightarrow> open_err"
  shows "demux_loop open_err nl inp outs
    = demux_loop open_err nl r (write_out (to_stderr h) (pkt @ (if nl then [0x0A] else [])) outs)"
proof -
  have "inp \<noteq> []" "\<not> length inp < 8" "\<not> (to_stderr h \<and> \<not> open_err)" using assms(1,5) by auto
  then show ?thesis
    by (subst demux_loop.simps) (auto simp: Let_def assms(2,3,4))
qed

lemma demux_loop_frame:
  assumes "length (snd p) < 2 ^ 32" "to_stderr (fst p) \<longrightarrow> open_err"
  shows "demux_loop open_err nl (frame p @ r) outs
    = demux_loop open_err nl r (write_out (to_stderr (fst p)) (snd p @ (if nl then [0x0A] else [])) outs)"
  by (rule demux_step [where hs = "[0, 0, 0] @ be32 (of_nat (length (snd p)))"])
     (use assms(2) frame_parts [OF assms(1)] in \<open>simp_all add: numeral_eq_Suc\<close>)

lemma demux_frames:
  assumes "\<And>p. p \<in> set ps \<Longrightarrow> length (snd p) < 2 ^ 32"
    and "\<And>p. p \<in> set ps \<Longrightarrow> to_stderr (fst p) \<longrightarrow> open_err"
  shows "demux_loop open_err nl (concat (map frame ps) @ r) outs
    = demux_loop open_err nl r (fst outs @ fst (streams nl ps), snd outs @ snd (streams nl ps))"
  using assms
proof (induction ps arbitrary: outs)
  case Nil
  then show ?case by (simp add: streams_def)
next
  case (Cons p ps)
  have "demux_loop open_err nl (frame p @ (concat (map frame ps) @ r)) outs
    = demux_loop open_err nl (concat (map frame ps) @ r)
        (write_out (to_stderr (fst p)) (snd p @ (if nl then [0x0A] else [])) outs)"
    using Cons.prems(1,2) [of p] by (intro demux_loop_frame) simp_all
  also have "\<dots> = demux_loop open_err nl r (fst outs @ fst (streams nl (p # ps)), snd outs @ snd (streams nl (p # ps)))"
    using Cons.prems by (subst Cons.IH) (auto simp: streams_def write_out_def Let_def split: prod.split)
  finally show ?case by simp
qed

end
