(* ===== verification/Podman_Props.thy ===== *)
theory Podman_Props
  imports Podman_Api Exec_Stream
begin

text \<open>The properties of the podman client, each with its witness.\<close>

subsection \<open>The container request\<close>

lemma subseq_distinct: "subseq xs ys \<Longrightarrow> distinct ys \<Longrightarrow> distinct xs"
proof (induction rule: list_emb.induct)
  case (list_emb_Cons2 x y xs ys)
  then show ?case using list_emb_set [of "(=)" xs ys] by auto
qed auto

lemma lookup_field:
  "map_of (jstr n s) k = (if k = n \<and> s \<noteq> [] then Some (JStr s) else None)"
  "map_of (jbool n b) k = (if k = n \<and> b then Some (JBool True) else None)"
  "map_of (jlist f n xs) k = (if k = n \<and> xs \<noteq> [] then Some (JArr (map f xs)) else None)"
  "map_of (jstrs n ss) k = (if k = n \<and> ss \<noteq> [] then Some (JArr (map JStr ss)) else None)"
  "map_of (jmap g n m) k = (if k = n \<and> m \<noteq> [] then Some (map_json g m) else None)"
  "map_of (jsmap n sm) k = (if k = n \<and> sm \<noteq> [] then Some (map_json JStr sm) else None)"
  "map_of (jptr h n p) k = (if k = n then map_option h p else None)"
  by (auto simp: jfield_defs split: option.split)

lemma field_in_map_of:
  "distinct (map fst fs) \<Longrightarrow> (k, v) \<in> set fs \<Longrightarrow> map_of fs k = Some v"
  by (simp add: map_of_is_SomeI)

lemma pod_field:
  "map_of (SpecGenerator_fields s) ''pod''
     = (if cb_Pod (sg_Basic s) = [] then None else Some (JStr (cb_Pod (sg_Basic s))))"
  unfolding SpecGenerator_fields_def ContainerBasicConfig_fields_def
    ContainerStorageConfig_fields_def ContainerSecurityConfig_fields_def
    ContainerCgroupConfig_fields_def ContainerNetworkConfig_fields_def
    ContainerResourceConfig_fields_def ContainerHealthCheckConfig_fields_def
  by (simp add: map_add_def lookup_field split: option.split)

text \<open>C40 (type): the JSON object of a container has no two fields with the same key, nor has that of
  a pod, so that Go drops none of the promoted fields of the embedded structs. The pod's ID is sent
  exactly when it is not empty, and \<^verbatim>\<open>read_only_filesystem\<close> always is (its tag misspells
  \<open>omitempty\<close>).\<close>

theorem request_fields_distinct:
  "distinct (map fst (SpecGenerator_fields s)) \<and> distinct (map fst (PodSpecGenerator_fields p))
   \<and> map_of (SpecGenerator_fields s) ''pod''
       = (if cb_Pod (sg_Basic s) = [] then None else Some (JStr (cb_Pod (sg_Basic s))))
   \<and> map_of (SpecGenerator_fields s) ''read_only_filesystem''
       = Some (JBool (sec_ReadOnlyFilesystem (sg_Security s)))"
proof (intro conjI)
  show d: "distinct (map fst (SpecGenerator_fields s))"
    by (rule subseq_distinct [OF SpecGenerator_keys distinct_container_keys])
  show "distinct (map fst (PodSpecGenerator_fields p))"
    by (rule subseq_distinct [OF PodSpecGenerator_keys distinct_pod_keys])
  show "map_of (SpecGenerator_fields s) ''read_only_filesystem''
      = Some (JBool (sec_ReadOnlyFilesystem (sg_Security s)))"
    by (rule field_in_map_of [OF d])
       (simp add: SpecGenerator_fields_def ContainerSecurityConfig_fields_def)
qed (rule pod_field)

subsection \<open>Answers\<close>

text \<open>C31 (error): how answers become results. A transport error is passed on; 101 and the codes
  from 200 to 299 are answers, and no other code is; 304 is an \<open>ApiError\<close> with that status; for every
  other code the status of the \<open>ApiError\<close> is the number the body gives under \<^verbatim>\<open>response\<close> (0 without
  one), not the code of the answer. Each request is on the trace once, and nothing else of the node changes.\<close>

theorem performRequest_status:
  "snd (performRequest env req n) = n\<lparr>n_trace := n_trace n @ [Http req]\<rparr>
   \<and> (case env_http env (n_trace n) req of
        Inl e \<Rightarrow> fst (performRequest env req n) = Err (PlainErr e)
      | Inr resp \<Rightarrow>
          (fst (performRequest env req n) = Ok resp
             \<longleftrightarrow> rs_code resp = 101 \<or> 200 \<le> rs_code resp \<and> rs_code resp < 300)
          \<and> (rs_code resp = 304 \<longrightarrow>
               fst (performRequest env req n) = Err (ApiErr req (rs_status resp) [] 304))
          \<and> (rs_code resp \<noteq> 101 \<longrightarrow> (rs_code resp < 200 \<or> 300 \<le> rs_code resp) \<longrightarrow> rs_code resp \<noteq> 304 \<longrightarrow>
               - (2 ^ 63) \<le> k \<and> k < 2 ^ 63 \<longrightarrow>
               env_parse env (rs_body resp) =
                 Inr (JObj [(''cause'', JStr c), (''message'', JStr m), (''response'', JNum k)]) \<longrightarrow>
               fst (performRequest env req n) = Err (ApiErr req c m k))
          \<and> (rs_code resp \<noteq> 101 \<longrightarrow> (rs_code resp < 200 \<or> 300 \<le> rs_code resp) \<longrightarrow> rs_code resp \<noteq> 304 \<longrightarrow>
               env_parse env (rs_body resp) = Inr (JObj []) \<longrightarrow>
               fst (performRequest env req n) = Err (ApiErr req [] [] 0)))"
proof (cases "env_http env (n_trace n) req")
  case (Inl e)
  then show ?thesis using performRequest_node [of env req n]
    by (simp add: performRequest_def prod_eq_iff)
next
  case (Inr resp)
  have "snd (performRequest env req n) = n\<lparr>n_trace := n_trace n @ [Http req]\<rparr>"
    by (subst performRequest_node) simp
  then show ?thesis using Inr
    by (auto simp: performRequest_def happy_status_def decode_into_def api_error_decoder_def dec_defs
        split: sum.split prod.split option.split)
qed

text \<open>An environment for the witnesses: podman and its JSON are given, everything else is quiet.\<close>

definition ex_pod :: kpod where
  "ex_pod = \<lparr>kp_meta = \<lparr>pm_ns = ''default'', pm_name = ''web'', pm_uid = ''u7'', pm_res_version = ''1'',
       pm_annotations = []\<rparr>,
     kp_spec = \<lparr>sp_containers = [], sp_volumes = [], sp_pull_secrets = [], sp_host_network = False,
       sp_dns_policy = ''ClusterFirst'', sp_share_pid = None, sp_service_account = [],
       sp_priority = Some 0, sp_security = None\<rparr>,
     kp_status = zero_status\<rparr>"

definition zero_quantity :: quantity where
  "zero_quantity = \<lparr>q_value = 0, q_milli = 0, q_is_zero = True\<rparr>"

definition ex_container :: container where
  "ex_container = \<lparr>con_name = ''app'', con_image = ''nginx'', con_command = [], con_args = [],
     con_working_dir = [], con_env = [], con_cpu_request = zero_quantity, con_mem_request = zero_quantity,
     con_cpu_limit = zero_quantity, con_mem_limit = zero_quantity,
     con_mounts = [\<lparr>vm_name = ''scratch'', vm_mount_path = ''/tmp'', vm_sub_path = [], vm_read_only = False\<rparr>],
     con_security = None, con_stdin = False, con_tty = False, con_pull_policy = ''IfNotPresent''\<rparr>"

definition ex_env ::
  "(effect list \<Rightarrow> http_request \<Rightarrow> string + http_response) \<Rightarrow> (string \<Rightarrow> string + json) \<Rightarrow> env" where
  "ex_env http parse =
     \<lparr>env_http = http, env_parse = parse, env_unmarshal = parse, env_file = (\<lambda>_ _. None),
      env_cut = (\<lambda>_. []), env_encode_pod = (\<lambda>pod. Inr (pm_name (kp_meta pod))),
      env_decode_pod = (\<lambda>t. Inr ex_pod),
      env_secret = (\<lambda>_ _ _. Inl ''not found''), env_token = (\<lambda>_. Inr ''token''),
      env_docker_auths = Inr, env_tar_start = (\<lambda>_. None), env_tar_error = (\<lambda>_. None),
      env_now = (\<lambda>tr. int (length tr)), env_memory = 8000000000, env_uid = 1000, env_order = (\<lambda>_ k. [0..<k]),
      env_command = (\<lambda>_ _. Inr []), env_disk = (\<lambda>_ _. None), env_random = (\<lambda>_. Inr (replicate 32 0)),
      env_public_key = (\<lambda>k. k), env_ini = (\<lambda>_ _. Inl ''no file''), env_configmap = (\<lambda>_ _ _. Inr []),
      env_kube = (\<lambda>_ _. None)\<rparr>"

definition ex_node :: node where
  "ex_node = \<lparr>n_trace = [], n_files = [], n_heap = (\<lambda>_. ex_pod), n_next = 1, n_known = [], n_disk = []\<rparr>"

definition ex_request :: http_request where
  "ex_request = \<lparr>rq_method = ''GET'', rq_url = \<lparr>u_path = ''/v1.0.0/x'', u_raw_path = [],
     u_force_query = False, u_query = [], u_fragment = []\<rparr>, rq_headers = [], rq_body = None\<rparr>"

definition ex_missing :: "effect list \<Rightarrow> http_request \<Rightarrow> string + http_response" where
  "ex_missing tr rq = Inr \<lparr>rs_code = 404, rs_status = ''404 Not Found'', rs_body = ''gone''\<rparr>"

definition ex_missing_body :: "string \<Rightarrow> string + json" where
  "ex_missing_body b = Inr (JObj [(''cause'', JStr ''no such pod''), (''message'', JStr ''no such pod''),
     (''response'', JNum 404)])"

lemma ex_missing_answer:
  "performRequest (ex_env ex_missing ex_missing_body) rq n
     = (Err (ApiErr rq ''no such pod'' ''no such pod'' 404), n\<lparr>n_trace := n_trace n @ [Http rq]\<rparr>)"
  by (simp add: performRequest_def ex_env_def ex_missing_def ex_missing_body_def happy_status_def
      decode_into_def api_error_decoder_def dec_defs)

theorem performRequest_status_witness:
  "fst (performRequest (ex_env ex_missing ex_missing_body) ex_request ex_node)
     = Err (ApiErr ex_request ''no such pod'' ''no such pod'' 404)"
  using performRequest_status [of "ex_env ex_missing ex_missing_body" ex_request ex_node 404
      "''no such pod''" "''no such pod''"]
  by (simp add: ex_env_def ex_missing_def ex_missing_body_def happy_status_def)

lemma PodStop_answer:
  assumes "UrlEncoded name = Some encoded"
    and "new_request ''POST'' (''/libpod/pods/'' @ encoded @ ''/stop'') send_json (Some JNull) = Some req"
    and "performRequest env req n = (Err e, n1)"
  shows "PodStop env name n = (Ok (case e of
      ApiErr rq c m status \<Rightarrow> if status = 304 then (\<lparr>par_Id = [], par_Errs = [''Already Stopped'']\<rparr>, None)
        else (zero_PodActionReport, Some e)
    | _ \<Rightarrow> (zero_PodActionReport, Some e)), n1)"
  unfolding PodStop_def named_def assms(1) option.case performPost_def assms(2) derefR_simps
    bindR_ret_simps
  using assms(3) by (cases e) (auto simp: bindR_def performJsonRequest_def)

lemma performRequest_304:
  "env_http env (n_trace n) req = Inr resp \<Longrightarrow> rs_code resp = 304 \<Longrightarrow>
   performRequest env req n = (Err (ApiErr req (rs_status resp) [] 304), n\<lparr>n_trace := n_trace n @ [Http req]\<rparr>)"
  by (simp add: performRequest_def happy_status_def)

text \<open>Stopping a pod that has stopped already (304) succeeds, with the note in the
  report; any other error is passed on.\<close>

theorem PodStop_already_stopped:
  assumes "UrlEncoded name = Some encoded"
    and "new_request ''POST'' (''/libpod/pods/'' @ encoded @ ''/stop'') send_json (Some JNull) = Some req"
  shows "(\<forall>resp. env_http env (n_trace n) req = Inr resp \<and> rs_code resp = 304 \<longrightarrow>
      PodStop env name n = (Ok (\<lparr>par_Id = [], par_Errs = [''Already Stopped'']\<rparr>, None),
        n\<lparr>n_trace := n_trace n @ [Http req]\<rparr>))
    \<and> (\<forall>e. fst (performRequest env req n) = Err e \<and> (\<forall>rq c m. e \<noteq> ApiErr rq c m 304) \<longrightarrow>
      PodStop env name n = (Ok (zero_PodActionReport, Some e), n\<lparr>n_trace := n_trace n @ [Http req]\<rparr>))"
proof (intro conjI allI impI)
  show "PodStop env name n = (Ok (\<lparr>par_Id = [], par_Errs = [''Already Stopped'']\<rparr>, None),
        n\<lparr>n_trace := n_trace n @ [Http req]\<rparr>)"
    if "env_http env (n_trace n) req = Inr resp \<and> rs_code resp = 304" for resp
    using PodStop_answer [OF assms performRequest_304] that by simp
  show "PodStop env name n = (Ok (zero_PodActionReport, Some e), n\<lparr>n_trace := n_trace n @ [Http req]\<rparr>)"
    if "fst (performRequest env req n) = Err e \<and> (\<forall>rq c m. e \<noteq> ApiErr rq c m 304)" for e
  proof -
    have "performRequest env req n = (Err e, n\<lparr>n_trace := n_trace n @ [Http req]\<rparr>)"
      by (subst performRequest_node) (simp add: that)
    from PodStop_answer [OF assms this] show ?thesis using that by (cases e) auto
  qed
qed

definition ex_stopped :: "effect list \<Rightarrow> http_request \<Rightarrow> string + http_response" where
  "ex_stopped tr rq = Inr \<lparr>rs_code = 304, rs_status = ''304 Not Modified'', rs_body = []\<rparr>"

theorem PodStop_already_stopped_witness:
  "\<exists>n. PodStop (ex_env ex_stopped ex_missing_body) ''default_web'' ex_node
     = (Ok (\<lparr>par_Id = [], par_Errs = [''Already Stopped'']\<rparr>, None), n)"
proof -
  have enc: "UrlEncoded ''default_web'' = Some ''default_web''"
    by (rule UrlEncoded_plain) (simp add: is_plain_def path_safe_def)
  have "is_plain (''/libpod/pods/'' @ ''default_web'' @ ''/stop'')"
    by (simp add: is_plain_def path_safe_def)
  from PodStop_already_stopped [OF enc new_request_plain [OF this],
      of "ex_env ex_stopped ex_missing_body" ex_node]
  show ?thesis by (simp add: ex_env_def ex_stopped_def)
qed

subsection \<open>Names in paths\<close>

text \<open>Names of unreserved characters, among them all pod keys, container keys and
  IDs, are sent as they are. But a slash and a question mark are left alone as well, so that the
  encoding is not that of the \<^verbatim>\<open>encodeURIComponent\<close> the comment promises: a question mark in a name
  starts the query.\<close>

theorem UrlEncoded_plain_names:
  "(is_plain s \<longrightarrow> UrlEncoded s = Some s)
   \<and> UrlEncoded ''a/b?c'' = Some ''a/b?c''
   \<and> UrlEncoded ''a b'' = Some ''a%20b''"
proof (intro conjI impI)
  show "UrlEncoded s = Some s" if "is_plain s" by (rule UrlEncoded_plain [OF that])
  show "UrlEncoded ''a/b?c'' = Some ''a/b?c''" "UrlEncoded ''a b'' = Some ''a%20b''"
    by code_simp+
qed

theorem UrlEncoded_plain_names_witness: "UrlEncoded ''default_web'' = Some ''default_web''"
  using UrlEncoded_plain_names [of "''default_web''"] by (simp add: is_plain_def path_safe_def)

subsection \<open>Exec and log streams\<close>

text \<open>C28 (roundtrip): a stream of packets is split into exactly the bytes of its stdout and of its
  stderr packets, each in order (with a newline after each packet when that is asked for), and ends
  with EOF; the header's stream number decides, 2 and above being stderr. A cut header is an
  unexpected EOF, with all packets before it delivered. A nil stderr always panics in the end.\<close>

theorem DemuxRawStream_splits:
  assumes "\<And>p. p \<in> set ps \<Longrightarrow> length (snd p) < 2 ^ 32"
  shows "DemuxRawStream True nl (concat (map frame ps)) = Some (streams nl ps, EOF)
    \<and> (0 < length part \<and> length part < 8 \<longrightarrow>
         DemuxRawStream True nl (concat (map frame ps) @ part) = Some (streams nl ps, UnexpectedEOF))
    \<and> DemuxRawStream False nl input = None"
proof -
  have "demux_loop True nl (concat (map frame ps) @ r) ([], []) = demux_loop True nl r (streams nl ps)" for r
    using demux_frames [of ps True nl r "([], [])"] assms by simp
  from this [of "[]"] this [of part] show ?thesis
    by (auto simp: DemuxRawStream_def demux_loop.simps [of _ _ "[]"] demux_loop.simps [of _ _ part]
        split: option.split)
qed

theorem DemuxRawStream_splits_witness:
  "DemuxRawStream True False ([1, 0, 0, 0, 0, 0, 0, 2, 72, 105] @ [2, 0, 0, 0, 0, 0, 0, 1, 33])
     = Some (([72, 105], [33]), EOF)"
proof -
  let ?ps = "[(1 :: u8, [72, 105 :: u8]), (2, [33])]"
  have "\<And>p. p \<in> set ?ps \<Longrightarrow> length (snd p) < 2 ^ 32" by auto
  from DemuxRawStream_splits [where ps = ?ps and nl = False and part = "[]" and input = "[]", OF this]
  show ?thesis by (simp add: frame_def be32_def streams_def to_stderr_def)
qed

end
