(* ===== verification/Fs_Inject.thy ===== *)
theory Fs_Inject
  imports Node_World
begin

text \<open>
  \<^verbatim>\<open>pkg/fsinject/inject-archive.go\<close>: a tar stream into a child process that extracts it, and
  \<^verbatim>\<open>controllers/caching\<close>, which fetches secrets and config maps. An extraction is the error it has
  remembered so far; what was written is on the trace. \<open>tree_of\<close> is the directory that the entries
  give, \<open>read_path\<close> opens a file in it with the symbolic links followed.
\<close>

type_synonym archive = "go_error option"

text \<open>The command that extracts; \<open>env_uid\<close> is \<^verbatim>\<open>os.Getuid\<close>. Creating the pipe and starting it may fail.\<close>

definition tar_command :: "int \<Rightarrow> string \<Rightarrow> string list" where
  "tar_command uid dest =
     (if uid = 1 then [''tar'', ''-xf'', ''-'', ''-C'', dest]
      else [''sudo'', ''tar'', ''-xf'', ''-'', ''-C'', dest])"

definition StartArchiveExtraction :: "env \<Rightarrow> string \<Rightarrow> (archive \<times> int) run" where
  "StartArchiveExtraction env dest =
     bindR (getR (\<lambda>n. env_tar_start env (n_trace n))) (\<lambda>r.
       case r of
         Some e \<Rightarrow> failR (PlainErr e)
       | None \<Rightarrow> thenR (emit (TarStart (tar_command (env_uid env) dest))) (bindR (now env) (\<lambda>t. ret (None, t))))"

definition tar_error :: "env \<Rightarrow> go_error option run" where
  "tar_error env = getR (\<lambda>n. map_option PlainErr (env_tar_error env (n_trace n)))"

text \<open>The header, then the content; a failing header ends the call.\<close>

definition WriteFile :: "env \<Rightarrow> string \<Rightarrow> int \<Rightarrow> string \<Rightarrow> archive \<Rightarrow> archive run" where
  "WriteFile env name mode body ae =
     bindR (tar_error env) (\<lambda>e.
       case e of
         Some err \<Rightarrow> ret (Some err)
       | None \<Rightarrow> thenR (emit (TarFile name mode body))
           (bindR (tar_error env) (\<lambda>e. ret (case e of Some err \<Rightarrow> Some err | None \<Rightarrow> ae))))"

definition WriteSymLink :: "env \<Rightarrow> string \<Rightarrow> string \<Rightarrow> archive \<Rightarrow> archive run" where
  "WriteSymLink env name target ae =
     bindR (tar_error env) (\<lambda>e.
       case e of
         Some err \<Rightarrow> ret (Some err)
       | None \<Rightarrow> thenR (emit (TarLink name target)) (ret ae))"

text \<open>All three are closed before the first error is returned, that of the writes first.\<close>

fun first_error :: "go_error option list \<Rightarrow> unit run" where
  "first_error [] = ret ()"
| "first_error (Some e # es) = failR e"
| "first_error (None # es) = first_error es"

definition Finish :: "env \<Rightarrow> archive \<Rightarrow> unit run" where
  "Finish env ae =
     bindR (tar_error env) (\<lambda>err1. thenR (emit TarClose) (
     bindR (tar_error env) (\<lambda>err2. thenR (emit PipeClose) (
     bindR (tar_error env) (\<lambda>err3. thenR (emit TarWait) (
       first_error [ae, err1, err2, err3]))))))"

definition GetSecret :: "env \<Rightarrow> string \<Rightarrow> string \<Rightarrow> secret run" where
  "GetSecret env ns name =
     bindR (getR (\<lambda>n. env_secret env (n_trace n) ns name)) (\<lambda>r.
     thenR (emit (KubeGet ''Secret'' ns name))
       (case r of Inl e \<Rightarrow> failR (PlainErr e) | Inr secret \<Rightarrow> ret secret))"

subsection \<open>The extracted directory\<close>

datatype entry = FileEntry string | LinkEntry string

definition path_parts :: "string \<Rightarrow> string list" where
  "path_parts p = split_on (CHR ''/'') p"

fun add_entry :: "effect \<Rightarrow> (string list \<rightharpoonup> entry) \<Rightarrow> (string list \<rightharpoonup> entry)" where
  "add_entry (TarFile name mode body) t = t(path_parts name \<mapsto> FileEntry body)"
| "add_entry (TarLink name target) t = t(path_parts name \<mapsto> LinkEntry target)"
| "add_entry _ t = t"

definition tree_of :: "effect list \<Rightarrow> (string list \<rightharpoonup> entry)" where
  "tree_of es = fold add_entry es Map.empty"

text \<open>Walking a path from a directory: a link is replaced by its target, \<^verbatim>\<open>..\<close> goes up. The fuel
  bounds the number of links and components.\<close>

fun walk :: "(string list \<rightharpoonup> entry) \<Rightarrow> nat \<Rightarrow> string list \<Rightarrow> string list \<Rightarrow> string option" where
  "walk t 0 dir rest = None"
| "walk t (Suc fuel) dir [] = None"
| "walk t (Suc fuel) dir (c # rest) =
     (if c = ''..'' then walk t fuel (butlast dir) rest
      else case t (dir @ [c]) of
             Some (LinkEntry target) \<Rightarrow> walk t fuel dir (path_parts target @ rest)
           | Some (FileEntry body) \<Rightarrow> (if rest = [] then Some body else None)
           | None \<Rightarrow> walk t fuel (dir @ [c]) rest)"

definition read_path :: "(string list \<rightharpoonup> entry) \<Rightarrow> nat \<Rightarrow> string \<Rightarrow> string option" where
  "read_path t fuel p = walk t fuel [] (path_parts p)"

text \<open>More fuel does not change an answer.\<close>

lemma walk_more: "walk t fuel dir rest = Some b \<Longrightarrow> fuel \<le> fuel' \<Longrightarrow> walk t fuel' dir rest = Some b"
proof (induction t fuel dir rest arbitrary: fuel' rule: walk.induct)
  case (3 t fuel dir c rest)
  obtain f where f: "fuel' = Suc f" "fuel \<le> f" using 3(5) by (cases fuel') auto
  show ?case
  proof (cases "c = ''..''")
    case True
    then show ?thesis using 3(1) [OF True _ f(2)] 3(4) f(1) by simp
  next
    case False
    show ?thesis
    proof (cases "t (dir @ [c])")
      case None
      then show ?thesis using 3(2) [OF False None _ f(2)] 3(4) f(1) False by simp
    next
      case (Some e)
      then show ?thesis using 3(3) [OF False Some _ _ f(2)] 3(4) f(1) False by (cases e) simp_all
    qed
  qed
qed simp_all

lemma walk_up:
  "walk t fuel dir rest = Some b \<Longrightarrow>
   walk t (n + fuel) (dir @ ds) (replicate n ''..'' @ rest) = Some b" if "length ds = n" for n
  using that
proof (induction n arbitrary: ds)
  case (Suc n)
  then obtain es e where "ds = es @ [e]" "length es = n" by (metis length_Suc_conv_rev)
  with Suc show ?case by (simp add: butlast_append)
qed simp

text \<open>Through directories that are not links.\<close>

lemma walk_down:
  assumes "walk t fuel (dir @ ds) rest = Some b"
    and "\<And>k. k < length ds \<Longrightarrow> t (dir @ take (Suc k) ds) = None" "''..'' \<notin> set ds"
  shows "walk t (length ds + fuel) dir (ds @ rest) = Some b"
  using assms
proof (induction ds arbitrary: dir)
  case (Cons d ds)
  have "walk t (length ds + fuel) (dir @ [d]) (ds @ rest) = Some b"
  proof (rule Cons.IH)
    show "walk t fuel ((dir @ [d]) @ ds) rest = Some b" using Cons.prems(1) by simp
    show "t ((dir @ [d]) @ take (Suc k) ds) = None" if "k < length ds" for k
      using Cons.prems(2) [of "Suc k"] that by simp
    show "''..'' \<notin> set ds" using Cons.prems(3) by simp
  qed
  moreover have "t (dir @ [d]) = None" using Cons.prems(2) [of 0] by simp
  ultimately show ?case using Cons.prems(3) by auto
qed simp

end
