(* ===== verification/Volumes.thy ===== *)
theory Volumes
  imports Fs_Inject Podman_Api
begin

text \<open>
  \<^verbatim>\<open>controllers/volumes\<close>: the volumes of a pod in podman, named by the pod's UID, an underscore and
  the volume's name, and labelled with the UID; emptyDir, Secret and Projected volumes are created,
  the contents of the latter two written through an archive with the layout of the kubelet (a
  \<^verbatim>\<open>..data\<close> directory with one directory per version, a link to the current one, and a link per path).
\<close>

subsection \<open>Volumes in podman\<close>

definition runtime_volume_name :: "string \<Rightarrow> string \<Rightarrow> string" where
  "runtime_volume_name podUid volName = podUid @ ''_'' @ volName"

text \<open>\<^verbatim>\<open>vol.Name[len(podUid)+1:]\<close> panics for a name that is too short.\<close>

definition volume_suffix :: "string \<Rightarrow> VolumeInfo \<Rightarrow> string option" where
  "volume_suffix podUid vol =
     (if length podUid + 1 \<le> length (vi_Name vol) then Some (drop (length podUid + 1) (vi_Name vol))
      else None)"

definition ListRuntimeVolumes :: "env \<Rightarrow> string \<Rightarrow> string list run" where
  "ListRuntimeVolumes env podUid =
     bindR (errR (VolumeList env [(''label'', [''poduid='' @ podUid])])) (\<lambda>existingVols.
       derefR (those (map (volume_suffix podUid) existingVols)))"

definition CreateRuntimeVolume :: "env \<Rightarrow> string \<Rightarrow> string \<Rightarrow> string \<Rightarrow> string run" where
  "CreateRuntimeVolume env podUid volType volName =
     bindR (errR (VolumeCreate env \<lparr>vo_Name = runtime_volume_name podUid volName, vo_Driver = [],
              vo_Label = Some [(''poduid'', podUid), (''voltype'', volType)], vo_Options = None\<rparr>))
       (\<lambda>volInfo. ret (vi_Mountpoint volInfo))"

definition DeleteRuntimeVolume :: "env \<Rightarrow> string \<Rightarrow> string \<Rightarrow> bool \<Rightarrow> unit run" where
  "DeleteRuntimeVolume env podUid volName force =
     VolumeRm env (runtime_volume_name podUid volName) force"

definition CleanupVolumes :: "env \<Rightarrow> pod_meta \<Rightarrow> unit run" where
  "CleanupVolumes env podMeta =
     bindR (ListRuntimeVolumes env (pm_uid podMeta)) (\<lambda>existingVols.
       forR (\<lambda>volName. DeleteRuntimeVolume env (pm_uid podMeta) volName False) existingVols)"

subsection \<open>Contents\<close>

definition default_mode :: int where "default_mode = 420"

definition slashes :: "string \<Rightarrow> nat" where
  "slashes p = length (filter (\<lambda>c. c = CHR ''/'') p)"

definition up_dirs :: "nat \<Rightarrow> string" where
  "up_dirs n = concat (replicate n ''../'')"

definition data_path :: "string \<Rightarrow> string \<Rightarrow> string" where
  "data_path resVersion p = ''..data/'' @ resVersion @ ''/'' @ p"

definition link_target :: "string \<Rightarrow> string" where
  "link_target p = up_dirs (slashes p) @ ''..data/current/'' @ p"

text \<open>All keys of the secret, which have no slashes, as they are.\<close>

definition write_all_keys :: "env \<Rightarrow> string \<Rightarrow> int \<Rightarrow> (string \<times> string) list \<Rightarrow> archive \<Rightarrow> archive run" where
  "write_all_keys env resVersion mode data ae =
     bindR (range_map env data) (\<lambda>kvs.
     bindR (foldR (\<lambda>(key, body). WriteFile env (data_path resVersion key) mode body) kvs ae) (\<lambda>ae.
     bindR (WriteSymLink env ''..data/current'' resVersion ae) (\<lambda>ae.
     bindR (range_map env data) (\<lambda>kvs.
       foldR (\<lambda>(key, body). WriteSymLink env key (''..data/current/'' @ key)) kvs ae))))"

definition write_item ::
  "env \<Rightarrow> string \<Rightarrow> int \<Rightarrow> (string \<times> string) list \<Rightarrow> key_to_path \<Rightarrow> archive \<Rightarrow> archive run" where
  "write_item env resVersion mode data item ae =
     (let itemMode = (case kp_mode item of None \<Rightarrow> mode | Some m \<Rightarrow> m)
      in case map_of data (kp_key item) of
           Some body \<Rightarrow> WriteFile env (data_path resVersion (kp_path item)) itemMode body ae
         | None \<Rightarrow> ret ae)"

definition write_items ::
  "env \<Rightarrow> string \<Rightarrow> int \<Rightarrow> (string \<times> string) list \<Rightarrow> key_to_path list \<Rightarrow> archive \<Rightarrow> archive run" where
  "write_items env resVersion mode data items ae =
     bindR (foldR (write_item env resVersion mode data) items ae) (\<lambda>ae.
     bindR (WriteSymLink env ''..data/current'' resVersion ae) (\<lambda>ae.
       foldR (\<lambda>item. WriteSymLink env (kp_path item) (link_target (kp_path item))) items ae))"

definition CreateSecretVolume :: "env \<Rightarrow> pod_meta \<Rightarrow> string \<Rightarrow> secret_source \<Rightarrow> unit run" where
  "CreateSecretVolume env podMeta volName src =
     bindR (CreateRuntimeVolume env (pm_uid podMeta) ''secret'' volName) (\<lambda>volPath.
     bindR (tryR (GetSecret env (pm_ns podMeta) (ss_name src))) (\<lambda>r.
       case r of
         Inl err \<Rightarrow> if ss_optional src = Some True then ret () else failR err
       | Inr secret \<Rightarrow>
           bindR (StartArchiveExtraction env volPath) (\<lambda>(tar, _).
             let mode = (case ss_mode src of None \<Rightarrow> default_mode | Some m \<Rightarrow> m)
             in bindR (case ss_items src of
                         None \<Rightarrow> write_all_keys env (se_res_version secret) mode (se_data secret) tar
                       | Some items \<Rightarrow>
                           write_items env (se_res_version secret) mode (se_data secret) items tar)
                  (Finish env))))"

text \<open>The token of one source, written into the map of paths.\<close>

definition project_token ::
  "env \<Rightarrow> kpod \<Rightarrow> token_source option \<Rightarrow> (string \<times> string) list \<Rightarrow> (string \<times> string) list run" where
  "project_token env pod source paths =
     (case source of
        None \<Rightarrow> ret paths
      | Some ts \<Rightarrow>
          let sa = sp_service_account (kp_spec pod);
              saName = (if sa \<noteq> [] then sa else ''default'')
          in bindR (getR (\<lambda>n. env_token env (n_trace n))) (\<lambda>r.
             thenR (emit (KubeToken (pm_ns (kp_meta pod)) saName (ts_audience ts) (ts_expiration ts)))
               (case r of
                  Inl e \<Rightarrow> failR (PlainErr e)
                | Inr token \<Rightarrow> ret (AList.update (ts_path ts) token paths))))"

text \<open>\<^verbatim>\<open>Time.Unix\<close> of a time in nanoseconds.\<close>

definition unix_seconds :: "int \<Rightarrow> int" where
  "unix_seconds t = t div 1000000000"

definition CreateProjectedVolume :: "env \<Rightarrow> kpod \<Rightarrow> string \<Rightarrow> projected_source \<Rightarrow> unit run" where
  "CreateProjectedVolume env pod volName src =
     (let mode = (case ps_mode src of None \<Rightarrow> default_mode | Some m \<Rightarrow> m)
      in bindR (foldR (project_token env pod) (ps_sources src) []) (\<lambda>paths.
         bindR (CreateRuntimeVolume env (pm_uid (kp_meta pod)) ''projected'' volName) (\<lambda>volPath.
         bindR (StartArchiveExtraction env volPath) (\<lambda>(tar, t).
           let resVersion = int_dec (unix_seconds t)
           in bindR (range_map env paths) (\<lambda>kvs.
              bindR (foldR (\<lambda>(p, body). WriteFile env (data_path resVersion p) mode body) kvs tar) (\<lambda>tar.
              bindR (WriteSymLink env ''..data/current'' resVersion tar) (\<lambda>tar.
              bindR (range_map env paths) (\<lambda>kvs.
              bindR (foldR (\<lambda>(p, body). WriteSymLink env p (link_target p)) kvs tar) (Finish env)))))))))"

text \<open>The loop over the volumes of the pod. The first Secret or Projected volume ends it: the code
  returns that call's result.\<close>

fun create_volumes :: "env \<Rightarrow> kpod \<Rightarrow> volume list \<Rightarrow> unit run" where
  "create_volumes env pod [] = ret ()"
| "create_volumes env pod (spec # specs) =
     (if vol_host_path spec \<noteq> None then create_volumes env pod specs
      else case vol_empty_dir spec of
        Some medium \<Rightarrow>
          if medium = ''Memory'' then create_volumes env pod specs
          else bindR (CreateRuntimeVolume env (pm_uid (kp_meta pod)) ''emptydir'' (vol_name spec)) (\<lambda>_.
                 create_volumes env pod specs)
      | None \<Rightarrow>
          (case vol_secret spec of
             Some src \<Rightarrow> CreateSecretVolume env (kp_meta pod) (vol_name spec) src
           | None \<Rightarrow>
               (case vol_projected spec of
                  Some src \<Rightarrow> CreateProjectedVolume env pod (vol_name spec) src
                | None \<Rightarrow> create_volumes env pod specs)))"

definition CreatePodVolumes :: "env \<Rightarrow> kpod \<Rightarrow> unit run" where
  "CreatePodVolumes env pod =
     thenR (CleanupVolumes env (kp_meta pod)) (create_volumes env pod (sp_volumes (kp_spec pod)))"

end
