(* ===== verification/Volume_Layout.thy ===== *)
theory Volume_Layout
  imports Volumes
begin

text \<open>
  The layout of a published volume: the archive entries of a run, the directory they give, and the
  walk from a path through its link, \<^verbatim>\<open>..data/current\<close> and the version directory to the content.
\<close>

subsection \<open>Paths\<close>

lemma path_parts_join: "path_parts (x @ CHR ''/'' # y) = path_parts x @ path_parts y"
  unfolding path_parts_def
proof (induction x)
  case (Cons a x)
  then show ?case by (cases "split_on CHR ''/'' x") (auto split: list.splits)
qed simp

lemma path_parts_plain: "CHR ''/'' \<notin> set x \<Longrightarrow> path_parts x = [x]"
  by (simp add: path_parts_def)

lemma path_parts_inj: "path_parts p = path_parts q \<longleftrightarrow> p = q"
  unfolding path_parts_def by (metis join_split)

lemma length_path_parts: "length (path_parts p) = Suc (slashes p)"
  unfolding path_parts_def slashes_def
  by (induction p) (auto split: list.splits)

lemma path_parts_up: "path_parts (up_dirs n @ q) = replicate n ''..'' @ path_parts q"
proof (induction n)
  case (Suc n)
  have "up_dirs (Suc n) @ q = ''..'' @ CHR ''/'' # (up_dirs n @ q)" by (simp add: up_dirs_def)
  then show ?case unfolding \<open>up_dirs (Suc n) @ q = _\<close> path_parts_join
    using Suc by (simp add: path_parts_plain)
qed (simp add: up_dirs_def)

lemma path_parts_data:
  assumes "CHR ''/'' \<notin> set rv"
  shows "path_parts (data_path rv p) = [''..data'', rv] @ path_parts p"
proof -
  have "data_path rv p = ''..data'' @ CHR ''/'' # (rv @ CHR ''/'' # p)" by (simp add: data_path_def)
  then show ?thesis using assms by (simp only: path_parts_join) (simp add: path_parts_plain)
qed

lemma path_parts_link: "path_parts (link_target p)
    = replicate (slashes p) ''..'' @ [''..data'', ''current''] @ path_parts p"
proof -
  have "''..data/current/'' @ p = ''..data'' @ CHR ''/'' # (''current'' @ CHR ''/'' # p)" by simp
  then show ?thesis unfolding link_target_def path_parts_up
    by (simp only: path_parts_join) (simp add: path_parts_plain)
qed

lemma path_parts_current: "path_parts ''..data/current'' = [''..data'', ''current'']"
  by code_simp

subsection \<open>The directory of a list of entries\<close>

definition file_entries :: "string \<Rightarrow> (string \<times> int \<times> string) list \<Rightarrow> effect list" where
  "file_entries rv fs = map (\<lambda>(p, m, b). TarFile (data_path rv p) m b) fs"

definition link_entries :: "string list \<Rightarrow> effect list" where
  "link_entries ls = map (\<lambda>p. TarLink p (link_target p)) ls"

definition published :: "string \<Rightarrow> (string \<times> int \<times> string) list \<Rightarrow> string list \<Rightarrow> effect list" where
  "published rv fs ls = file_entries rv fs @ [TarLink ''..data/current'' rv] @ link_entries ls"

definition is_entry :: "effect \<Rightarrow> bool" where
  "is_entry e \<longleftrightarrow> (case e of TarFile _ _ _ \<Rightarrow> True | TarLink _ _ \<Rightarrow> True | _ \<Rightarrow> False)"

lemma tree_of_filter: "tree_of es = tree_of (filter is_entry es)"
proof -
  have "fold add_entry es t = fold add_entry (filter is_entry es) t" for t
    by (induction es arbitrary: t) (auto simp: is_entry_def split: effect.splits)
  then show ?thesis by (simp add: tree_of_def)
qed

lemma fold_files_other:
  "q \<notin> (\<lambda>(p, m, b). path_parts (data_path rv p)) ` set fs \<Longrightarrow>
   fold add_entry (file_entries rv fs) t q = t q"
  unfolding file_entries_def by (induction fs arbitrary: t) auto

lemma fold_files_at:
  assumes "(p, m, b) \<in> set fs" "distinct (map fst fs)" "CHR ''/'' \<notin> set rv"
  shows "fold add_entry (file_entries rv fs) t (path_parts (data_path rv p)) = Some (FileEntry b)"
proof -
  obtain xs ys where fs: "fs = xs @ (p, m, b) # ys" using assms(1) by (meson split_list)
  have "path_parts (data_path rv p) \<notin> (\<lambda>(p, m, b). path_parts (data_path rv p)) ` set ys"
  proof
    assume "path_parts (data_path rv p) \<in> (\<lambda>(p, m, b). path_parts (data_path rv p)) ` set ys"
    then obtain q m' b' where q: "(q, m', b') \<in> set ys" "path_parts (data_path rv p) = path_parts (data_path rv q)"
      by auto
    then have "q = p" by (simp add: path_parts_data [OF assms(3)] path_parts_inj)
    then have "p \<in> fst ` set ys" using q(1) by (auto intro: rev_image_eqI)
    then show False using assms(2) by (auto simp: fs)
  qed
  from fold_files_other [OF this] show ?thesis
    by (simp add: fs file_entries_def)
qed

lemma fold_links_other:
  "q \<notin> path_parts ` set ls \<Longrightarrow> fold add_entry (link_entries ls) t q = t q"
  unfolding link_entries_def by (induction ls arbitrary: t) auto

lemma fold_links_at:
  "p \<in> set ls \<Longrightarrow> fold add_entry (link_entries ls) t (path_parts p) = Some (LinkEntry (link_target p))"
proof (induction ls arbitrary: t)
  case (Cons x xs)
  show ?case
  proof (cases "p \<in> set xs")
    case True
    with Cons.IH show ?thesis by (simp add: link_entries_def)
  next
    case False
    then have "path_parts p \<notin> path_parts ` set xs" by (auto simp: path_parts_inj)
    from fold_links_other [OF this] False Cons.prems show ?thesis
      by (auto simp: link_entries_def)
  qed
qed simp

text \<open>Paths that can be published together: none goes up or into \<^verbatim>\<open>..data\<close>, none is a directory of
  another; the version is a plain name other than \<^verbatim>\<open>current\<close>.\<close>

definition good_path :: "string \<Rightarrow> bool" where
  "good_path p \<longleftrightarrow> ''..'' \<notin> set (path_parts p) \<and> hd (path_parts p) \<noteq> ''..data''"

definition no_dir_of :: "string \<Rightarrow> string \<Rightarrow> bool" where
  "no_dir_of q p \<longleftrightarrow> (\<forall>k < slashes p. path_parts q \<noteq> take (Suc k) (path_parts p))"

definition good_version :: "string \<Rightarrow> bool" where
  "good_version rv \<longleftrightarrow> CHR ''/'' \<notin> set rv \<and> rv \<noteq> ''..'' \<and> rv \<noteq> ''current''"

lemma walk_published:
  assumes "t (path_parts p) = Some (LinkEntry (link_target p))"
    and "t [''..data'', ''current''] = Some (LinkEntry rv)"
    and "t ([''..data'', rv] @ path_parts p) = Some (FileEntry b)"
    and "t [''..data''] = None" "t [''..data'', rv] = None"
    and "\<And>k. k < slashes p \<Longrightarrow> t (take (Suc k) (path_parts p)) = None"
    and "\<And>k. k < slashes p \<Longrightarrow> t ([''..data'', rv] @ take (Suc k) (path_parts p)) = None"
    and "good_path p" "good_version rv"
  shows "read_path t (3 * slashes p + 5) p = Some b"
proof -
  obtain ds c where ps: "path_parts p = ds @ [c]" and len: "length ds = slashes p"
    using length_path_parts [of p] by (metis length_Suc_conv_rev)
  have pre: "take (Suc k) ds = take (Suc k) (path_parts p)" if "k < length ds" for k
    using that by (simp add: ps)
  have dots: "''..'' \<notin> set ds" "c \<noteq> ''..''" using assms(8) by (auto simp: good_path_def ps)
  have rv: "path_parts rv = [rv]" "rv \<noteq> ''..''"
    using assms(9) by (simp_all add: good_version_def path_parts_plain)
  have "walk t (Suc 0) ([''..data'', rv] @ ds) [c] = Some b"
    using assms(3) dots(2) by (simp add: ps)
  then have "walk t (length ds + Suc 0) [''..data'', rv] (ds @ [c]) = Some b"
    using assms(7) dots(1) by (intro walk_down) (simp_all add: pre len)
  then have "walk t (Suc (length ds + Suc 0)) [''..data''] (rv # ds @ [c]) = Some b"
    using assms(5) rv(2) by simp
  then have "walk t (Suc (Suc (length ds + Suc 0))) [''..data''] (''current'' # ds @ [c]) = Some b"
    using assms(2) by (simp add: rv(1))
  then have "walk t (Suc (Suc (Suc (length ds + Suc 0)))) [] (''..data'' # ''current'' # ds @ [c]) = Some b"
    using assms(4) by simp
  then have "walk t (length ds + Suc (Suc (Suc (length ds + Suc 0)))) ([] @ ds)
      (replicate (length ds) ''..'' @ ''..data'' # ''current'' # ds @ [c]) = Some b"
    by (intro walk_up) simp_all
  then have "walk t (Suc (length ds + Suc (Suc (Suc (length ds + Suc 0))))) ([] @ ds) [c] = Some b"
    using assms(1) dots(2) by (simp add: ps path_parts_link len)
  then have "walk t (length ds + Suc (length ds + Suc (Suc (Suc (length ds + Suc 0))))) [] (ds @ [c]) = Some b"
    using assms(6) dots(1) by (intro walk_down) (simp_all add: pre len)
  then show ?thesis
    unfolding read_path_def ps by (rule walk_more) (simp add: len)
qed

lemma published_readable:
  assumes "(p, m, b) \<in> set fs" "p \<in> set ls" "distinct (map fst fs)"
    and "\<And>q. q \<in> fst ` set fs \<union> set ls \<Longrightarrow> good_path q \<and> no_dir_of q p"
    and "good_version rv"
  shows "read_path (tree_of (published rv fs ls)) (3 * slashes p + 5) p = Some b"
proof -
  define t1 where "t1 = fold add_entry (file_entries rv fs) Map.empty"
  define t2 where "t2 = t1([''..data'', ''current''] \<mapsto> LinkEntry rv)"
  define t where "t = fold add_entry (link_entries ls) t2"
  have tree: "tree_of (published rv fs ls) = t"
    by (simp add: tree_of_def published_def t_def t2_def t1_def path_parts_current)
  have rv: "CHR ''/'' \<notin> set rv" "rv \<noteq> ''current''" using assms(5) by (simp_all add: good_version_def)
  have not_link: "''..data'' # q \<notin> path_parts ` set ls" for q
  proof
    assume "''..data'' # q \<in> path_parts ` set ls"
    then obtain l where "l \<in> set ls" "path_parts l = ''..data'' # q" by auto
    then show False using assms(4) [of l] by (simp add: good_path_def)
  qed
  then have data: "t (''..data'' # q) = t2 (''..data'' # q)" for q
    unfolding t_def by (rule fold_links_other)
  have ne: "path_parts p \<noteq> []" for p using length_path_parts [of p] by auto
  have pre: "t1 q = None" if "\<And>l. l \<in> fst ` set fs \<Longrightarrow> q \<noteq> [''..data'', rv] @ path_parts l" for q
  proof -
    have "q \<notin> (\<lambda>(p, m, b). path_parts (data_path rv p)) ` set fs"
    proof
      assume "q \<in> (\<lambda>(p, m, b). path_parts (data_path rv p)) ` set fs"
      then obtain l m' b' where l: "(l, m', b') \<in> set fs" "q = [''..data'', rv] @ path_parts l"
        by (auto simp: path_parts_data [OF rv(1)])
      then have "l \<in> fst ` set fs" by (auto intro: rev_image_eqI)
      with that l(2) show False by blast
    qed
    from fold_files_other [OF this] show ?thesis by (simp add: t1_def)
  qed
  show ?thesis unfolding tree
  proof (rule walk_published [OF _ _ _ _ _ _ _ _ assms(5)])
    show "t (path_parts p) = Some (LinkEntry (link_target p))"
      unfolding t_def by (rule fold_links_at [OF assms(2)])
    show "t [''..data'', ''current''] = Some (LinkEntry rv)" by (simp add: data t2_def)
    have "t1 (path_parts (data_path rv p)) = Some (FileEntry b)"
      unfolding t1_def by (rule fold_files_at [OF assms(1,3) rv(1)])
    then show "t ([''..data'', rv] @ path_parts p) = Some (FileEntry b)"
      using ne [of p] by (simp add: data t2_def path_parts_data [OF rv(1)])
    show "t [''..data''] = None" by (simp add: data t2_def pre)
    have "t1 [''..data'', rv] = None" by (rule pre) (simp add: ne ne [symmetric])
    then show "t [''..data'', rv] = None" using rv(2) by (simp add: data t2_def)
    show "good_path p" using assms(2,4) by blast
    show "t ([''..data'', rv] @ take (Suc k) (path_parts p)) = None" if "k < slashes p" for k
    proof -
      have "t1 ([''..data'', rv] @ take (Suc k) (path_parts p)) = None"
      proof (rule pre)
        fix l assume "l \<in> fst ` set fs"
        then have "path_parts l \<noteq> take (Suc k) (path_parts p)"
          using assms(4) [of l] that by (simp add: no_dir_of_def)
        then show "[''..data'', rv] @ take (Suc k) (path_parts p) \<noteq> [''..data'', rv] @ path_parts l"
          by simp
      qed
      then show ?thesis using ne [of p] by (simp add: data t2_def)
    qed
    show "t (take (Suc k) (path_parts p)) = None" if "k < slashes p" for k
    proof -
      have "hd (path_parts p) \<noteq> ''..data''" using assms(2,4) by (auto simp: good_path_def)
      moreover have "take (Suc k) (path_parts p) = hd (path_parts p) # take k (tl (path_parts p))"
        using ne [of p] by (cases "path_parts p") simp_all
      ultimately have hd: "take (Suc k) (path_parts p) \<noteq> ''..data'' # q" for q by simp
      then have "take (Suc k) (path_parts p) \<noteq> [''..data'', ''current'']" by blast
      moreover have "t1 (take (Suc k) (path_parts p)) = None" by (rule pre) (simp add: hd)
      moreover have "take (Suc k) (path_parts p) \<notin> path_parts ` set ls"
      proof
        assume "take (Suc k) (path_parts p) \<in> path_parts ` set ls"
        then obtain l where "l \<in> set ls" "path_parts l = take (Suc k) (path_parts p)" by auto
        then show False using assms(4) [of l] that unfolding no_dir_of_def by blast
      qed
      ultimately show ?thesis unfolding t_def by (subst fold_links_other) (simp_all add: t2_def)
    qed
  qed
qed

end
