(* ===== verification/Pod_Converter.thy ===== *)
theory Pod_Converter
  imports Podman_SpecGen Kube_Types Pod_Coord "HOL-Library.Signed_Division"
begin

text \<open>
  \<^verbatim>\<open>controllers/pods/converter.go\<close>: from Kubernetes pods and containers to podman's requests.
  Arithmetic on \<^verbatim>\<open>int64\<close> wraps (\<open>wrap64\<close>) and divides towards zero. \<open>None\<close> is a panic: a nil
  dereference or a division by zero.
\<close>

definition wrap64 :: "int \<Rightarrow> int" where
  "wrap64 x = signed_take_bit 63 x"

lemma wrap64_id: "- (2 ^ 63) \<le> x \<Longrightarrow> x < 2 ^ 63 \<Longrightarrow> wrap64 x = x"
  unfolding wrap64_def by (rule signed_take_bit_int_eq_self) simp_all

subsection \<open>Pods\<close>

definition cluster_dns :: "kpod \<Rightarrow> ip \<Rightarrow> PodNetworkConfig \<Rightarrow> PodNetworkConfig" where
  "cluster_dns pod clusterDns c =
     c\<lparr>pn_DNSServer := [clusterDns],
       pn_DNSSearch := [pm_ns (kp_meta pod) @ ''.svc.cluster.local'', ''svc.cluster.local''],
       pn_DNSOption := [''ndots:5'']\<rparr>"

definition ConvertPodConfig :: "kpod \<Rightarrow> ip \<Rightarrow> string \<Rightarrow> PodSpecGenerator" where
  "ConvertPodConfig pod clusterDns cniNet =
     (let meta = kp_meta pod; spec = kp_spec pod;
          key = pm_ns meta @ ''_'' @ pm_name meta;
          shareNs = [''ipc'', ''net'', ''uts'']
            @ (if sp_share_pid spec = Some True then [''pid''] else []);
          net = (if sp_host_network spec
                 then zero_PodNetworkConfig\<lparr>pn_NetNS := \<lparr>ns_NSMode = ''host'', ns_Value = []\<rparr>\<rparr>
                 else zero_PodNetworkConfig\<lparr>pn_NetNS := \<lparr>ns_NSMode = ''bridge'', ns_Value = []\<rparr>,
                        pn_CNINetworks := [cniNet]\<rparr>);
          net = (if sp_dns_policy spec = ''ClusterFirstWithHostNet'' then cluster_dns pod clusterDns net
                 else if sp_dns_policy spec = ''ClusterFirst'' then
                   (if \<not> sp_host_network spec then cluster_dns pod clusterDns net else net)
                 else net)
      in \<lparr>pg_Basic = zero_PodBasicConfig\<lparr>pb_Hostname := pm_name meta,
              pb_Labels := [(''heritage'', ''kube-pet-node'')], pb_Name := key,
              pb_SharedNamespaces := shareNs\<rparr>,
          pg_Network = net, pg_Cgroup = \<lparr>pc_CgroupParent = []\<rparr>\<rparr>)"

subsection \<open>CPU and memory\<close>

definition minShares :: int where "minShares = 2"
definition sharesPerCPU :: int where "sharesPerCPU = 1024"
definition milliCPUToCPU :: int where "milliCPUToCPU = 1000"
definition CpuPeriod :: int where "CpuPeriod = 100000"
definition minCpuPeriod :: int where "minCpuPeriod = 1000"

definition milliCPUToShares :: "int \<Rightarrow> int" where
  "milliCPUToShares milliCPU =
     (if milliCPU = 0 then minShares
      else let shares = wrap64 (milliCPU * sharesPerCPU) sdiv milliCPUToCPU
           in if shares < minShares then minShares else shares)"

definition milliCPUToQuota :: "int \<Rightarrow> int \<Rightarrow> int" where
  "milliCPUToQuota milliCPU period =
     (if milliCPU = 0 then 0
      else let quota = wrap64 (milliCPU * period) sdiv milliCPUToCPU
           in if quota < minCpuPeriod then minCpuPeriod else quota)"

definition guaranteedOOMScoreAdj :: int where "guaranteedOOMScoreAdj = -998"
definition besteffortOOMScoreAdj :: int where "besteffortOOMScoreAdj = 1000"

definition GetContainerOOMScoreAdjust :: "kpod \<Rightarrow> container \<Rightarrow> int \<Rightarrow> int option" where
  "GetContainerOOMScoreAdjust pod con memoryCapacity =
     (case sp_priority (kp_spec pod) of
        None \<Rightarrow> None
      | Some priority \<Rightarrow>
          if priority \<ge> 2000000000 then Some guaranteedOOMScoreAdj
          else if ps_qos_class (kp_status pod) = ''Guaranteed'' then Some guaranteedOOMScoreAdj
          else if ps_qos_class (kp_status pod) = ''BestEffort'' then Some besteffortOOMScoreAdj
          else if memoryCapacity = 0 then None
          else
            (let memoryRequest = q_value (con_mem_request con);
                 oomScoreAdjust = wrap64 (1000 - wrap64 (1000 * memoryRequest) sdiv memoryCapacity)
             in if oomScoreAdjust < 1000 + guaranteedOOMScoreAdj then Some (1000 + guaranteedOOMScoreAdj)
                else if oomScoreAdjust = besteffortOOMScoreAdj then Some (oomScoreAdjust - 1)
                else Some oomScoreAdjust))"

subsection \<open>The parts of a container\<close>

definition convert_env :: "env_var list \<Rightarrow> smap" where
  "convert_env vars =
     fold (\<lambda>v. AList.update (ev_name v) (if ev_value_from v then ''TODO'' else ev_value v)) vars []"

definition is_systemd :: "kpod \<Rightarrow> container \<Rightarrow> string" where
  "is_systemd pod con =
     (case annotation pod (''vk.podman.io/systemd.'' @ con_name con) of
        Some value \<Rightarrow> value
      | None \<Rightarrow> (case annotation pod ''vk.podman.io/is-systemd'' of Some value \<Rightarrow> value | None \<Rightarrow> []))"

definition zero_LinuxCPU :: LinuxCPU where
  "zero_LinuxCPU = \<lparr>cpu_Shares = None, cpu_Quota = None, cpu_Period = None,
     cpu_RealtimeRuntime = None, cpu_RealtimePeriod = None, cpu_Cpus = [], cpu_Mems = []\<rparr>"

definition zero_LinuxMemory :: LinuxMemory where
  "zero_LinuxMemory = \<lparr>mem_Limit = None, mem_Reservation = None, mem_Swap = None, mem_Kernel = None,
     mem_KernelTCP = None, mem_Swappiness = None, mem_DisableOOMKiller = None, mem_UseHierarchy = None\<rparr>"

definition zero_LinuxResources :: LinuxResources where
  "zero_LinuxResources = \<lparr>lr_Devices = [], lr_Memory = None, lr_CPU = None, lr_Pids = None,
     lr_BlockIO = None, lr_HugepageLimits = [], lr_Network = None, lr_Rdma = []\<rparr>"

definition convert_resources :: "container \<Rightarrow> LinuxResources" where
  "convert_resources con =
     (let cpuShares = word_of_int (milliCPUToShares (q_milli (con_cpu_request con)));
          cpu = zero_LinuxCPU\<lparr>cpu_Shares := Some cpuShares\<rparr>;
          r = zero_LinuxResources;
          r = (if \<not> q_is_zero (con_mem_limit con)
               then r\<lparr>lr_Memory := Some (zero_LinuxMemory\<lparr>mem_Limit := Some (q_value (con_mem_limit con))\<rparr>)\<rparr>
               else r);
          cpu = (if \<not> q_is_zero (con_cpu_limit con)
                 then cpu\<lparr>cpu_Period := Some (word_of_int CpuPeriod),
                          cpu_Quota := Some (milliCPUToQuota (q_milli (con_cpu_limit con)) CpuPeriod)\<rparr>
                 else cpu)
      in r\<lparr>lr_CPU := Some cpu\<rparr>)"

text \<open>The first volume of that name.\<close>

definition find_volume :: "kpod \<Rightarrow> string \<Rightarrow> volume option" where
  "find_volume pod name = find (\<lambda>v. vol_name v = name) (sp_volumes (kp_spec pod))"

definition mount_flags :: "kpod \<Rightarrow> volume_mount \<Rightarrow> string list" where
  "mount_flags pod m =
     [if vm_read_only m then ''ro'' else ''rw'']
     @ (case annotation pod (''vk.podman.io/volume-selinux.'' @ vm_name m) of
          None \<Rightarrow> []
        | Some value \<Rightarrow>
            if value = ''relabel-private'' then [''Z'']
            else if value = ''relabel-shared'' then [''z'']
            else [])"

definition volume_name :: "kpod \<Rightarrow> string \<Rightarrow> string" where
  "volume_name pod name = pm_uid (kp_meta pod) @ ''_'' @ name"

definition convert_mount ::
  "kpod \<Rightarrow> volume_mount \<Rightarrow> Mount list \<times> NamedVolume list \<Rightarrow> Mount list \<times> NamedVolume list" where
  "convert_mount pod m = (\<lambda>(mounts, volumes).
     case find_volume pod (vm_name m) of
       None \<Rightarrow> (mounts, volumes)
     | Some vol \<Rightarrow>
         (case vol_host_path vol of
            Some path \<Rightarrow>
              (mounts @ [\<lparr>mnt_Destination = vm_mount_path m, mnt_Type = ''bind'',
                          mnt_Source = path @ vm_sub_path m, mnt_Options = mount_flags pod m\<rparr>], volumes)
          | None \<Rightarrow>
              if vol_empty_dir vol = Some ''Memory'' then
                (mounts @ [\<lparr>mnt_Destination = vm_mount_path m, mnt_Type = ''tmpfs'',
                            mnt_Source = ''tmpfs'', mnt_Options = []\<rparr>], volumes)
              else
                (mounts, volumes @ [\<lparr>nv_Name = volume_name pod (vm_name m),
                                     nv_Dest = vm_mount_path m, nv_Options = None\<rparr>])))"

text \<open>A user or group of the container, or of the pod (whose security context is dereferenced).\<close>

definition own_or_pod :: "int option \<Rightarrow> 'p option \<Rightarrow> ('p \<Rightarrow> int option) \<Rightarrow> int option option" where
  "own_or_pod own podctx sel =
     (case own of
        Some i \<Rightarrow> Some (Some i)
      | None \<Rightarrow> (case podctx of None \<Rightarrow> None | Some p \<Rightarrow> Some (sel p)))"

definition selinux_opts :: "selinux_options \<Rightarrow> string list" where
  "selinux_opts o' =
     (if se_user o' \<noteq> [] then [''user:'' @ se_user o'] else [])
     @ (if se_role o' \<noteq> [] then [''role:'' @ se_role o'] else [])
     @ (if se_level o' \<noteq> [] then [''level:'' @ se_level o'] else [])
     @ (if se_type o' \<noteq> [] then [''type:'' @ se_type o'] else [])"

definition convert_security :: "kpod \<Rightarrow> container \<Rightarrow> ContainerSecurityConfig option" where
  "convert_security pod con =
     (case con_security con of
        None \<Rightarrow> Some zero_ContainerSecurityConfig
      | Some sc \<Rightarrow>
          do {
            let z = zero_ContainerSecurityConfig;
            let z = (case sc_privileged sc of None \<Rightarrow> z | Some b \<Rightarrow> z\<lparr>sec_Privileged := b\<rparr>);
            user \<leftarrow> own_or_pod (sc_run_as_user sc) (sp_security (kp_spec pod)) fst;
            let z = (case user of None \<Rightarrow> z | Some u \<Rightarrow> z\<lparr>sec_User := int_dec u\<rparr>);
            group \<leftarrow> own_or_pod (sc_run_as_group sc) (sp_security (kp_spec pod)) snd;
            let z = (case group of None \<Rightarrow> z | Some g \<Rightarrow> z\<lparr>sec_Groups := [int_dec g]\<rparr>);
            let z = (case sc_capabilities sc of
                       None \<Rightarrow> z
                     | Some (adds, drops) \<Rightarrow> z\<lparr>sec_CapAdd := adds, sec_CapDrop := drops\<rparr>);
            let z = (case sc_selinux sc of None \<Rightarrow> z | Some o' \<Rightarrow> z\<lparr>sec_SelinuxOpts := selinux_opts o'\<rparr>);
            let z = (case sc_allow_escalation sc of None \<Rightarrow> z | Some b \<Rightarrow> z\<lparr>sec_NoNewPrivileges := \<not> b\<rparr>);
            let z = (case sc_read_only_root sc of None \<Rightarrow> z | Some b \<Rightarrow> z\<lparr>sec_ReadOnlyFilesystem := b\<rparr>);
            Some z
          })"

text \<open>The request, from its computed parts.\<close>

definition container_request ::
  "kpod \<Rightarrow> container \<Rightarrow> string \<Rightarrow> int \<Rightarrow> Mount list \<times> NamedVolume list \<Rightarrow> ContainerSecurityConfig \<Rightarrow>
   SpecGenerator" where
  "container_request pod con podId oomScoreAdjust storage securityCfg =
     \<lparr>sg_Basic = zero_ContainerBasicConfig\<lparr>
         cb_Name := pm_ns (kp_meta pod) @ ''_'' @ pm_name (kp_meta pod) @ ''_'' @ con_name con,
         cb_Namespace := ''kube-pet'', cb_Pod := podId, cb_Entrypoint := con_command con,
         cb_Command := con_args con, cb_Env := convert_env (con_env con),
         cb_Terminal := con_tty con, cb_Stdin := con_stdin con,
         cb_Labels := [(''k8s-name'', con_name con), (''k8s-type'', ''standard'')],
         cb_LogConfiguration := Some \<lparr>lc_Driver = ''k8s-file'', lc_Path = [], lc_Options = []\<rparr>,
         cb_Systemd := is_systemd pod con\<rparr>,
       sg_Storage = zero_ContainerStorageConfig\<lparr>st_Image := con_image con,
         st_Mounts := fst storage, st_Volumes := snd storage, st_WorkDir := con_working_dir con\<rparr>,
       sg_Security = securityCfg,
       sg_Cgroup = \<lparr>cg_CgroupNS = zero_Namespace, cg_CgroupsMode = ''enabled'', cg_CgroupParent = []\<rparr>,
       sg_Network = zero_ContainerNetworkConfig,
       sg_Resource = zero_ContainerResourceConfig\<lparr>
         cr_ResourceLimits := Some (convert_resources con), cr_OOMScoreAdj := Some oomScoreAdjust\<rparr>,
       sg_HealthCheck = \<lparr>hcc_HealthConfig = Some \<lparr>hc_Test = [''NONE''], hc_StartPeriod = 0,
         hc_Interval = 0, hc_Timeout = 0, hc_Retries = 0\<rparr>\<rparr>\<rparr>"

definition ConvertContainerConfig :: "int \<Rightarrow> kpod \<Rightarrow> container \<Rightarrow> string \<Rightarrow> SpecGenerator option" where
  "ConvertContainerConfig totalMemory pod con podId =
     do {
       oomScoreAdjust \<leftarrow> GetContainerOOMScoreAdjust pod con (wrap64 totalMemory);
       let storage = fold (convert_mount pod) (con_mounts con) ([], []);
       securityCfg \<leftarrow> convert_security pod con;
       Some (container_request pod con podId oomScoreAdjust storage securityCfg)
     }"

lemma ConvertContainerConfig_Some:
  "ConvertContainerConfig mem pod con podId = Some spec \<longleftrightarrow>
   (\<exists>oom sec. GetContainerOOMScoreAdjust pod con (wrap64 mem) = Some oom
      \<and> convert_security pod con = Some sec
      \<and> spec = container_request pod con podId oom (fold (convert_mount pod) (con_mounts con) ([], [])) sec)"
  by (auto simp: ConvertContainerConfig_def Let_def bind_eq_Some_conv)

subsection \<open>Facts\<close>

lemma sdiv_pos: "0 \<le> a \<Longrightarrow> 0 < b \<Longrightarrow> (a :: int) sdiv b = a div b"
  by (simp add: signed_divide_int_def sgn_if)

lemma milliCPUToShares_eq:
  assumes "0 \<le> m" "m * 1024 < 2 ^ 63"
  shows "milliCPUToShares m = max 2 (m * 1024 div 1000)"
  using assms by (auto simp: milliCPUToShares_def minShares_def sharesPerCPU_def milliCPUToCPU_def
      wrap64_id sdiv_pos Let_def max_def)

lemma milliCPUToQuota_eq:
  assumes "0 < m" "0 \<le> p" "m * p < 2 ^ 63"
  shows "milliCPUToQuota m p = max 1000 (m * p div 1000)"
proof -
  have "0 \<le> m * p" using assms(1,2) by simp
  with assms(3) have "wrap64 (m * p) sdiv 1000 = m * p div 1000" by (simp add: wrap64_id sdiv_pos)
  with assms(1) show ?thesis
    by (simp add: milliCPUToQuota_def minCpuPeriod_def milliCPUToCPU_def Let_def max_def)
qed

text \<open>The score of a pod that is neither critical nor of the other two classes.\<close>

lemma burstable_score:
  assumes "sp_priority (kp_spec pod) = Some pr" "pr < 2000000000"
    and "ps_qos_class (kp_status pod) \<notin> {''Guaranteed'', ''BestEffort''}"
    and "0 < cap" "0 \<le> q_value (con_mem_request con)" "1000 * q_value (con_mem_request con) < 2 ^ 63"
  shows "GetContainerOOMScoreAdjust pod con cap
     = Some (min 999 (max 2 (1000 - 1000 * q_value (con_mem_request con) div cap)))"
proof -
  define q where "q = 1000 * q_value (con_mem_request con) div cap"
  have q: "0 \<le> q" "q \<le> 1000 * q_value (con_mem_request con)"
    unfolding q_def using assms(4,5) zdiv_mono2 [of "1000 * q_value (con_mem_request con)" 1 cap]
    by (simp_all add: pos_imp_zdiv_nonneg_iff)
  then have "wrap64 (1000 - q) = 1000 - q" using assms(6) by (intro wrap64_id) simp_all
  moreover have "wrap64 (1000 * q_value (con_mem_request con)) sdiv cap = q"
    unfolding q_def using assms(4-6) by (simp add: wrap64_id sdiv_pos)
  ultimately show ?thesis using assms(1-4) q
    by (auto simp: GetContainerOOMScoreAdjust_def guaranteedOOMScoreAdj_def besteffortOOMScoreAdj_def
        Let_def q_def [symmetric])
qed

end
