(* ===== verification/Volume_Props.thy ===== *)
theory Volume_Props
  imports Volume_Layout Podman_Props Pod_Converter
begin

text \<open>The properties of the volume controller, each with its witness.\<close>

subsection \<open>Writing without errors\<close>

definition tar_ok :: "env \<Rightarrow> bool" where
  "tar_ok env \<longleftrightarrow> (\<forall>tr. env_tar_error env tr = None)"

definition sent :: "effect list \<Rightarrow> node \<Rightarrow> node" where
  "sent es n = n\<lparr>n_trace := n_trace n @ es\<rparr>"

lemma sent_simps [simp]:
  "sent [] n = n" "sent fs (sent es n) = sent (es @ fs) n" "n_trace (sent es n) = n_trace n @ es"
  by (simp_all add: sent_def)

lemma update_trace_sent: "n\<lparr>n_trace := n_trace n @ es\<rparr> = sent es n"
  by (simp add: sent_def)

lemma write_ok:
  assumes "tar_ok env"
  shows "WriteFile env name mode body ae n = (Ok ae, sent [TarFile name mode body] n)"
    and "WriteSymLink env name target ae n = (Ok ae, sent [TarLink name target] n)"
    and "Finish env None n = (Ok (), sent [TarClose, PipeClose, TarWait] n)"
proof -
  have e: "tar_error env m = (Ok None, m)" for m
    using assms by (simp add: tar_ok_def tar_error_def)
  show "WriteFile env name mode body ae n = (Ok ae, sent [TarFile name mode body] n)"
    by (simp add: WriteFile_def e sent_def)
  show "WriteSymLink env name target ae n = (Ok ae, sent [TarLink name target] n)"
    by (simp add: WriteSymLink_def e sent_def)
  show "Finish env None n = (Ok (), sent [TarClose, PipeClose, TarWait] n)"
    by (simp add: Finish_def e sent_def)
qed

lemma foldR_sends_each:
  assumes "\<And>x a n. x \<in> set xs \<Longrightarrow> f x a n = (Ok a, sent (g x) n)"
  shows "foldR f xs a n = (Ok a, sent (concat (map g xs)) n)"
  using assms
proof (induction xs arbitrary: n)
  case (Cons x xs)
  have "f x a n = (Ok a, sent (g x) n)" using Cons.prems [of x a n] by simp
  then have "foldR f (x # xs) a n = foldR f xs a (sent (g x) n)" by simp
  also have "\<dots> = (Ok a, sent (concat (map g xs)) (sent (g x) n))"
  proof (rule Cons.IH)
    fix y b m assume "y \<in> set xs"
    then show "f y b m = (Ok b, sent (g y) m)" using Cons.prems [of y b m] by simp
  qed
  finally show ?case by simp
qed simp

lemma concat_single: "concat (map (\<lambda>x. [h x]) xs) = map h xs"
  by (induction xs) simp_all

text \<open>The two loops and the link in between, for contents that are already known.\<close>

lemma write_loops:
  assumes "tar_ok env"
  shows "foldR (\<lambda>(key, body). WriteFile env (data_path rv key) mode body) kvs ae n
      = (Ok ae, sent (file_entries rv (map (\<lambda>(k, b). (k, mode, b)) kvs)) n)"
    and "foldR (\<lambda>(key, body). WriteSymLink env key (f key)) kvs ae n
      = (Ok ae, sent (map (\<lambda>k. TarLink k (f k)) (map fst kvs)) n)"
    and "foldR (\<lambda>item. WriteSymLink env (p item) (f (p item))) items ae n
      = (Ok ae, sent (map (\<lambda>k. TarLink k (f k)) (map p items)) n)"
proof -
  have "foldR (\<lambda>(key, body). WriteFile env (data_path rv key) mode body) kvs ae n
      = (Ok ae, sent (concat (map (\<lambda>x. [TarFile (data_path rv (fst x)) mode (snd x)]) kvs)) n)"
    by (rule foldR_sends_each) (simp add: split_def write_ok [OF assms])
  then show "foldR (\<lambda>(key, body). WriteFile env (data_path rv key) mode body) kvs ae n
      = (Ok ae, sent (file_entries rv (map (\<lambda>(k, b). (k, mode, b)) kvs)) n)"
    by (simp add: concat_single file_entries_def split_def comp_def)
  have "foldR (\<lambda>(key, body). WriteSymLink env key (f key)) kvs ae n
      = (Ok ae, sent (concat (map (\<lambda>x. [TarLink (fst x) (f (fst x))]) kvs)) n)"
    by (rule foldR_sends_each) (simp add: split_def write_ok [OF assms])
  then show "foldR (\<lambda>(key, body). WriteSymLink env key (f key)) kvs ae n
      = (Ok ae, sent (map (\<lambda>k. TarLink k (f k)) (map fst kvs)) n)"
    by (simp add: concat_single comp_def)
  have "foldR (\<lambda>item. WriteSymLink env (p item) (f (p item))) items ae n
      = (Ok ae, sent (concat (map (\<lambda>x. [TarLink (p x) (f (p x))]) items)) n)"
    by (rule foldR_sends_each) (simp add: write_ok [OF assms])
  then show "foldR (\<lambda>item. WriteSymLink env (p item) (f (p item))) items ae n
      = (Ok ae, sent (map (\<lambda>k. TarLink k (f k)) (map p items)) n)"
    by (simp add: concat_single comp_def)
qed

lemma link_target_plain: "CHR ''/'' \<notin> set k \<Longrightarrow> ''..data/current/'' @ k = link_target k"
proof -
  assume "CHR ''/'' \<notin> set k"
  then have "slashes k = 0" by (auto simp: slashes_def filter_empty_conv)
  then show ?thesis by (simp add: link_target_def up_dirs_def)
qed

lemma write_all_keys_run:
  assumes "tar_ok env" and "\<And>k. k \<in> fst ` set data \<Longrightarrow> CHR ''/'' \<notin> set k"
  obtains kvs kvs' where "mset kvs = mset data" "mset kvs' = mset data"
    "write_all_keys env rv mode data None n
      = (Ok None, sent (published rv (map (\<lambda>(k, b). (k, mode, b)) kvs) (map fst kvs')) n)"
proof -
  define kvs where "kvs = visit env (n_trace n) data"
  define es1 where "es1 = file_entries rv (map (\<lambda>(k, b). (k, mode, b)) kvs) @ [TarLink ''..data/current'' rv]"
  define kvs' where "kvs' = visit env (n_trace n @ es1) data"
  have links: "map (\<lambda>k. TarLink k (''..data/current/'' @ k)) (map fst kvs') = link_entries (map fst kvs')"
    unfolding link_entries_def
  proof (rule map_cong [OF refl])
    fix k assume "k \<in> set (map fst kvs')"
    then have "k \<in> fst ` set data" unfolding kvs'_def by (simp add: image_iff)
    then show "TarLink k (''..data/current/'' @ k) = TarLink k (link_target k)"
      using link_target_plain [OF assms(2)] by presburger
  qed
  have "write_all_keys env rv mode data None n
      = (Ok None, sent (es1 @ map (\<lambda>k. TarLink k (''..data/current/'' @ k)) (map fst kvs')) n)"
    unfolding write_all_keys_def
    by (simp add: kvs_def [symmetric] write_loops(1,2) [OF assms(1)] write_ok [OF assms(1)]
        es1_def [symmetric] kvs'_def [symmetric])
  moreover have "es1 @ link_entries (map fst kvs')
      = published rv (map (\<lambda>(k, b). (k, mode, b)) kvs) (map fst kvs')"
    by (simp add: es1_def published_def)
  ultimately show thesis
    using that [of kvs kvs'] unfolding links by (simp add: kvs_def kvs'_def)
qed

text \<open>The same for a list of items; an item whose key is missing gets a link but no content.\<close>

definition item_contents ::
  "(string \<times> string) list \<Rightarrow> int \<Rightarrow> key_to_path list \<Rightarrow> (string \<times> int \<times> string) list" where
  "item_contents data mode items = concat (map (\<lambda>item.
     case map_of data (kp_key item) of
       None \<Rightarrow> []
     | Some b \<Rightarrow> [(kp_path item, case kp_mode item of None \<Rightarrow> mode | Some m \<Rightarrow> m, b)]) items)"

lemma file_entries_concat:
  "concat (map (\<lambda>x. file_entries rv (g x)) xs) = file_entries rv (concat (map g xs))"
  by (induction xs) (simp_all add: file_entries_def)

lemma write_items_run:
  assumes "tar_ok env"
  shows "write_items env rv mode data items None n
    = (Ok None, sent (published rv (item_contents data mode items) (map kp_path items)) n)"
proof -
  define g :: "key_to_path \<Rightarrow> (string \<times> int \<times> string) list"
    where "g = (\<lambda>item. case map_of data (kp_key item) of
      None \<Rightarrow> []
    | Some b \<Rightarrow> [(kp_path item, case kp_mode item of None \<Rightarrow> mode | Some m \<Rightarrow> m, b :: string)])"
  have each: "write_item env rv mode data item a m = (Ok a, sent (file_entries rv (g item)) m)" for item a m
    by (simp add: write_item_def g_def file_entries_def write_ok [OF assms] Let_def split: option.split)
  have "foldR (write_item env rv mode data) items None m
      = (Ok None, sent (concat (map (\<lambda>x. file_entries rv (g x)) items)) m)" for m
    by (rule foldR_sends_each) (rule each)
  moreover have "concat (map g items) = item_contents data mode items"
    by (simp add: item_contents_def g_def)
  ultimately have files: "foldR (write_item env rv mode data) items None m
      = (Ok None, sent (file_entries rv (item_contents data mode items)) m)" for m
    by (simp add: file_entries_concat)
  show ?thesis
    unfolding write_items_def
    by (simp add: files write_ok [OF assms] write_loops(3) [OF assms] published_def link_entries_def)
qed

lemma subseq_set: "subseq xs ys \<Longrightarrow> set xs \<subseteq> set ys"
  by (induction rule: list_emb.induct) auto

subsection \<open>Secret volumes\<close>

definition published_paths :: "secret_source \<Rightarrow> secret \<Rightarrow> string list" where
  "published_paths src secret =
     (case ss_items src of None \<Rightarrow> map fst (se_data secret) | Some items \<Rightarrow> map kp_path items)"

definition published_content :: "secret_source \<Rightarrow> secret \<Rightarrow> string \<Rightarrow> string \<Rightarrow> bool" where
  "published_content src secret p b \<longleftrightarrow>
     (case ss_items src of
        None \<Rightarrow> (p, b) \<in> set (se_data secret)
      | Some items \<Rightarrow>
          (\<exists>item \<in> set items. kp_path item = p \<and> map_of (se_data secret) (kp_key item) = Some b))"

definition secret_mode :: "secret_source \<Rightarrow> int" where
  "secret_mode src = (case ss_mode src of None \<Rightarrow> default_mode | Some m \<Rightarrow> m)"

lemma item_contents_mem:
  "item \<in> set items \<Longrightarrow> map_of data (kp_key item) = Some b \<Longrightarrow>
   (kp_path item, case kp_mode item of None \<Rightarrow> mode | Some m \<Rightarrow> m, b) \<in> set (item_contents data mode items)"
  unfolding item_contents_def by (auto intro!: bexI [of _ item])

lemma item_contents_paths: "subseq (map fst (item_contents data mode items)) (map kp_path items)"
proof (induction items)
  case (Cons item items)
  then show ?case by (cases "map_of data (kp_key item)") (simp_all add: item_contents_def list_emb_Cons)
qed (simp add: item_contents_def)

text \<open>The entries that the loops of a secret give.\<close>

lemma secret_entries:
  assumes "tar_ok env"
    and "ss_items src = None \<Longrightarrow> \<forall>k \<in> fst ` set (se_data secret). CHR ''/'' \<notin> set k"
    and "distinct (published_paths src secret)"
  obtains fs ls where
    "(case ss_items src of
        None \<Rightarrow> write_all_keys env rv (secret_mode src) (se_data secret) None n
      | Some items \<Rightarrow> write_items env rv (secret_mode src) (se_data secret) items None n)
     = (Ok None, sent (published rv fs ls) n)"
    "set ls = set (published_paths src secret)" "fst ` set fs \<subseteq> set ls" "distinct (map fst fs)"
    "\<And>p b. published_content src secret p b \<Longrightarrow> \<exists>m. (p, m, b) \<in> set fs"
proof (cases "ss_items src")
  case None
  obtain kvs kvs' where kvs: "mset kvs = mset (se_data secret)" "mset kvs' = mset (se_data secret)"
    "write_all_keys env rv (secret_mode src) (se_data secret) None n
      = (Ok None, sent (published rv (map (\<lambda>(k, b). (k, secret_mode src, b)) kvs) (map fst kvs')) n)"
    by (rule write_all_keys_run [OF assms(1)]) (use assms(2) None in blast)
  let ?fs = "map (\<lambda>(k, b). (k, secret_mode src, b)) kvs"
  have eqs: "set kvs = set (se_data secret)" "set kvs' = set (se_data secret)"
    using kvs(1,2) by (metis mset_eq_setD)+
  have fst_fs: "map fst ?fs = map fst kvs" by (simp add: split_def)
  have "mset (map fst kvs) = mset (map fst (se_data secret))" using kvs(1) by simp
  then have "distinct (map fst kvs)"
    using assms(3) None by (metis mset_eq_imp_distinct_iff option.case(1) published_paths_def)
  show thesis
  proof (rule that [of ?fs "map fst kvs'"])
    show "set (map fst kvs') = set (published_paths src secret)"
      using None eqs by (simp add: published_paths_def)
    show "fst ` set ?fs \<subseteq> set (map fst kvs')" using eqs fst_fs by (metis list.set_map order_refl)
    show "distinct (map fst ?fs)" using \<open>distinct (map fst kvs)\<close> by (simp only: fst_fs)
    show "\<exists>m. (p, m, b) \<in> set ?fs" if "published_content src secret p b" for p b
      using that None eqs(1) by (auto simp: published_content_def)
  qed (use None kvs(3) in simp)
next
  case (Some items)
  let ?fs = "item_contents (se_data secret) (secret_mode src) items"
  show thesis
  proof (rule that [of ?fs "map kp_path items"])
    show "set (map kp_path items) = set (published_paths src secret)"
      using Some by (simp add: published_paths_def)
    show "fst ` set ?fs \<subseteq> set (map kp_path items)"
      using subseq_set [OF item_contents_paths [of "se_data secret" "secret_mode src" items]] by simp
    show "distinct (map fst ?fs)"
      using subseq_distinct [OF item_contents_paths] assms(3) Some by (simp add: published_paths_def)
    show "\<exists>m. (p, m, b) \<in> set ?fs" if "published_content src secret p b" for p b
      using that Some item_contents_mem [of _ items "se_data secret" _ "secret_mode src"]
      by (auto simp: published_content_def)
  qed (use Some write_items_run [OF assms(1)] in simp)
qed

text \<open>The trace of a volume's creation: the request, then the secret, then the archive.\<close>

lemma not_entry_http [simp]: "\<not> is_entry (Http rq)"
  by (simp add: is_entry_def)

lemma CreateRuntimeVolume_sends:
  "keeps (sends (\<lambda>e. \<not> is_entry e)) (CreateRuntimeVolume env uid ty vol)"
  unfolding CreateRuntimeVolume_def VolumeCreate_def performPost_def performJsonRequest_def
  by (intro sends_frame.keeps_intros errR_keeps performRequest_sends not_entry_http)

lemma CreateSecretVolume_run:
  assumes "tar_ok env" and "\<forall>tr. env_secret env tr (pm_ns meta) (ss_name src) = Inr secret"
    and "CreateSecretVolume env meta vol src n = (Ok (), n')"
    and "ss_items src = None \<longrightarrow> (\<forall>k \<in> fst ` set (se_data secret). CHR ''/'' \<notin> set k)"
    and "distinct (published_paths src secret)"
  obtains es fs ls where "n_trace n' = n_trace n @ es"
    "filter is_entry es = filter is_entry (published (se_res_version secret) fs ls)"
    "set ls = set (published_paths src secret)" "fst ` set fs \<subseteq> set ls" "distinct (map fst fs)"
    "\<And>p b. published_content src secret p b \<Longrightarrow> \<exists>m. (p, m, b) \<in> set fs"
proof -
  obtain volPath n1 where vol: "CreateRuntimeVolume env (pm_uid meta) ''secret'' vol n = (Ok volPath, n1)"
    and rest: "bindR (tryR (GetSecret env (pm_ns meta) (ss_name src))) (\<lambda>r. case r of
         Inl err \<Rightarrow> if ss_optional src = Some True then ret () else failR err
       | Inr secret \<Rightarrow>
           bindR (StartArchiveExtraction env volPath) (\<lambda>(tar, _).
             let mode = (case ss_mode src of None \<Rightarrow> default_mode | Some m \<Rightarrow> m)
             in bindR (case ss_items src of
                         None \<Rightarrow> write_all_keys env (se_res_version secret) mode (se_data secret) tar
                       | Some items \<Rightarrow>
                           write_items env (se_res_version secret) mode (se_data secret) items tar)
                  (Finish env))) n1 = (Ok (), n')"
    using assms(3) unfolding CreateSecretVolume_def by (rule bindR_OkE)
  from keepsD [OF CreateRuntimeVolume_sends vol] obtain es0 where
    es0: "n_trace n1 = n_trace n @ es0" "list_all (\<lambda>e. \<not> is_entry e) es0"
    by (auto simp: sends_def)
  let ?get = "KubeGet ''Secret'' (pm_ns meta) (ss_name src)"
  have get: "tryR (GetSecret env (pm_ns meta) (ss_name src)) n1 = (Ok (Inr secret), sent [?get] n1)"
    using assms(2) by (simp add: GetSecret_def sent_def)
  have start: "StartArchiveExtraction env volPath m = (case env_tar_start env (n_trace m) of
      Some e \<Rightarrow> (Err (PlainErr e), m)
    | None \<Rightarrow> (Ok (None, env_now env (n_trace m @ [TarStart (tar_command (env_uid env) volPath)])), sent [TarStart (tar_command (env_uid env) volPath)] m))" for m
    by (simp add: StartArchiveExtraction_def sent_def split: option.split)
  let ?m = "sent [TarStart (tar_command (env_uid env) volPath)] (sent [?get] n1)"
  have writes: "bindR (case ss_items src of
        None \<Rightarrow> write_all_keys env (se_res_version secret) (secret_mode src) (se_data secret) None
      | Some items \<Rightarrow> write_items env (se_res_version secret) (secret_mode src) (se_data secret) items None)
      (Finish env) ?m = (Ok (), n')"
    using rest get start [of "sent [?get] n1"]
    by (simp add: bindR_def secret_mode_def Let_def split: option.splits)
  obtain fs ls where run:
    "(case ss_items src of
        None \<Rightarrow> write_all_keys env (se_res_version secret) (secret_mode src) (se_data secret) None ?m
      | Some items \<Rightarrow> write_items env (se_res_version secret) (secret_mode src) (se_data secret) items None ?m)
     = (Ok None, sent (published (se_res_version secret) fs ls) ?m)"
    and ls: "set ls = set (published_paths src secret)" "fst ` set fs \<subseteq> set ls" "distinct (map fst fs)"
    and content: "\<And>p b. published_content src secret p b \<Longrightarrow> \<exists>m. (p, m, b) \<in> set fs"
    by (rule secret_entries [where rv = "se_res_version secret" and n = ?m, OF assms(1) _ assms(5)])
       (use assms(4) in blast)+
  have "n' = sent [TarClose, PipeClose, TarWait] (sent (published (se_res_version secret) fs ls) ?m)"
    using writes run write_ok(3) [OF assms(1)] by (cases "ss_items src") simp_all
  then have "n_trace n' = n_trace n @ (es0 @ [?get, TarStart (tar_command (env_uid env) volPath)]
      @ published (se_res_version secret) fs ls @ [TarClose, PipeClose, TarWait])"
    using es0(1) by simp
  moreover have "filter is_entry es0 = []"
    using es0(2) by (simp add: filter_empty_conv list_all_iff)
  ultimately show thesis
    using that [OF _ _ ls content] by (simp add: is_entry_def)
qed

text \<open>C8 (functional): a Secret volume that was created without error shows the secret. Opening the
  path of a key (or the item's path for a key) in the extracted directory, with all links followed,
  reads exactly the secret's data, whatever order Go ranges over the map in. The paths must be
  distinct, must not go up or into \<^verbatim>\<open>..data\<close>, and none may be a directory of another; keys without
  items have no slash.\<close>

theorem secret_volume_readable:
  assumes "tar_ok env" and "\<forall>tr. env_secret env tr (pm_ns meta) (ss_name src) = Inr secret"
    and "CreateSecretVolume env meta vol src n = (Ok (), n')"
    and "ss_items src = None \<longrightarrow> (\<forall>k \<in> fst ` set (se_data secret). CHR ''/'' \<notin> set k)"
    and "distinct (published_paths src secret)" and "good_version (se_res_version secret)"
    and "\<forall>q \<in> set (published_paths src secret). good_path q \<and> no_dir_of q p"
    and "published_content src secret p b"
  shows "read_path (tree_of (drop (length (n_trace n)) (n_trace n'))) (3 * slashes p + 5) p = Some b"
proof -
  obtain es fs ls where run: "n_trace n' = n_trace n @ es"
    "filter is_entry es = filter is_entry (published (se_res_version secret) fs ls)"
    "set ls = set (published_paths src secret)" "fst ` set fs \<subseteq> set ls" "distinct (map fst fs)"
    and content: "\<And>p b. published_content src secret p b \<Longrightarrow> \<exists>m. (p, m, b) \<in> set fs"
    by (rule CreateSecretVolume_run [OF assms(1-5)]) blast
  obtain m where m: "(p, m, b) \<in> set fs" using content [OF assms(8)] by blast
  then have "p \<in> fst ` set fs" by (auto intro: rev_image_eqI)
  then have p: "p \<in> set ls" using run(4) by blast
  have "read_path (tree_of (published (se_res_version secret) fs ls)) (3 * slashes p + 5) p = Some b"
    by (rule published_readable [OF m p run(5) _ assms(6)]) (use run(3,4) assms(7) in blast)
  then show ?thesis
    using run(1,2) tree_of_filter [of es] tree_of_filter [of "published (se_res_version secret) fs ls"]
    by simp
qed

definition ex_secret :: secret where
  "ex_secret = \<lparr>se_meta_name = ''creds'', se_res_version = ''17'', se_kind = ''Opaque'',
     se_data = [(''k'', ''secret key''), (''c'', ''cert'')]\<rparr>"

definition ex_secret_source :: secret_source where
  "ex_secret_source = \<lparr>ss_name = ''creds'', ss_optional = None, ss_mode = None,
     ss_items = Some [\<lparr>kp_key = ''k'', kp_path = ''tls/key'', kp_mode = Some 256\<rparr>,
       \<lparr>kp_key = ''c'', kp_path = ''cert'', kp_mode = None\<rparr>]\<rparr>"

definition ex_created :: "effect list \<Rightarrow> http_request \<Rightarrow> string + http_response" where
  "ex_created tr rq = Inr \<lparr>rs_code = 201, rs_status = ''201 Created'', rs_body = []\<rparr>"

definition ex_volume_env :: env where
  "ex_volume_env = (ex_env ex_created (\<lambda>b. Inr (JObj [(''Mountpoint'', JStr ''/vol'')])))
     \<lparr>env_secret := (\<lambda>_ _ _. Inr ex_secret)\<rparr>"

lemma ex_volume_created:
  "fst (CreateSecretVolume ex_volume_env (kp_meta ex_pod) ''v'' ex_secret_source ex_node) = Ok ()"
  by code_simp

theorem secret_volume_readable_witness:
  "read_path (tree_of (n_trace (snd (CreateSecretVolume ex_volume_env (kp_meta ex_pod) ''v''
     ex_secret_source ex_node)))) 8 ''tls/key'' = Some ''secret key''"
proof -
  obtain n' where run: "CreateSecretVolume ex_volume_env (kp_meta ex_pod) ''v'' ex_secret_source ex_node
      = (Ok (), n')"
    using ex_volume_created by (metis prod.collapse)
  have "tar_ok ex_volume_env" by (simp add: tar_ok_def ex_volume_env_def ex_env_def)
  moreover have "\<forall>tr. env_secret ex_volume_env tr (pm_ns (kp_meta ex_pod)) (ss_name ex_secret_source) = Inr ex_secret"
    by (simp add: ex_volume_env_def)
  moreover have "distinct (published_paths ex_secret_source ex_secret)"
    "good_version (se_res_version ex_secret)"
    by code_simp+
  moreover have "\<forall>q \<in> set (published_paths ex_secret_source ex_secret). good_path q \<and> no_dir_of q ''tls/key''"
  proof -
    have "slashes ''tls/key'' = 1" "path_parts ''tls/key'' = [''tls'', ''key'']" "path_parts ''cert'' = [''cert'']"
      "published_paths ex_secret_source ex_secret = [''tls/key'', ''cert'']"
      by code_simp+
    then show ?thesis by (simp add: good_path_def no_dir_of_def)
  qed
  moreover have "published_content ex_secret_source ex_secret ''tls/key'' ''secret key''"
    by (simp add: published_content_def ex_secret_source_def ex_secret_def)
  ultimately have "read_path (tree_of (drop (length (n_trace ex_node)) (n_trace n')))
      (3 * slashes ''tls/key'' + 5) ''tls/key'' = Some ''secret key''"
    by (intro secret_volume_readable [OF _ _ run]) (simp_all add: ex_secret_source_def)
  moreover have "3 * slashes ''tls/key'' + 5 = 8" by code_simp
  ultimately show ?thesis using run by (simp add: ex_node_def)
qed

subsection \<open>The volumes of a pod\<close>

text \<open>C39 (safety): the first Secret or Projected volume of a pod ends the creation of its volumes: the
  later ones are never created, and the call still reports success when that one succeeds.\<close>

theorem volumes_after_filled_skipped:
  assumes "vol_host_path v = None" "vol_empty_dir v = None"
    and "vol_secret v \<noteq> None \<or> vol_projected v \<noteq> None"
  shows "create_volumes env pod (vs @ v # ws) = create_volumes env pod (vs @ [v])"
proof (induction vs)
  case Nil
  then show ?case using assms by (auto split: option.split)
next
  case (Cons u us)
  then show ?case by (simp only: append_Cons create_volumes.simps)
qed

definition ex_secret_volume :: volume where
  "ex_secret_volume = \<lparr>vol_name = ''creds'', vol_host_path = None, vol_empty_dir = None,
     vol_secret = Some ex_secret_source, vol_projected = None\<rparr>"

definition ex_scratch_volume :: volume where
  "ex_scratch_volume = \<lparr>vol_name = ''scratch'', vol_host_path = None, vol_empty_dir = Some [],
     vol_secret = None, vol_projected = None\<rparr>"

theorem volumes_after_filled_skipped_witness:
  "create_volumes ex_volume_env ex_pod [ex_secret_volume, ex_scratch_volume]
     = create_volumes ex_volume_env ex_pod [ex_secret_volume]"
  using volumes_after_filled_skipped [of ex_secret_volume ex_volume_env ex_pod "[]" "[ex_scratch_volume]"]
  by (simp add: ex_secret_volume_def)

text \<open>The request that creates a volume, and the one that deletes a volume by its name.\<close>

definition volume_request :: "string \<Rightarrow> string \<Rightarrow> string \<Rightarrow> http_request option" where
  "volume_request uid ty vol =
     new_request ''POST'' ''/libpod/volumes/create'' send_json
       (Some (VolumeCreateOptions_json \<lparr>vo_Name = runtime_volume_name uid vol, vo_Driver = [],
          vo_Label = Some [(''poduid'', uid), (''voltype'', ty)], vo_Options = None\<rparr>))"

definition volume_rm_request :: "string \<Rightarrow> http_request option" where
  "volume_rm_request name = Option.bind (UrlEncoded name) (\<lambda>encoded.
     new_request ''DELETE'' (''/libpod/volumes/'' @ encoded) accept_json None)"

lemma performRequest_Ok: "performRequest env req n = (r, n') \<Longrightarrow> n' = n\<lparr>n_trace := n_trace n @ [Http req]\<rparr>"
  using performRequest_node [of env req n] by auto

lemma CreateRuntimeVolume_Ok:
  assumes "CreateRuntimeVolume env uid ty vol n = (Ok path, n')"
  shows "\<exists>req. volume_request uid ty vol = Some req \<and> n' = n\<lparr>n_trace := n_trace n @ [Http req]\<rparr>"
proof -
  let ?opts = "\<lparr>vo_Name = runtime_volume_name uid vol, vo_Driver = [],
     vo_Label = Some [(''poduid'', uid), (''voltype'', ty)], vo_Options = None\<rparr>"
  obtain i n1 where "errR (VolumeCreate env ?opts) n = (Ok i, n1)" "n1 = n'"
    using assms unfolding CreateRuntimeVolume_def by (auto elim: bindR_OkE)
  then have "VolumeCreate env ?opts n = (Ok (i, None), n')" by (simp add: errR_OkD)
  then obtain req where req: "volume_request uid ty vol = Some req"
    and run: "performJsonRequest env req VolumeInfo_decoder zero_VolumeInfo n = (Ok (i, None), n')"
    unfolding VolumeCreate_def performPost_def volume_request_def [symmetric]
    by (cases "volume_request uid ty vol") simp_all
  then show ?thesis
    using performJsonRequest_node [of env req VolumeInfo_decoder zero_VolumeInfo n] by auto
qed

lemma DeleteRuntimeVolume_Ok:
  assumes "DeleteRuntimeVolume env uid vol False n = (Ok (), n')"
  shows "\<exists>req. volume_rm_request (runtime_volume_name uid vol) = Some req
    \<and> n' = n\<lparr>n_trace := n_trace n @ [Http req]\<rparr>"
proof -
  obtain e where e: "UrlEncoded (runtime_volume_name uid vol) = Some e"
    using assms by (auto simp: DeleteRuntimeVolume_def VolumeRm_def split: option.splits)
  let ?req = "new_request ''DELETE'' (''/libpod/volumes/'' @ e) accept_json None"
  have "bindR (derefR ?req) (performJsonRequest_nil env) n = (Ok (), n')"
    using assms unfolding DeleteRuntimeVolume_def VolumeRm_def e performDelete_nil_def by simp
  then obtain req where req: "?req = Some req" "performJsonRequest_nil env req n = (Ok (), n')"
    by (cases ?req) simp_all
  then show ?thesis
    using performJsonRequest_nil_node [of env req n] unfolding volume_rm_request_def e by auto
qed

lemma delete_each:
  assumes "forR (\<lambda>vol. DeleteRuntimeVolume env uid vol False) vols n = (Ok (), n')"
  shows "\<exists>reqs. map Some reqs = map (\<lambda>vol. volume_rm_request (runtime_volume_name uid vol)) vols
    \<and> n' = n\<lparr>n_trace := n_trace n @ map Http reqs\<rparr>"
  using assms
proof (induction vols arbitrary: n)
  case (Cons vol vols)
  obtain u where u: "DeleteRuntimeVolume env uid vol False n = (Ok (), u)"
    and rest: "forR (\<lambda>vol. DeleteRuntimeVolume env uid vol False) vols u = (Ok (), n')"
    using Cons.prems by (auto elim: thenR_OkE)
  obtain req where "volume_rm_request (runtime_volume_name uid vol) = Some req"
    "u = n\<lparr>n_trace := n_trace n @ [Http req]\<rparr>"
    using DeleteRuntimeVolume_Ok [OF u] by blast
  moreover obtain reqs where "map Some reqs = map (\<lambda>vol. volume_rm_request (runtime_volume_name uid vol)) vols"
    "n' = u\<lparr>n_trace := n_trace u @ map Http reqs\<rparr>"
    using Cons.IH [OF rest] by blast
  ultimately show ?case by (intro exI [of _ "req # reqs"]) simp
qed simp

lemma suffixes:
  assumes "\<forall>v \<in> set vs. \<exists>s. vi_Name v = runtime_volume_name uid s"
  shows "\<exists>names. those (map (volume_suffix uid) vs) = Some names
    \<and> map (runtime_volume_name uid) names = map vi_Name vs"
  using assms by (induction vs) (auto simp: volume_suffix_def runtime_volume_name_def)

lemma short_name_suffix:
  "v \<in> set vs \<Longrightarrow> length (vi_Name v) \<le> length uid \<Longrightarrow> those (map (volume_suffix uid) vs) = None"
  by (induction vs) (auto simp: volume_suffix_def split: option.split)

text \<open>C27 (functional): cleaning up after a pod deletes exactly the volumes that podman lists under the
  pod's UID, each once and in that order, when their names start with the UID and an underscore; the
  first failure ends it. One listed name that is not longer than the UID makes it panic before
  anything is deleted.\<close>

theorem CleanupVolumes_deletes_listed:
  assumes "VolumeList env [(''label'', [''poduid='' @ pm_uid meta])] n = (Ok (vols, None), n1)"
  shows "((\<forall>v \<in> set vols. \<exists>s. vi_Name v = pm_uid meta @ ''_'' @ s) \<longrightarrow>
            CleanupVolumes env meta n = (Ok (), n') \<longrightarrow>
            (\<exists>reqs. map Some reqs = map (\<lambda>v. volume_rm_request (vi_Name v)) vols
               \<and> n_trace n' = n_trace n1 @ map Http reqs))
    \<and> ((\<exists>v \<in> set vols. length (vi_Name v) \<le> length (pm_uid meta)) \<longrightarrow>
            CleanupVolumes env meta n = (Panic, n1))"
proof -
  have listed: "CleanupVolumes env meta n
      = bindR (derefR (those (map (volume_suffix (pm_uid meta)) vols))) (\<lambda>existingVols.
          forR (\<lambda>vol. DeleteRuntimeVolume env (pm_uid meta) vol False) existingVols) n1"
    using assms unfolding CleanupVolumes_def ListRuntimeVolumes_def errR_def by (simp add: bindR_assoc)
  show ?thesis
  proof (intro conjI impI)
    assume names: "\<forall>v \<in> set vols. \<exists>s. vi_Name v = pm_uid meta @ ''_'' @ s"
      and ok: "CleanupVolumes env meta n = (Ok (), n')"
    have "\<forall>v \<in> set vols. \<exists>s. vi_Name v = runtime_volume_name (pm_uid meta) s"
      unfolding runtime_volume_name_def by (rule names)
    from suffixes [OF this] obtain ss where ss: "those (map (volume_suffix (pm_uid meta)) vols) = Some ss"
      "map (runtime_volume_name (pm_uid meta)) ss = map vi_Name vols" by blast
    obtain reqs where reqs:
      "map Some reqs = map (\<lambda>vol. volume_rm_request (runtime_volume_name (pm_uid meta) vol)) ss"
      "n' = n1\<lparr>n_trace := n_trace n1 @ map Http reqs\<rparr>"
      using delete_each [of env "pm_uid meta" ss n1 n'] ok listed ss(1) by auto
    have "map (\<lambda>vol. volume_rm_request (runtime_volume_name (pm_uid meta) vol)) ss
        = map volume_rm_request (map vi_Name vols)"
      unfolding ss(2) [symmetric] by simp
    then show "\<exists>reqs. map Some reqs = map (\<lambda>v. volume_rm_request (vi_Name v)) vols
        \<and> n_trace n' = n_trace n1 @ map Http reqs"
      using reqs by (intro exI [of _ reqs]) (simp add: comp_def)
  next
    assume "\<exists>v \<in> set vols. length (vi_Name v) \<le> length (pm_uid meta)"
    then obtain v where "v \<in> set vols" "length (vi_Name v) \<le> length (pm_uid meta)" by blast
    from short_name_suffix [OF this] show "CleanupVolumes env meta n = (Panic, n1)"
      by (simp add: listed)
  qed
qed

definition ex_listing_env :: env where
  "ex_listing_env = ex_env
     (\<lambda>tr rq. Inr \<lparr>rs_code = (if rq_method rq = ''GET'' then 200 else 204), rs_status = ''OK'', rs_body = []\<rparr>)
     (\<lambda>b. Inr (JArr [JObj [(''Name'', JStr ''u7_scratch'')]]))"

lemma ex_volumes_listed:
  "fst (VolumeList ex_listing_env [(''label'', [''poduid='' @ pm_uid (kp_meta ex_pod)])] ex_node)
     = Ok ([zero_VolumeInfo\<lparr>vi_Name := ''u7_scratch''\<rparr>], None)"
  "fst (CleanupVolumes ex_listing_env (kp_meta ex_pod) ex_node) = Ok ()"
  by code_simp+

theorem CleanupVolumes_deletes_listed_witness:
  "\<exists>(n1 :: node) req. volume_rm_request ''u7_scratch'' = Some req
     \<and> n_trace (snd (CleanupVolumes ex_listing_env (kp_meta ex_pod) ex_node)) = n_trace n1 @ [Http req]"
proof -
  obtain n1 where l: "VolumeList ex_listing_env [(''label'', [''poduid='' @ pm_uid (kp_meta ex_pod)])] ex_node
      = (Ok ([zero_VolumeInfo\<lparr>vi_Name := ''u7_scratch''\<rparr>], None), n1)"
    using ex_volumes_listed(1) by (metis prod.collapse)
  obtain n' where c: "CleanupVolumes ex_listing_env (kp_meta ex_pod) ex_node = (Ok (), n')"
    using ex_volumes_listed(2) by (metis prod.collapse)
  have "''u7_scratch'' = pm_uid (kp_meta ex_pod) @ ''_'' @ ''scratch''" by (simp add: ex_pod_def)
  then have "\<exists>s. vi_Name (zero_VolumeInfo\<lparr>vi_Name := ''u7_scratch''\<rparr>) = pm_uid (kp_meta ex_pod) @ ''_'' @ s"
    by (intro exI [of _ "''scratch''"]) simp
  then have "\<exists>reqs. map Some reqs = [volume_rm_request ''u7_scratch'']
      \<and> n_trace n' = n_trace n1 @ map Http reqs"
    using CleanupVolumes_deletes_listed [OF l, of n'] c by simp
  then obtain req where "volume_rm_request ''u7_scratch'' = Some req" "n_trace n' = n_trace n1 @ [Http req]"
    by (cases "volume_rm_request ''u7_scratch''") (auto simp: map_eq_Cons_conv)
  then show ?thesis using c by (intro exI [of _ n1] exI [of _ req]) simp
qed

subsection \<open>Mounts\<close>

text \<open>The volumes that a container's mounts refer to, by the names of podman.\<close>

lemma convert_mount_volumes:
  "snd (convert_mount pod m acc) =
     snd acc @ (case find_volume pod (vm_name m) of
       None \<Rightarrow> []
     | Some vol \<Rightarrow>
         if vol_host_path vol = None \<and> vol_empty_dir vol \<noteq> Some ''Memory''
         then [\<lparr>nv_Name = volume_name pod (vm_name m), nv_Dest = vm_mount_path m, nv_Options = None\<rparr>]
         else [])"
  by (simp add: convert_mount_def split_def split: option.split)

lemma convert_mounts_volumes:
  "nv \<in> set (snd (fold (convert_mount pod) ms acc)) \<longleftrightarrow> nv \<in> set (snd acc) \<or>
     (\<exists>m \<in> set ms. \<exists>vol. find_volume pod (vm_name m) = Some vol
        \<and> vol_host_path vol = None \<and> vol_empty_dir vol \<noteq> Some ''Memory''
        \<and> nv = \<lparr>nv_Name = volume_name pod (vm_name m), nv_Dest = vm_mount_path m, nv_Options = None\<rparr>)"
proof (induction ms arbitrary: acc)
  case (Cons m ms)
  show ?case
    by (cases "find_volume pod (vm_name m)")
       (auto simp only: fold_Cons comp_apply Cons.IH convert_mount_volumes set_append list.set
        option.case option.sel option.distinct option.inject if_True if_False split: if_splits)
qed simp

lemma ConvertContainerConfig_volumes:
  assumes "ConvertContainerConfig mem pod con podId = Some spec"
  shows "st_Volumes (sg_Storage spec) = snd (fold (convert_mount pod) (con_mounts con) ([], []))"
  using assms by (auto simp: ConvertContainerConfig_Some container_request_def zero_ContainerStorageConfig_def)

text \<open>A volume that the loop creates without skipping has its request on the trace.\<close>

definition volume_kind :: "volume \<Rightarrow> string option" where
  "volume_kind v =
     (if vol_host_path v \<noteq> None then None
      else case vol_empty_dir v of
        Some medium \<Rightarrow> if medium = ''Memory'' then None else Some ''emptydir''
      | None \<Rightarrow> if vol_secret v \<noteq> None then Some ''secret''
                else if vol_projected v \<noteq> None then Some ''projected'' else None)"

definition filled :: "volume \<Rightarrow> bool" where
  "filled v \<longleftrightarrow> volume_kind v \<in> {Some ''secret'', Some ''projected''}"

lemma sends_any: "keeps (sends (\<lambda>_. True)) (WriteFile env a b c ae)"
  "keeps (sends (\<lambda>_. True)) (WriteSymLink env a d ae)"
  "keeps (sends (\<lambda>_. True)) (tar_error env)"
  unfolding WriteFile_def WriteSymLink_def tar_error_def
  by (intro sends_frame.keeps_intros sends_emit TrueI)+

lemma first_error_sends: "keeps (sends Q) (first_error es)"
  by (induction es rule: first_error.induct) (simp_all only: first_error.simps sends_frame.keeps_ret)

lemma Finish_sends: "keeps (sends (\<lambda>_. True)) (Finish env ae)"
  unfolding Finish_def
  by (intro sends_frame.keeps_intros sends_emit TrueI sends_any first_error_sends)

lemma CreateRuntimeVolume_grows: "keeps (sends (\<lambda>_. True)) (CreateRuntimeVolume env uid ty vol)"
  by (rule sends_weaken [OF CreateRuntimeVolume_sends]) simp

lemma content_sends:
  "keeps (sends (\<lambda>_. True)) (GetSecret env ns nm)"
  "keeps (sends (\<lambda>_. True)) (StartArchiveExtraction env dest)"
  "keeps (sends (\<lambda>_. True)) (write_all_keys env rv mode data ae)"
  "keeps (sends (\<lambda>_. True)) (write_items env rv mode data items ae)"
  "keeps (sends (\<lambda>_. True)) (project_token env pod source paths)"
  unfolding GetSecret_def StartArchiveExtraction_def write_all_keys_def write_items_def write_item_def
    project_token_def Let_def
  by (intro sends_frame.keeps_intros sends_emit sends_quiet TrueI sends_any)+

lemma CreateSecretVolume_grows: "keeps (sends (\<lambda>_. True)) (CreateSecretVolume env meta vol src)"
  unfolding CreateSecretVolume_def Let_def
  by (intro sends_frame.keeps_intros CreateRuntimeVolume_grows content_sends Finish_sends)

lemma CreateProjectedVolume_grows: "keeps (sends (\<lambda>_. True)) (CreateProjectedVolume env pod vol src)"
  unfolding CreateProjectedVolume_def Let_def
  by (intro sends_frame.keeps_intros CreateRuntimeVolume_grows content_sends Finish_sends sends_any
      sends_quiet)

lemma create_volumes_grows: "keeps (sends (\<lambda>_. True)) (create_volumes env pod vs)"
proof (induction vs)
  case Nil
  show ?case by (simp only: create_volumes.simps sends_frame.keeps_ret)
next
  case (Cons v vs)
  then show ?case
    unfolding create_volumes.simps
    by (intro sends_frame.keeps_intros CreateRuntimeVolume_grows CreateSecretVolume_grows
        CreateProjectedVolume_grows)
qed

text \<open>The call that creates a filled volume, with what comes before and after it.\<close>

lemma bind_around:
  assumes "bindR m k n0 = (Ok b, n')" "\<And>a. keeps (sends (\<lambda>_. True)) (k a)"
  shows "\<exists>a n1. m n0 = (Ok a, n1) \<and> sends (\<lambda>_. True) n1 n'"
proof -
  from assms(1) obtain a n1 where "m n0 = (Ok a, n1)" "k a n1 = (Ok b, n')" by (rule bindR_OkE)
  with keepsD [OF assms(2) this(2)] show ?thesis by blast
qed

lemma secret_volume_call:
  assumes "CreateSecretVolume env meta vol src n = (Ok (), n')"
  shows "\<exists>path n1. CreateRuntimeVolume env (pm_uid meta) ''secret'' vol n = (Ok path, n1)
    \<and> sends (\<lambda>_. True) n1 n'"
  using assms unfolding CreateSecretVolume_def Let_def
  by (rule bind_around) (intro sends_frame.keeps_intros content_sends Finish_sends)

lemma projected_volume_call:
  assumes "CreateProjectedVolume env pod vol src n = (Ok (), n')"
  shows "\<exists>n0 path n1. sends (\<lambda>_. True) n n0
    \<and> CreateRuntimeVolume env (pm_uid (kp_meta pod)) ''projected'' vol n0 = (Ok path, n1)
    \<and> sends (\<lambda>_. True) n1 n'"
proof -
  let ?tokens = "foldR (project_token env pod) (ps_sources src) []"
  obtain paths n0 where tokens: "?tokens n = (Ok paths, n0)"
    and rest: "bindR (CreateRuntimeVolume env (pm_uid (kp_meta pod)) ''projected'' vol) (\<lambda>volPath.
         bindR (StartArchiveExtraction env volPath) (\<lambda>(tar, t).
           bindR (range_map env paths) (\<lambda>kvs.
              bindR (foldR (\<lambda>(p, body). WriteFile env (data_path (int_dec (unix_seconds t)) p)
                  (case ps_mode src of None \<Rightarrow> default_mode | Some m \<Rightarrow> m) body) kvs tar) (\<lambda>tar.
              bindR (WriteSymLink env ''..data/current'' (int_dec (unix_seconds t)) tar) (\<lambda>tar.
              bindR (range_map env paths) (\<lambda>kvs.
              bindR (foldR (\<lambda>(p, body). WriteSymLink env p (link_target p)) kvs tar) (Finish env))))))) n0
      = (Ok (), n')"
    using assms unfolding CreateProjectedVolume_def Let_def by (rule bindR_OkE)
  have "keeps (sends (\<lambda>_. True)) ?tokens" by (intro sends_frame.keeps_intros content_sends)
  from keepsD [OF this tokens] have "sends (\<lambda>_. True) n n0" .
  moreover have "\<exists>path n1. CreateRuntimeVolume env (pm_uid (kp_meta pod)) ''projected'' vol n0 = (Ok path, n1)
      \<and> sends (\<lambda>_. True) n1 n'"
    using rest by (rule bind_around)
      (intro sends_frame.keeps_intros content_sends Finish_sends sends_any sends_quiet)
  ultimately show ?thesis by blast
qed

text \<open>What one volume of the loop does.\<close>

lemma create_volumes_step:
  assumes "create_volumes env pod (u # vs) n = (Ok (), n')"
  obtains (skipped) "volume_kind u = None" "create_volumes env pod vs n = (Ok (), n')"
  | (made) ty path n0 n1 where "volume_kind u = Some ty" "sends (\<lambda>_. True) n n0"
      "CreateRuntimeVolume env (pm_uid (kp_meta pod)) ty (vol_name u) n0 = (Ok path, n1)"
      "sends (\<lambda>_. True) n1 n'" "\<not> filled u \<Longrightarrow> create_volumes env pod vs n1 = (Ok (), n')"
proof (cases "volume_kind u")
  case None
  then show thesis using skipped assms
    by (auto simp: volume_kind_def split: option.splits if_splits)
next
  case (Some ty)
  consider (empty) "vol_host_path u = None" "vol_empty_dir u \<noteq> None" "vol_empty_dir u \<noteq> Some ''Memory''"
      "ty = ''emptydir''"
    | (secret) src where "vol_host_path u = None" "vol_empty_dir u = None" "vol_secret u = Some src"
        "ty = ''secret''"
    | (proj) src where "vol_host_path u = None" "vol_empty_dir u = None" "vol_secret u = None"
        "vol_projected u = Some src" "ty = ''projected''"
    using Some by (auto simp: volume_kind_def split: option.splits if_splits)
  then show thesis
  proof cases
    case empty
    then obtain path n1 where c: "CreateRuntimeVolume env (pm_uid (kp_meta pod)) ty (vol_name u) n = (Ok path, n1)"
      and r: "create_volumes env pod vs n1 = (Ok (), n')"
      using assms by (auto elim!: bindR_OkE)
    show thesis
      by (rule made [OF Some sends_frame.R_refl c keepsD [OF create_volumes_grows r] r])
  next
    case secret
    then have "CreateSecretVolume env (kp_meta pod) (vol_name u) src n = (Ok (), n')" using assms by simp
    from secret_volume_call [OF this] obtain path n1 where
      "CreateRuntimeVolume env (pm_uid (kp_meta pod)) ty (vol_name u) n = (Ok path, n1)"
      "sends (\<lambda>_. True) n1 n'" using secret(4) by auto
    then show thesis using Some secret(4) by (intro made [OF Some sends_frame.R_refl]) (auto simp: filled_def)
  next
    case proj
    then have "CreateProjectedVolume env pod (vol_name u) src n = (Ok (), n')" using assms by simp
    from projected_volume_call [OF this] obtain n0 path n1 where "sends (\<lambda>_. True) n n0"
      "CreateRuntimeVolume env (pm_uid (kp_meta pod)) ty (vol_name u) n0 = (Ok path, n1)"
      "sends (\<lambda>_. True) n1 n'" using proj(5) by auto
    then show thesis using Some proj(5) by (intro made [OF Some]) (auto simp: filled_def)
  qed
qed

lemma create_volumes_requests:
  assumes "create_volumes env pod vs n = (Ok (), n')" "\<forall>u \<in> set (butlast vs). \<not> filled u"
    and "v \<in> set vs" "volume_kind v = Some ty"
  shows "\<exists>req xs ys. volume_request (pm_uid (kp_meta pod)) ty (vol_name v) = Some req
    \<and> n_trace n' = n_trace n @ xs @ [Http req] @ ys"
  using assms
proof (induction vs arbitrary: n)
  case (Cons u vs)
  have later: ?case if g: "sends (\<lambda>_. True) n n1" and r: "create_volumes env pod vs n1 = (Ok (), n')"
    and v: "v \<in> set vs" for n1
  proof -
    have "vs \<noteq> []" using v by auto
    then have "\<forall>u \<in> set (butlast vs). \<not> filled u" using Cons.prems(2) by simp
    from Cons.IH [OF r this v Cons.prems(4)] obtain req xs ys where
      "volume_request (pm_uid (kp_meta pod)) ty (vol_name v) = Some req"
      "n_trace n' = n_trace n1 @ xs @ [Http req] @ ys" by blast
    moreover from g obtain es where "n_trace n1 = n_trace n @ es" by (auto simp: sends_def)
    ultimately show ?thesis by (intro exI [of _ req] exI [of _ "es @ xs"] exI [of _ ys]) simp
  qed
  from Cons.prems(1) show ?case
  proof (cases rule: create_volumes_step)
    case skipped
    then have "v \<in> set vs" using Cons.prems(3,4) by auto
    with skipped show ?thesis by (intro later [OF sends_frame.R_refl])
  next
    case (made ty' path n0 n1)
    show ?thesis
    proof (cases "v = u")
      case True
      from CreateRuntimeVolume_Ok [OF made(3)] obtain req where
        "volume_request (pm_uid (kp_meta pod)) ty' (vol_name u) = Some req"
        "n_trace n1 = n_trace n0 @ [Http req]" by auto
      moreover from made(2) obtain xs where "n_trace n0 = n_trace n @ xs" by (auto simp: sends_def)
      moreover from made(4) obtain ys where "n_trace n' = n_trace n1 @ ys" by (auto simp: sends_def)
      ultimately show ?thesis using True Cons.prems(4) made(1)
        by (intro exI [of _ req] exI [of _ xs] exI [of _ ys]) simp
    next
      case False
      then have v: "v \<in> set vs" using Cons.prems(3) by simp
      then have "\<not> filled u" using Cons.prems(2) by (auto split: if_splits)
      moreover have "sends (\<lambda>_. True) n n1"
        using made(2) keepsD [OF CreateRuntimeVolume_grows made(3)] by (rule sends_frame.R_trans)
      ultimately show ?thesis using later made(5) v by blast
    qed
  qed
qed simp

definition supported :: "volume \<Rightarrow> bool" where
  "supported v \<longleftrightarrow> vol_host_path v \<noteq> None \<or> vol_empty_dir v \<noteq> None \<or> vol_secret v \<noteq> None
     \<or> vol_projected v \<noteq> None"

lemma supported_kind:
  "supported v \<Longrightarrow> vol_host_path v = None \<Longrightarrow> vol_empty_dir v \<noteq> Some ''Memory'' \<Longrightarrow> volume_kind v \<noteq> None"
  by (auto simp: supported_def volume_kind_def split: option.splits)

text \<open>C12 (safety): the two halves agree on the names of volumes. After the volumes of a pod were
  created without error, every named volume in the request of any of its containers is one that was
  requested from podman meanwhile, provided that the pod's volumes are of the supported kinds and no
  Secret or Projected volume comes before another volume.\<close>

theorem mounted_volumes_requested:
  assumes "CreatePodVolumes env pod n = (Ok (), n')"
    and "list_all supported (sp_volumes (kp_spec pod))"
    and "\<forall>u \<in> set (butlast (sp_volumes (kp_spec pod))). \<not> filled u"
    and "ConvertContainerConfig mem pod con podId = Some spec"
    and "nv \<in> set (st_Volumes (sg_Storage spec))"
  shows "\<exists>ty vol req. nv_Name nv = runtime_volume_name (pm_uid (kp_meta pod)) vol
    \<and> volume_request (pm_uid (kp_meta pod)) ty vol = Some req
    \<and> Http req \<in> set (drop (length (n_trace n)) (n_trace n'))"
proof -
  obtain n1 where clean: "CleanupVolumes env (kp_meta pod) n = (Ok (), n1)"
    and create: "create_volumes env pod (sp_volumes (kp_spec pod)) n1 = (Ok (), n')"
    using assms(1) unfolding CreatePodVolumes_def by (auto elim: thenR_OkE)
  have "keeps (sends (\<lambda>_. True)) (CleanupVolumes env (kp_meta pod))"
    unfolding CleanupVolumes_def ListRuntimeVolumes_def DeleteRuntimeVolume_def VolumeRm_def
      VolumeList_def named_def request_defs
    by (intro sends_frame.keeps_intros errR_keeps performRequest_sends TrueI)
  from keepsD [OF this clean] obtain es where es: "n_trace n1 = n_trace n @ es" by (auto simp: sends_def)
  obtain m :: volume_mount and v where m: "find_volume pod (vm_name m) = Some v" "vol_host_path v = None"
    "vol_empty_dir v \<noteq> Some ''Memory''"
    "nv = \<lparr>nv_Name = volume_name pod (vm_name m), nv_Dest = vm_mount_path m, nv_Options = None\<rparr>"
    using assms(5) unfolding ConvertContainerConfig_volumes [OF assms(4)] convert_mounts_volumes
      snd_conv list.set(1) by blast
  then have v: "v \<in> set (sp_volumes (kp_spec pod))" "vol_name v = vm_name m"
    by (auto simp: find_volume_def find_Some_iff)
  then have "supported v" using assms(2) by (simp add: list_all_iff)
  then obtain ty where ty: "volume_kind v = Some ty" using supported_kind m(2,3) by auto
  from create_volumes_requests [OF create assms(3) v(1) ty] obtain req xs ys where
    "volume_request (pm_uid (kp_meta pod)) ty (vm_name m) = Some req"
    "n_trace n' = n_trace n1 @ xs @ [Http req] @ ys" using v(2) by auto
  then show ?thesis using m(4) es
    by (intro exI [of _ ty] exI [of _ "vm_name m"] exI [of _ req])
       (simp add: volume_name_def runtime_volume_name_def)
qed

definition ex_mount_pod :: kpod where
  "ex_mount_pod = ex_pod\<lparr>kp_spec := (kp_spec ex_pod)\<lparr>sp_containers := [ex_container],
     sp_volumes := [ex_scratch_volume]\<rparr>\<rparr>"

definition ex_mount_env :: env where
  "ex_mount_env = ex_env
     (\<lambda>tr rq. Inr \<lparr>rs_code = 200, rs_status = ''OK'', rs_body = rq_method rq\<rparr>)
     (\<lambda>b. Inr (if b = ''GET'' then JArr [] else JObj [(''Mountpoint'', JStr ''/vol'')]))"

lemma ex_mount_run: "fst (CreatePodVolumes ex_mount_env ex_mount_pod ex_node) = Ok ()"
  by code_simp

theorem mounted_volumes_requested_witness:
  "\<exists>ty vol req. ''u7_scratch'' = runtime_volume_name ''u7'' vol
    \<and> volume_request ''u7'' ty vol = Some req
    \<and> Http req \<in> set (n_trace (snd (CreatePodVolumes ex_mount_env ex_mount_pod ex_node)))"
proof -
  obtain n' where run: "CreatePodVolumes ex_mount_env ex_mount_pod ex_node = (Ok (), n')"
    using ex_mount_run by (metis prod.collapse)
  let ?spec = "container_request ex_mount_pod ex_container ''p1'' 999
    (fold (convert_mount ex_mount_pod) (con_mounts ex_container) ([], [])) zero_ContainerSecurityConfig"
  have "ConvertContainerConfig 8000000000 ex_mount_pod ex_container ''p1'' = Some ?spec"
  proof -
    have "GetContainerOOMScoreAdjust ex_mount_pod ex_container (wrap64 8000000000) = Some 999" by code_simp
    moreover have "convert_security ex_mount_pod ex_container = Some zero_ContainerSecurityConfig"
      by (simp add: convert_security_def ex_container_def)
    ultimately show ?thesis by (simp add: ConvertContainerConfig_Some)
  qed
  moreover have "list_all supported (sp_volumes (kp_spec ex_mount_pod))"
    "\<forall>u \<in> set (butlast (sp_volumes (kp_spec ex_mount_pod))). \<not> filled u"
    by (simp_all add: ex_mount_pod_def supported_def ex_scratch_volume_def)
  moreover have "\<lparr>nv_Name = ''u7_scratch'', nv_Dest = ''/tmp'', nv_Options = None\<rparr>
      \<in> set (st_Volumes (sg_Storage ?spec))"
    by (simp add: container_request_def zero_ContainerStorageConfig_def ex_container_def convert_mount_def
        find_volume_def ex_mount_pod_def ex_scratch_volume_def volume_name_def ex_pod_def)
  ultimately show ?thesis using mounted_volumes_requested [OF run, of 8000000000 ex_container "''p1''" ?spec
      "\<lparr>nv_Name = ''u7_scratch'', nv_Dest = ''/tmp'', nv_Options = None\<rparr>"] run
    by (simp add: ex_node_def ex_mount_pod_def ex_pod_def)
qed

end
