(* ===== verification/Pod_Storage.thy ===== *)
theory Pod_Storage
  imports Node_World
begin

text \<open>
  \<^verbatim>\<open>controllers/pods/storage.go\<close>: one JSON file per pod in the cache directory. The files are the
  component \<open>n_files\<close> of the node; a file operation may fail at the environment's will
  (\<open>env_file\<close>), and a write that fails leaves the file cut (\<open>env_cut\<close>). The JSON form of a pod is
  the parameter \<open>env_encode_pod\<close> with its inverse. Locks are left out: the operations are atomic.
\<close>

definition file_op :: "env \<Rightarrow> file_op \<Rightarrow> unit run" where
  "file_op env op =
     bindR (getR (\<lambda>n. env_file env (n_trace n) op)) (\<lambda>r.
     thenR (emit (File op)) (case r of None \<Rightarrow> ret () | Some e \<Rightarrow> failR e))"

definition put_file :: "string \<Rightarrow> string \<Rightarrow> unit run" where
  "put_file name text = modifyR (\<lambda>n. n\<lparr>n_files := AList.update name text (n_files n)\<rparr>)"

text \<open>\<open>os.UserCacheDir\<close> is an argument.\<close>

definition NewPodSpecStorage :: "env \<Rightarrow> go_error + string \<Rightarrow> string run" where
  "NewPodSpecStorage env cacheHome =
     bindR (liftE cacheHome) (\<lambda>home.
       let rootDir = home @ ''/kube-pet-node/pod-specs''
       in thenR (file_op env (MakeDir rootDir)) (ret rootDir))"

text \<open>The pods of a directory listing: names that end in \<^verbatim>\<open>.json\<close> and parse.\<close>

definition coords_of :: "string list \<Rightarrow> pod_coord list" where
  "coords_of names =
     concat (map (\<lambda>f. if has_suffix f json_suffix then
                        (case ParsePodKey (trim_suffix f json_suffix) of
                           (podCoord, ok) \<Rightarrow> if ok then [podCoord] else [])
                      else []) names)"

definition ListAllPods :: "env \<Rightarrow> pod_coord list run" where
  "ListAllPods env =
     thenR (file_op env OpenDir) (thenR (file_op env ReadDir)
       (bindR (getR (\<lambda>n. visit env (n_trace n) (map fst (n_files n)))) (\<lambda>files.
          ret (coords_of files))))"

definition coord_of_pod :: "kpod \<Rightarrow> pod_coord" where
  "coord_of_pod pod = \<lparr>co_ns = pm_ns (kp_meta pod), co_name = pm_name (kp_meta pod)\<rparr>"

definition StorePod :: "env \<Rightarrow> kpod \<Rightarrow> pod_coord run" where
  "StorePod env podSpec =
     (let coord = coord_of_pod podSpec; filePath = FileName coord
      in thenR (file_op env (CreateFile filePath)) (thenR (put_file filePath [])
           (case env_encode_pod env podSpec of
              Inl e \<Rightarrow> failR (PlainErr e)
            | Inr text \<Rightarrow>
                bindR (tryR (file_op env (EncodeFile filePath))) (\<lambda>r.
                  case r of
                    Inl e \<Rightarrow> bindR (getR (\<lambda>n. env_cut env (n_trace n))) (\<lambda>cut.
                               thenR (put_file filePath cut) (failR e))
                  | Inr _ \<Rightarrow> thenR (put_file filePath text) (ret coord)))))"

definition no_such_file :: go_error where
  "no_such_file = FileErr True ''no such file or directory''"

definition ReadPod :: "env \<Rightarrow> pod_coord \<Rightarrow> kpod run" where
  "ReadPod env coord =
     thenR (file_op env (OpenFile (FileName coord)))
       (bindR (getR (\<lambda>n. map_of (n_files n) (FileName coord))) (\<lambda>file.
          case file of
            None \<Rightarrow> failR no_such_file
          | Some text \<Rightarrow>
              (case env_decode_pod env text of
                 Inl e \<Rightarrow> failR (PlainErr e)
               | Inr podSpec \<Rightarrow> ret podSpec)))"

definition remove_file :: "env \<Rightarrow> string \<Rightarrow> unit run" where
  "remove_file env name =
     thenR (file_op env (RemoveFile name))
       (bindR (getR (\<lambda>n. map_of (n_files n) name)) (\<lambda>file.
          case file of
            None \<Rightarrow> failR no_such_file
          | Some _ \<Rightarrow> modifyR (\<lambda>n. n\<lparr>n_files := AList.delete name (n_files n)\<rparr>)))"

text \<open>A file that is not there is no error.\<close>

definition RemovePod :: "env \<Rightarrow> pod_coord \<Rightarrow> unit run" where
  "RemovePod env coord =
     bindR (tryR (remove_file env (FileName coord))) (\<lambda>r.
       case r of
         Inl (FileErr True _) \<Rightarrow> ret ()
       | Inl e \<Rightarrow> failR e
       | Inr _ \<Rightarrow> ret ())"

subsection \<open>The files as a table of pods\<close>

lemma coords_of_iff: "c \<in> set (coords_of names) \<longleftrightarrow> proper_coord c \<and> FileName c \<in> set names"
proof
  assume "c \<in> set (coords_of names)"
  then obtain f where f: "f \<in> set names" "has_suffix f json_suffix"
    and p: "ParsePodKey (trim_suffix f json_suffix) = (c, True)"
    by (auto simp: coords_of_def split: if_splits)
  from p have "proper_coord c" "trim_suffix f json_suffix = Key c" by (simp_all add: ParsePodKey_ok_iff)
  moreover have "f = FileName c"
    using trim_suffix_cancel [OF f(2)] \<open>trim_suffix f json_suffix = Key c\<close> by (simp add: FileName_Key)
  ultimately show "proper_coord c \<and> FileName c \<in> set names" using f(1) by simp
next
  assume "proper_coord c \<and> FileName c \<in> set names"
  then show "c \<in> set (coords_of names)" by (force simp: coords_of_def)
qed

lemma coords_of_distinct: "distinct names \<Longrightarrow> distinct (coords_of names)"
proof (induction names)
  case (Cons f names)
  have "distinct (coords_of [f])"
    by (simp add: coords_of_def split: prod.split)
  moreover have "set (coords_of [f]) \<inter> set (coords_of names) = {}"
    using Cons.prems by (auto simp: coords_of_iff)
  moreover have "coords_of (f # names) = coords_of [f] @ coords_of names"
    by (simp add: coords_of_def)
  ultimately show ?case using Cons by simp
qed (simp add: coords_of_def)

definition files_wf :: "smap \<Rightarrow> bool" where
  "files_wf fs \<longleftrightarrow> distinct (map fst fs)"

interpretation spec_files: listed_pod_store
  "\<lambda>c. AList.update (FileName c)" "\<lambda>fs c. map_of fs (FileName c)" "\<lambda>c. AList.delete (FileName c)"
  proper_coord "\<lambda>fs. coords_of (map fst fs)" files_wf
proof
  show "map_of (AList.update (FileName c) v s) (FileName d)
      = (if d = c then Some v else map_of s (FileName d))" if "proper_coord c" "proper_coord d"
    for c d and v :: string and s
    using that by (simp add: update_conv' FileName_inj)
  show "map_of (AList.delete (FileName c) s) (FileName d)
      = (if d = c then None else map_of s (FileName d))" if "proper_coord c" "proper_coord d"
    for c d and s :: smap
    using that by (simp add: delete_conv' FileName_inj)
  show "c \<in> set (coords_of (map fst s)) \<longleftrightarrow> proper_coord c \<and> map_of s (FileName c) \<noteq> None"
    for s :: smap and c
    by (simp add: coords_of_iff map_of_eq_None_iff)
  show "distinct (coords_of (map fst s))" if "files_wf s" for s
    using that by (simp add: files_wf_def coords_of_distinct)
  show "files_wf (AList.update (FileName c) v s)" if "files_wf s" for s c v
    using that by (simp add: files_wf_def distinct_update)
  show "files_wf (AList.delete (FileName c) s)" if "files_wf s" for s c
    using that by (simp add: files_wf_def distinct_delete)
qed

subsection \<open>The operations on that table\<close>

text \<open>No file operation fails.\<close>

definition files_ok :: "env \<Rightarrow> bool" where
  "files_ok env \<longleftrightarrow> (\<forall>tr op. env_file env tr op = None)"

text \<open>The codec law: what is encoded decodes to the same pod.\<close>

definition codec_ok :: "env \<Rightarrow> kpod \<Rightarrow> bool" where
  "codec_ok env pod \<longleftrightarrow> (\<exists>text. env_encode_pod env pod = Inr text \<and> env_decode_pod env text = Inr pod)"

definition stored :: "env \<Rightarrow> smap \<Rightarrow> pod_coord \<Rightarrow> kpod option" where
  "stored env fs c =
     (case map_of fs (FileName c) of
        None \<Rightarrow> None
      | Some text \<Rightarrow> (case env_decode_pod env text of Inl _ \<Rightarrow> None | Inr p \<Rightarrow> Some p))"

lemma file_op_ok [simp]:
  "files_ok env \<Longrightarrow> file_op env op n = (Ok (), n\<lparr>n_trace := n_trace n @ [File op]\<rparr>)"
  by (simp add: file_op_def files_ok_def thenR_def)

lemma StorePod_ok:
  assumes "files_ok env" "env_encode_pod env pod = Inr text"
  shows "StorePod env pod n = (Ok (coord_of_pod pod),
    n\<lparr>n_trace := n_trace n @ [File (CreateFile (FileName (coord_of_pod pod))),
        File (EncodeFile (FileName (coord_of_pod pod)))],
      n_files := AList.update (FileName (coord_of_pod pod)) text (n_files n)\<rparr>)"
  using assms by (simp add: StorePod_def Let_def put_file_def)

lemma ReadPod_ok:
  assumes "files_ok env"
  shows "ReadPod env c n =
    ((case stored env (n_files n) c of
        Some p \<Rightarrow> Ok p
      | None \<Rightarrow> Err (case map_of (n_files n) (FileName c) of
                  None \<Rightarrow> no_such_file
                | Some text \<Rightarrow> (case env_decode_pod env text of Inl e \<Rightarrow> PlainErr e | Inr _ \<Rightarrow> no_such_file))),
     n\<lparr>n_trace := n_trace n @ [File (OpenFile (FileName c))]\<rparr>)"
  using assms by (simp add: ReadPod_def stored_def split: option.split sum.split)

lemma RemovePod_ok:
  assumes "files_ok env"
  shows "RemovePod env c n = (Ok (), n\<lparr>n_trace := n_trace n @ [File (RemoveFile (FileName c))],
    n_files := AList.delete (FileName c) (n_files n)\<rparr>)"
proof (cases "map_of (n_files n) (FileName c)")
  case None
  then have "AList.delete (FileName c) (n_files n) = n_files n"
    by (simp add: delete_id map_of_eq_None_iff)
  with None assms show ?thesis by (simp add: RemovePod_def remove_file_def no_such_file_def)
next
  case (Some content)
  with assms show ?thesis by (simp add: RemovePod_def remove_file_def)
qed

lemma ListAllPods_ok:
  assumes "files_ok env"
  shows "ListAllPods env n =
    (Ok (coords_of (visit env (n_trace n @ [File OpenDir, File ReadDir]) (map fst (n_files n)))),
     n\<lparr>n_trace := n_trace n @ [File OpenDir, File ReadDir]\<rparr>)"
  using assms by (simp add: ListAllPods_def)

text \<open>Through the abstraction: a map from proper coordinates to pods.\<close>

lemma stored_store:
  assumes "codec_ok env pod" "env_encode_pod env pod = Inr text" "proper_coord c" "proper_coord d"
  shows "stored env (AList.update (FileName c) text fs) d = (if d = c then Some pod else stored env fs d)"
  using assms spec_files.fetch_store [OF assms(3,4)] by (auto simp: stored_def codec_ok_def)

lemma stored_forget:
  assumes "proper_coord c" "proper_coord d"
  shows "stored env (AList.delete (FileName c) fs) d = (if d = c then None else stored env fs d)"
  using spec_files.fetch_forget [OF assms] by (auto simp: stored_def)

end
