(* ===== verification/Pod_Manager.thy ===== *)
theory Pod_Manager
  imports Pod_Storage Podman_Api
begin

text \<open>
  \<^verbatim>\<open>controllers/pods/manager.go\<close>: the table of known pods (\<open>n_known\<close>, under \<open>Key\<close>), its
  reconciliation with the stored specs and podman's pods at start, and its updates. The start also
  opens podman's event stream in the background, which only logs; that request is left out.
\<close>

definition heritage_value :: string where "heritage_value = ''kube-pet-node''"

text \<open>The pods that podman has and that are ours: a Go map from coordinates to reports. A nil
  report panics.\<close>

definition is_ours :: "ListPodsReport \<Rightarrow> bool" where
  "is_ours fp \<longleftrightarrow> map_of (lp_Labels fp) ''heritage'' = Some heritage_value"

definition note_found ::
  "ListPodsReport option \<Rightarrow> (pod_coord \<times> ListPodsReport) list \<Rightarrow>
   (pod_coord \<times> ListPodsReport) list option" where
  "note_found report found =
     (case report of
        None \<Rightarrow> None
      | Some fp \<Rightarrow>
          Some (if is_ours fp then
                  (case ParsePodKey (lp_Name fp) of
                     (podCoord, ok) \<Rightarrow> if ok then AList.update podCoord fp found else found)
                else found))"

definition container_ids :: "ListPodsContainer list \<Rightarrow> smap" where
  "container_ids cs =
     fold (\<lambda>c ids.
         let nameParts = split_on underscore (lpc_Names c)
         in if length nameParts \<ge> 3 then AList.update (nameParts ! 2) (lpc_Id c) ids
            else AList.update ''_infra'' (lpc_Id c) ids) cs []"

text \<open>The loop over the stored pods: found ones become known, others are deleted from the store.\<close>

definition correlate ::
  "env \<Rightarrow> pod_coord \<Rightarrow> (pod_coord \<times> ListPodsReport) list \<times> (string \<times> running_pod) list \<Rightarrow>
   ((pod_coord \<times> ListPodsReport) list \<times> (string \<times> running_pod) list) run" where
  "correlate env storedPod = (\<lambda>(found, known).
     case map_of found storedPod of
       Some fp \<Rightarrow>
         bindR (ReadPod env storedPod) (\<lambda>podSpec.
         bindR (alloc_pod podSpec) (\<lambda>ref.
           ret (AList.delete storedPod found,
                AList.update (lp_Name fp)
                  \<lparr>rp_kube = ref, rp_coord = storedPod, rp_pod_id = lp_Id fp,
                   rp_containers = container_ids (lp_Containers fp)\<rparr> known)))
     | None \<Rightarrow> thenR (RemovePod env storedPod) (ret (found, known)))"

definition remove_dangling :: "env \<Rightarrow> pod_coord \<times> ListPodsReport \<Rightarrow> unit run" where
  "remove_dangling env = (\<lambda>(coord, fp).
     bindR (errR (PodRm env (lp_Id fp) True)) (\<lambda>_. ret ()))"

definition NewPodManager :: "env \<Rightarrow> unit run" where
  "NewPodManager env =
     bindR (ListAllPods env) (\<lambda>storedPodList.
     bindR (errR (PodPs env)) (\<lambda>foundPods.
     bindR (derefR (foldM note_found foundPods [])) (\<lambda>foundPodMap.
     bindR (foldR (correlate env) storedPodList (foundPodMap, [])) (\<lambda>(dangling, knownPods).
     bindR (range_map env dangling) (\<lambda>entries.
     thenR (forR (remove_dangling env) entries)
       (modifyR (\<lambda>n. n\<lparr>n_known := knownPods\<rparr>)))))))"

definition SetPodId :: "pod_coord \<Rightarrow> string \<Rightarrow> unit run" where
  "SetPodId coord podId = modifyR (\<lambda>n.
     case map_of (n_known n) (Key coord) of
       None \<Rightarrow> n
     | Some known \<Rightarrow>
         n\<lparr>n_known := AList.update (Key coord)
             \<lparr>rp_kube = rp_kube known, rp_coord = coord, rp_pod_id = podId,
              rp_containers = rp_containers known\<rparr> (n_known n)\<rparr>)"

definition SetContainerIDs :: "pod_coord \<Rightarrow> smap \<Rightarrow> unit run" where
  "SetContainerIDs coord containerIDs = modifyR (\<lambda>n.
     case map_of (n_known n) (Key coord) of
       None \<Rightarrow> n
     | Some known \<Rightarrow>
         n\<lparr>n_known := AList.update (Key coord)
             \<lparr>rp_kube = rp_kube known, rp_coord = coord, rp_pod_id = rp_pod_id known,
              rp_containers = containerIDs\<rparr> (n_known n)\<rparr>)"

text \<open>The argument is a pointer to the pod.\<close>

definition RegisterPod :: "env \<Rightarrow> nat \<Rightarrow> pod_coord run" where
  "RegisterPod env pod =
     bindR (read_pod pod) (\<lambda>spec.
     bindR (StorePod env spec) (\<lambda>podCoord.
     thenR (modifyR (\<lambda>n.
         n\<lparr>n_known := AList.update (Key podCoord)
             (case map_of (n_known n) (Key podCoord) of
                Some known \<Rightarrow> \<lparr>rp_kube = pod, rp_coord = podCoord, rp_pod_id = rp_pod_id known,
                               rp_containers = rp_containers known\<rparr>
              | None \<Rightarrow> \<lparr>rp_kube = pod, rp_coord = podCoord, rp_pod_id = [], rp_containers = []\<rparr>)
             (n_known n)\<rparr>))
       (ret podCoord)))"

definition UnregisterPod :: "env \<Rightarrow> pod_coord \<Rightarrow> unit run" where
  "UnregisterPod env podCoord =
     thenR (modifyR (\<lambda>n. n\<lparr>n_known := AList.delete (Key podCoord) (n_known n)\<rparr>))
       (RemovePod env podCoord)"

definition StartExecInPod ::
  "env \<Rightarrow> pod_coord \<Rightarrow> string \<Rightarrow> ContainerExecOptions \<Rightarrow> ExecSession run" where
  "StartExecInPod env podCoord containerName options =
     ContainerExec env (ContainerKey podCoord containerName) options"

definition FetchContainerLogs ::
  "env \<Rightarrow> pod_coord \<Rightarrow> string \<Rightarrow> ContainerLogsOptions \<Rightarrow> string run" where
  "FetchContainerLogs env podCoord containerName options =
     ContainerLogs env (ContainerKey podCoord containerName) options"

subsection \<open>The found pods\<close>

definition found_wf :: "(pod_coord \<times> ListPodsReport) list \<Rightarrow> bool" where
  "found_wf found \<longleftrightarrow> distinct (map fst found)
     \<and> (\<forall>c fp. map_of found c = Some fp \<longrightarrow> is_ours fp \<and> proper_coord c \<and> lp_Name fp = Key c)"

definition found_from :: "ListPodsReport option list \<Rightarrow> (pod_coord \<times> ListPodsReport) list \<Rightarrow> bool" where
  "found_from reports found \<longleftrightarrow> (\<forall>c fp. map_of found c = Some fp \<longrightarrow> Some fp \<in> set reports)"

lemma note_found_eq:
  "note_found (Some fp) found = Some (if is_ours fp \<and> snd (ParsePodKey (lp_Name fp))
     then AList.update (fst (ParsePodKey (lp_Name fp))) fp found else found)"
  by (simp add: note_found_def split: prod.split)

lemma note_found_wf:
  assumes "note_found report found = Some found'" "found_wf found"
  shows "found_wf found'"
proof -
  obtain fp where fp: "report = Some fp" using assms(1) by (cases report) (auto simp: note_found_def)
  have "proper_coord (fst (ParsePodKey (lp_Name fp))) \<and> lp_Name fp = Key (fst (ParsePodKey (lp_Name fp)))"
    if "snd (ParsePodKey (lp_Name fp))"
    using that by (metis ParsePodKey_ok_iff prod.collapse)
  with assms show ?thesis
    by (auto simp: fp note_found_eq found_wf_def distinct_update update_conv' split: if_splits)
qed

lemma found_pods_wf:
  assumes "foldM note_found reports [] = Some found"
  shows "found_wf found"
proof (rule foldM_invariant [OF assms])
  show "found_wf []" by (simp add: found_wf_def)
qed (rule note_found_wf)

lemma found_pods_from:
  assumes "foldM note_found reports [] = Some found"
  shows "found_from reports found"
proof (rule foldM_invariant [OF assms])
  show "found_from reports []" by (simp add: found_from_def)
  show "found_from reports t'"
    if "x \<in> set reports" "found_from reports t" "note_found x t = Some t'" for x t t'
  proof (cases x)
    case None
    with that(3) show ?thesis by (simp add: note_found_def)
  next
    case (Some fp)
    with that show ?thesis
      by (auto simp: note_found_eq found_from_def update_conv' split: if_splits)
  qed
qed

lemma note_found_keeps_keys:
  assumes "note_found x t = Some t'"
  shows "fst ` set t \<subseteq> fst ` set t'"
proof (cases x)
  case None
  with assms show ?thesis by (simp add: note_found_def)
next
  case (Some fp)
  have "t' = (if is_ours fp \<and> snd (ParsePodKey (lp_Name fp))
      then AList.update (fst (ParsePodKey (lp_Name fp))) fp t else t)"
    using assms by (simp add: Some note_found_eq)
  then show ?thesis by (simp add: dom_update subset_insertI)
qed

lemma found_pods_mono: "foldM note_found reports t = Some found \<Longrightarrow> fst ` set t \<subseteq> fst ` set found"
proof (induction reports arbitrary: t)
  case (Cons x xs)
  then obtain t' where t': "note_found x t = Some t'" "foldM note_found xs t' = Some found"
    by (auto split: option.splits)
  show ?case using note_found_keeps_keys [OF t'(1)] Cons.IH [OF t'(2)] by (rule subset_trans)
qed simp

lemma found_pods_complete:
  assumes "foldM note_found reports t = Some found" "Some fp \<in> set reports" "is_ours fp"
    "proper_coord c" "lp_Name fp = Key c"
  shows "c \<in> fst ` set found"
  using assms(1,2)
proof (induction reports arbitrary: t)
  case (Cons x xs)
  then obtain t' where t': "note_found x t = Some t'" "foldM note_found xs t' = Some found"
    by (auto split: option.splits)
  show ?case
  proof (cases "x = Some fp")
    case True
    then have "t' = AList.update c fp t" using t'(1) assms(3-5) by (simp add: note_found_eq)
    then have "c \<in> fst ` set t'" by (simp add: dom_update)
    then show ?thesis using found_pods_mono [OF t'(2)] by blast
  next
    case False
    then show ?thesis using Cons.IH [OF t'(2)] Cons.prems(2) by simp
  qed
qed simp

subsection \<open>Correlating the stored pods\<close>

lemma correlate_found:
  assumes "files_ok env" "map_of found c = Some fp"
    and "correlate env c (found, known) n = (Ok r, n')"
  shows "\<exists>pod. stored env (n_files n) c = Some pod
    \<and> r = (AList.delete c found, AList.update (lp_Name fp)
        \<lparr>rp_kube = n_next n, rp_coord = c, rp_pod_id = lp_Id fp,
         rp_containers = container_ids (lp_Containers fp)\<rparr> known)
    \<and> n' = n\<lparr>n_trace := n_trace n @ [File (OpenFile (FileName c))],
            n_heap := (n_heap n)(n_next n := pod), n_next := Suc (n_next n)\<rparr>"
proof (cases "stored env (n_files n) c")
  case None
  with assms show ?thesis by (simp add: correlate_def ReadPod_ok bindR_def)
next
  case (Some pod)
  with assms show ?thesis by (simp add: correlate_def ReadPod_ok bindR_def)
qed

lemma correlate_missing:
  assumes "files_ok env" "map_of found c = None"
  shows "correlate env c (found, known) n = (Ok (found, known),
    n\<lparr>n_trace := n_trace n @ [File (RemoveFile (FileName c))],
      n_files := AList.delete (FileName c) (n_files n)\<rparr>)"
  using assms by (simp add: correlate_def RemovePod_ok)

definition is_file :: "effect \<Rightarrow> bool" where
  "is_file e \<longleftrightarrow> (\<exists>op. e = File op)"

text \<open>What the loop leaves: the dangling pods, the files of the found ones, an entry for each of
  them that points to the decoded spec.\<close>

definition known_entry ::
  "env \<Rightarrow> smap \<Rightarrow> node \<Rightarrow> pod_coord \<Rightarrow> ListPodsReport \<Rightarrow> running_pod \<Rightarrow> bool" where
  "known_entry env fs n' c fp rp \<longleftrightarrow>
     rp_coord rp = c \<and> rp_pod_id rp = lp_Id fp \<and> rp_containers rp = container_ids (lp_Containers fp)
     \<and> rp_kube rp < n_next n' \<and> stored env fs c = Some (n_heap n' (rp_kube rp))"

lemma correlate_all:
  assumes "files_ok env" "foldR (correlate env) cs (found, known) n = (Ok (dangling, known'), n')"
    and "found_wf found" "distinct cs" "list_all proper_coord cs"
    and "\<And>c. c \<in> set cs \<Longrightarrow> Key c \<notin> dom (map_of known)"
  shows "map_of dangling = (map_of found) |` (- set cs)
    \<and> found_wf dangling
    \<and> n_files n' = fold (\<lambda>c. AList.delete (FileName c)) (filter (\<lambda>c. map_of found c = None) cs) (n_files n)
    \<and> dom (map_of known') = dom (map_of known) \<union> Key ` {c \<in> set cs. map_of found c \<noteq> None}
    \<and> (\<forall>k \<in> dom (map_of known). map_of known' k = map_of known k)
    \<and> (\<forall>c \<in> set cs. \<forall>fp. map_of found c = Some fp \<longrightarrow>
         (\<exists>rp. map_of known' (Key c) = Some rp \<and> known_entry env (n_files n) n' c fp rp))
    \<and> n_next n \<le> n_next n' \<and> (\<forall>i < n_next n. n_heap n' i = n_heap n i)
    \<and> sends is_file n n'"
  using assms(2-6)
proof (induction cs arbitrary: found known n)
  case Nil
  then show ?case by (auto simp: sends_def)
next
  case (Cons c cs)
  obtain r n1 where step: "correlate env c (found, known) n = (Ok r, n1)"
    and rest: "foldR (correlate env) cs r n1 = (Ok (dangling, known'), n')"
    using Cons.prems(1) by (auto elim: bindR_OkE)
  have c: "proper_coord c" "c \<notin> set cs" and cs: "distinct cs" "list_all proper_coord cs"
    using Cons.prems(3,4) by auto
  show ?case
  proof (cases "map_of found c")
    case None
    have r: "r = (found, known)" and n1: "n1 = n\<lparr>n_trace := n_trace n @ [File (RemoveFile (FileName c))],
        n_files := AList.delete (FileName c) (n_files n)\<rparr>"
      using step correlate_missing [OF assms(1) None] by auto
    have st: "stored env (n_files n1) d = stored env (n_files n) d" if "d \<in> set cs" for d
      using stored_forget [OF c(1), of d] that cs(2) c(2) by (auto simp: n1 list_all_iff)
    note IH = Cons.IH [OF rest [unfolded r] Cons.prems(2) cs Cons.prems(5)]
    then have "sends is_file n1 n'" by simp
    moreover have "sends is_file n n1" by (simp add: n1 sends_def is_file_def)
    ultimately have "sends is_file n n'" by (rule sends_frame.R_trans [rotated])
    moreover have "map_of found |` (- set (c # cs)) = map_of found |` (- set cs)"
      using None by (auto simp: restrict_map_def fun_eq_iff)
    ultimately show ?thesis using IH None st
      by (auto simp: n1 known_entry_def)
  next
    case (Some fp)
    from correlate_found [OF assms(1) Some step] obtain pod where
      pod: "stored env (n_files n) c = Some pod"
      and r: "r = (AList.delete c found, AList.update (lp_Name fp)
        \<lparr>rp_kube = n_next n, rp_coord = c, rp_pod_id = lp_Id fp,
         rp_containers = container_ids (lp_Containers fp)\<rparr> known)"
      and n1: "n1 = n\<lparr>n_trace := n_trace n @ [File (OpenFile (FileName c))],
            n_heap := (n_heap n)(n_next n := pod), n_next := Suc (n_next n)\<rparr>" by blast
    have nm: "lp_Name fp = Key c" using Cons.prems(2) Some by (simp add: found_wf_def)
    have wf: "found_wf (AList.delete c found)"
      using Cons.prems(2) by (auto simp: found_wf_def distinct_delete delete_conv' split: if_splits)
    have del: "map_of (AList.delete c found) d = map_of found d" if "d \<in> set cs" for d
      using that c(2) by (auto simp: delete_conv')
    have fresh: "Key d \<notin> dom (map_of (snd r))" if "d \<in> set cs" for d
      using that Cons.prems(5) [of d] c cs(2) Key_inj [of d c]
      by (auto simp: r nm update_conv' list_all_iff split: if_splits)
    note IH = Cons.IH [OF rest [unfolded r] wf cs fresh [unfolded r snd_conv]]
    have known1: "map_of (snd r) = (map_of known)(Key c \<mapsto> \<lparr>rp_kube = n_next n, rp_coord = c,
        rp_pod_id = lp_Id fp, rp_containers = container_ids (lp_Containers fp)\<rparr>)"
      by (simp add: r nm update_conv')
    have "sends is_file n n1" by (simp add: n1 sends_def is_file_def)
    then have sends: "sends is_file n n'" using IH sends_frame.R_trans by blast
    have restr: "map_of (AList.delete c found) |` (- set cs) = map_of found |` (- set (c # cs))"
      by (auto simp: restrict_map_def fun_eq_iff delete_conv')
    have nf1: "n_files n1 = n_files n" by (simp add: n1)
    have flt: "filter (\<lambda>d. map_of (AList.delete c found) d = None) cs
        = filter (\<lambda>d. map_of found d = None) (c # cs)"
      using Some del by (auto intro!: filter_cong)
    have both: "{d \<in> set (c # cs). map_of found d \<noteq> None}
        = insert c {d \<in> set cs. map_of (AList.delete c found) d \<noteq> None}"
      using Some del by auto
    have IH_kept: "\<forall>k \<in> dom (map_of (snd r)). map_of known' k = map_of (snd r) k"
      using IH unfolding r snd_conv by blast
    have IH_dom: "dom (map_of known') = dom (map_of (snd r))
        \<union> Key ` {d \<in> set cs. map_of (AList.delete c found) d \<noteq> None}"
      using IH unfolding r snd_conv by blast
    have dom1: "dom (map_of (snd r)) = insert (Key c) (dom (map_of known))"
      unfolding known1 by simp
    have mine: "\<exists>rp. map_of known' (Key c) = Some rp \<and> known_entry env (n_files n) n' c fp rp"
    proof -
      have "map_of known' (Key c) = map_of (snd r) (Key c)"
        using IH_kept by (simp add: known1)
      moreover have "n_heap n' (n_next n) = pod" "n_next n < n_next n'" using IH by (simp_all add: n1)
      ultimately show ?thesis by (simp add: known1 known_entry_def pod)
    qed
    have others: "\<exists>rp. map_of known' (Key d) = Some rp \<and> known_entry env (n_files n) n' d fp' rp"
      if "d \<in> set cs" "map_of found d = Some fp'" for d fp'
      using IH that del [OF that(1)] by (simp add: n1 known_entry_def)
    have kept: "map_of known' k = map_of known k" if "k \<in> dom (map_of known)" for k
    proof -
      have "k \<noteq> Key c" using that Cons.prems(5) [of c] by auto
      moreover have "k \<in> dom (map_of (snd r))" using that by (simp add: known1)
      ultimately show ?thesis using IH_kept known1 by simp
    qed
    show ?thesis
    proof (intro conjI ballI allI impI)
      show "map_of dangling = map_of found |` (- set (c # cs))" using IH restr by simp
      show "found_wf dangling" using IH by simp
      show "n_files n' = fold (\<lambda>c. AList.delete (FileName c))
          (filter (\<lambda>d. map_of found d = None) (c # cs)) (n_files n)"
        unfolding flt [symmetric] using IH unfolding nf1 by blast
      show "dom (map_of known') = dom (map_of known) \<union> Key ` {d \<in> set (c # cs). map_of found d \<noteq> None}"
        unfolding both IH_dom using dom1 by blast
      show "map_of known' k = map_of known k" if "k \<in> dom (map_of known)" for k by (rule kept [OF that])
      show "\<exists>rp. map_of known' (Key d) = Some rp \<and> known_entry env (n_files n) n' d fp' rp"
        if "d \<in> set (c # cs)" "map_of found d = Some fp'" for d fp'
        using that mine others Some by (cases "d = c") auto
      show "n_next n \<le> n_next n'" using IH by (simp add: n1)
      show "n_heap n' i = n_heap n i" if "i < n_next n" for i using IH that by (simp add: n1)
    qed (rule sends)
  qed
qed

subsection \<open>Removing the dangling pods\<close>

definition rm_request :: "string \<Rightarrow> bool \<Rightarrow> http_request option" where
  "rm_request podId force =
     Option.bind (UrlEncoded podId) (\<lambda>encoded.
       new_request ''DELETE'' (''/libpod/pods/'' @ encoded @ (if force then ''?force=true'' else []))
         accept_json None)"

lemma PodRm_node:
  "snd (PodRm env podId force n)
     = (case rm_request podId force of
          None \<Rightarrow> n
        | Some req \<Rightarrow> n\<lparr>n_trace := n_trace n @ [Http req]\<rparr>)"
  "fst (PodRm env podId force n) = Ok (out, None) \<Longrightarrow> rm_request podId force \<noteq> None"
proof -
  have "snd (performJsonRequest env req dec z n) = n\<lparr>n_trace := n_trace n @ [Http req]\<rparr>"
    for req and dec :: "PodRmReport decoder" and z
    using performJsonRequest_node [of env req dec z n] by auto
  then show "snd (PodRm env podId force n)
     = (case rm_request podId force of
          None \<Rightarrow> n
        | Some req \<Rightarrow> n\<lparr>n_trace := n_trace n @ [Http req]\<rparr>)"
    by (simp add: PodRm_def named_def rm_request_def performDelete_def derefR_def split: option.split)
  show "fst (PodRm env podId force n) = Ok (out, None) \<Longrightarrow> rm_request podId force \<noteq> None"
    by (auto simp: PodRm_def named_def rm_request_def performDelete_def derefR_def split: option.splits)
qed

lemma remove_dangling_all:
  assumes "forR (remove_dangling env) entries n = (Ok (), n')"
  shows "\<exists>reqs. map Some reqs = map (\<lambda>(c, fp). rm_request (lp_Id fp) True) entries
    \<and> n' = n\<lparr>n_trace := n_trace n @ map Http reqs\<rparr>"
  using assms
proof (induction entries arbitrary: n)
  case Nil
  then show ?case by simp
next
  case (Cons e es)
  obtain c fp where e: "e = (c, fp)" by fastforce
  from Cons.prems obtain u where u: "remove_dangling env e n = (Ok (), u)"
    and rest: "forR (remove_dangling env) es u = (Ok (), n')"
    by (auto elim: thenR_OkE)
  from u obtain r where "errR (PodRm env (lp_Id fp) True) n = (Ok r, u)"
    by (auto simp: remove_dangling_def e elim!: bindR_OkE)
  then have pr: "PodRm env (lp_Id fp) True n = (Ok (r, None), u)" by (rule errR_OkD)
  then obtain req where req: "rm_request (lp_Id fp) True = Some req"
    using PodRm_node(2) [of env "lp_Id fp" True n r] by auto
  have "u = n\<lparr>n_trace := n_trace n @ [Http req]\<rparr>"
    using PodRm_node(1) [of env "lp_Id fp" True n] by (simp add: pr req)
  moreover from Cons.IH [OF rest] obtain reqs where
    "map Some reqs = map (\<lambda>(c, fp). rm_request (lp_Id fp) True) es"
    "n' = u\<lparr>n_trace := n_trace u @ map Http reqs\<rparr>" by blast
  ultimately show ?case by (intro exI [of _ "req # reqs"]) (simp add: e req)
qed

end
