(* ===== verification/Image_Pull.thy ===== *)
theory Image_Pull
  imports Fs_Inject Podman_Api
begin

text \<open>
  \<^verbatim>\<open>controllers/pods/image-pull.go\<close>: pulling an image without credentials, then with those of each
  pull secret. In the code the \<open>err\<close> of the first request is the variable that the function
  returns at its end; the errors of the event streams, and all those inside the loop over the
  secrets, live in variables that shadow it. The model keeps the two apart: \<open>err\<close> is an argument of
  \<open>try_secrets\<close> that never changes.
\<close>

definition GrabPullSecrets :: "env \<Rightarrow> string \<Rightarrow> string list \<Rightarrow> secret list run" where
  "GrabPullSecrets env ns refs =
     foldR (\<lambda>ref secrets. bindR (GetSecret env ns ref) (\<lambda>secret. ret (secrets @ [secret]))) refs []"

definition pull_event ::
  "ImagePullReport \<Rightarrow> string \<times> string list \<times> string option \<Rightarrow> string \<times> string list \<times> string option" where
  "pull_event event = (\<lambda>(lastLine, ids, err).
     if ipr_Stream event \<noteq> [] then (ipr_Stream event, ids, err)
     else if ipr_Error event \<noteq> [] then (lastLine, ids, Some (ipr_Error event))
     else if ipr_Images event \<noteq> [] then (lastLine, ipr_Images event, err)
     else (lastLine, ids, err))"

definition processPullStream :: "ImagePullReport list \<Rightarrow> string list \<times> string option" where
  "processPullStream events =
     (case fold pull_event events ([], [], None) of
        (lastLine, ids, err) \<Rightarrow>
          (ids, if ids = [] \<and> err = None \<and> lastLine \<noteq> [] then Some lastLine else err))"

definition is_unauthorized :: "string \<Rightarrow> bool" where
  "is_unauthorized e = str_contains e ''unauthorized''"

definition pulled :: "string \<Rightarrow> string \<Rightarrow> unit run" where
  "pulled kind imageRef =
     emit (Recorded ''Normal'' ''Pulled''
       (''Successfully pulled '' @ kind @ '' image '' @ [CHR 0x22] @ imageRef @ [CHR 0x22]))"

definition docker_config_type :: string where
  "docker_config_type = ''kubernetes.io/dockerconfigjson''"

fun try_secrets :: "env \<Rightarrow> string \<Rightarrow> go_error option \<Rightarrow> secret list \<Rightarrow> unit run" where
  "try_secrets env imageRef err [] = (case err of None \<Rightarrow> ret () | Some e \<Rightarrow> failR e)"
| "try_secrets env imageRef err (secret # secrets) =
     (if se_kind secret \<noteq> docker_config_type then
        failR (PlainErr (''TODO: ImagePullSecret '' @ se_meta_name secret @ '' has weird type '' @ se_kind secret))
      else case map_of (se_data secret) ''.dockerconfigjson'' of
        None \<Rightarrow>
          failR (PlainErr (''TODO: ImagePullSecret '' @ se_meta_name secret @ '' is missing .dockerconfigjson''))
      | Some conf \<Rightarrow>
          (case env_docker_auths env conf of
             Inl e \<Rightarrow> failR (PlainErr (''Failed to read dockerconfigjson from Secret: '' @ e))
           | Inr authBody \<Rightarrow>
               bindR (tryR (Pull env imageRef (Some authBody))) (\<lambda>r.
                 case r of
                   Inr events \<Rightarrow>
                     (case snd (processPullStream events) of
                        None \<Rightarrow> pulled ''private'' imageRef
                      | Some e \<Rightarrow> if \<not> is_unauthorized e then failR (PlainErr e)
                                  else try_secrets env imageRef err secrets)
                 | Inl e \<Rightarrow> if \<not> is_unauthorized (errText e) then failR e
                            else try_secrets env imageRef err secrets)))"

definition PullImage :: "env \<Rightarrow> string \<Rightarrow> secret list \<Rightarrow> unit run" where
  "PullImage env imageRef pullSecrets =
     thenR (emit (Recorded ''Normal'' ''Pulling'' (''Pulling image '' @ [CHR 0x22] @ imageRef @ [CHR 0x22])))
       (bindR (tryR (Pull env imageRef None)) (\<lambda>r.
          case r of
            Inr events \<Rightarrow>
              (case snd (processPullStream events) of
                 None \<Rightarrow> pulled ''public'' imageRef
               | Some e \<Rightarrow> if \<not> is_unauthorized e then failR (PlainErr e)
                           else try_secrets env imageRef None pullSecrets)
          | Inl e \<Rightarrow> if \<not> is_unauthorized (errText e) then failR e
                     else try_secrets env imageRef (Some e) pullSecrets))"

end
