(* ===== verification/Pod_Provider.thy ===== *)
theory Pod_Provider
  imports Pod_Manager Pod_Converter Image_Pull Volumes
begin

text \<open>
  \<^verbatim>\<open>controllers/pods/provider.go\<close>: the handlers that the virtual kubelet calls. A pod is a pointer
  into the heap of the node (\<open>nat\<close>): the handlers change its status in place, and the manager's
  table holds the same pointer. The notifier and the event recorder are entries of the trace.
\<close>

definition PodScheduled :: string where "PodScheduled = ''PodScheduled''"
definition PodInitialized :: string where "PodInitialized = ''Initialized''"
definition PodReady :: string where "PodReady = ''Ready''"

definition is_static :: "kpod \<Rightarrow> bool" where
  "is_static pod \<longleftrightarrow> annotation pod ''kubernetes.io/config.source'' = Some ''file''"

definition on_status :: "(pod_status \<Rightarrow> pod_status) \<Rightarrow> kpod \<Rightarrow> kpod" where
  "on_status f pod = pod\<lparr>kp_status := f (kp_status pod)\<rparr>"

definition notify :: "nat \<Rightarrow> unit run" where
  "notify p = bindR (read_pod p) (\<lambda>pod. emit (Notified pod))"

definition creating_status :: "int \<Rightarrow> pod_status" where
  "creating_status t = zero_status\<lparr>ps_phase := ''ContainerCreating'',
     ps_conditions :=
       [\<lparr>cond_type = PodScheduled, cond_status = ''True'', cond_time = t\<rparr>,
        \<lparr>cond_type = PodInitialized, cond_status = ''False'', cond_time = t\<rparr>,
        \<lparr>cond_type = PodReady, cond_status = ''False'', cond_time = t\<rparr>]\<rparr>"

definition set_condition :: "string \<Rightarrow> int \<Rightarrow> pod_status \<Rightarrow> pod_status" where
  "set_condition ty t s =
     s\<lparr>ps_conditions := map (\<lambda>c. if cond_type c = ty then c\<lparr>cond_status := ''True'', cond_time := t\<rparr> else c)
        (ps_conditions s)\<rparr>"

text \<open>The creation of one container. In the retry after an on-the-spot pull, \<open>creation\<close> is the
  report of the failed attempt, which shadows the pod's: its empty ID is passed as the pod ID.\<close>

definition create_or_pull ::
  "env \<Rightarrow> kpod \<Rightarrow> secret list \<Rightarrow> string \<Rightarrow> container \<Rightarrow> ContainerCreateReport run" where
  "create_or_pull env pod pullSecrets podId conSpec =
     bindR (derefR (ConvertContainerConfig (env_memory env) pod conSpec podId)) (\<lambda>spec.
     bindR (ContainerCreate env spec) (\<lambda>(creation, err).
       case err of
         None \<Rightarrow> ret creation
       | Some e \<Rightarrow>
           if has_suffix (errText e) ''no such image'' \<and> con_pull_policy conSpec = ''IfNotPresent''
           then thenR (PullImage env (con_image conSpec) pullSecrets)
             (bindR (derefR (ConvertContainerConfig (env_memory env) pod conSpec (ccr_Id creation)))
                (\<lambda>spec. errR (ContainerCreate env spec)))
           else failR e))"

definition record_creation :: "container \<Rightarrow> ContainerCreateReport \<Rightarrow> unit run" where
  "record_creation conSpec creation =
     thenR (forR (\<lambda>warning. emit (Recorded ''Warning'' ''CreationWarning''
                     (''Container '' @ con_name conSpec @ '': '' @ warning))) (ccr_Warnings creation))
       (emit (Recorded ''Normal'' ''Created'' (''Created container '' @ con_name conSpec)))"

definition create_container ::
  "env \<Rightarrow> nat \<Rightarrow> secret list \<Rightarrow> string \<Rightarrow> container \<Rightarrow> smap \<Rightarrow> smap run" where
  "create_container env p pullSecrets podId conSpec containerIDs =
     thenR (if con_pull_policy conSpec = ''Always'' then PullImage env (con_image conSpec) pullSecrets
            else ret ())
     (bindR (read_pod p) (\<lambda>pod.
      bindR (create_or_pull env pod pullSecrets podId conSpec) (\<lambda>creation.
      thenR (record_creation conSpec creation)
        (ret (AList.update (con_name conSpec) (ccr_Id creation) containerIDs)))))"

definition initial_container_status :: "smap \<Rightarrow> container \<Rightarrow> container_status" where
  "initial_container_status ids con =
     \<lparr>cst_name = con_name con, cst_image = con_image con, cst_image_id = [],
      cst_container_id = ''podman://'' @ (case map_of ids (con_name con) of None \<Rightarrow> [] | Some i \<Rightarrow> i),
      cst_ready = False, cst_restarts = 0,
      cst_state = Waiting ''Initializing'' ''Container will be started soon.''\<rparr>"

text \<open>Inspecting one container; the infra container's address is the pod's. A missing
  \<open>NetworkSettings\<close> or a null network panics.\<close>

definition inspect_container ::
  "env \<Rightarrow> string \<Rightarrow> nat \<Rightarrow> string \<times> string \<Rightarrow> (string \<times> InspectContainerData) list \<Rightarrow>
   (string \<times> InspectContainerData) list run" where
  "inspect_container env cniNet p entry inspects =
     (case entry of (conName, conID) \<Rightarrow>
        bindR (tryR (errR (ContainerInspect env conID False))) (\<lambda>r.
          case r of
            Inl err \<Rightarrow> ret inspects
          | Inr conInsp \<Rightarrow>
              bindR (read_pod p) (\<lambda>pod.
              thenR
                (if conName = ''_infra'' \<and> \<not> sp_host_network (kp_spec pod) then
                   bindR (derefR (ic_NetworkSettings conInsp)) (\<lambda>settings.
                     case map_of (ins_Networks settings) cniNet of
                       None \<Rightarrow> ret ()
                     | Some network \<Rightarrow>
                         bindR (derefR network) (\<lambda>infraNetwork.
                           set_pod p (on_status (\<lambda>s. s\<lparr>ps_pod_ip := ibn_IPAddress (ian_Basic infraNetwork),
                             ps_pod_ips := [ibn_IPAddress (ian_Basic infraNetwork)]\<rparr>))))
                 else ret ())
                (ret (AList.update conName conInsp inspects)))))"

definition started_status ::
  "int \<Rightarrow> (string \<times> InspectContainerData) list \<Rightarrow> container_status \<Rightarrow> container_status list \<Rightarrow>
   container_status list run" where
  "started_status startedTime inspects cs done_list =
     (case map_of inspects (cst_name cs) of
        None \<Rightarrow> ret (done_list @ [cs])
      | Some insp \<Rightarrow>
          thenR (emit (Recorded ''Normal'' ''Started'' (''Started container '' @ cst_name cs)))
            (ret (done_list @ [cs\<lparr>cst_ready := True, cst_restarts := ic_RestartCount insp,
               cst_image_id := hd (split_on (CHR '':'') (ic_ImageName insp)) @ ''@shasum:'' @ ic_Image insp,
               cst_state := Running startedTime\<rparr>])))"

definition cluster_dns_ip :: ip where
  "cluster_dns_ip = ParseIP ''10.6.0.10''"

lemma cluster_dns_ip_code [code]: "cluster_dns_ip = IPv4 [10, 6, 0, 10]"
proof -
  have "v4_string [10, 6, 0, 10] = ''10.6.0.10''" by code_simp
  then show ?thesis unfolding cluster_dns_ip_def
    using first_sep_v4 [of "[10, 6, 0, 10]"] parse_v4_string [of "[10, 6, 0, 10]"]
    by (simp add: ParseIP_def parseIPv4_def)
qed

text \<open>Up to the pod's creation in podman: volumes, pod, infra container, pull secrets, containers.\<close>

definition create_in_podman :: "env \<Rightarrow> string \<Rightarrow> nat \<Rightarrow> pod_coord \<Rightarrow> (string \<times> smap) run" where
  "create_in_podman env cniNet p podCoord =
     bindR (read_pod p) (\<lambda>pod.
     thenR (CreatePodVolumes env pod)
     (bindR (errR (PodCreate env (ConvertPodConfig pod cluster_dns_ip cniNet))) (\<lambda>creation.
      thenR (SetPodId podCoord (pcr_Id creation))
      (bindR (errR (PodInspect env (pcr_Id creation))) (\<lambda>podInsp.
       bindR (GrabPullSecrets env (pm_ns (kp_meta pod)) (sp_pull_secrets (kp_spec pod))) (\<lambda>pullSecrets.
       bindR (foldR (create_container env p pullSecrets (pcr_Id creation)) (sp_containers (kp_spec pod))
                [(''_infra'', ip_InfraContainerID podInsp)]) (\<lambda>containerIDs.
       thenR (SetContainerIDs podCoord containerIDs)
         (ret (pcr_Id creation, containerIDs)))))))))"

text \<open>Then the status becomes \<open>Initialized\<close>, the pod is started, the containers are inspected.\<close>

definition start_in_podman :: "env \<Rightarrow> string \<Rightarrow> nat \<Rightarrow> string \<times> smap \<Rightarrow> unit run" where
  "start_in_podman env cniNet p = (\<lambda>(podId, containerIDs).
     bindR (now env) (\<lambda>t.
     thenR (set_pod p (on_status (set_condition PodInitialized t)))
     (thenR (set_pod p (\<lambda>pod. on_status (\<lambda>s. s\<lparr>ps_containers := ps_containers s
              @ map (initial_container_status containerIDs) (sp_containers (kp_spec pod))\<rparr>) pod))
     (thenR (notify p)
     (thenR (ignoreR (RegisterPod env p))
     (bindR (now env) (\<lambda>startedTime.
      thenR (errR (PodStart env podId))
      (thenR (set_pod p (on_status (\<lambda>s. s\<lparr>ps_phase := ''Running''\<rparr>)))
      (thenR (notify p)
      (thenR (ignoreR (RegisterPod env p))
      (bindR (range_map env containerIDs) (\<lambda>entries.
       bindR (foldR (inspect_container env cniNet p) entries []) (\<lambda>inspects.
       bindR (now env) (\<lambda>t.
       thenR (set_pod p (on_status (set_condition PodReady t)))
       (bindR (read_pod p) (\<lambda>pod.
        bindR (foldR (started_status startedTime inspects) (ps_containers (kp_status pod)) []) (\<lambda>statuses.
        thenR (set_pod p (on_status (\<lambda>s. s\<lparr>ps_containers := statuses\<rparr>)))
        (thenR (notify p)
          (ignoreR (RegisterPod env p))))))))))))))))))))"

definition CreatePod :: "env \<Rightarrow> string \<Rightarrow> nat \<Rightarrow> unit run" where
  "CreatePod env cniNet p =
     bindR (read_pod p) (\<lambda>pod.
       if is_static pod then ret ()
       else
         bindR (now env) (\<lambda>t.
         thenR (set_pod p (on_status (\<lambda>_. creating_status t)))
         (thenR (notify p)
         (bindR (RegisterPod env p) (\<lambda>podCoord.
          bindR (create_in_podman env cniNet p podCoord) (start_in_podman env cniNet p))))))"

definition UpdatePod :: "env \<Rightarrow> nat \<Rightarrow> unit run" where
  "UpdatePod env p = ret ()"

text \<open>The loop that is to mark the containers as terminated works on copies of their statuses and
  has no effect.\<close>

definition deleted_status :: "pod_status \<Rightarrow> pod_status" where
  "deleted_status s = s\<lparr>ps_conditions :=
     [\<lparr>cond_type = PodInitialized, cond_status = ''True'', cond_time = 0\<rparr>,
      \<lparr>cond_type = PodReady, cond_status = ''False'', cond_time = 0\<rparr>,
      \<lparr>cond_type = PodScheduled, cond_status = ''True'', cond_time = 0\<rparr>]\<rparr>"

definition DeletePod :: "env \<Rightarrow> nat \<Rightarrow> unit run" where
  "DeletePod env p =
     bindR (read_pod p) (\<lambda>pod.
       if is_static pod then ret ()
       else
         let key = pm_ns (kp_meta pod) @ ''_'' @ pm_name (kp_meta pod)
         in bindR (PodStop env key) (\<lambda>(msg, err).
            case err of
              Some e \<Rightarrow>
                (case e of
                   ApiErr rq cause message status \<Rightarrow>
                     if status = 404 then UnregisterPod env (coord_of_pod pod) else failR e
                 | _ \<Rightarrow> failR e)
            | None \<Rightarrow>
                thenR (set_pod p (on_status deleted_status))
                (thenR (notify p)
                (thenR (UnregisterPod env (coord_of_pod pod))
                (thenR (errR (PodRm env key False))
                  (CleanupVolumes env (kp_meta pod)))))))"

text \<open>\<open>None\<close> is the nil pointer of an unknown pod.\<close>

definition GetPod :: "string \<Rightarrow> string \<Rightarrow> nat option run" where
  "GetPod ns name = getR (\<lambda>n. map_option rp_kube (map_of (n_known n) (ns @ ''_'' @ name)))"

definition GetPodStatus :: "string \<Rightarrow> string \<Rightarrow> pod_status run" where
  "GetPodStatus ns name = ret zero_status"

definition GetPods :: "env \<Rightarrow> nat list run" where
  "GetPods env = bindR (getR n_known) (\<lambda>known.
     bindR (range_map env known) (\<lambda>entries. ret (map (\<lambda>(k, rp). rp_kube rp) entries)))"

end
