(* ===== verification/Pods_Props.thy ===== *)
theory Pods_Props
  imports Pod_Provider Podman_Props
begin

text \<open>The properties of the pod controller, each with its witness.\<close>

subsection \<open>Starting up\<close>

definition listed_node :: "node \<Rightarrow> node" where
  "listed_node n = n\<lparr>n_trace := n_trace n @ [File OpenDir, File ReadDir]\<rparr>"

text \<open>Podman has a pod of ours under that name; a spec of it is stored.\<close>

definition has_pod :: "ListPodsReport option list \<Rightarrow> pod_coord \<Rightarrow> bool" where
  "has_pod reports c \<longleftrightarrow> proper_coord c \<and> (\<exists>fp. Some fp \<in> set reports \<and> is_ours fp \<and> lp_Name fp = Key c)"

definition has_spec :: "node \<Rightarrow> pod_coord \<Rightarrow> bool" where
  "has_spec n c \<longleftrightarrow> c \<in> set (coords_of (map fst (n_files n)))"

lemma found_has_pod:
  assumes "foldM note_found reports [] = Some found"
  shows "c \<in> dom (map_of found) \<longleftrightarrow> has_pod reports c"
proof
  assume "c \<in> dom (map_of found)"
  then obtain fp where fp: "map_of found c = Some fp" by auto
  then have "Some fp \<in> set reports"
    using found_pods_from [OF assms] by (simp add: found_from_def)
  moreover have "is_ours fp \<and> proper_coord c \<and> lp_Name fp = Key c"
    using found_pods_wf [OF assms] fp by (simp add: found_wf_def)
  ultimately show "has_pod reports c" by (auto simp: has_pod_def)
next
  assume "has_pod reports c"
  then obtain fp where "Some fp \<in> set reports" "is_ours fp" "proper_coord c" "lp_Name fp = Key c"
    by (auto simp: has_pod_def)
  from found_pods_complete [OF assms this] show "c \<in> dom (map_of found)" by (simp add: dom_map_of_conv_image_fst)
qed

lemma store_keeps: "keeps (\<lambda>s t. store_of s = store_of t) (errR (PodPs env))"
  unfolding PodPs_def by (intro errR_keeps request_store)

text \<open>The stages of a start that succeeds.\<close>

lemma NewPodManager_stages:
  assumes "files_ok env" "errR (PodPs env) (listed_node n) = (Ok reports, n1)"
    and "NewPodManager env n = (Ok (), n')" "files_wf (n_files n)"
  obtains cs found dangling known n2 reqs where
    "set cs = set (coords_of (map fst (n_files n)))"
    "distinct cs" "list_all proper_coord cs"
    "foldM note_found reports [] = Some found"
    "foldR (correlate env) cs (found, []) n1 = (Ok (dangling, known), n2)"
    "map Some reqs = map (\<lambda>(c, fp). rm_request (lp_Id fp) True) (visit env (n_trace n2) dangling)"
    "n' = n2\<lparr>n_trace := n_trace n2 @ map Http reqs, n_known := known\<rparr>"
proof -
  define cs where "cs = coords_of (visit env (n_trace n @ [File OpenDir, File ReadDir]) (map fst (n_files n)))"
  have set_cs: "set cs = set (coords_of (map fst (n_files n)))"
    by (auto simp: cs_def coords_of_iff)
  have dist: "distinct cs"
    unfolding cs_def using assms(4) by (intro coords_of_distinct) (simp add: files_wf_def)
  have props: "list_all proper_coord cs" by (auto simp: cs_def list_all_iff coords_of_iff)
  have "NewPodManager env n = bindR (derefR (foldM note_found reports [])) (\<lambda>foundPodMap.
     bindR (foldR (correlate env) cs (foundPodMap, [])) (\<lambda>(dangling, knownPods).
     bindR (range_map env dangling) (\<lambda>entries.
     thenR (forR (remove_dangling env) entries)
       (modifyR (\<lambda>n. n\<lparr>n_known := knownPods\<rparr>))))) n1"
    unfolding NewPodManager_def using ListAllPods_ok [OF assms(1), of n] assms(2)
    by (simp add: cs_def listed_node_def)
  then have run: "bindR (derefR (foldM note_found reports [])) (\<lambda>foundPodMap.
     bindR (foldR (correlate env) cs (foundPodMap, [])) (\<lambda>(dangling, knownPods).
     bindR (range_map env dangling) (\<lambda>entries.
     thenR (forR (remove_dangling env) entries)
       (modifyR (\<lambda>n. n\<lparr>n_known := knownPods\<rparr>))))) n1 = (Ok (), n')" using assms(3) by simp
  obtain found where found: "foldM note_found reports [] = Some found"
    using run by (cases "foldM note_found reports []") simp_all
  obtain dangling known n2 where corr: "foldR (correlate env) cs (found, []) n1 = (Ok (dangling, known), n2)"
    and rest: "bindR (range_map env dangling) (\<lambda>entries.
     thenR (forR (remove_dangling env) entries) (modifyR (\<lambda>n. n\<lparr>n_known := known\<rparr>))) n2 = (Ok (), n')"
    using run unfolding found by (auto elim!: bindR_OkE)
  obtain n3 where rm: "forR (remove_dangling env) (visit env (n_trace n2) dangling) n2 = (Ok (), n3)"
    and last: "n' = n3\<lparr>n_known := known\<rparr>"
    using rest by (auto elim!: thenR_OkE)
  from remove_dangling_all [OF rm] obtain reqs where
    "map Some reqs = map (\<lambda>(c, fp). rm_request (lp_Id fp) True) (visit env (n_trace n2) dangling)"
    "n3 = n2\<lparr>n_trace := n_trace n2 @ map Http reqs\<rparr>" by blast
  then show thesis using that [OF set_cs dist props found corr] last by simp
qed

text \<open>What the start leaves on disk, which entries of podman's list are ours, and which are removed.\<close>

lemma kept_specs:
  assumes "files_wf (n_files n)" "list_all proper_coord cs"
    and "n_files m = fold (\<lambda>c. AList.delete (FileName c)) (filter P cs) (n_files n)"
    and "\<And>c. has_spec n c \<longleftrightarrow> c \<in> set cs"
  shows "has_spec m c \<longleftrightarrow> has_spec n c \<and> \<not> P c"
proof -
  have "list_all proper_coord (filter P cs)" using assms(2) by (auto simp: list_all_iff)
  note gone = spec_files.fetch_forget_all [OF this]
  have "has_spec m c \<longleftrightarrow> proper_coord c \<and> map_of (n_files m) (FileName c) \<noteq> None"
    using spec_files.listing_iff [OF spec_files.wf_forget_all [OF assms(1)]] assms(3) by (simp add: has_spec_def)
  also have "\<dots> \<longleftrightarrow> proper_coord c \<and> map_of (n_files n) (FileName c) \<noteq> None \<and> c \<notin> set (filter P cs)"
    unfolding assms(3) using gone [of c "n_files n"] by (cases "proper_coord c") simp_all
  also have "\<dots> \<longleftrightarrow> has_spec n c \<and> \<not> P c"
    using spec_files.listing_iff [OF assms(1), of c] assms(4) by (auto simp: has_spec_def)
  finally show ?thesis .
qed

lemma found_origin:
  assumes "foldM note_found reports [] = Some found" "map_of found c = Some fp"
  shows "Some fp \<in> set reports \<and> is_ours fp \<and> lp_Name fp = Key c"
  using found_pods_from [OF assms(1)] found_pods_wf [OF assms(1)] assms(2)
  by (simp add: found_from_def found_wf_def)

lemma dangling_pods:
  assumes "found_wf dangling" "map_of dangling = (map_of found) |` (- S)"
    and "foldM note_found reports [] = Some found"
  shows "distinct (map fst (visit env tr dangling))"
    "fst ` set (visit env tr dangling) = {c. has_pod reports c \<and> c \<notin> S}"
    "\<forall>(c, fp) \<in> set (visit env tr dangling). Some fp \<in> set reports \<and> is_ours fp \<and> lp_Name fp = Key c"
proof -
  have "mset (map fst (visit env tr dangling)) = mset (map fst dangling)" by simp
  then show "distinct (map fst (visit env tr dangling))"
    using assms(1) mset_eq_imp_distinct_iff found_wf_def by blast
  have "fst ` set (visit env tr dangling) = dom (map_of dangling)" by (simp add: dom_map_of_conv_image_fst)
  also have "\<dots> = {c. c \<in> dom (map_of found) \<and> c \<notin> S}" unfolding assms(2) by auto
  finally show "fst ` set (visit env tr dangling) = {c. has_pod reports c \<and> c \<notin> S}"
    by (simp only: found_has_pod [OF assms(3)])
  have "map_of found c = Some fp" if "(c, fp) \<in> set dangling" for c fp
  proof -
    have "map_of dangling c = Some fp" using that assms(1) by (simp add: found_wf_def)
    then show ?thesis using assms(2) by (auto simp: restrict_map_def split: if_splits)
  qed
  then show "\<forall>(c, fp) \<in> set (visit env tr dangling). Some fp \<in> set reports \<and> is_ours fp \<and> lp_Name fp = Key c"
    using found_origin [OF assms(3)] by auto
qed

text \<open>C6 (refinement): the start reconciles the three views of the world. If it succeeds, exactly the
  pods with both a stored spec and a podman pod of ours are known, each under its key with podman's
  ID and the spec that was stored; exactly their specs stay on disk; and the only requests after the
  listing are forced deletions, one for each of our podman pods without a stored spec. Pods of
  others are never touched.\<close>

theorem NewPodManager_reconciles:
  assumes "files_ok env" "files_wf (n_files n)"
    and "errR (PodPs env) (listed_node n) = (Ok reports, n1)"
    and "NewPodManager env n = (Ok (), n')"
  shows "{c. has_spec n' c} = {c. has_spec n c \<and> has_pod reports c}
    \<and> dom (map_of (n_known n')) = Key ` {c. has_spec n c \<and> has_pod reports c}
    \<and> (\<forall>c. has_spec n c \<and> has_pod reports c \<longrightarrow>
         (\<exists>rp fp. map_of (n_known n') (Key c) = Some rp \<and> Some fp \<in> set reports
            \<and> is_ours fp \<and> lp_Name fp = Key c \<and> rp_coord rp = c \<and> rp_pod_id rp = lp_Id fp
            \<and> stored env (n_files n) c = Some (n_heap n' (rp_kube rp))))
    \<and> (\<exists>es dangling reqs. n_trace n' = n_trace n1 @ es @ map Http reqs \<and> list_all is_file es
         \<and> map Some reqs = map (\<lambda>(c, fp). rm_request (lp_Id fp) True) dangling
         \<and> distinct (map fst dangling)
         \<and> fst ` set dangling = {c. has_pod reports c \<and> \<not> has_spec n c}
         \<and> (\<forall>(c, fp) \<in> set dangling. Some fp \<in> set reports \<and> is_ours fp \<and> lp_Name fp = Key c))"
proof -
  obtain cs found dangling known n2 reqs where
    cs: "set cs = set (coords_of (map fst (n_files n)))" "distinct cs" "list_all proper_coord cs"
    and found: "foldM note_found reports [] = Some found"
    and corr: "foldR (correlate env) cs (found, []) n1 = (Ok (dangling, known), n2)"
    and reqs: "map Some reqs = map (\<lambda>(c, fp). rm_request (lp_Id fp) True) (visit env (n_trace n2) dangling)"
    and n': "n' = n2\<lparr>n_trace := n_trace n2 @ map Http reqs, n_known := known\<rparr>"
    by (rule NewPodManager_stages [OF assms(1,3,4,2)])
  have spec: "has_spec n c \<longleftrightarrow> c \<in> set cs" for c by (simp add: has_spec_def cs(1))
  have pod: "has_pod reports c \<longleftrightarrow> map_of found c \<noteq> None" for c
    using found_has_pod [OF found, of c] by auto
  have both: "{c. has_spec n c \<and> has_pod reports c} = {c \<in> set cs. map_of found c \<noteq> None}"
    unfolding spec pod ..
  have files1: "n_files n1 = n_files n"
    using keepsD [OF store_keeps assms(3)] by (simp add: store_of_def listed_node_def)
  note all = correlate_all [OF assms(1) corr found_pods_wf [OF found] cs(2,3)]
  have dang: "map_of dangling = (map_of found) |` (- set cs)" and wf: "found_wf dangling"
    and files2: "n_files n2 = fold (\<lambda>c. AList.delete (FileName c)) (filter (\<lambda>c. map_of found c = None) cs) (n_files n1)"
    and dom2: "dom (map_of known) = Key ` {c \<in> set cs. map_of found c \<noteq> None}"
    and entries: "\<And>c fp. c \<in> set cs \<Longrightarrow> map_of found c = Some fp \<Longrightarrow>
         \<exists>rp. map_of known (Key c) = Some rp \<and> known_entry env (n_files n1) n2 c fp rp"
    and sends: "sends is_file n1 n2"
    using all by auto
  have "has_spec n' c \<longleftrightarrow> has_spec n c \<and> has_pod reports c" for c
    using kept_specs [OF assms(2) cs(3) _ spec, of n' "\<lambda>c. map_of found c = None" c] files1 files2
    by (simp add: n' pod)
  moreover have "dom (map_of (n_known n')) = Key ` {c. has_spec n c \<and> has_pod reports c}"
    using dom2 by (simp add: n' both)
  moreover have "\<exists>rp fp. map_of (n_known n') (Key c) = Some rp \<and> Some fp \<in> set reports
      \<and> is_ours fp \<and> lp_Name fp = Key c \<and> rp_coord rp = c \<and> rp_pod_id rp = lp_Id fp
      \<and> stored env (n_files n) c = Some (n_heap n' (rp_kube rp))"
    if "has_spec n c \<and> has_pod reports c" for c
  proof -
    from that obtain fp where fp: "map_of found c = Some fp" using pod by auto
    from entries [OF _ fp] that obtain rp where
      "map_of known (Key c) = Some rp" "known_entry env (n_files n1) n2 c fp rp" by (auto simp: spec)
    then show ?thesis using found_origin [OF found fp]
      by (intro exI [of _ rp] exI [of _ fp]) (simp add: n' known_entry_def files1)
  qed
  moreover have "\<exists>es dangling reqs. n_trace n' = n_trace n1 @ es @ map Http reqs \<and> list_all is_file es
         \<and> map Some reqs = map (\<lambda>(c, fp). rm_request (lp_Id fp) True) dangling
         \<and> distinct (map fst dangling)
         \<and> fst ` set dangling = {c. has_pod reports c \<and> \<not> has_spec n c}
         \<and> (\<forall>(c, fp) \<in> set dangling. Some fp \<in> set reports \<and> is_ours fp \<and> lp_Name fp = Key c)"
  proof -
    obtain es where es: "n_trace n2 = n_trace n1 @ es" "list_all is_file es"
      using sends by (auto simp: sends_def)
    show ?thesis
      using es reqs dangling_pods [OF wf dang found, of env "n_trace n2"] spec
      by (intro exI [of _ es] exI [of _ "visit env (n_trace n2) dangling"] exI [of _ reqs]) (simp add: n')
  qed
  ultimately show ?thesis by blast
qed

definition ex_report :: "string \<Rightarrow> string \<Rightarrow> json" where
  "ex_report i name = JObj [(''Id'', JStr i), (''Name'', JStr name),
     (''Labels'', JObj [(''heritage'', JStr ''kube-pet-node'')])]"

definition ex_start_env :: env where
  "ex_start_env = ex_env
     (\<lambda>tr rq. Inr \<lparr>rs_code = 200, rs_status = ''OK'', rs_body = rq_method rq\<rparr>)
     (\<lambda>b. Inr (if b = ''GET'' then JArr [ex_report ''p1'' ''default_web'', ex_report ''p2'' ''default_old'']
               else JObj []))"

definition ex_start_node :: node where
  "ex_start_node = ex_node\<lparr>n_files := [(''default_web.json'', ''web''), (''default_gone.json'', ''gone'')]\<rparr>"

definition ex_found :: "ListPodsReport option list" where
  "ex_found = map (\<lambda>(i, nm). Some (zero_ListPodsReport\<lparr>lp_Id := i, lp_Name := nm,
     lp_Labels := [(''heritage'', ''kube-pet-node'')]\<rparr>)) [(''p1'', ''default_web''), (''p2'', ''default_old'')]"

lemma ex_start_runs:
  "fst (errR (PodPs ex_start_env) (listed_node ex_start_node)) = Ok ex_found"
  "fst (NewPodManager ex_start_env ex_start_node) = Ok ()"
  by code_simp+

theorem NewPodManager_reconciles_witness:
  "\<exists>rp. map_of (n_known (snd (NewPodManager ex_start_env ex_start_node))) ''default_web'' = Some rp
     \<and> rp_pod_id rp = ''p1''"
proof -
  let ?c = "\<lparr>co_ns = ''default'', co_name = ''web''\<rparr>"
  obtain n1 where l: "errR (PodPs ex_start_env) (listed_node ex_start_node) = (Ok ex_found, n1)"
    using ex_start_runs(1) by (metis prod.collapse)
  obtain n' where r: "NewPodManager ex_start_env ex_start_node = (Ok (), n')"
    using ex_start_runs(2) by (metis prod.collapse)
  have key: "Key ?c = ''default_web''" by code_simp
  have "files_ok ex_start_env" by (simp add: files_ok_def ex_start_env_def ex_env_def)
  moreover have "files_wf (n_files ex_start_node)" by (simp add: files_wf_def ex_start_node_def)
  moreover have "has_spec ex_start_node ?c" unfolding has_spec_def by code_simp
  moreover have "has_pod ex_found ?c"
    unfolding has_pod_def
    by (auto simp: key proper_coord_def underscore_def ex_found_def is_ours_def heritage_value_def)
  ultimately obtain rp fp where "map_of (n_known n') (Key ?c) = Some rp" "Some fp \<in> set ex_found"
    "lp_Name fp = Key ?c" "rp_pod_id rp = lp_Id fp"
    using NewPodManager_reconciles [OF _ _ l r] by blast
  then show ?thesis using r by (auto simp: key ex_found_def)
qed

subsection \<open>Names and files\<close>

text \<open>A key parses back to its coordinate exactly when both parts are present and
  without underscore, as Kubernetes names are; nothing but such keys parses. The file name of a
  coordinate, listed from a directory, gives back that coordinate.\<close>

theorem ParsePodKey_inverse:
  "(ParsePodKey k = (c, True) \<longleftrightarrow> proper_coord c \<and> k = Key c)
   \<and> (proper_coord c \<longrightarrow> coords_of [FileName c] = [c])"
  by (simp add: ParsePodKey_ok_iff coords_of_def)

theorem ParsePodKey_inverse_witness:
  "coords_of [''kube-system_dns.json''] = [\<lparr>co_ns = ''kube-system'', co_name = ''dns''\<rparr>]"
proof -
  let ?c = "\<lparr>co_ns = ''kube-system'', co_name = ''dns''\<rparr>"
  have "proper_coord ?c" "FileName ?c = ''kube-system_dns.json''" by code_simp+
  then show ?thesis using ParsePodKey_inverse [of "[]" ?c] by simp
qed

text \<open>C24 (refinement): the directory of specs is a table from coordinates to pods. As long as the disk
  does not fail, storing a pod makes it the entry of its coordinate, reading gives the entry,
  removing drops it (whether it was there or not), no other entry changes, and the listing is
  exactly the set of coordinates with a file.\<close>

theorem storage_refines_map:
  assumes "files_ok env" "codec_ok env pod" "proper_coord (coord_of_pod pod)" "proper_coord d"
  shows "(\<exists>n'. StorePod env pod n = (Ok (coord_of_pod pod), n')
          \<and> stored env (n_files n') d = (if d = coord_of_pod pod then Some pod else stored env (n_files n) d))
    \<and> (\<forall>p. stored env (n_files n) d = Some p \<longrightarrow> fst (ReadPod env d n) = Ok p)
    \<and> (stored env (n_files n) d = None \<longrightarrow> (\<exists>e. fst (ReadPod env d n) = Err e))
    \<and> (\<exists>n'. RemovePod env (coord_of_pod pod) n = (Ok (), n')
          \<and> stored env (n_files n') d = (if d = coord_of_pod pod then None else stored env (n_files n) d))
    \<and> (\<exists>cs n'. ListAllPods env n = (Ok cs, n')
          \<and> set cs = {c. proper_coord c \<and> map_of (n_files n) (FileName c) \<noteq> None})"
proof (intro conjI allI impI)
  obtain content where content: "env_encode_pod env pod = Inr content"
    using assms(2) by (auto simp: codec_ok_def)
  show "\<exists>n'. StorePod env pod n = (Ok (coord_of_pod pod), n')
      \<and> stored env (n_files n') d = (if d = coord_of_pod pod then Some pod else stored env (n_files n) d)"
    using StorePod_ok [OF assms(1) content] stored_store [OF assms(2) content assms(3,4)]
    by simp
  show "fst (ReadPod env d n) = Ok p" if "stored env (n_files n) d = Some p" for p
    by (simp add: ReadPod_ok [OF assms(1)] that)
  show "\<exists>e. fst (ReadPod env d n) = Err e" if "stored env (n_files n) d = None"
    by (simp add: ReadPod_ok [OF assms(1)] that)
  show "\<exists>n'. RemovePod env (coord_of_pod pod) n = (Ok (), n')
      \<and> stored env (n_files n') d = (if d = coord_of_pod pod then None else stored env (n_files n) d)"
    using RemovePod_ok [OF assms(1)] stored_forget [OF assms(3,4)] by simp
  show "\<exists>cs n'. ListAllPods env n = (Ok cs, n')
      \<and> set cs = {c. proper_coord c \<and> map_of (n_files n) (FileName c) \<noteq> None}"
    by (intro exI conjI, rule ListAllPods_ok [OF assms(1)])
       (simp add: set_eq_iff coords_of_iff map_of_eq_None_iff)
qed

definition ex_store_env :: env where
  "ex_store_env = ex_env ex_missing ex_missing_body"

theorem storage_refines_map_witness:
  "\<exists>n'. StorePod ex_store_env ex_pod ex_node = (Ok (coord_of_pod ex_pod), n')
     \<and> stored ex_store_env (n_files n') (coord_of_pod ex_pod) = Some ex_pod"
proof -
  have "files_ok ex_store_env" "codec_ok ex_store_env ex_pod"
    by (simp_all add: files_ok_def codec_ok_def ex_store_env_def ex_env_def)
  moreover have "proper_coord (coord_of_pod ex_pod)" by code_simp
  ultimately show ?thesis
    using storage_refines_map [of ex_store_env ex_pod "coord_of_pod ex_pod" ex_node] by auto
qed

subsection \<open>Numbers\<close>

text \<open>C38 (bounds): CPU shares are never below 2 and quotas never below 1 ms (0 only for no limit), even
  when the product wraps; below the wrap they are the exact rounded-down ratios. An OOM score is
  -998, 1000 or between 2 and 999.\<close>

theorem resource_bounds:
  "2 \<le> milliCPUToShares m \<and> (m \<noteq> 0 \<longrightarrow> 1000 \<le> milliCPUToQuota m CpuPeriod) \<and> milliCPUToQuota 0 CpuPeriod = 0
   \<and> (0 \<le> m \<longrightarrow> m * 1024 < 2 ^ 63 \<longrightarrow> milliCPUToShares m = max 2 (m * 1024 div 1000))
   \<and> (0 < m \<longrightarrow> m * 100000 < 2 ^ 63 \<longrightarrow> milliCPUToQuota m CpuPeriod = max 1000 (m * 100))
   \<and> milliCPUToShares (2 ^ 53) = 2
   \<and> (GetContainerOOMScoreAdjust pod con cap = Some s \<longrightarrow> 0 < cap \<longrightarrow> 0 \<le> q_value (con_mem_request con) \<longrightarrow>
        1000 * q_value (con_mem_request con) < 2 ^ 63 \<longrightarrow> s = -998 \<or> s = 1000 \<or> (2 \<le> s \<and> s \<le> 999))"
proof (intro conjI impI)
  show "2 \<le> milliCPUToShares m" by (simp add: milliCPUToShares_def minShares_def Let_def)
  show "1000 \<le> milliCPUToQuota m CpuPeriod" if "m \<noteq> 0"
    using that by (simp add: milliCPUToQuota_def minCpuPeriod_def Let_def)
  show "milliCPUToQuota 0 CpuPeriod = 0" by (simp add: milliCPUToQuota_def)
  show "milliCPUToShares m = max 2 (m * 1024 div 1000)" if "0 \<le> m" "m * 1024 < 2 ^ 63"
    by (rule milliCPUToShares_eq [OF that])
  show "milliCPUToQuota m CpuPeriod = max 1000 (m * 100)" if "0 < m" "m * 100000 < 2 ^ 63"
  proof -
    have "m * 100000 div 1000 = m * 100" by simp
    then show ?thesis using milliCPUToQuota_eq [of m 100000] that by (simp add: CpuPeriod_def)
  qed
  show "milliCPUToShares (2 ^ 53) = 2" by code_simp
  show "s = -998 \<or> s = 1000 \<or> (2 \<le> s \<and> s \<le> 999)"
    if score: "GetContainerOOMScoreAdjust pod con cap = Some s"
      and pre: "0 < cap" "0 \<le> q_value (con_mem_request con)" "1000 * q_value (con_mem_request con) < 2 ^ 63"
  proof -
    obtain pr where pr: "sp_priority (kp_spec pod) = Some pr"
      using score by (auto simp: GetContainerOOMScoreAdjust_def split: option.splits)
    consider "2000000000 \<le> pr" | "ps_qos_class (kp_status pod) \<in> {''Guaranteed'', ''BestEffort''}"
      | "pr < 2000000000" "ps_qos_class (kp_status pod) \<notin> {''Guaranteed'', ''BestEffort''}" by fastforce
    then show ?thesis
    proof cases
      case 3
      show ?thesis using burstable_score [OF pr 3 pre] score by auto
    qed (use score pr in \<open>auto simp: GetContainerOOMScoreAdjust_def guaranteedOOMScoreAdj_def
          besteffortOOMScoreAdj_def split: if_splits\<close>)
  qed
qed

theorem resource_bounds_witness: "milliCPUToShares 1500 = 1536 \<and> milliCPUToQuota 1500 CpuPeriod = 150000"
  using resource_bounds [of 1500 ex_pod ex_container 8000000000 999] by simp

subsection \<open>Creating pods\<close>

text \<open>The status that the API server sent, its QoS class included, has no influence on
  the creation of a pod, because the handler overwrites it first. So every container gets the
  burstable OOM score (unless the pod is critical): 1000 minus its share of the memory in
  thousandths, between 2 and 999; the classes \<^verbatim>\<open>Guaranteed\<close> and \<^verbatim>\<open>BestEffort\<close> never count.\<close>

theorem CreatePod_ignores_status:
  assumes "\<not> is_static (n_heap n p)"
  shows "CreatePod env cniNet p (n\<lparr>n_heap := (n_heap n)(p := (n_heap n p)\<lparr>kp_status := s\<rparr>)\<rparr>)
       = CreatePod env cniNet p n
    \<and> (sp_priority (kp_spec (n_heap n p)) = Some pr \<longrightarrow> pr < 2000000000 \<longrightarrow> 0 < cap \<longrightarrow>
       0 \<le> q_value (con_mem_request con) \<longrightarrow> 1000 * q_value (con_mem_request con) < 2 ^ 63 \<longrightarrow>
       GetContainerOOMScoreAdjust (on_status (\<lambda>_. creating_status t) (n_heap n p)) con cap
         = Some (min 999 (max 2 (1000 - 1000 * q_value (con_mem_request con) div cap))))"
proof (intro conjI impI)
  have "is_static ((n_heap n p)\<lparr>kp_status := s\<rparr>) = is_static (n_heap n p)"
    by (simp add: is_static_def annotation_def)
  with assms show "CreatePod env cniNet p (n\<lparr>n_heap := (n_heap n)(p := (n_heap n p)\<lparr>kp_status := s\<rparr>)\<rparr>)
       = CreatePod env cniNet p n"
    unfolding CreatePod_def by (simp add: on_status_def)
  show "GetContainerOOMScoreAdjust (on_status (\<lambda>_. creating_status t) (n_heap n p)) con cap
         = Some (min 999 (max 2 (1000 - 1000 * q_value (con_mem_request con) div cap)))"
    if "sp_priority (kp_spec (n_heap n p)) = Some pr" "pr < 2000000000" "0 < cap"
      "0 \<le> q_value (con_mem_request con)" "1000 * q_value (con_mem_request con) < 2 ^ 63"
    using that by (intro burstable_score)
      (simp_all add: on_status_def creating_status_def zero_status_def)
qed

theorem CreatePod_ignores_status_witness:
  "GetContainerOOMScoreAdjust (on_status (\<lambda>_. creating_status 7) ex_pod) ex_container 8000000000 = Some 999"
proof -
  have "\<not> is_static (n_heap ex_node 0)" by code_simp
  moreover have "n_heap ex_node 0 = ex_pod" by (simp add: ex_node_def)
  ultimately show ?thesis
    using CreatePod_ignores_status [of ex_node 0 ex_store_env "''net''" zero_status 0 8000000000 ex_container 7]
    by (simp add: ex_pod_def ex_container_def zero_quantity_def)
qed

text \<open>Static pods, which the API server mirrors back, are left alone: creating or
  deleting one changes nothing and sends nothing, and an update never does anything.\<close>

theorem static_pods_ignored:
  "(is_static (n_heap n p) \<longrightarrow> CreatePod env cniNet p n = (Ok (), n) \<and> DeletePod env p n = (Ok (), n))
   \<and> UpdatePod env p n = (Ok (), n)"
  by (simp add: CreatePod_def DeletePod_def UpdatePod_def)

definition ex_static_node :: node where
  "ex_static_node = ex_node\<lparr>n_heap := (\<lambda>_. ex_pod\<lparr>kp_meta := (kp_meta ex_pod)\<lparr>pm_annotations :=
     [(''kubernetes.io/config.source'', ''file'')]\<rparr>\<rparr>)\<rparr>"

theorem static_pods_ignored_witness: "DeletePod ex_store_env 0 ex_static_node = (Ok (), ex_static_node)"
proof -
  have "is_static (n_heap ex_static_node 0)" by code_simp
  then show ?thesis using static_pods_ignored [of ex_static_node 0 ex_store_env "''net''"] by blast
qed

subsection \<open>Pulling images\<close>

lemma PullImage_first:
  assumes "Pull env ref None (n\<lparr>n_trace := n_trace n @ [Recorded ''Normal'' ''Pulling''
      (''Pulling image '' @ [CHR 0x22] @ ref @ [CHR 0x22])]\<rparr>) = (r, n1)"
  shows "PullImage env ref secrets n = (case r of
      Ok events \<Rightarrow> (case snd (processPullStream events) of
          None \<Rightarrow> pulled ''public'' ref n1
        | Some e \<Rightarrow> if \<not> is_unauthorized e then (Err (PlainErr e), n1) else try_secrets env ref None secrets n1)
    | Err e \<Rightarrow> if \<not> is_unauthorized (errText e) then (Err e, n1) else try_secrets env ref (Some e) secrets n1
    | Panic \<Rightarrow> (Panic, n1))"
  using assms unfolding PullImage_def
  by (auto simp: thenR_def bindR_def tryR_def emit_def modifyR_def split: res.split option.split)

text \<open>C33 (error): when the image stream itself reports that the pull was unauthorized and the pod has no
  pull secrets, the pull returns no error although nothing was pulled: no \<^verbatim>\<open>Pulled\<close> event is
  recorded. A transport error of the same kind is returned. With no error in the stream the pull
  succeeds with its event.\<close>

theorem PullImage_without_secrets:
  assumes "Pull env ref None (n\<lparr>n_trace := n_trace n @ [Recorded ''Normal'' ''Pulling''
      (''Pulling image '' @ [CHR 0x22] @ ref @ [CHR 0x22])]\<rparr>) = (r, n1)"
  shows "(\<forall>events e. r = Ok events \<longrightarrow> snd (processPullStream events) = Some e \<longrightarrow>
           PullImage env ref [] n = (if is_unauthorized e then Ok () else Err (PlainErr e), n1))
    \<and> (\<forall>e. r = Err e \<longrightarrow> PullImage env ref [] n = (Err e, n1))
    \<and> (\<forall>events. r = Ok events \<longrightarrow> snd (processPullStream events) = None \<longrightarrow>
           PullImage env ref [] n = (Ok (), n1\<lparr>n_trace := n_trace n1 @ [Recorded ''Normal'' ''Pulled''
             (''Successfully pulled public image '' @ [CHR 0x22] @ ref @ [CHR 0x22])]\<rparr>))"
  unfolding PullImage_first [OF assms] by (auto simp: pulled_def)

definition ex_denied_env :: env where
  "ex_denied_env = ex_env
     (\<lambda>tr rq. Inr \<lparr>rs_code = 200, rs_status = ''200 OK'', rs_body = ''denied''\<rparr>)
     (\<lambda>b. Inr (JObj [(''error'', JStr ''unauthorized: access denied'')]))"

lemma ex_denied_stream:
  "\<exists>n1. Pull ex_denied_env ''reg/img'' None n
     = (Ok [zero_ImagePullReport\<lparr>ipr_Error := ''unauthorized: access denied''\<rparr>], n1)"
proof -
  have enc: "UrlEncoded ''reg/img'' = Some ''reg/img''" by code_simp
  obtain req where req: "new_request ''POST'' (''/libpod/images/pull?reference='' @ ''reg/img'')
      (pull_headers None) None = Some req"
    by (cases "new_request ''POST'' (''/libpod/images/pull?reference='' @ ''reg/img'')
      (pull_headers None) None") (simp add: new_request_def, code_simp)
  have "scan_lines ''denied'' = [''denied'']"
  proof -
    have "split_on (CHR 0x0A) ''denied'' = [''denied'']" "trim_suffix ''denied'' [CHR 0x0D] = ''denied''"
      by code_simp+
    then show ?thesis by (simp add: scan_lines_def Let_def)
  qed
  moreover have "pull_events ex_denied_env [''denied'']
      = Some [zero_ImagePullReport\<lparr>ipr_Error := ''unauthorized: access denied''\<rparr>]" by code_simp
  ultimately have stream: "pull_events ex_denied_env (scan_lines ''denied'')
      = Some [zero_ImagePullReport\<lparr>ipr_Error := ''unauthorized: access denied''\<rparr>]" by simp
  show ?thesis
    unfolding Pull_def enc option.case req
    using stream by (simp add: performRequest_def ex_denied_env_def ex_env_def happy_status_def)
qed

theorem PullImage_without_secrets_witness:
  "fst (PullImage ex_denied_env ''reg/img'' [] ex_node) = Ok ()"
proof -
  obtain n1 where run: "Pull ex_denied_env ''reg/img'' None (ex_node\<lparr>n_trace := n_trace ex_node
      @ [Recorded ''Normal'' ''Pulling'' (''Pulling image '' @ [CHR 0x22] @ ''reg/img'' @ [CHR 0x22])]\<rparr>)
    = (Ok [zero_ImagePullReport\<lparr>ipr_Error := ''unauthorized: access denied''\<rparr>], n1)"
    using ex_denied_stream by blast
  have "snd (processPullStream [zero_ImagePullReport\<lparr>ipr_Error := ''unauthorized: access denied''\<rparr>])
      = Some ''unauthorized: access denied''" by code_simp
  moreover have "is_unauthorized ''unauthorized: access denied''" by code_simp
  ultimately show ?thesis using PullImage_without_secrets [OF run] by auto
qed

subsection \<open>Retrying the creation of a container\<close>

lemma failed_creation_empty:
  assumes "new_request ''POST'' ''/libpod/containers/create'' send_json (Some (SpecGenerator_json spec)) = Some req"
    and "performRequest env req n = (Err e, n1)"
  shows "ContainerCreate env spec n = (Ok (\<lparr>ccr_Id = [], ccr_Warnings = []\<rparr>, Some e), n1)"
  using assms by (simp add: ContainerCreate_def performPost_def performJsonRequest_def bindR_def)

lemma container_create_request:
  "new_request ''POST'' ''/libpod/containers/create'' send_json body \<noteq> None"
  using new_request_plain [of "''/libpod/containers/create''"] by (simp add: is_plain_def path_safe_def)

text \<open>C32 (safety): when podman lacks the image of a container with pull policy \<^verbatim>\<open>IfNotPresent\<close> and the
  pull then succeeds, the creation is retried without its pod: the ID that the retry uses is that of
  the failed attempt's report, which is empty, so that the second request names no pod at all.\<close>

theorem retry_loses_pod:
  assumes "con_pull_policy con = ''IfNotPresent''"
    and "ConvertContainerConfig (env_memory env) pod con podId = Some spec"
    and "new_request ''POST'' ''/libpod/containers/create'' send_json (Some (SpecGenerator_json spec)) = Some req"
    and "performRequest env req n = (Err e, n1)" "has_suffix (errText e) ''no such image''"
    and "PullImage env (con_image con) secrets n1 = (Ok (), n2)"
  shows "\<exists>spec'. ConvertContainerConfig (env_memory env) pod con [] = Some spec'
    \<and> map_of (SpecGenerator_fields spec') ''pod'' = None
    \<and> create_or_pull env pod secrets podId con n = errR (ContainerCreate env spec') n2"
proof -
  obtain oom sec where conv: "GetContainerOOMScoreAdjust pod con (wrap64 (env_memory env)) = Some oom"
    "convert_security pod con = Some sec"
    using assms(2) by (auto simp: ConvertContainerConfig_Some)
  define spec' where "spec' = container_request pod con [] oom
    (fold (convert_mount pod) (con_mounts con) ([], [])) sec"
  have conv': "ConvertContainerConfig (env_memory env) pod con [] = Some spec'"
    using conv by (auto simp: ConvertContainerConfig_Some spec'_def)
  moreover have "map_of (SpecGenerator_fields spec') ''pod'' = None"
    by (simp add: pod_field spec'_def container_request_def)
  moreover have "create_or_pull env pod secrets podId con n = errR (ContainerCreate env spec') n2"
    unfolding create_or_pull_def
    using assms(1,2,5,6) failed_creation_empty [OF assms(3,4)] conv' by simp
  ultimately show ?thesis by blast
qed

definition ex_no_image :: "effect list \<Rightarrow> http_request \<Rightarrow> string + http_response" where
  "ex_no_image tr rq = Inr (if rq_path rq = ''/v1.0.0/libpod/containers/create''
     then \<lparr>rs_code = 404, rs_status = ''404 Not Found'', rs_body = ''error''\<rparr>
     else \<lparr>rs_code = 200, rs_status = ''200 OK'', rs_body = []\<rparr>)"

definition ex_image_env :: env where
  "ex_image_env = ex_env ex_no_image (\<lambda>b. Inr (JObj [(''message'', JStr ''no such image'')]))"

lemma ex_image_pulled: "\<exists>n2. PullImage ex_image_env ''nginx'' [] n1 = (Ok (), n2)"
proof -
  have enc: "UrlEncoded ''nginx'' = Some ''nginx''" by code_simp
  have req: "(case new_request ''POST'' (''/libpod/images/pull?reference='' @ ''nginx'')
      (pull_headers None) None of None \<Rightarrow> False | Some rq \<Rightarrow> rq_path rq \<noteq> ''/v1.0.0/libpod/containers/create'')"
    by code_simp
  have "split_on (CHR 0x0A) [] = [[]]" by simp
  then have stream: "scan_lines [] = []" by (simp add: scan_lines_def Let_def)
  have "\<exists>n2. Pull ex_image_env ''nginx'' None m = (Ok [], n2)" for m
    unfolding Pull_def enc option.case
    using req stream by (auto simp: performRequest_def ex_image_env_def ex_env_def ex_no_image_def
        happy_status_def split: option.splits)
  then obtain n2 where "Pull ex_image_env ''nginx'' None (n1\<lparr>n_trace := n_trace n1 @ [Recorded ''Normal'' ''Pulling''
      (''Pulling image '' @ [CHR 0x22] @ ''nginx'' @ [CHR 0x22])]\<rparr>) = (Ok [], n2)" by blast
  moreover have "snd (processPullStream []) = None" by (simp add: processPullStream_def)
  ultimately show ?thesis by (simp add: PullImage_first pulled_def)
qed

theorem retry_loses_pod_witness:
  "\<exists>spec n2. map_of (SpecGenerator_fields spec) ''pod'' = None
     \<and> create_or_pull ex_image_env ex_pod [] ''p1'' ex_container ex_node = errR (ContainerCreate ex_image_env spec) n2"
proof -
  let ?spec = "container_request ex_pod ex_container ''p1'' 999
    (fold (convert_mount ex_pod) (con_mounts ex_container) ([], [])) zero_ContainerSecurityConfig"
  have policy: "con_pull_policy ex_container = ''IfNotPresent''" by (simp add: ex_container_def)
  have conv: "ConvertContainerConfig (env_memory ex_image_env) ex_pod ex_container ''p1'' = Some ?spec"
  proof -
    have "GetContainerOOMScoreAdjust ex_pod ex_container (wrap64 8000000000) = Some 999" by code_simp
    moreover have "convert_security ex_pod ex_container = Some zero_ContainerSecurityConfig"
      by (simp add: convert_security_def ex_container_def)
    ultimately show ?thesis by (simp add: ConvertContainerConfig_Some ex_image_env_def ex_env_def)
  qed
  have "is_plain ''/libpod/containers/create''" by code_simp
  note req = new_request_plain [OF this, where meth = "''POST''" and headers = send_json
      and body = "Some (SpecGenerator_json ?spec)"]
  let ?req = "\<lparr>rq_method = ''POST'', rq_url = \<lparr>u_path = api_prefix @ ''/libpod/containers/create'',
     u_raw_path = [], u_force_query = False, u_query = [], u_fragment = []\<rparr>, rq_headers = send_json,
     rq_body = Some (SpecGenerator_json ?spec)\<rparr>"
  have fails: "performRequest ex_image_env ?req ex_node
      = (Err (ApiErr ?req [] ''no such image'' 0), sent_on ?req)" if "sent_on = (\<lambda>r. ex_node\<lparr>n_trace := n_trace ex_node @ [Http r]\<rparr>)" for sent_on
    using that by (simp add: performRequest_def ex_image_env_def ex_env_def ex_no_image_def happy_status_def
        decode_into_def api_error_decoder_def dec_defs rq_path_def api_prefix_def)
  have sfx: "has_suffix (errText (ApiErr ?req [] ''no such image'' 0)) ''no such image''"
    unfolding errText_def go_error.case by (intro has_suffix_app has_suffix_refl)
  obtain n2 where pull: "PullImage ex_image_env (con_image ex_container) []
      (ex_node\<lparr>n_trace := n_trace ex_node @ [Http ?req]\<rparr>) = (Ok (), n2)"
    using ex_image_pulled by (auto simp: ex_container_def)
  from retry_loses_pod [OF policy conv req fails [OF refl] sfx pull] show ?thesis by blast
qed

subsection \<open>Deleting pods\<close>

definition forgotten :: "pod_coord \<Rightarrow> node \<Rightarrow> node" where
  "forgotten coord n = n\<lparr>n_trace := n_trace n @ [File (RemoveFile (FileName coord))],
     n_files := AList.delete (FileName coord) (n_files n),
     n_known := AList.delete (Key coord) (n_known n)\<rparr>"

lemma UnregisterPod_ok: "files_ok env \<Longrightarrow> UnregisterPod env coord n = (Ok (), forgotten coord n)"
  by (simp add: UnregisterPod_def RemovePod_ok forgotten_def)

text \<open>C11 (error): the outcomes of deleting a pod, by what podman answers to the stop. Not found: the spec
  and the table entry go and that is all; the volumes stay and nobody is notified. Any other error is
  returned with nothing changed. Success: the API server is told before anything is removed, then
  the spec and the entry go, then the pod, then its volumes. The notified pod is not ready but its
  containers are still in the states they had, not in a terminal state as promised.\<close>

theorem DeletePod_outcome:
  assumes "files_ok env" "\<not> is_static (n_heap n p)"
    and "PodStop env (Key (coord_of_pod (n_heap n p))) n = (Ok (msg, err), n1)"
  shows "(\<forall>rq c m. err = Some (ApiErr rq c m 404) \<longrightarrow>
            DeletePod env p n = (Ok (), forgotten (coord_of_pod (n_heap n p)) n1))
    \<and> (\<forall>e. err = Some e \<longrightarrow> (\<nexists>rq c m. e = ApiErr rq c m 404) \<longrightarrow> DeletePod env p n = (Err e, n1))
    \<and> (err = None \<longrightarrow>
        (let pod' = on_status deleted_status (n_heap n1 p);
             n2 = forgotten (coord_of_pod (n_heap n p))
                    (n1\<lparr>n_heap := (n_heap n1)(p := pod'), n_trace := n_trace n1 @ [Notified pod']\<rparr>)
         in DeletePod env p n = thenR (errR (PodRm env (Key (coord_of_pod (n_heap n p))) False))
                (CleanupVolumes env (kp_meta (n_heap n p))) n2
            \<and> ps_containers (kp_status pod') = ps_containers (kp_status (n_heap n1 p))))"
proof -
  have key: "pm_ns (kp_meta (n_heap n p)) @ ''_'' @ pm_name (kp_meta (n_heap n p)) = Key (coord_of_pod (n_heap n p))"
    by (simp add: Key_def underscore_def coord_of_pod_def)
  have "DeletePod env p n = (case err of
      Some e \<Rightarrow> (case e of ApiErr rq cause message status \<Rightarrow>
          if status = 404 then UnregisterPod env (coord_of_pod (n_heap n p)) else failR e | _ \<Rightarrow> failR e)
    | None \<Rightarrow> thenR (set_pod p (on_status deleted_status)) (thenR (notify p)
        (thenR (UnregisterPod env (coord_of_pod (n_heap n p)))
        (thenR (errR (PodRm env (Key (coord_of_pod (n_heap n p))) False))
          (CleanupVolumes env (kp_meta (n_heap n p))))))) n1"
    using assms(2,3) unfolding DeletePod_def Let_def by (simp only: key bindR_simps world_simps if_False prod.case)
  then show ?thesis
    by (cases err) (auto simp: UnregisterPod_ok [OF assms(1)] notify_def deleted_status_def on_status_def
        Let_def split: go_error.split)
qed

theorem DeletePod_outcome_witness:
  "\<exists>n1. DeletePod ex_store_env 0 ex_node = (Ok (), forgotten (coord_of_pod ex_pod) n1)"
proof -
  have "files_ok ex_store_env" by (simp add: files_ok_def ex_store_env_def ex_env_def)
  moreover have heap: "n_heap ex_node 0 = ex_pod" by (simp add: ex_node_def)
  moreover have "\<not> is_static ex_pod" by code_simp
  moreover have "\<exists>n1 rq. PodStop ex_store_env (Key (coord_of_pod ex_pod)) ex_node
      = (Ok (zero_PodActionReport, Some (ApiErr rq ''no such pod'' ''no such pod'' 404)), n1)"
  proof -
    have "is_plain (Key (coord_of_pod ex_pod))" by code_simp
    then have enc: "UrlEncoded (Key (coord_of_pod ex_pod)) = Some (Key (coord_of_pod ex_pod))"
      by (rule UrlEncoded_plain)
    have "is_plain (''/libpod/pods/'' @ Key (coord_of_pod ex_pod) @ ''/stop'')" by code_simp
    note req = new_request_plain [OF this]
    show ?thesis
      using PodStop_answer [OF enc req ex_missing_answer [folded ex_store_env_def]] by simp
  qed
  ultimately show ?thesis
    using DeletePod_outcome [of ex_store_env ex_node 0] by fastforce
qed

end
