(* ===== verification/Pod_Machine.thy ===== *)
theory Pod_Machine
  imports Pods_Props
begin

text \<open>
  The pod controller as a machine: pods arrive from the API server, the virtual kubelet calls the
  handlers in any order, and the agent may be restarted at any point. The invariant \<open>node_ok\<close> says
  that the table of known pods and the files on disk are keyed by the pods they hold.
\<close>

subsection \<open>The invariant\<close>

definition known_ok :: "node \<Rightarrow> bool" where
  "known_ok n \<longleftrightarrow> (\<forall>k rp. map_of (n_known n) k = Some rp \<longrightarrow>
     Key (rp_coord rp) = k \<and> rp_kube rp < n_next n \<and> Key (coord_of_pod (n_heap n (rp_kube rp))) = k)"

definition specs_ok :: "env \<Rightarrow> node \<Rightarrow> bool" where
  "specs_ok env n \<longleftrightarrow> (\<forall>f content p. map_of (n_files n) f = Some content \<longrightarrow>
     env_decode_pod env content = Inr p \<longrightarrow> FileName (coord_of_pod p) = f)"

definition node_ok :: "env \<Rightarrow> node \<Rightarrow> bool" where
  "node_ok env n \<longleftrightarrow> known_ok n \<and> specs_ok env n"

text \<open>What is assumed of the JSON form of pods: it keeps the name and the namespace, and neither the
  empty text nor a text that was cut by a failed write decodes.\<close>

definition codec_law :: "env \<Rightarrow> bool" where
  "codec_law env \<longleftrightarrow>
     (\<forall>pod content. env_encode_pod env pod = Inr content \<longrightarrow>
        (\<exists>p. env_decode_pod env content = Inr p \<and> coord_of_pod p = coord_of_pod pod))
     \<and> (\<forall>tr. \<exists>e. env_decode_pod env (env_cut env tr) = Inl e)
     \<and> (\<exists>e. env_decode_pod env [] = Inl e)"

text \<open>The invariant with a pod object at hand.\<close>

definition at_hand :: "env \<Rightarrow> nat \<Rightarrow> pod_coord \<Rightarrow> node \<Rightarrow> bool" where
  "at_hand env p c n \<longleftrightarrow> node_ok env n \<and> p < n_next n \<and> coord_of_pod (n_heap n p) = c"

abbreviation upholds :: "env \<Rightarrow> nat \<Rightarrow> pod_coord \<Rightarrow> 'a run \<Rightarrow> bool" where
  "upholds env p c m \<equiv> keeps (\<lambda>s t. at_hand env p c s \<longrightarrow> at_hand env p c t) m"

lemma at_hand_store: "store_of s = store_of t \<Longrightarrow> at_hand env p c s = at_hand env p c t"
  by (simp add: at_hand_def node_ok_def known_ok_def specs_ok_def store_of_def)

lemma upholds_quiet: "keeps (\<lambda>s t. store_of s = store_of t) m \<Longrightarrow> upholds env p c m"
  unfolding keeps_def using at_hand_store by metis

lemmas upholds_intros = inv_frame.keeps_intros [where P = "at_hand env p c" for env p c]

lemma upholds_bind_result:
  "upholds env p c m \<Longrightarrow> (\<And>s a s'. m s = (Ok a, s') \<Longrightarrow> upholds env p c (k a)) \<Longrightarrow> upholds env p c (bindR m k)"
  by (rule inv_frame.keeps_bind_result)

lemma upholds_modify: "(\<And>n. at_hand env p c n \<Longrightarrow> at_hand env p c (f n)) \<Longrightarrow> upholds env p c (modifyR f)"
  by (simp add: keeps_def)

lemma upholds_read:
  assumes "\<And>pod. coord_of_pod pod = c \<Longrightarrow> upholds env p c (k pod)"
  shows "upholds env p c (bindR (read_pod p) k)"
  unfolding keeps_def
proof (intro allI impI)
  fix s assume s: "at_hand env p c s"
  then have "upholds env p c (k (n_heap s p))" by (intro assms) (simp add: at_hand_def)
  then show "at_hand env p c (snd (bindR (read_pod p) k s))"
    using s by (simp add: keeps_def)
qed

subsection \<open>Actions on the store\<close>

lemma quiet_emit:
  "upholds env p c (emit e)" "upholds env p c (now env')" "upholds env p c (range_map env' ks)"
  "upholds env p c (read_pod q)"
  by (rule upholds_quiet, rule store_of_emit)+

lemma quiet_file_op: "upholds env p c (file_op env' op)"
  unfolding file_op_def by (intro upholds_intros quiet_emit)

lemma upholds_put_file:
  assumes "\<And>q. env_decode_pod env content = Inr q \<Longrightarrow> FileName (coord_of_pod q) = name"
  shows "upholds env p c (put_file name content)"
  unfolding put_file_def
proof (rule upholds_modify)
  fix n assume "at_hand env p c n"
  then show "at_hand env p c (n\<lparr>n_files := AList.update name content (n_files n)\<rparr>)"
    using assms by (auto simp: at_hand_def node_ok_def known_ok_def specs_ok_def update_conv' split: if_splits)
qed

lemma upholds_StorePod:
  assumes "codec_law env"
  shows "upholds env p c (StorePod env pod)"
proof -
  have dec: "FileName (coord_of_pod q) = FileName (coord_of_pod pod)"
    if "env_encode_pod env pod = Inr content" "env_decode_pod env content = Inr q" for content q
    using assms that by (fastforce simp: codec_law_def)
  have junk: "upholds env p c (put_file name [])" "upholds env p c (put_file name (env_cut env tr))" for name tr
    using assms by (auto intro!: upholds_put_file simp: codec_law_def) (metis Inl_Inr_False)
  have cut: "upholds env p c (bindR (getR (\<lambda>n. env_cut env (n_trace n))) (\<lambda>cut. thenR (put_file name cut) (failR e)))"
    for name e
  proof (rule upholds_bind_result)
    show "upholds env p c (thenR (put_file name cut) (failR e))"
      if "getR (\<lambda>n. env_cut env (n_trace n)) s = (Ok cut, s')" for s cut s'
      using that junk(2) by (auto intro!: upholds_intros)
  qed (intro upholds_intros)
  show ?thesis
    unfolding StorePod_def Let_def
    by (intro upholds_intros quiet_file_op junk cut upholds_put_file dec)
qed

lemma upholds_remove_file: "upholds env p c (remove_file env' name)"
proof -
  have "upholds env p c (modifyR (\<lambda>n. n\<lparr>n_files := AList.delete name (n_files n)\<rparr>))"
    by (rule upholds_modify)
       (auto simp: at_hand_def node_ok_def known_ok_def specs_ok_def delete_conv' split: if_splits)
  then show ?thesis
    unfolding remove_file_def by (intro upholds_intros quiet_file_op)
qed

lemma RemovePod_cases: "RemovePod env coord = bindR (tryR (remove_file env (FileName coord))) (\<lambda>r.
     case r of Inl e \<Rightarrow> if (\<exists>t. e = FileErr True t) then ret () else failR e | Inr _ \<Rightarrow> ret ())"
  unfolding RemovePod_def
  by (rule arg_cong2 [where f = bindR, OF refl]) (auto simp: fun_eq_iff split: sum.split go_error.split bool.split)

lemma upholds_RemovePod: "upholds env p c (RemovePod env' coord)"
  unfolding RemovePod_cases by (intro upholds_intros upholds_remove_file)

lemma upholds_set_status: "upholds env p c (set_pod q (on_status f))"
  unfolding set_pod_def
proof (rule upholds_modify)
  fix n assume "at_hand env p c n"
  moreover have "coord_of_pod (on_status f pod) = coord_of_pod pod" for pod
    by (simp add: coord_of_pod_def on_status_def)
  ultimately show "at_hand env p c (n\<lparr>n_heap := (n_heap n)(q := on_status f (n_heap n q))\<rparr>)"
    by (auto simp: at_hand_def node_ok_def known_ok_def specs_ok_def)
qed

lemma set_status_with: "set_pod q (\<lambda>pod. on_status (g pod) pod) = bindR (read_pod q) (\<lambda>pod. set_pod q (on_status (g pod)))"
  by (simp add: fun_eq_iff)

lemma upholds_set_status_with: "upholds env p c (set_pod q (\<lambda>pod. on_status (g pod) pod))"
  by (subst set_status_with) (intro upholds_intros upholds_set_status quiet_emit)

text \<open>Updates of the table at a key.\<close>

lemma at_hand_update:
  assumes "at_hand env p c n" "Key (rp_coord rp) = k" "rp_kube rp < n_next n"
    and "Key (coord_of_pod (n_heap n (rp_kube rp))) = k"
  shows "at_hand env p c (n\<lparr>n_known := AList.update k rp (n_known n)\<rparr>)"
  using assms by (auto simp: at_hand_def node_ok_def known_ok_def specs_ok_def update_conv' split: if_splits)

lemma at_hand_relabel:
  assumes "at_hand env p c n" "map_of (n_known n) (Key coord) = Some old"
  shows "at_hand env p c (n\<lparr>n_known := AList.update (Key coord)
    \<lparr>rp_kube = rp_kube old, rp_coord = coord, rp_pod_id = i, rp_containers = ids\<rparr> (n_known n)\<rparr>)"
proof (rule at_hand_update [OF assms(1)])
  have "known_ok n" using assms(1) by (simp add: at_hand_def node_ok_def)
  then have "rp_kube old < n_next n \<and> Key (coord_of_pod (n_heap n (rp_kube old))) = Key coord"
    using assms(2) unfolding known_ok_def by blast
  then show "rp_kube \<lparr>rp_kube = rp_kube old, rp_coord = coord, rp_pod_id = i, rp_containers = ids\<rparr> < n_next n"
    "Key (coord_of_pod (n_heap n (rp_kube \<lparr>rp_kube = rp_kube old, rp_coord = coord, rp_pod_id = i,
       rp_containers = ids\<rparr>))) = Key coord" by simp_all
qed simp

lemma upholds_SetPodId: "upholds env p c (SetPodId coord podId)"
  unfolding SetPodId_def
proof (rule upholds_modify)
  show "at_hand env p c (case map_of (n_known n) (Key coord) of None \<Rightarrow> n
     | Some known \<Rightarrow> n\<lparr>n_known := AList.update (Key coord) \<lparr>rp_kube = rp_kube known, rp_coord = coord,
         rp_pod_id = podId, rp_containers = rp_containers known\<rparr> (n_known n)\<rparr>)"
    if "at_hand env p c n" for n
    using that at_hand_relabel [OF that] by (cases "map_of (n_known n) (Key coord)") simp_all
qed

lemma upholds_SetContainerIDs: "upholds env p c (SetContainerIDs coord ids)"
  unfolding SetContainerIDs_def
proof (rule upholds_modify)
  show "at_hand env p c (case map_of (n_known n) (Key coord) of None \<Rightarrow> n
     | Some known \<Rightarrow> n\<lparr>n_known := AList.update (Key coord) \<lparr>rp_kube = rp_kube known, rp_coord = coord,
         rp_pod_id = rp_pod_id known, rp_containers = ids\<rparr> (n_known n)\<rparr>)"
    if "at_hand env p c n" for n
    using that at_hand_relabel [OF that] by (cases "map_of (n_known n) (Key coord)") simp_all
qed

lemma StorePod_coord: "yields (\<lambda>coord. coord = coord_of_pod pod) (StorePod env pod)"
  unfolding StorePod_def Let_def by (intro yields_intros refl)

lemma upholds_RegisterPod:
  assumes "codec_law env"
  shows "upholds env p c (RegisterPod env p)"
  unfolding RegisterPod_def
proof (rule upholds_read, rule upholds_bind_result [OF upholds_StorePod [OF assms]])
  fix pod s coord s'
  assume "coord_of_pod pod = c" "StorePod env pod s = (Ok coord, s')"
  then have c: "coord = c" using yieldsD [OF StorePod_coord] by blast
  have "upholds env p c (modifyR (\<lambda>n.
         n\<lparr>n_known := AList.update (Key coord)
             (case map_of (n_known n) (Key coord) of
                Some known \<Rightarrow> \<lparr>rp_kube = p, rp_coord = coord, rp_pod_id = rp_pod_id known,
                               rp_containers = rp_containers known\<rparr>
              | None \<Rightarrow> \<lparr>rp_kube = p, rp_coord = coord, rp_pod_id = [], rp_containers = []\<rparr>)
             (n_known n)\<rparr>))"
    unfolding c
    by (rule upholds_modify, rule at_hand_update) (auto simp: at_hand_def split: option.split)
  then show "upholds env p c (thenR (modifyR (\<lambda>n.
         n\<lparr>n_known := AList.update (Key coord)
             (case map_of (n_known n) (Key coord) of
                Some known \<Rightarrow> \<lparr>rp_kube = p, rp_coord = coord, rp_pod_id = rp_pod_id known,
                               rp_containers = rp_containers known\<rparr>
              | None \<Rightarrow> \<lparr>rp_kube = p, rp_coord = coord, rp_pod_id = [], rp_containers = []\<rparr>)
             (n_known n)\<rparr>)) (ret coord))"
    by (intro upholds_intros)
qed

lemma upholds_UnregisterPod: "upholds env p c (UnregisterPod env' coord)"
proof -
  have "upholds env p c (modifyR (\<lambda>n. n\<lparr>n_known := AList.delete (Key coord) (n_known n)\<rparr>))"
    by (rule upholds_modify)
       (auto simp: at_hand_def node_ok_def known_ok_def specs_ok_def delete_conv' split: if_splits)
  then show ?thesis unfolding UnregisterPod_def by (intro upholds_intros upholds_RemovePod)
qed

subsection \<open>Calls that only talk to the outside\<close>

lemma named_store:
  "(\<And>e. keeps (\<lambda>s t. store_of s = store_of t) (k e)) \<Longrightarrow>
   keeps (\<lambda>s t. store_of s = store_of t) (named x out k)"
  unfolding named_def by (intro same_frame.keeps_intros)

lemma stop_store: "keeps (\<lambda>s t. store_of s = store_of t) (PodStop env x)"
proof -
  have "PodStop env x = named x zero_PodActionReport (\<lambda>encoded.
     bindR (performPost env (''/libpod/pods/'' @ encoded @ ''/stop'') JNull PodActionReport_decoder
              zero_PodActionReport) (\<lambda>r. ret (case r of (out, e) \<Rightarrow> (case e of
              None \<Rightarrow> (out, None)
            | Some (ApiErr rq cause message status) \<Rightarrow>
                if status = 304 then (\<lparr>par_Id = [], par_Errs = [''Already Stopped'']\<rparr>, None)
                else (zero_PodActionReport, Some (ApiErr rq cause message status))
            | Some err \<Rightarrow> (zero_PodActionReport, Some err)))))"
    unfolding PodStop_def by (rule arg_cong [where f = "named x zero_PodActionReport"])
      (auto simp: fun_eq_iff bindR_def split: prod.split res.split)
  then show ?thesis by (simp only:) (intro named_store same_frame.keeps_intros request_store)
qed

lemma podman_store:
  "keeps (\<lambda>s t. store_of s = store_of t) (PodCreate env spec)"
  "keeps (\<lambda>s t. store_of s = store_of t) (PodInspect env x)"
  "keeps (\<lambda>s t. store_of s = store_of t) (PodStart env x)"
  "keeps (\<lambda>s t. store_of s = store_of t) (PodRm env x force)"
  "keeps (\<lambda>s t. store_of s = store_of t) (VolumeCreate env opts)"
  "keeps (\<lambda>s t. store_of s = store_of t) (VolumeList env filters)"
  "keeps (\<lambda>s t. store_of s = store_of t) (VolumeRm env x force)"
  "keeps (\<lambda>s t. store_of s = store_of t) (ContainerCreate env cspec)"
  "keeps (\<lambda>s t. store_of s = store_of t) (ContainerInspect env x withSize)"
  "keeps (\<lambda>s t. store_of s = store_of t) (Pull env x auth)"
  unfolding PodCreate_def PodInspect_def PodStart_def PodRm_def VolumeCreate_def VolumeList_def
    VolumeRm_def ContainerCreate_def ContainerInspect_def Pull_def
  by (intro named_store same_frame.keeps_intros request_store performRequest_store)+

lemma archive_store:
  "keeps (\<lambda>s t. store_of s = store_of t) (tar_error env)"
  "keeps (\<lambda>s t. store_of s = store_of t) (GetSecret env ns nm)"
  "keeps (\<lambda>s t. store_of s = store_of t) (StartArchiveExtraction env dest)"
  "keeps (\<lambda>s t. store_of s = store_of t) (WriteFile env a b c ae)"
  "keeps (\<lambda>s t. store_of s = store_of t) (WriteSymLink env a d ae)"
  unfolding tar_error_def GetSecret_def StartArchiveExtraction_def WriteFile_def WriteSymLink_def
  by (intro same_frame.keeps_intros store_of_emit)+

lemma first_error_store: "keeps (\<lambda>s t. store_of s = store_of t) (first_error es)"
  by (induction es rule: first_error.induct) (simp_all only: first_error.simps same_frame.keeps_ret)

lemma Finish_store: "keeps (\<lambda>s t. store_of s = store_of t) (Finish env ae)"
  unfolding Finish_def
  by (intro same_frame.keeps_intros store_of_emit archive_store first_error_store)

lemma volumes_store:
  "keeps (\<lambda>s t. store_of s = store_of t) (CleanupVolumes env meta)"
  "keeps (\<lambda>s t. store_of s = store_of t) (CreateRuntimeVolume env uid ty vol)"
  "keeps (\<lambda>s t. store_of s = store_of t) (write_all_keys env rv mode data ae)"
  "keeps (\<lambda>s t. store_of s = store_of t) (write_items env rv mode data items ae)"
  "keeps (\<lambda>s t. store_of s = store_of t) (project_token env pod source paths)"
  unfolding CleanupVolumes_def ListRuntimeVolumes_def DeleteRuntimeVolume_def CreateRuntimeVolume_def
    write_all_keys_def write_items_def write_item_def project_token_def Let_def
  by (intro same_frame.keeps_intros errR_keeps podman_store archive_store store_of_emit)+

lemma filled_store:
  "keeps (\<lambda>s t. store_of s = store_of t) (CreateSecretVolume env meta vol src)"
  "keeps (\<lambda>s t. store_of s = store_of t) (CreateProjectedVolume env pod vol psrc)"
  unfolding CreateSecretVolume_def CreateProjectedVolume_def Let_def
  by (intro same_frame.keeps_intros volumes_store archive_store Finish_store store_of_emit)+

lemma create_volumes_store: "keeps (\<lambda>s t. store_of s = store_of t) (create_volumes env pod vs)"
proof (induction vs)
  case Nil
  show ?case by (simp only: create_volumes.simps same_frame.keeps_ret)
next
  case (Cons v vs)
  then show ?case
    unfolding create_volumes.simps by (intro same_frame.keeps_intros volumes_store filled_store)
qed

lemma CreatePodVolumes_store: "keeps (\<lambda>s t. store_of s = store_of t) (CreatePodVolumes env pod)"
  unfolding CreatePodVolumes_def by (intro same_frame.keeps_intros volumes_store create_volumes_store)

lemma GrabPullSecrets_store: "keeps (\<lambda>s t. store_of s = store_of t) (GrabPullSecrets env ns refs)"
  unfolding GrabPullSecrets_def by (intro same_frame.keeps_intros archive_store)

lemma try_secrets_store: "keeps (\<lambda>s t. store_of s = store_of t) (try_secrets env ref err secrets)"
proof (induction secrets)
  case Nil
  show ?case unfolding try_secrets.simps by (intro same_frame.keeps_intros)
next
  case (Cons x xs)
  then show ?case
    unfolding try_secrets.simps pulled_def by (intro same_frame.keeps_intros podman_store store_of_emit)
qed

lemma PullImage_store: "keeps (\<lambda>s t. store_of s = store_of t) (PullImage env ref secrets)"
  unfolding PullImage_def pulled_def
  by (intro same_frame.keeps_intros podman_store store_of_emit try_secrets_store)

lemmas outside_store = CreatePodVolumes_store GrabPullSecrets_store PullImage_store podman_store
  stop_store volumes_store(1)

subsection \<open>The handlers\<close>

lemmas upholds_outside = outside_store [THEN upholds_quiet]
  podman_store(1-6,8,9) [THEN errR_keeps(2), THEN upholds_quiet]

lemma upholds_create_container:
  "upholds env p c (create_container env p secrets podId con ids)"
  unfolding create_container_def create_or_pull_def record_creation_def
  by (intro upholds_intros quiet_emit upholds_outside)

lemma upholds_create_in_podman: "upholds env p c (create_in_podman env cniNet p coord)"
  unfolding create_in_podman_def
  by (intro upholds_intros quiet_emit upholds_outside upholds_SetPodId upholds_SetContainerIDs
      upholds_create_container)

lemma upholds_notify: "upholds env p c (notify q)"
  unfolding notify_def by (intro upholds_intros quiet_emit)

lemma upholds_inspect_container: "upholds env p c (inspect_container env cniNet p entry inspects)"
  unfolding inspect_container_def
  by (intro upholds_intros quiet_emit upholds_outside upholds_set_status)

lemma upholds_started_status: "upholds env p c (started_status t inspects cs rest)"
  unfolding started_status_def by (intro upholds_intros quiet_emit)

lemma upholds_start_in_podman:
  assumes "codec_law env"
  shows "upholds env p c (start_in_podman env cniNet p r)"
  unfolding start_in_podman_def
  by (intro upholds_intros quiet_emit upholds_outside upholds_set_status upholds_set_status_with
      upholds_notify upholds_RegisterPod [OF assms] upholds_inspect_container upholds_started_status)

lemma upholds_CreatePod:
  assumes "codec_law env"
  shows "upholds env p c (CreatePod env cniNet p)"
  unfolding CreatePod_def
  by (intro upholds_intros quiet_emit upholds_set_status upholds_notify upholds_RegisterPod [OF assms]
      upholds_create_in_podman upholds_start_in_podman [OF assms])

lemma keeps_go_error:
  "(\<And>rq cause message status. keeps R (f rq cause message status)) \<Longrightarrow> (\<And>b t. keeps R (g b t)) \<Longrightarrow>
   (\<And>t. keeps R (h t)) \<Longrightarrow>
   keeps R (case e of ApiErr rq cause message status \<Rightarrow> f rq cause message status
     | FileErr b t \<Rightarrow> g b t | PlainErr t \<Rightarrow> h t)"
  by (cases e) simp_all

lemma upholds_DeletePod: "upholds env p c (DeletePod env p)"
  unfolding DeletePod_def Let_def
  by (intro upholds_intros keeps_go_error quiet_emit upholds_outside upholds_set_status upholds_notify
      upholds_UnregisterPod)

text \<open>The start: the table is built in a local variable. \<open>fits\<close> says that it agrees with the heap.\<close>

definition fits :: "node \<Rightarrow> (string \<times> running_pod) list \<Rightarrow> bool" where
  "fits n known \<longleftrightarrow> (\<forall>k rp. map_of known k = Some rp \<longrightarrow>
     Key (rp_coord rp) = k \<and> rp_kube rp < n_next n \<and> Key (coord_of_pod (n_heap n (rp_kube rp))) = k)"

lemma known_ok_fits: "known_ok n \<longleftrightarrow> fits n (n_known n)"
  by (simp add: known_ok_def fits_def)

lemma fits_alloc:
  "fits n known \<Longrightarrow> fits (n\<lparr>n_heap := (n_heap n)(n_next n := pod), n_next := Suc (n_next n)\<rparr>) known"
  unfolding fits_def by (fastforce simp: less_Suc_eq)

lemma fits_add:
  assumes "fits n known" "Key (coord_of_pod pod) = Key c"
  shows "fits (n\<lparr>n_heap := (n_heap n)(n_next n := pod), n_next := Suc (n_next n)\<rparr>)
    (AList.update (Key c) \<lparr>rp_kube = n_next n, rp_coord = c, rp_pod_id = i, rp_containers = ids\<rparr> known)"
  using fits_alloc [OF assms(1), of pod] assms(2)
  by (simp add: fits_def update_conv')

text \<open>Arrivals of pods from the API server.\<close>

lemma node_ok_alloc: "node_ok env n \<Longrightarrow> node_ok env (snd (alloc_pod pod n))"
  using fits_alloc [of n "n_known n" pod]
  by (simp add: node_ok_def known_ok_fits specs_ok_def fits_def)

lemma node_ok_quiet:
  assumes "keeps (\<lambda>s t. store_of s = store_of t) m" "m n = (r, n')"
  shows "node_ok env n' = node_ok env n" "fits n' known = fits n known" "specs_ok env n' = specs_ok env n"
proof -
  have "store_of n = store_of n'" using keepsD [OF assms] .
  then show "node_ok env n' = node_ok env n" "fits n' known = fits n known" "specs_ok env n' = specs_ok env n"
    by (simp_all add: node_ok_def known_ok_def specs_ok_def fits_def store_of_def)
qed

lemma file_op_store: "keeps (\<lambda>s t. store_of s = store_of t) (file_op env op)"
  unfolding file_op_def by (intro same_frame.keeps_intros store_of_emit)

lemma list_store: "keeps (\<lambda>s t. store_of s = store_of t) (ListAllPods env)"
  unfolding ListAllPods_def by (intro same_frame.keeps_intros file_op_store)

lemma read_store: "keeps (\<lambda>s t. store_of s = store_of t) (ReadPod env coord)"
  unfolding ReadPod_def by (intro same_frame.keeps_intros file_op_store)

lemma ReadPod_coord:
  assumes "ReadPod env coord n = (Ok pod, n')" "specs_ok env n"
  shows "FileName (coord_of_pod pod) = FileName coord"
proof -
  obtain u n1 where op: "file_op env (OpenFile (FileName coord)) n = (Ok u, n1)"
    and rest: "bindR (getR (\<lambda>n. map_of (n_files n) (FileName coord))) (\<lambda>file. case file of
            None \<Rightarrow> failR no_such_file
          | Some content \<Rightarrow> (case env_decode_pod env content of
                 Inl e \<Rightarrow> failR (PlainErr e) | Inr podSpec \<Rightarrow> ret podSpec)) n1 = (Ok pod, n')"
    using assms(1) unfolding ReadPod_def by (rule thenR_OkE)
  have "specs_ok env n1" using node_ok_quiet(3) [OF file_op_store op] assms(2) by simp
  then show ?thesis using rest
    by (auto simp: specs_ok_def split: option.splits sum.splits)
qed

text \<open>While the agent starts, nothing is known yet and \<open>known\<close> is being built.\<close>

definition starting :: "env \<Rightarrow> (string \<times> running_pod) list \<Rightarrow> node \<Rightarrow> bool" where
  "starting env known n \<longleftrightarrow> specs_ok env n \<and> fits n known \<and> n_known n = []"

lemma starting_quiet:
  "keeps (\<lambda>s t. store_of s = store_of t) m \<Longrightarrow> m n = (r, n') \<Longrightarrow> starting env known n \<Longrightarrow> starting env known n'"
  using node_ok_quiet [of m n r n'] keepsD [of "\<lambda>s t. store_of s = store_of t" m n r n']
  by (simp add: starting_def store_of_def)

lemma starting_RemovePod: "keeps (\<lambda>s t. starting env known s \<longrightarrow> starting env known t) (RemovePod env' coord)"
proof -
  have "keeps (\<lambda>s t. starting env known s \<longrightarrow> starting env known t) (file_op env' op)" for op
    using starting_quiet [OF file_op_store] by (auto simp: keeps_def) (metis prod.collapse)
  moreover have "keeps (\<lambda>s t. starting env known s \<longrightarrow> starting env known t)
      (modifyR (\<lambda>n. n\<lparr>n_files := AList.delete name (n_files n)\<rparr>))" for name
    by (auto simp: keeps_def starting_def specs_ok_def fits_def delete_conv' split: if_splits)
  ultimately show ?thesis
    unfolding RemovePod_cases remove_file_def by (intro inv_frame.keeps_intros)
qed

lemma starting_correlate:
  assumes "correlate env c (found, known) n = (r, n')" "starting env known n" "found_wf found"
  shows "node_ok env n' \<and> (\<forall>found' known'. r = Ok (found', known') \<longrightarrow> found_wf found' \<and> starting env known' n')"
proof (cases "map_of found c")
  case None
  then have run: "thenR (RemovePod env c) (ret (found, known)) n = (r, n')"
    using assms(1) by (simp add: correlate_def)
  have "keeps (\<lambda>s t. starting env known s \<longrightarrow> starting env known t) (thenR (RemovePod env c) (ret (found, known)))"
    by (intro inv_frame.keeps_intros starting_RemovePod)
  from keepsD [OF this run] assms(2) have st: "starting env known n'" by blast
  have "yields (\<lambda>x. x = (found, known)) (thenR (RemovePod env c) (ret (found, known)))"
    by (intro yields_intros refl)
  then have "x = (found, known)" if "r = Ok x" for x using run that by (auto dest: yieldsD)
  then show ?thesis using st assms(3)
    by (auto simp: starting_def node_ok_def known_ok_def)
next
  case (Some fp)
  then have run: "bindR (ReadPod env c) (\<lambda>podSpec. bindR (alloc_pod podSpec) (\<lambda>ref.
      ret (AList.delete c found, AList.update (lp_Name fp)
        \<lparr>rp_kube = ref, rp_coord = c, rp_pod_id = lp_Id fp,
         rp_containers = container_ids (lp_Containers fp)\<rparr> known))) n = (r, n')"
    using assms(1) by (simp add: correlate_def)
  obtain res n1 where rd: "ReadPod env c n = (res, n1)" by fastforce
  have st: "starting env known n1" by (rule starting_quiet [OF read_store rd assms(2)])
  show ?thesis
  proof (cases res)
    case (Ok pod)
    have key: "lp_Name fp = Key c" using assms(3) Some by (simp add: found_wf_def)
    have "FileName (coord_of_pod pod) = FileName c"
      by (rule ReadPod_coord [of env c n pod n1]) (use rd Ok assms(2) in \<open>simp_all add: starting_def\<close>)
    then have "Key (coord_of_pod pod) = Key c" by (simp add: FileName_Key)
    moreover have "found_wf (AList.delete c found)"
      using assms(3) by (auto simp: found_wf_def distinct_delete delete_conv' split: if_splits)
    ultimately show ?thesis
      using st run rd Ok fits_add [of n1 known pod c "lp_Id fp" "container_ids (lp_Containers fp)"]
      by (auto simp: starting_def node_ok_def known_ok_def specs_ok_def key)
  qed (use run rd st in \<open>auto simp: starting_def node_ok_def known_ok_def\<close>)
qed

lemma starting_correlate_all:
  assumes "foldR (correlate env) cs (found, known) n = (r, n')" "starting env known n" "found_wf found"
  shows "node_ok env n' \<and> (\<forall>found' known'. r = Ok (found', known') \<longrightarrow> starting env known' n')"
  using assms
proof (induction cs arbitrary: found known n)
  case Nil
  then show ?case by (auto simp: starting_def node_ok_def known_ok_def)
next
  case (Cons c cs)
  obtain res n1 where step: "correlate env c (found, known) n = (res, n1)" by fastforce
  note one = starting_correlate [OF step Cons.prems(2,3)]
  show ?case
  proof (cases res)
    case (Ok x)
    obtain found1 known1 where x: "x = (found1, known1)" by fastforce
    have "foldR (correlate env) cs (found1, known1) n1 = (r, n')"
      using Cons.prems(1) step Ok x by simp
    moreover have "starting env known1 n1" "found_wf found1" using one Ok x by auto
    ultimately show ?thesis by (rule Cons.IH)
  qed (use Cons.prems(1) step one in auto)
qed

lemma remove_dangling_store: "keeps (\<lambda>s t. store_of s = store_of t) (remove_dangling env entry)"
  unfolding remove_dangling_def by (intro same_frame.keeps_intros errR_keeps podman_store)

lemma start_ok:
  assumes "specs_ok env n" "n_known n = []" "NewPodManager env n = (r, n')"
  shows "node_ok env n'"
proof -
  have st: "starting env [] n" using assms(1,2) by (simp add: starting_def fits_def)
  have quiet: "node_ok env t" if "starting env known t" for known t
    using that by (simp add: starting_def node_ok_def known_ok_def)
  from assms(3) show ?thesis unfolding NewPodManager_def
  proof (cases rule: bindR_cases)
    case stops
    then show ?thesis using starting_quiet [OF list_store _ st] quiet by (metis prod.collapse)
  next
    case (goes cs n1)
    have st1: "starting env [] n1" by (rule starting_quiet [OF list_store goes(1) st])
    from goes(2) show ?thesis
    proof (cases rule: bindR_cases)
      case stops
      then show ?thesis using starting_quiet [OF store_keeps _ st1] quiet by (metis prod.collapse)
    next
      case (goes reports n2)
      have st2: "starting env [] n2" by (rule starting_quiet [OF store_keeps goes(1) st1])
      show ?thesis
      proof (cases "foldM note_found reports []")
        case None
        then show ?thesis using goes(2) st2 quiet by simp
      next
        case (Some found)
        from goes(2) have rest: "bindR (foldR (correlate env) cs (found, [])) (\<lambda>(dangling, knownPods).
           bindR (range_map env dangling) (\<lambda>entries. thenR (forR (remove_dangling env) entries)
             (modifyR (\<lambda>n. n\<lparr>n_known := knownPods\<rparr>)))) n2 = (r, n')" by (simp add: Some)
        then show ?thesis
        proof (cases rule: bindR_cases)
          case stops
          then show ?thesis
            using starting_correlate_all [OF _ st2 found_pods_wf [OF Some]] by (metis prod.collapse)
        next
          case (goes x n3)
          obtain dangling known where x: "x = (dangling, known)" by fastforce
          have st3: "starting env known n3"
            using starting_correlate_all [OF _ st2 found_pods_wf [OF Some]] goes(1) x by blast
          from goes(2) have "thenR (forR (remove_dangling env) (visit env (n_trace n3) dangling))
             (modifyR (\<lambda>n. n\<lparr>n_known := known\<rparr>)) n3 = (r, n')" by (simp add: x)
          then have rest: "bindR (forR (remove_dangling env) (visit env (n_trace n3) dangling))
             (\<lambda>_. modifyR (\<lambda>n. n\<lparr>n_known := known\<rparr>)) n3 = (r, n')" by (simp add: thenR_def)
          have rm: "keeps (\<lambda>s t. store_of s = store_of t)
              (forR (remove_dangling env) (visit env (n_trace n3) dangling))"
            by (intro same_frame.keeps_intros remove_dangling_store)
          from rest show ?thesis
          proof (cases rule: bindR_cases)
            case stops
            then show ?thesis using starting_quiet [OF rm _ st3] quiet by (metis prod.collapse)
          next
            case (goes u n4)
            have "starting env known n4" by (rule starting_quiet [OF rm goes(1) st3])
            then show ?thesis using goes(2)
              by (auto simp: starting_def node_ok_def known_ok_def specs_ok_def fits_def)
          qed
        qed
      qed
    qed
  qed
qed

subsection \<open>Reachable nodes\<close>

datatype pod_event =
    Restart
  | Arrive kpod
  | Create nat
  | Update nat
  | Delete nat
  | Lookup string string

fun pod_exec :: "env \<Rightarrow> string \<Rightarrow> pod_event \<Rightarrow> node \<Rightarrow> node" where
  "pod_exec env cniNet Restart n = snd (NewPodManager env (n\<lparr>n_known := []\<rparr>))"
| "pod_exec env cniNet (Arrive pod) n = snd (alloc_pod pod n)"
| "pod_exec env cniNet (Create p) n = snd (CreatePod env cniNet p n)"
| "pod_exec env cniNet (Update p) n = snd (UpdatePod env p n)"
| "pod_exec env cniNet (Delete p) n = snd (DeletePod env p n)"
| "pod_exec env cniNet (Lookup ns name) n = snd (GetPod ns name n)"

text \<open>The virtual kubelet passes pods that have arrived.\<close>

fun pod_enabled :: "pod_event \<Rightarrow> node \<Rightarrow> bool" where
  "pod_enabled (Create p) n \<longleftrightarrow> p < n_next n"
| "pod_enabled (Update p) n \<longleftrightarrow> p < n_next n"
| "pod_enabled (Delete p) n \<longleftrightarrow> p < n_next n"
| "pod_enabled e n \<longleftrightarrow> True"

inductive pod_reach :: "env \<Rightarrow> string \<Rightarrow> node \<Rightarrow> node \<Rightarrow> bool" for env cniNet n0 where
  booted: "pod_reach env cniNet n0 n0"
| step: "pod_reach env cniNet n0 n \<Longrightarrow> pod_enabled e n \<Longrightarrow> pod_reach env cniNet n0 (pod_exec env cniNet e n)"

inductive_cases pod_reach_cases: "pod_reach env cniNet n0 n"

lemma upholds_node_ok:
  assumes "\<And>c. upholds env p c m" "node_ok env n" "p < n_next n"
  shows "node_ok env (snd (m n))"
  using assms(1) [of "coord_of_pod (n_heap n p)"] assms(2,3) by (auto simp: keeps_def at_hand_def)

lemma pod_exec_ok:
  assumes "codec_law env" "node_ok env n" "pod_enabled e n"
  shows "node_ok env (pod_exec env cniNet e n)"
proof (cases e)
  case Restart
  obtain r n' where run: "NewPodManager env (n\<lparr>n_known := []\<rparr>) = (r, n')" by fastforce
  have "node_ok env n'"
    by (rule start_ok [OF _ _ run]) (use assms(2) in \<open>simp_all add: node_ok_def specs_ok_def\<close>)
  with Restart run show ?thesis by simp
next
  case (Arrive pod)
  then show ?thesis using node_ok_alloc [OF assms(2), of pod] by simp
next
  case (Create p)
  then show ?thesis
    using upholds_node_ok [OF upholds_CreatePod [OF assms(1)] assms(2)] assms(3) by simp
next
  case (Delete p)
  then show ?thesis using upholds_node_ok [OF upholds_DeletePod assms(2)] assms(3) by simp
qed (use assms(2) in \<open>simp_all add: UpdatePod_def GetPod_def\<close>)

text \<open>C1 (invariant): whatever arrives, is created, updated, deleted or looked up in whatever order,
  with whatever failures of podman, the disk and the API server, and across restarts of the agent: a
  lookup of a pod gives a pod of that namespace and name, every entry of the table lies under the
  key of its own pod, and every readable spec on disk lies in the file of its own pod.\<close>

theorem known_pods_keyed:
  assumes "codec_law env" "node_ok env n0" "pod_reach env cniNet n0 n"
  shows "node_ok env n
    \<and> (\<forall>ns nm p. fst (GetPod ns nm n) = Ok (Some p) \<longrightarrow> proper_coord (coord_of_pod (n_heap n p)) \<longrightarrow>
         proper_coord \<lparr>co_ns = ns, co_name = nm\<rparr> \<longrightarrow> coord_of_pod (n_heap n p) = \<lparr>co_ns = ns, co_name = nm\<rparr>)"
proof -
  from assms(3) have ok: "node_ok env n"
  proof (induction rule: pod_reach.induct)
    case booted
    show ?case by (rule assms(2))
  next
    case (step n e)
    show ?case by (rule pod_exec_ok [OF assms(1) step.IH step.hyps(2)])
  qed
  moreover have "coord_of_pod (n_heap n p) = \<lparr>co_ns = ns, co_name = nm\<rparr>"
    if g: "fst (GetPod ns nm n) = Ok (Some p)" and proper: "proper_coord (coord_of_pod (n_heap n p))"
      "proper_coord \<lparr>co_ns = ns, co_name = nm\<rparr>" for ns nm p
  proof -
    have key: "ns @ ''_'' @ nm = Key \<lparr>co_ns = ns, co_name = nm\<rparr>" by (simp add: Key_def underscore_def)
    from g obtain rp where rp: "map_of (n_known n) (Key \<lparr>co_ns = ns, co_name = nm\<rparr>) = Some rp" "rp_kube rp = p"
      by (auto simp: GetPod_def key [symmetric])
    have "known_ok n" using ok by (simp add: node_ok_def)
    then have "Key (coord_of_pod (n_heap n p)) = Key \<lparr>co_ns = ns, co_name = nm\<rparr>"
      using rp unfolding known_ok_def by blast
    then show ?thesis using Key_inj [OF proper] by simp
  qed
  ultimately show ?thesis by blast
qed

definition ex_machine_env :: env where
  "ex_machine_env = ex_start_env\<lparr>
     env_encode_pod := (\<lambda>pod. if coord_of_pod pod = coord_of_pod ex_pod then Inr ''web'' else Inl ''unsupported''),
     env_decode_pod := (\<lambda>t. if t = [] then Inl ''unexpected EOF'' else Inr ex_pod)\<rparr>"

definition ex_machine_node :: node where
  "ex_machine_node = ex_node\<lparr>n_files := [(''default_web.json'', ''web'')]\<rparr>"

lemma ex_machine_lookup:
  "fst (GetPod ''default'' ''web'' (snd (NewPodManager ex_machine_env ex_machine_node))) = Ok (Some 1)"
  by code_simp

theorem known_pods_keyed_witness:
  "coord_of_pod (n_heap (pod_exec ex_machine_env ''net'' Restart ex_machine_node) 1)
     = \<lparr>co_ns = ''default'', co_name = ''web''\<rparr>"
proof -
  let ?n = "pod_exec ex_machine_env ''net'' Restart ex_machine_node"
  have law: "codec_law ex_machine_env"
    by (auto simp: codec_law_def ex_machine_env_def ex_start_env_def ex_env_def)
  have init: "node_ok ex_machine_env ex_machine_node"
  proof -
    have "FileName (coord_of_pod ex_pod) = ''default_web.json''" by code_simp
    then show ?thesis
      by (auto simp: node_ok_def known_ok_def specs_ok_def ex_machine_node_def ex_node_def
          ex_machine_env_def ex_start_env_def ex_env_def split: if_splits)
  qed
  have reach: "pod_reach ex_machine_env ''net'' ex_machine_node ?n"
    by (intro pod_reach.intros) simp
  have "ex_machine_node\<lparr>n_known := []\<rparr> = ex_machine_node" by (simp add: ex_machine_node_def ex_node_def)
  then have get: "fst (GetPod ''default'' ''web'' ?n) = Ok (Some 1)" using ex_machine_lookup by simp
  have "fst (GetPod ''default'' ''web'' (pod_exec ex_machine_env ''net'' Restart ex_machine_node)) = Ok (Some 1)"
    by (rule get)
  moreover have "proper_coord (coord_of_pod (n_heap ?n 1))" by code_simp
  moreover have "proper_coord \<lparr>co_ns = ''default'', co_name = ''web''\<rparr>" by code_simp
  ultimately show ?thesis using known_pods_keyed [OF law init reach] by blast
qed

end
