(* ===== verification/Create_Triples.thy ===== *)
theory Create_Triples
  imports Pod_Machine
begin

text \<open>The status of a pod that was created, by triples over the pod object.\<close>

lemma heap_of_store:
  "keeps (\<lambda>s t. store_of s = store_of t) m \<Longrightarrow> keeps (\<lambda>s t. n_heap s p = n_heap t p) m"
  unfolding keeps_def store_of_def by (metis prod.inject)

lemmas outside_heap = outside_store [THEN heap_of_store] podman_store(1-6,8,9) [THEN errR_keeps(2), THEN heap_of_store]
  store_of_emit [THEN heap_of_store] file_op_store [THEN heap_of_store]

lemma modify_heap: "(\<And>n. n_heap (f n) p = n_heap n p) \<Longrightarrow> keeps (\<lambda>s t. n_heap s p = n_heap t p) (modifyR f)"
  by (simp add: keeps_def)

lemma table_heap:
  "keeps (\<lambda>s t. n_heap s p = n_heap t p) (SetPodId coord i)"
  "keeps (\<lambda>s t. n_heap s p = n_heap t p) (SetContainerIDs coord ids)"
  "keeps (\<lambda>s t. n_heap s p = n_heap t p) (put_file name content)"
  unfolding SetPodId_def SetContainerIDs_def put_file_def
  by (rule modify_heap, simp split: option.split)+

lemma RegisterPod_heap: "keeps (\<lambda>s t. n_heap s p = n_heap t p) (RegisterPod env q)"
  unfolding RegisterPod_def StorePod_def Let_def
  by (intro same_frame.keeps_intros outside_heap table_heap modify_heap) simp

lemma create_in_podman_heap: "keeps (\<lambda>s t. n_heap s p = n_heap t p) (create_in_podman env cniNet q coord)"
  unfolding create_in_podman_def create_container_def create_or_pull_def record_creation_def
  by (intro same_frame.keeps_intros outside_heap table_heap)

lemma notify_heap: "keeps (\<lambda>s t. n_heap s p = n_heap t p) (notify q)"
  unfolding notify_def by (intro same_frame.keeps_intros outside_heap)

lemma started_heap: "keeps (\<lambda>s t. n_heap s p = n_heap t p) (started_status t0 inspects cs rest)"
  unfolding started_status_def by (intro same_frame.keeps_intros outside_heap)

text \<open>The pod is the given one but for its status, of which phase, conditions and containers are
  given.\<close>

definition cond_pairs :: "pod_status \<Rightarrow> (string \<times> string) list" where
  "cond_pairs s = map (\<lambda>c. (cond_type c, cond_status c)) (ps_conditions s)"

definition progress ::
  "kpod \<Rightarrow> nat \<Rightarrow> string \<Rightarrow> bool \<Rightarrow> bool \<Rightarrow> (container_status list \<Rightarrow> bool) \<Rightarrow> node \<Rightarrow> bool" where
  "progress pod p phase inited ready CS n \<longleftrightarrow>
     kp_meta (n_heap n p) = kp_meta pod \<and> kp_spec (n_heap n p) = kp_spec pod
     \<and> ps_phase (kp_status (n_heap n p)) = phase
     \<and> cond_pairs (kp_status (n_heap n p)) = [(PodScheduled, ''True''),
         (PodInitialized, if inited then ''True'' else ''False''), (PodReady, if ready then ''True'' else ''False'')]
     \<and> CS (ps_containers (kp_status (n_heap n p)))"

lemma progress_frame:
  "keeps (\<lambda>s t. n_heap s p = n_heap t p) m \<Longrightarrow>
   triple (progress pod p phase inited ready CS) m (\<lambda>_. progress pod p phase inited ready CS)"
  unfolding progress_def by (rule triple_frame [where f = "\<lambda>n. n_heap n p"])

lemma cond_pairs_set:
  "map (\<lambda>c. (cond_type c, cond_status c)) (map (\<lambda>c. if cond_type c = ty then c\<lparr>cond_status := ''True'', cond_time := t\<rparr> else c) cs)
     = map (\<lambda>(a, b). (a, if a = ty then ''True'' else b)) (map (\<lambda>c. (cond_type c, cond_status c)) cs)"
  by simp

lemma condition_names: "PodScheduled \<noteq> PodInitialized" "PodScheduled \<noteq> PodReady" "PodInitialized \<noteq> PodReady"
  by (simp_all add: PodScheduled_def PodInitialized_def PodReady_def)

lemma progress_set:
  "triple (progress pod p phase inited ready CS) (set_pod p (on_status (set_condition PodInitialized t)))
     (\<lambda>_. progress pod p phase True ready CS)"
  "triple (progress pod p phase inited ready CS) (set_pod p (on_status (set_condition PodReady t)))
     (\<lambda>_. progress pod p phase inited True CS)"
  "triple (progress pod p phase inited ready CS) (set_pod p (on_status (\<lambda>s. s\<lparr>ps_phase := phase'\<rparr>)))
     (\<lambda>_. progress pod p phase' inited ready CS)"
  "triple (progress pod p phase inited ready CS) (set_pod p (on_status (\<lambda>s. s\<lparr>ps_pod_ip := ip, ps_pod_ips := ips\<rparr>)))
     (\<lambda>_. progress pod p phase inited ready CS)"
  "CS' css \<Longrightarrow> triple (progress pod p phase inited ready CS) (set_pod p (on_status (\<lambda>s. s\<lparr>ps_containers := css\<rparr>)))
     (\<lambda>_. progress pod p phase inited ready CS')"
  using condition_names
  by (auto simp: triple_def progress_def on_status_def set_condition_def cond_pairs_def cond_pairs_set
      simp del: map_map)

text \<open>The containers. \<open>created\<close>: podman took the specification of a container of that name and
  answered with the identifier; \<open>inspected\<close>, \<open>inspect_failed\<close>: what the inspection of an identifier
  answered. A container of a created pod has the identifier of its creation; it is ready and runs,
  with the restart count and the image of its inspection, or its inspection failed and it still
  waits.\<close>

definition created :: "env \<Rightarrow> container list \<Rightarrow> string \<Rightarrow> string \<Rightarrow> bool" where
  "created env cons nm i \<longleftrightarrow>
     (\<exists>con pod podId spec s r t. con \<in> set cons \<and> con_name con = nm
        \<and> ConvertContainerConfig (env_memory env) pod con podId = Some spec
        \<and> ContainerCreate env spec s = (Ok (r, None), t) \<and> ccr_Id r = i)"

definition inspected :: "env \<Rightarrow> string \<Rightarrow> InspectContainerData \<Rightarrow> bool" where
  "inspected env i insp \<longleftrightarrow> (\<exists>s t. errR (ContainerInspect env i False) s = (Ok insp, t))"

definition inspect_failed :: "env \<Rightarrow> string \<Rightarrow> bool" where
  "inspect_failed env i \<longleftrightarrow> (\<exists>s t e. errR (ContainerInspect env i False) s = (Err e, t))"

definition container_settled ::
  "env \<Rightarrow> container list \<Rightarrow> container \<Rightarrow> container_status \<Rightarrow> bool" where
  "container_settled env cons con cs \<longleftrightarrow>
     cst_name cs = con_name con \<and> cst_image cs = con_image con
     \<and> (\<exists>i. created env cons (con_name con) i \<and> cst_container_id cs = ''podman://'' @ i
         \<and> (if cst_ready cs then
              (\<exists>insp t. inspected env i insp \<and> cst_state cs = Running t
                 \<and> cst_restarts cs = ic_RestartCount insp
                 \<and> cst_image_id cs = hd (split_on (CHR '':'') (ic_ImageName insp)) @ ''@shasum:'' @ ic_Image insp)
            else inspect_failed env i
              \<and> cst_state cs = Waiting ''Initializing'' ''Container will be started soon.''))"

text \<open>The table of the containers' identifiers, and the inspections made from it.\<close>

definition ids_good :: "env \<Rightarrow> container list \<Rightarrow> container list \<Rightarrow> smap \<Rightarrow> bool" where
  "ids_good env cons pre ids \<longleftrightarrow> distinct (map fst ids)
     \<and> (\<forall>con \<in> set pre. \<exists>i. map_of ids (con_name con) = Some i \<and> created env cons (con_name con) i)"

definition insps_good ::
  "env \<Rightarrow> (string \<times> string) list \<Rightarrow> (string \<times> InspectContainerData) list \<Rightarrow> bool" where
  "insps_good env pre insps \<longleftrightarrow>
     (\<forall>(nm, i) \<in> set pre. case map_of insps nm of None \<Rightarrow> inspect_failed env i | Some c \<Rightarrow> inspected env i c)
     \<and> (\<forall>nm. nm \<notin> fst ` set pre \<longrightarrow> map_of insps nm = None)"

definition started_as ::
  "(string \<times> InspectContainerData) list \<Rightarrow> int \<Rightarrow> container_status \<Rightarrow> container_status" where
  "started_as insps t cs = (case map_of insps (cst_name cs) of
     None \<Rightarrow> cs
   | Some insp \<Rightarrow> cs\<lparr>cst_ready := True, cst_restarts := ic_RestartCount insp,
       cst_image_id := hd (split_on (CHR '':'') (ic_ImageName insp)) @ ''@shasum:'' @ ic_Image insp,
       cst_state := Running t\<rparr>)"

lemma yields_bind2: "yields P m \<Longrightarrow> (\<And>a. P a \<Longrightarrow> yields Q (k a)) \<Longrightarrow> yields Q (bindR m k)"
  unfolding yields_def by (blast elim: bindR_OkE)

text \<open>A loop that adds what one step establishes for its element.\<close>

lemma yields_fold:
  assumes "\<And>x pre a. x \<in> set xs \<Longrightarrow> G pre a \<Longrightarrow> fresh pre x \<Longrightarrow> yields (G (pre @ [x])) (f x a)"
    and "G pre a" "\<And>p x q. pre @ xs = p @ x # q \<Longrightarrow> fresh p x"
  shows "yields (G (pre @ xs)) (foldR f xs a)"
  using assms
proof (induction xs arbitrary: pre a)
  case Nil
  then show ?case unfolding foldR.simps append_Nil2 by (intro yields_ret)
next
  case (Cons x xs)
  have "fresh pre x" using Cons.prems(3) [of pre x xs] by simp
  then have step: "yields (G (pre @ [x])) (f x a)" using Cons.prems(1,2) by simp
  have "yields (G ((pre @ [x]) @ xs)) (foldR f xs b)" if "G (pre @ [x]) b" for b
    by (rule Cons.IH) (use Cons.prems that in auto)
  then show ?case unfolding foldR.simps by (intro yields_bind2 [OF step]) simp
qed

lemma create_yields:
  assumes "con \<in> set cons"
  shows "yields (\<lambda>r. created env cons (con_name con) (ccr_Id r)) (create_or_pull env pod secrets podId con)"
  using assms unfolding yields_def create_or_pull_def created_def
  by (auto elim!: bindR_OkE thenR_OkE simp: derefR_def errR_def split: option.splits if_splits prod.splits; blast)

lemma ids_yields:
  "yields (ids_good env cons cons)
     (foldR (create_container env p secrets podId) cons [(''_infra'', infra)])"
proof -
  have "yields (ids_good env cons ([] @ cons))
     (foldR (create_container env p secrets podId) cons [(''_infra'', infra)])"
  proof (rule yields_fold [where fresh = "\<lambda>_ _. True"])
    fix con pre ids assume c: "con \<in> set cons" and g: "ids_good env cons pre ids"
    have upd: "ids_good env cons (pre @ [con]) (AList.update (con_name con) i ids)"
      if "created env cons (con_name con) i" for i
      using g that by (auto simp: ids_good_def update_conv' distinct_update)
    show "yields (ids_good env cons (pre @ [con])) (create_container env p secrets podId con ids)"
      unfolding create_container_def
      by (intro yields_then yields_bind yields_bind2 [OF create_yields [OF c]] yields_ret upd)
  qed (simp_all add: ids_good_def)
  then show ?thesis by simp
qed

lemma insps_yields:
  assumes "distinct (map fst entries)"
  shows "yields (insps_good env entries) (foldR (inspect_container env cniNet p) entries [])"
proof -
  have "yields (insps_good env ([] @ entries)) (foldR (inspect_container env cniNet p) entries [])"
  proof (rule yields_fold [where fresh = "\<lambda>pre x. fst x \<notin> fst ` set pre"])
    fix x :: "string \<times> string" and pre insps
    assume g: "insps_good env pre insps" and f: "fst x \<notin> fst ` set pre"
    obtain nm i where x: "x = (nm, i)" by fastforce
    have none: "map_of insps nm = None" using g f x by (simp add: insps_good_def)
    have new: "nm \<noteq> k" if "(k, j) \<in> set pre" for k j using f x that by force
    show "yields (insps_good env (pre @ [x])) (inspect_container env cniNet p x insps)"
      unfolding x inspect_container_def prod.case
    proof (rule yields_bind2 [where P = "\<lambda>r. case r of Inl e \<Rightarrow> inspect_failed env i | Inr c \<Rightarrow> inspected env i c"])
      show "yields (\<lambda>r. case r of Inl e \<Rightarrow> inspect_failed env i | Inr c \<Rightarrow> inspected env i c)
          (tryR (errR (ContainerInspect env i False)))"
        by (auto simp: yields_def tryR_def inspect_failed_def inspected_def split: prod.splits res.splits)
    next
      fix r assume r: "case r of Inl e \<Rightarrow> inspect_failed env i | Inr c \<Rightarrow> inspected env i c"
      have "insps_good env (pre @ [(nm, i)]) insps" if "inspect_failed env i"
        using g none that by (auto simp: insps_good_def)
      moreover have "insps_good env (pre @ [(nm, i)]) (AList.update nm c insps)" if "inspected env i c" for c
        using g new that by (fastforce simp: insps_good_def update_conv')
      ultimately show "yields (insps_good env (pre @ [(nm, i)])) (case r of
          Inl err \<Rightarrow> ret insps
        | Inr conInsp \<Rightarrow> bindR (read_pod p) (\<lambda>pod.
              thenR
                (if nm = ''_infra'' \<and> \<not> sp_host_network (kp_spec pod) then
                   bindR (derefR (ic_NetworkSettings conInsp)) (\<lambda>settings.
                     case map_of (ins_Networks settings) cniNet of
                       None \<Rightarrow> ret ()
                     | Some network \<Rightarrow>
                         bindR (derefR network) (\<lambda>infraNetwork.
                           set_pod p (on_status (\<lambda>s. s\<lparr>ps_pod_ip := ibn_IPAddress (ian_Basic infraNetwork),
                             ps_pod_ips := [ibn_IPAddress (ian_Basic infraNetwork)]\<rparr>))))
                 else ret ())
                (ret (AList.update nm conInsp insps))))"
        using r by (cases r) (auto intro!: yields_ret yields_bind yields_then)
    qed
  next
    show "fst x \<notin> fst ` set q" if "[] @ entries = q @ x # r" for q x r using assms that by auto
  qed (simp add: insps_good_def)
  then show ?thesis by simp
qed

lemma started_yields:
  "yields (\<lambda>r. r = map (started_as insps t) css) (foldR (started_status t insps) css [])"
proof -
  have step: "yields (\<lambda>r. r = rest @ [started_as insps t cs]) (started_status t insps cs rest)" for cs rest
    unfolding started_status_def started_as_def
    by (cases "map_of insps (cst_name cs)") (auto intro!: yields_intros)
  have "yields (\<lambda>r. r = map (started_as insps t) ([] @ css)) (foldR (started_status t insps) css [])"
    by (rule yields_fold [where fresh = "\<lambda>_ _. True"]) (use step in auto)
  then show ?thesis by simp
qed

lemma settled_statuses:
  assumes "ids_good env cons cons ids" "insps_good env entries insps" "set entries = set ids"
  shows "list_all2 (container_settled env cons) cons
     (map (started_as insps t) (map (initial_container_status ids) cons))"
proof -
  have "container_settled env cons con (started_as insps t (initial_container_status ids con))"
    if c: "con \<in> set cons" for con
  proof -
    obtain i where i: "map_of ids (con_name con) = Some i" "created env cons (con_name con) i"
      using assms(1) c unfolding ids_good_def by blast
    then have "(con_name con, i) \<in> set entries" using assms(3) by (simp add: map_of_SomeD)
    then have "case map_of insps (con_name con) of None \<Rightarrow> inspect_failed env i | Some c \<Rightarrow> inspected env i c"
      using assms(2) unfolding insps_good_def by blast
    with i show ?thesis
      by (auto simp: container_settled_def started_as_def initial_container_status_def split: option.splits)
  qed
  then show ?thesis by (simp add: list_all2_conv_all_nth)
qed

lemma progress_initial:
  "triple (progress pod p phase inited ready (\<lambda>css. css = []))
     (set_pod p (\<lambda>pod. on_status (\<lambda>s. s\<lparr>ps_containers := ps_containers s
        @ map (initial_container_status ids) (sp_containers (kp_spec pod))\<rparr>) pod))
     (\<lambda>_. progress pod p phase inited ready (\<lambda>css. css = map (initial_container_status ids) (sp_containers (kp_spec pod))))"
  by (auto simp: triple_def progress_def on_status_def cond_pairs_def)

lemma triple_fold:
  "(\<And>x a. triple P (f x a) (\<lambda>_. P)) \<Longrightarrow> triple P (foldR f xs a) (\<lambda>_. P)"
proof (induction xs arbitrary: a)
  case Nil
  show ?case by (simp add: triple_def)
next
  case (Cons x xs)
  show ?case unfolding foldR.simps by (rule triple_bind [OF Cons.prems]) (rule Cons.IH [OF Cons.prems])
qed

lemma triple_keep:
  "keeps (\<lambda>s t. n_heap s p = n_heap t p) m \<Longrightarrow> (\<And>a. triple (progress pod p phase inited ready CS) (k a) R) \<Longrightarrow>
   triple (progress pod p phase inited ready CS) (bindR m k) R"
  by (rule triple_bind [OF progress_frame])

lemma triple_pure: "(Q \<Longrightarrow> triple P m R) \<Longrightarrow> triple (\<lambda>s. P s \<and> Q) m R"
  unfolding triple_def by blast

lemma triple_if: "(b \<Longrightarrow> triple P m Q) \<Longrightarrow> (\<not> b \<Longrightarrow> triple P k Q) \<Longrightarrow> triple P (if b then m else k) Q"
  by simp

lemma triple_option:
  "(r = None \<Longrightarrow> triple P m Q) \<Longrightarrow> (\<And>a. r = Some a \<Longrightarrow> triple P (k a) Q) \<Longrightarrow>
   triple P (case r of None \<Rightarrow> m | Some a \<Rightarrow> k a) Q"
  by (cases r) simp_all

lemma triple_sum:
  "(\<And>e. r = Inl e \<Longrightarrow> triple P (m e) Q) \<Longrightarrow> (\<And>a. r = Inr a \<Longrightarrow> triple P (k a) Q) \<Longrightarrow>
   triple P (case r of Inl e \<Rightarrow> m e | Inr a \<Rightarrow> k a) Q"
  by (cases r) simp_all

lemma triple_deref: "(\<And>a. triple P (k a) Q) \<Longrightarrow> triple P (bindR (derefR q) k) Q"
  by (cases q) (simp_all, simp add: triple_def)

lemma inspect_progress:
  "triple (progress pod p phase inited ready CS) (inspect_container env cniNet p entry inspects)
     (\<lambda>_. progress pod p phase inited ready CS)"
proof -
  have k: "keeps (\<lambda>s t. n_heap s p = n_heap t p) (tryR (errR (ContainerInspect env i False)))"
    "keeps (\<lambda>s t. n_heap s p = n_heap t p) (read_pod p)" for i
    by (intro same_frame.keeps_intros outside_heap)+
  have r: "triple (progress pod p phase inited ready CS) (ret a) (\<lambda>_. progress pod p phase inited ready CS)" for a
    by (simp add: triple_def)
  obtain nm i where e: "entry = (nm, i)" by fastforce
  show ?thesis
    unfolding inspect_container_def e prod.case
  proof (intro triple_keep [OF k(1)] triple_sum r triple_keep [OF k(2)])
    fix insp pod'
    show "triple (progress pod p phase inited ready CS)
      (thenR (if nm = ''_infra'' \<and> \<not> sp_host_network (kp_spec pod') then
                   bindR (derefR (ic_NetworkSettings insp)) (\<lambda>settings.
                     case map_of (ins_Networks settings) cniNet of
                       None \<Rightarrow> ret ()
                     | Some network \<Rightarrow>
                         bindR (derefR network) (\<lambda>infraNetwork.
                           set_pod p (on_status (\<lambda>s. s\<lparr>ps_pod_ip := ibn_IPAddress (ian_Basic infraNetwork),
                             ps_pod_ips := [ibn_IPAddress (ian_Basic infraNetwork)]\<rparr>))))
                 else ret ())
                (ret (AList.update nm insp inspects)))
      (\<lambda>_. progress pod p phase inited ready CS)"
    proof (rule triple_then [OF _ r], intro triple_if r)
      show "triple (progress pod p phase inited ready CS)
        (bindR (derefR (ic_NetworkSettings insp)) (\<lambda>settings.
                     case map_of (ins_Networks settings) cniNet of
                       None \<Rightarrow> ret ()
                     | Some network \<Rightarrow>
                         bindR (derefR network) (\<lambda>infraNetwork.
                           set_pod p (on_status (\<lambda>s. s\<lparr>ps_pod_ip := ibn_IPAddress (ian_Basic infraNetwork),
                             ps_pod_ips := [ibn_IPAddress (ian_Basic infraNetwork)]\<rparr>))))) (\<lambda>_. progress pod p phase inited ready CS)"
        by (intro triple_deref triple_option r progress_set)
    qed
  qed
qed

lemma quiet_progress:
  "triple (progress pod p ph ii rd CS) (notify q) (\<lambda>_. progress pod p ph ii rd CS)"
  "triple (progress pod p ph ii rd CS) (ignoreR (RegisterPod env q)) (\<lambda>_. progress pod p ph ii rd CS)"
  "triple (progress pod p ph ii rd CS) (now env) (\<lambda>_. progress pod p ph ii rd CS)"
  "triple (progress pod p ph ii rd CS) (range_map env xs) (\<lambda>_. progress pod p ph ii rd CS)"
  "triple (progress pod p ph ii rd CS) (errR (PodStart env i)) (\<lambda>_. progress pod p ph ii rd CS)"
proof -
  show "triple (progress pod p ph ii rd CS) (notify q) (\<lambda>_. progress pod p ph ii rd CS)"
    by (rule progress_frame [OF notify_heap])
  show "triple (progress pod p ph ii rd CS) (ignoreR (RegisterPod env q)) (\<lambda>_. progress pod p ph ii rd CS)"
    by (rule progress_frame) (intro same_frame.keeps_intros RegisterPod_heap)
  show "triple (progress pod p ph ii rd CS) (now env) (\<lambda>_. progress pod p ph ii rd CS)"
    "triple (progress pod p ph ii rd CS) (range_map env xs) (\<lambda>_. progress pod p ph ii rd CS)"
    by (simp_all add: triple_def)
  show "triple (progress pod p ph ii rd CS) (errR (PodStart env i)) (\<lambda>_. progress pod p ph ii rd CS)"
    by (rule progress_frame) (intro outside_heap)
qed

lemma final_statuses:
  assumes "list_all2 (container_settled env (sp_containers (kp_spec pod))) (sp_containers (kp_spec pod))
      (map (started_as insps t) css)"
  shows "triple (progress pod p ph ii rd CS)
     (bindR (foldR (started_status t insps) css []) (\<lambda>statuses.
        thenR (set_pod p (on_status (\<lambda>s. s\<lparr>ps_containers := statuses\<rparr>)))
        (thenR (notify p) (ignoreR (RegisterPod env p)))))
     (\<lambda>_. progress pod p ph ii rd
        (list_all2 (container_settled env (sp_containers (kp_spec pod))) (sp_containers (kp_spec pod))))"
proof (rule triple_bind)
  have "keeps (\<lambda>s t. n_heap s p = n_heap t p) (foldR (started_status t insps) css [])"
    by (intro same_frame.keeps_intros started_heap)
  from triple_yields [OF progress_frame [OF this] started_yields]
  show "triple (progress pod p ph ii rd CS) (foldR (started_status t insps) css [])
     (\<lambda>r s. progress pod p ph ii rd CS s \<and> r = map (started_as insps t) css)" .
  let ?CS = "list_all2 (container_settled env (sp_containers (kp_spec pod))) (sp_containers (kp_spec pod))"
  show "triple (\<lambda>s. progress pod p ph ii rd CS s \<and> statuses = map (started_as insps t) css)
     (thenR (set_pod p (on_status (\<lambda>s. s\<lparr>ps_containers := statuses\<rparr>)))
        (thenR (notify p) (ignoreR (RegisterPod env p))))
     (\<lambda>_. progress pod p ph ii rd ?CS)" for statuses
  proof (rule triple_pure)
    assume "statuses = map (started_as insps t) css"
    then show "triple (progress pod p ph ii rd CS)
       (thenR (set_pod p (on_status (\<lambda>s. s\<lparr>ps_containers := statuses\<rparr>)))
        (thenR (notify p) (ignoreR (RegisterPod env p)))) (\<lambda>_. progress pod p ph ii rd ?CS)"
      by (intro triple_then [OF progress_set(5) [where CS' = ?CS]] triple_then [OF quiet_progress(1)]
          quiet_progress(2)) (use assms in simp)
  qed
qed

lemma read_progress:
  assumes "\<And>pod'. CS (ps_containers (kp_status pod')) \<Longrightarrow> triple (progress pod p ph ii rd CS) (k pod') R"
  shows "triple (progress pod p ph ii rd CS) (bindR (read_pod p) k) R"
  unfolding triple_def
proof (intro allI impI)
  fix s a t assume s: "progress pod p ph ii rd CS s" and run: "bindR (read_pod p) k s = (Ok a, t)"
  then have "CS (ps_containers (kp_status (n_heap s p)))" by (simp add: progress_def)
  from tripleD [OF assms [OF this] s] run show "R a t" by simp
qed

lemma range_progress:
  "triple (progress pod p ph ii rd CS) (range_map env xs)
     (\<lambda>es s. progress pod p ph ii rd CS s \<and> mset es = mset xs)"
  by (rule triple_yields [OF quiet_progress(4)]) (simp add: yields_def)

lemma inspects_progress:
  assumes "distinct (map fst entries)"
  shows "triple (progress pod p ph ii rd CS) (foldR (inspect_container env cniNet p) entries [])
     (\<lambda>insps s. progress pod p ph ii rd CS s \<and> insps_good env entries insps)"
  by (rule triple_yields [OF triple_fold [OF inspect_progress] insps_yields [OF assms]])

lemma start_progress:
  assumes "ids_good env (sp_containers (kp_spec pod)) (sp_containers (kp_spec pod)) ids"
  shows "triple (progress pod p ph False False (\<lambda>css. css = [])) (start_in_podman env cniNet p (podId, ids))
     (\<lambda>_. progress pod p ''Running'' True True
        (list_all2 (container_settled env (sp_containers (kp_spec pod))) (sp_containers (kp_spec pod))))"
proof -
  have keys: "distinct (map fst es)" if "mset es = mset ids" for es
    using assms that by (metis ids_good_def mset_map mset_eq_imp_distinct_iff)
  show ?thesis
    unfolding start_in_podman_def prod.case
    by (rule triple_bind [OF quiet_progress(3)], rule triple_then [OF progress_set(1)],
        rule triple_then [OF progress_initial], rule triple_then [OF quiet_progress(1)],
        rule triple_then [OF quiet_progress(2)], rule triple_bind [OF quiet_progress(3)],
        rule triple_then [OF quiet_progress(5)], rule triple_then [OF progress_set(3)],
        rule triple_then [OF quiet_progress(1)], rule triple_then [OF quiet_progress(2)],
        rule triple_bind [OF range_progress], rule triple_pure,
        rule triple_bind [OF inspects_progress [OF keys]], assumption, rule triple_pure,
        rule triple_bind [OF quiet_progress(3)], rule triple_then [OF progress_set(2)],
        rule read_progress, rule final_statuses)
      (auto intro: settled_statuses [OF assms] dest: mset_eq_setD simp del: map_map)
qed

lemma create_progress:
  "triple (progress pod p ph ii rd CS) (create_in_podman env cniNet p coord)
     (\<lambda>r s. progress pod p ph ii rd CS s
        \<and> ids_good env (sp_containers (kp_spec pod)) (sp_containers (kp_spec pod)) (snd r))"
proof -
  have "triple (progress pod p ph ii rd CS) (create_in_podman env cniNet p coord)
     (\<lambda>r _. ids_good env (sp_containers (kp_spec pod)) (sp_containers (kp_spec pod)) (snd r))"
    unfolding triple_def
  proof (intro allI impI)
    fix s r t assume "progress pod p ph ii rd CS s" and run: "create_in_podman env cniNet p coord s = (Ok r, t)"
    then have "kp_spec (n_heap s p) = kp_spec pod" by (simp add: progress_def)
    with run show "ids_good env (sp_containers (kp_spec pod)) (sp_containers (kp_spec pod)) (snd r)"
      unfolding create_in_podman_def
      by (auto elim!: bindR_OkE thenR_OkE) (erule yieldsD [OF ids_yields])
  qed
  with progress_frame [OF create_in_podman_heap] show ?thesis
    unfolding triple_def by blast
qed

end
