(* ===== verification/Create_Live.thy ===== *)
theory Create_Live
  imports Create_Triples
begin

text \<open>
  Total correctness of the creation of a pod: with a disk that takes every file and a podman that
  answers every request the way its API says, the run of \<open>CreatePod\<close> ends without error and without
  panic. \<open>runs pod p V m\<close>: from every state in which the object \<open>p\<close> holds the pod (up to its status)
  \<open>m\<close> returns a value with \<open>V\<close> and the object still holds the pod.
\<close>

definition holds_pod :: "kpod \<Rightarrow> nat \<Rightarrow> node \<Rightarrow> bool" where
  "holds_pod pod p n \<longleftrightarrow> kp_meta (n_heap n p) = kp_meta pod \<and> kp_spec (n_heap n p) = kp_spec pod"

definition runs :: "kpod \<Rightarrow> nat \<Rightarrow> ('a \<Rightarrow> bool) \<Rightarrow> 'a run \<Rightarrow> bool" where
  "runs pod p V m \<longleftrightarrow> (\<forall>s. holds_pod pod p s \<longrightarrow> (\<exists>a t. m s = (Ok a, t) \<and> V a \<and> holds_pod pod p t))"

lemma runsE:
  assumes "runs pod p V m" "holds_pod pod p s"
  obtains a t where "m s = (Ok a, t)" "V a" "holds_pod pod p t"
  using assms unfolding runs_def by blast

lemma runs_weaken: "runs pod p V m \<Longrightarrow> (\<And>a. V a \<Longrightarrow> W a) \<Longrightarrow> runs pod p W m"
  unfolding runs_def by blast

lemma runs_bind:
  assumes "runs pod p V m" "\<And>a. V a \<Longrightarrow> runs pod p W (k a)"
  shows "runs pod p W (bindR m k)"
  unfolding runs_def
proof (intro allI impI)
  fix s assume "holds_pod pod p s"
  with assms(1) obtain a t where m: "m s = (Ok a, t)" "V a" "holds_pod pod p t" by (rule runsE)
  from assms(2) [OF m(2)] m(3) obtain b u where "k a t = (Ok b, u)" "W b" "holds_pod pod p u" by (rule runsE)
  with m(1) show "\<exists>b u. bindR m k s = (Ok b, u) \<and> W b \<and> holds_pod pod p u" by simp
qed

lemma runs_then: "runs pod p V m \<Longrightarrow> runs pod p W n \<Longrightarrow> runs pod p W (thenR m n)"
  unfolding thenR_def by (rule runs_bind)

lemma runs_ret: "V a \<Longrightarrow> runs pod p V (ret a)"
  by (simp add: runs_def)

lemma runs_get: "(\<And>s. holds_pod pod p s \<Longrightarrow> V (f s)) \<Longrightarrow> runs pod p V (getR f)"
  by (simp add: runs_def)

lemma runs_modify: "(\<And>s. n_heap (f s) p = n_heap s p) \<Longrightarrow> runs pod p (\<lambda>_. True) (modifyR f)"
  by (simp add: runs_def holds_pod_def)

lemma runs_deref: "q = Some a \<Longrightarrow> V a \<Longrightarrow> runs pod p V (derefR q)"
  by (simp add: derefR_def runs_ret)

lemma runs_try: "runs pod p V m \<Longrightarrow> runs pod p (\<lambda>r. \<exists>a. r = Inr a \<and> V a) (tryR m)"
  unfolding runs_def by fastforce

lemma runs_ignore: "runs pod p V m \<Longrightarrow> runs pod p (\<lambda>_. True) (ignoreR m)"
  unfolding ignoreR_def by (rule runs_bind [OF runs_try]) (simp_all add: runs_ret)

lemma runs_errR: "runs pod p (\<lambda>r. snd r = None \<and> V (fst r)) m \<Longrightarrow> runs pod p V (errR m)"
  unfolding errR_def by (erule runs_bind) (auto intro: runs_ret split: prod.split)

lemma runs_fold:
  "(\<And>x a. x \<in> set xs \<Longrightarrow> V a \<Longrightarrow> runs pod p V (f x a)) \<Longrightarrow> V a \<Longrightarrow> runs pod p V (foldR f xs a)"
proof (induction xs arbitrary: a)
  case (Cons x xs)
  show ?case unfolding foldR.simps
    by (rule runs_bind [of _ _ V]) (use Cons in simp_all)
qed (simp add: runs_ret)

lemma runs_for:
  "(\<And>x. x \<in> set xs \<Longrightarrow> runs pod p (\<lambda>_. True) (f x)) \<Longrightarrow> runs pod p (\<lambda>_. True) (forR f xs)"
  unfolding forR_def by (rule runs_fold) simp_all

lemma runs_emit: "runs pod p (\<lambda>_. True) (emit e)"
  unfolding emit_def by (rule runs_modify) simp

lemma runs_now: "runs pod p (\<lambda>_. True) (now env)"
  unfolding now_def by (rule runs_get) simp

lemma runs_read: "runs pod p (\<lambda>q. kp_meta q = kp_meta pod \<and> kp_spec q = kp_spec pod) (read_pod p)"
  unfolding read_pod_def by (rule runs_get) (simp add: holds_pod_def)

lemma runs_set_status: "runs pod p (\<lambda>_. True) (set_pod p (on_status f))"
  by (simp add: runs_def set_pod_def holds_pod_def on_status_def)

lemma runs_set_statuses: "runs pod p (\<lambda>_. True) (set_pod p (\<lambda>q. on_status (f q) q))"
  by (simp add: runs_def set_pod_def holds_pod_def on_status_def)

lemma runs_notify: "runs pod p (\<lambda>_. True) (notify p)"
  unfolding notify_def by (rule runs_bind [OF runs_read]) (rule runs_emit)

subsection \<open>Cooperation\<close>

text \<open>The disk takes every file, and every pod has a JSON form.\<close>

definition disk_up :: "env \<Rightarrow> bool" where
  "disk_up env \<longleftrightarrow> (\<forall>tr op. env_file env tr op = None) \<and> (\<forall>pod. \<exists>t. env_encode_pod env pod = Inr t)"

text \<open>Every request of a kind is answered with a body that decodes to a value with \<open>Q\<close>.\<close>

definition answers ::
  "env \<Rightarrow> string \<Rightarrow> 'a decoder \<Rightarrow> 'a \<Rightarrow> ('a \<Rightarrow> bool) \<Rightarrow> bool" where
  "answers env path dec out Q \<longleftrightarrow>
     (\<forall>tr rq. rq_path rq = api_prefix @ path \<longrightarrow>
        (\<exists>resp j. env_http env tr rq = Inr resp \<and> happy_status (rs_code resp)
           \<and> env_parse env (rs_body resp) = Inr j \<and> snd (dec j out) \<and> Q (fst (dec j out))))"

definition networks_given :: "InspectContainerData \<Rightarrow> bool" where
  "networks_given c \<longleftrightarrow>
     (\<exists>settings. ic_NetworkSettings c = Some settings \<and> None \<notin> snd ` set (ins_Networks settings))"

text \<open>Podman lists no volumes of the pod, creates pods and containers under plain identifiers, and
  finds and starts what it has created.\<close>

definition podman_up :: "env \<Rightarrow> bool" where
  "podman_up env \<longleftrightarrow>
     answers env ''/libpod/volumes/json'' (dec_list VolumeInfo_decoder zero_VolumeInfo (\<lambda>xs _. xs)) []
       (\<lambda>vs. vs = [])
     \<and> answers env ''/libpod/pods/create'' PodCreateReport_decoder \<lparr>pcr_Id = []\<rparr> (\<lambda>r. is_plain (pcr_Id r))
     \<and> answers env ''/libpod/containers/create'' ContainerCreateReport_decoder
         \<lparr>ccr_Id = [], ccr_Warnings = []\<rparr> (\<lambda>r. is_plain (ccr_Id r))
     \<and> (\<forall>i. is_plain i \<longrightarrow>
          answers env (''/libpod/pods/'' @ i @ ''/json'') InspectPodData_decoder zero_InspectPodData
            (\<lambda>r. is_plain (ip_InfraContainerID r))
          \<and> answers env (''/libpod/pods/'' @ i @ ''/start'') PodActionReport_decoder zero_PodActionReport
              (\<lambda>_. True)
          \<and> answers env (''/libpod/containers/'' @ i @ ''/json'') InspectContainerData_decoder
              zero_InspectContainerData networks_given)"

text \<open>The pod asks for nothing the creation may refuse: no volumes of its own, no pull secrets, no
  forced pulls; its priority is set, as is the pod's security context when a container has one, and the
  host has memory.\<close>

definition simple_pod :: "env \<Rightarrow> kpod \<Rightarrow> bool" where
  "simple_pod env pod \<longleftrightarrow>
     is_plain (pm_uid (kp_meta pod)) \<and> sp_volumes (kp_spec pod) = [] \<and> sp_pull_secrets (kp_spec pod) = []
     \<and> sp_priority (kp_spec pod) \<noteq> None \<and> wrap64 (env_memory env) \<noteq> 0
     \<and> (\<forall>con \<in> set (sp_containers (kp_spec pod)). con_pull_policy con \<noteq> ''Always''
          \<and> (con_security con = None \<or> sp_security (kp_spec pod) \<noteq> None))"

lemma converts:
  assumes "sp_priority (kp_spec pod) \<noteq> None" "wrap64 mem \<noteq> 0"
    "con_security con = None \<or> sp_security (kp_spec pod) \<noteq> None"
  shows "\<exists>spec. ConvertContainerConfig mem pod con i = Some spec"
proof -
  have "\<exists>oom. GetContainerOOMScoreAdjust pod con (wrap64 mem) = Some oom"
    using assms(1,2) by (auto simp: GetContainerOOMScoreAdjust_def Let_def)
  moreover have "\<exists>sec. convert_security pod con = Some sec"
  proof (cases "con_security con")
    case (Some sc)
    with assms(3) obtain ps where "sp_security (kp_spec pod) = Some ps" by auto
    then have own: "\<exists>r. own_or_pod x (sp_security (kp_spec pod)) f = Some r" for x :: "int option" and f
      by (cases x) (simp_all add: own_or_pod_def)
    from own obtain u where "own_or_pod (sc_run_as_user sc) (sp_security (kp_spec pod)) fst = Some u" by blast
    moreover from own obtain g where "own_or_pod (sc_run_as_group sc) (sp_security (kp_spec pod)) snd = Some g" by blast
    ultimately show ?thesis using Some by (simp add: convert_security_def Let_def)
  qed (simp add: convert_security_def)
  ultimately show ?thesis unfolding ConvertContainerConfig_Some by blast
qed

subsection \<open>The parts of the run\<close>

lemma runs_file_op: "disk_up env \<Longrightarrow> runs pod p (\<lambda>_. True) (file_op env op)"
  unfolding file_op_def
  by (rule runs_bind [of _ _ "\<lambda>r. r = None"], rule runs_get, simp add: disk_up_def,
      rule runs_then [OF runs_emit], simp add: runs_ret)

lemma runs_put_file: "runs pod p (\<lambda>_. True) (put_file name t)"
  unfolding put_file_def by (rule runs_modify) simp

lemma runs_RegisterPod:
  assumes "disk_up env"
  shows "runs pod p (\<lambda>_. True) (RegisterPod env p)"
proof -
  have store: "runs pod p (\<lambda>_. True) (StorePod env q)" for q
  proof -
    from assms obtain t where "env_encode_pod env q = Inr t" unfolding disk_up_def by blast
    then show ?thesis
      unfolding StorePod_def Let_def
      by (simp, intro runs_then [OF runs_file_op [OF assms]] runs_then [OF runs_put_file]
          runs_bind [OF runs_try [OF runs_file_op [OF assms]]])
        (auto intro!: runs_then [OF runs_put_file] runs_ret)
  qed
  show ?thesis
    unfolding RegisterPod_def
    by (rule runs_bind [OF runs_read], rule runs_bind [OF store], rule runs_then [OF runs_modify])
      (simp_all add: runs_ret)
qed

lemma runs_table: "runs pod p (\<lambda>_. True) (SetPodId coord i)" "runs pod p (\<lambda>_. True) (SetContainerIDs coord ids)"
  unfolding SetPodId_def SetContainerIDs_def by (rule runs_modify, simp split: option.split)+

lemma runs_request:
  assumes "answers env path dec out Q" "rq_path rq = api_prefix @ path"
  shows "runs pod p (\<lambda>r. snd r = None \<and> Q (fst r)) (performJsonRequest env rq dec out)"
proof -
  let ?ok = "\<lambda>resp. \<exists>j. env_parse env (rs_body resp) = Inr j \<and> snd (dec j out) \<and> Q (fst (dec j out))"
  have "runs pod p ?ok (performRequest env rq)"
    unfolding performRequest_def
  proof (rule runs_bind)
    show "runs pod p (\<lambda>r. \<exists>resp. r = Inr resp \<and> happy_status (rs_code resp) \<and> ?ok resp)
            (getR (\<lambda>n. env_http env (n_trace n) rq))"
      by (rule runs_get) (use assms in \<open>unfold answers_def, blast\<close>)
  qed (auto intro!: runs_then [OF runs_emit] runs_ret)
  then show ?thesis
    unfolding performJsonRequest_def
    by (rule runs_bind [OF runs_try]) (auto intro!: runs_ret simp: decode_into_def split: prod.splits)
qed

lemma runs_get_post:
  assumes "answers env path dec out Q" "is_plain path"
  shows "runs pod p (\<lambda>r. snd r = None \<and> Q (fst r)) (performGet env path dec out)"
    "runs pod p (\<lambda>r. snd r = None \<and> Q (fst r)) (performPost env path body dec out)"
  using assms
  by (simp_all add: performGet_def performPost_def new_request_plain derefR_def runs_request rq_path_def)

lemma runs_named:
  "is_plain i \<Longrightarrow> runs pod p V (k i) \<Longrightarrow> runs pod p V (named i out k)"
  by (simp add: named_def UrlEncoded_plain)

lemma plain_lib: "is_plain ''/libpod/pods/''" "is_plain ''/json''" "is_plain ''/start''" "is_plain ''/libpod/containers/''"
  "is_plain ''/libpod/pods/create''" "is_plain ''/libpod/containers/create''"
  by (simp_all add: is_plain_def path_safe_def)

lemma plain_paths:
  assumes "is_plain i"
  shows "is_plain (''/libpod/pods/'' @ i @ ''/json'')" "is_plain (''/libpod/pods/'' @ i @ ''/start'')"
    "is_plain (''/libpod/containers/'' @ i @ ''/json'')"
  using assms by (simp_all add: is_plain_def path_safe_def)

lemma runs_PodCreate:
  "podman_up env \<Longrightarrow> runs pod p (\<lambda>r. is_plain (pcr_Id r)) (errR (PodCreate env spec))"
  unfolding PodCreate_def by (rule runs_errR, rule runs_get_post) (simp_all add: podman_up_def plain_lib)

lemma runs_ContainerCreate:
  "podman_up env \<Longrightarrow> runs pod p (\<lambda>r. snd r = None \<and> is_plain (ccr_Id (fst r))) (ContainerCreate env spec)"
  unfolding ContainerCreate_def by (rule runs_get_post) (simp_all add: podman_up_def plain_lib)

lemma runs_PodInspect:
  "podman_up env \<Longrightarrow> is_plain i \<Longrightarrow>
   runs pod p (\<lambda>r. is_plain (ip_InfraContainerID r)) (errR (PodInspect env i))"
  unfolding PodInspect_def
  by (rule runs_errR, rule runs_named, assumption, rule runs_get_post, simp add: podman_up_def,
      rule plain_paths, assumption)

lemma runs_PodStart:
  "podman_up env \<Longrightarrow> is_plain i \<Longrightarrow> runs pod p (\<lambda>_. True) (errR (PodStart env i))"
  unfolding PodStart_def
  by (rule runs_errR, rule runs_named, assumption, rule runs_get_post, simp add: podman_up_def,
      rule plain_paths, assumption)

lemma runs_ContainerInspect:
  "podman_up env \<Longrightarrow> is_plain i \<Longrightarrow> runs pod p networks_given (errR (ContainerInspect env i False))"
  unfolding ContainerInspect_def
  by (rule runs_errR, rule runs_named, assumption, unfold if_False append_Nil2, rule runs_get_post, simp add: podman_up_def,
      rule plain_paths, assumption)

text \<open>Such a podman fails no inspection of a container it created.\<close>

lemma podman_up_ready:
  assumes "podman_up env" "container_settled env cons con cs"
  shows "cst_ready cs"
proof (rule ccontr)
  assume "\<not> cst_ready cs"
  with assms(2) obtain i where i: "created env cons (con_name con) i" "inspect_failed env i"
    unfolding container_settled_def by auto
  from i(1) obtain spec s r t where c: "ContainerCreate env spec s = (Ok (r, None), t)" "ccr_Id r = i"
    unfolding created_def by blast
  have "is_plain i"
  proof -
    have "holds_pod (n_heap s 0) 0 s" by (simp add: holds_pod_def)
    with runs_ContainerCreate [OF assms(1)] obtain a u where
      "ContainerCreate env spec s = (Ok a, u)" "snd a = None \<and> is_plain (ccr_Id (fst a))" by (rule runsE)
    with c show ?thesis by auto
  qed
  moreover from i(2) obtain u v e where "errR (ContainerInspect env i False) u = (Err e, v)"
    unfolding inspect_failed_def by blast
  ultimately show False
  proof -
    assume i: "is_plain i"
    have "holds_pod (n_heap u 0) 0 u" by (simp add: holds_pod_def)
    with runs_ContainerInspect [OF assms(1) i] obtain a w where
      "errR (ContainerInspect env i False) u = (Ok a, w)" by (rule runsE)
    with \<open>errR (ContainerInspect env i False) u = (Err e, v)\<close> show False by simp
  qed
qed

lemma runs_inspect_container:
  assumes "podman_up env" "is_plain i"
  shows "runs pod p (\<lambda>_. True) (inspect_container env cniNet p (nm, i) inspects)"
proof -
  have net: "runs pod p (\<lambda>_. True) (bindR (derefR (ic_NetworkSettings insp)) (\<lambda>settings.
                     case map_of (ins_Networks settings) cniNet of
                       None \<Rightarrow> ret ()
                     | Some network \<Rightarrow>
                         bindR (derefR network) (\<lambda>infraNetwork.
                           set_pod p (on_status (\<lambda>s. s\<lparr>ps_pod_ip := ibn_IPAddress (ian_Basic infraNetwork),
                             ps_pod_ips := [ibn_IPAddress (ian_Basic infraNetwork)]\<rparr>)))))"
    if g: "networks_given insp" for insp
  proof -
    from g obtain settings where s: "ic_NetworkSettings insp = Some settings"
      and n: "None \<notin> snd ` set (ins_Networks settings)" unfolding networks_given_def by blast
    show ?thesis
    proof (cases "map_of (ins_Networks settings) cniNet")
      case (Some network)
      then have "network \<noteq> None" using n by (force dest: map_of_SomeD)
      then obtain y where "network = Some y" by blast
      with s Some show ?thesis by (simp only: derefR_def option.case bindR_ret_simps runs_set_status)
    next
      case None
      with s show ?thesis by (simp only: derefR_def option.case bindR_ret_simps runs_ret)
    qed
  qed
  show ?thesis
    unfolding inspect_container_def prod.case
    by (rule runs_bind [OF runs_try [OF runs_ContainerInspect [OF assms]]])
      (auto intro!: runs_bind [OF runs_read] runs_then [where V = "\<lambda>_. True"] runs_ret net)
qed

lemma update_values: "snd ` set (AList.update k v al) \<subseteq> insert v (snd ` set al)"
  by (induction al) auto

lemma runs_create_container:
  assumes "podman_up env" "simple_pod env pod" "con \<in> set (sp_containers (kp_spec pod))"
    "\<forall>i \<in> snd ` set ids. is_plain i"
  shows "runs pod p (\<lambda>ids. \<forall>i \<in> snd ` set ids. is_plain i) (create_container env p secrets i con ids)"
proof -
  have conv: "\<exists>spec. ConvertContainerConfig (env_memory env) q con i = Some spec"
    if "kp_meta q = kp_meta pod \<and> kp_spec q = kp_spec pod" for q
    by (rule converts) (use that assms(2,3) in \<open>auto simp: simple_pod_def\<close>)
  have create: "runs pod p (\<lambda>r. is_plain (ccr_Id r)) (create_or_pull env q secrets i con)"
    if "kp_meta q = kp_meta pod \<and> kp_spec q = kp_spec pod" for q
    using conv [OF that] unfolding create_or_pull_def
    by (auto simp: derefR_def intro!: runs_bind [OF runs_ContainerCreate [OF assms(1)]] runs_ret)
  have rec: "runs pod p (\<lambda>_. True) (record_creation con r)" for r
    unfolding record_creation_def by (intro runs_then [OF runs_for] runs_emit)
  have upd: "\<forall>x \<in> snd ` set (AList.update (con_name con) j ids). is_plain x" if "is_plain j" for j
    using assms(4) that update_values [of "con_name con" j ids] by blast
  have pol: "con_pull_policy con \<noteq> ''Always''" using assms(2,3) unfolding simple_pod_def by blast
  show ?thesis
    unfolding create_container_def using pol
    by (simp, intro runs_then [OF runs_ret [where V = "\<lambda>_. True"]] runs_bind [OF runs_read] runs_bind [OF create]
        runs_then [OF rec] runs_ret)
      (use upd in simp_all)
qed

text \<open>The filter of the volume list is JSON text, which is escaped into the query of the request.\<close>

definition tame :: "char \<Rightarrow> bool" where
  "tame c \<longleftrightarrow> \<not> is_ctl c \<and> c \<notin> {CHR 0x25, CHR ''?'', CHR ''#''}"

lemma tame_split:
  "list_all tame s \<Longrightarrow> split_at (CHR ''#'') s = (s, []) \<and> split_at (CHR ''?'') s = (s, [])
     \<and> \<not> list_ex is_ctl s \<and> filter (\<lambda>c. c = CHR ''?'') s = [] \<and> url_unescape s = Some s"
  by (induction s) (auto simp: split_at_def tame_def)

lemma upper_hex_safe: "n < 16 \<Longrightarrow> path_safe (upper_hex n)"
proof -
  have "\<forall>c \<in> set ''0123456789ABCDEF''. path_safe c" by (simp add: path_safe_def)
  moreover assume "n < 16"
  then have "upper_hex n \<in> set ''0123456789ABCDEF''" unfolding upper_hex_def by (intro nth_mem) simp
  ultimately show ?thesis by blast
qed

lemma escaped_chars: "list_all (\<lambda>c. path_safe c \<or> c = CHR 0x25) (url_escape s)"
proof -
  have "(of_char c :: nat) div 16 < 16" for c :: char
    using of_char_of [of "of_char c :: nat"] by (simp add: of_char_def)
  then show ?thesis by (induction s) (simp_all add: url_escape_def upper_hex_safe)
qed

lemma UrlEncoded_tame:
  assumes "list_all tame s" "\<not> list_all raw_path_ok s"
  shows "UrlEncoded s = Some (url_escape s)"
proof -
  define t where "t = ''/a/'' @ s"
  have t: "list_all tame t" using assms(1) unfolding t_def by (simp add: tame_def is_ctl_def)
  note split = tame_split [OF t]
  have raw: "\<not> list_all raw_path_ok t" "t \<noteq> ''*''" using assms(2) unfolding t_def by simp_all
  have esc: "url_escape t = ''/a/'' @ url_escape s" unfolding t_def by (simp add: url_escape_def path_safe_def)
  have force: "\<not> (has_suffix t ''?'' \<and> length (filter (\<lambda>c. c = CHR ''?'') t) = 1)" using split by simp
  have parts: "split_at (CHR ''#'') t = (t, [])" "split_at (CHR ''?'') t = (t, [])" "\<not> list_ex is_ctl t"
    "url_unescape t = Some t" using split by blast+
  let ?u = "\<lparr>u_path = t, u_raw_path = (if url_escape t = t then [] else t),
     u_force_query = False, u_query = [], u_fragment = []\<rparr>"
  have parse: "url_parse t = Some ?u"
    unfolding url_parse_def parts(1) Let_def prod.case if_not_P [OF force] parts(2) if_not_P [OF parts(3)]
      parts(4) url_unescape.simps(1) option.case using force by simp
  have "escaped_path ?u = url_escape t"
    unfolding escaped_path_def url.simps using raw by simp
  then have "url_string ?u = url_escape t" by (simp add: url_string_def)
  with parse show ?thesis unfolding UrlEncoded_def t_def [symmetric] by (simp add: esc)
qed

lemma tame_percent: "\<not> is_ctl (CHR 0x25)" "\<not> is_ctl (CHR ''?'')"
  by (simp_all add: is_ctl_def)

lemma query_split:
  assumes "is_plain q" "list_all (\<lambda>c. path_safe c \<or> c = CHR 0x25) e"
  shows "split_at (CHR ''#'') (q @ ''?'' @ e) = (q @ ''?'' @ e, [])"
    "split_at (CHR ''?'') (q @ ''?'' @ e) = (q, e)"
    "\<not> list_ex is_ctl (q @ ''?'' @ e)"
    "has_suffix (q @ ''?'' @ e) ''?'' \<Longrightarrow> e = []"
proof -
  have e: "\<forall>c \<in> set e. c \<noteq> CHR ''?'' \<and> c \<noteq> CHR ''#'' \<and> \<not> is_ctl c"
    using assms(2) tame_percent by (auto simp: list_all_iff dest: path_safe_not)
  have q: "\<forall>c \<in> set q. c \<noteq> CHR ''?'' \<and> c \<noteq> CHR ''#'' \<and> \<not> is_ctl c"
    using assms(1) by (auto simp: is_plain_def list_all_iff dest: path_safe_not)
  have eh: "takeWhile (\<lambda>x. x \<noteq> CHR ''#'') e = e" "dropWhile (\<lambda>x. x \<noteq> CHR ''#'') e = []"
    using e by (simp_all add: takeWhile_eq_all_conv dropWhile_eq_Nil_conv)
  have q': "\<forall>x \<in> set q. x \<noteq> CHR ''#''" "\<forall>x \<in> set q. x \<noteq> CHR ''?''" using q by simp_all
  show "split_at (CHR ''#'') (q @ ''?'' @ e) = (q @ ''?'' @ e, [])"
    using q'(1) by (simp add: split_at_def eh)
  show "split_at (CHR ''?'') (q @ ''?'' @ e) = (q, e)"
    using q'(2) by (simp add: split_at_def)
  show "\<not> list_ex is_ctl (q @ ''?'' @ e)"
    using e q tame_percent by (auto simp: list_ex_iff)
  show "e = []" if "has_suffix (q @ ''?'' @ e) ''?''"
  proof (rule ccontr)
    assume ne: "e \<noteq> []"
    from that have "last (q @ ''?'' @ e) = CHR ''?''" unfolding has_suffix_iff by (metis last_snoc)
    with ne have "last e = CHR ''?''" by simp
    with ne e show False using last_in_set [OF ne] by blast
  qed
qed

lemma query_request:
  assumes "is_plain path" "list_all (\<lambda>c. path_safe c \<or> c = CHR 0x25) e"
  obtains rq where "new_request meth (path @ ''?'' @ e) headers body = Some rq" "rq_path rq = api_prefix @ path"
proof -
  have p: "is_plain (api_prefix @ path)" using assms(1) by (simp add: is_plain_def api_prefix_def path_safe_def)
  note split = query_split [OF p assms(2)]
  let ?F = "(api_prefix @ path) @ ''?'' @ e"
  have trail: "butlast ?F = api_prefix @ path" if "has_suffix ?F ''?''"
    using split(4) [OF that] by (simp add: butlast_append)
  have "\<exists>u. url_parse ?F = Some u \<and> u_path u = api_prefix @ path"
  proof (cases "has_suffix ?F ''?'' \<and> length (filter (\<lambda>c. c = CHR ''?'') ?F) = 1")
    case True
    show ?thesis
      unfolding url_parse_def split(1) Let_def prod.case if_P [OF True] trail [OF conjunct1 [OF True]]
        if_not_P [OF split(3)] plain_unescape [OF p] url_unescape.simps(1) option.case
      by simp
  next
    case False
    show ?thesis
      unfolding url_parse_def split(1) Let_def prod.case if_not_P [OF False] split(2)
        if_not_P [OF split(3)] plain_unescape [OF p] url_unescape.simps(1) option.case
      by simp
  qed
  then show thesis using that by (auto simp: new_request_def rq_path_def)
qed

lemma tame_code:
  assumes "48 \<le> (of_char c :: nat)" "(of_char c :: nat) \<le> 122" "(of_char c :: nat) \<noteq> 63"
  shows "tame c"
proof -
  have "(of_char (CHR 0x25) :: nat) = 37" "(of_char (CHR ''?'') :: nat) = 63" "(of_char (CHR ''#'') :: nat) = 35"
    by simp_all
  with assms show ?thesis by (auto simp: tame_def is_ctl_def)
qed

lemma json_escape_tame: "path_safe c \<Longrightarrow> list_all tame (json_escape c)"
proof -
  assume c: "path_safe c"
  then have "tame c" by (auto simp: tame_def dest: path_safe_not)
  moreover have "tame (hex_digit n)" if "n < 16" for n
  proof -
    have "(of_char (hex_digit n) :: nat) = (if n < 10 then 48 + n else 87 + n)"
      using that by (simp add: hex_digit_def digit_char_def)
    with that show ?thesis by (intro tame_code) simp_all
  qed
  moreover have "(of_char c :: nat) div 16 < 16" 
    using of_char_of [of "of_char c :: nat"] by (simp add: of_char_def)
  ultimately show ?thesis by (simp add: json_escape_def Let_def tame_def is_ctl_def)
qed

lemma quoted_tame:
  assumes "is_plain s"
  shows "list_all tame (quoted s)"
proof -
  have "list_all tame (concat (map json_escape s))"
    using assms by (induction s) (simp_all add: is_plain_def json_escape_tame)
  then show ?thesis by (simp add: quoted_def tame_def is_ctl_def)
qed

lemma filters_tame:
  assumes "is_plain uid"
  shows "list_all tame (filters_text [(''label'', [''poduid='' @ uid])])"
    "\<not> list_all raw_path_ok (filters_text [(''label'', [''poduid='' @ uid])])"
proof -
  have f: "filters_text [(k, [v])] = ''{'' @ quoted k @ '':['' @ quoted v @ '']'' @ ''}''" for k v
    by (simp add: filters_text_def)
  have l: "is_plain ''label''" "is_plain (''poduid='' @ uid)" using assms by (simp_all add: is_plain_def path_safe_def)
  have lit: "list_all tame ''{''" "list_all tame '':[''" "list_all tame '']''" "list_all tame ''}''"
    by (simp_all add: tame_def is_ctl_def)
  show "list_all tame (filters_text [(''label'', [''poduid='' @ uid])])"
    unfolding f list_all_append by (intro conjI lit quoted_tame l)
  show "\<not> list_all raw_path_ok (filters_text [(''label'', [''poduid='' @ uid])])"
  proof -
    have "\<not> list_all raw_path_ok ''{''" by (simp add: raw_path_ok_def path_safe_def)
    then show ?thesis unfolding f list_all_append by blast
  qed
qed

lemma runs_volumes:
  assumes "podman_up env" "simple_pod env pod" "kp_meta q = kp_meta pod" "kp_spec q = kp_spec pod"
  shows "runs pod p (\<lambda>_. True) (CreatePodVolumes env q)"
proof -
  let ?t = "filters_text [(''label'', [''poduid='' @ pm_uid (kp_meta q)])]"
  have uid: "is_plain (pm_uid (kp_meta q))" using assms(2,3) by (simp add: simple_pod_def)
  have enc: "UrlEncoded ?t = Some (url_escape ?t)" by (rule UrlEncoded_tame [OF filters_tame [OF uid]])
  have plain: "is_plain ''/libpod/volumes/json''" by (simp add: is_plain_def path_safe_def)
  have ok: "list_all (\<lambda>c. path_safe c \<or> c = CHR 0x25) (''filters='' @ url_escape ?t)"
    using escaped_chars [of ?t] by (simp add: path_safe_def)
  obtain rq where rq: "new_request ''GET'' (''/libpod/volumes/json'' @ ''?'' @ ''filters='' @ url_escape ?t) accept_json None = Some rq"
    "rq_path rq = api_prefix @ ''/libpod/volumes/json''"
    using query_request [OF plain ok, of "''GET''" accept_json None] by blast
  have rq': "new_request ''GET'' (''/libpod/volumes/json?filters='' @ url_escape ?t) accept_json None = Some rq"
    using rq(1) by simp
  have up: "answers env ''/libpod/volumes/json'' (dec_list VolumeInfo_decoder zero_VolumeInfo (\<lambda>xs _. xs)) []
       (\<lambda>vs. vs = [])" using assms(1) unfolding podman_up_def by blast
  have "runs pod p (\<lambda>r. snd r = None \<and> fst r = []) (VolumeList env [(''label'', [''poduid='' @ pm_uid (kp_meta q)])])"
    using runs_request [OF up rq(2)]
    by (simp only: VolumeList_def named_def enc option.case performGet_def derefR_def rq' bindR_ret_simps)
  then have "runs pod p (\<lambda>vs. vs = []) (ListRuntimeVolumes env (pm_uid (kp_meta q)))"
    unfolding ListRuntimeVolumes_def
    by (rule runs_bind [OF runs_errR]) (simp add: derefR_def runs_ret del: act_simps)
  then have clean: "runs pod p (\<lambda>_. True) (CleanupVolumes env (kp_meta q))"
    unfolding CleanupVolumes_def by (rule runs_bind) (rule runs_for, simp)
  show ?thesis
    using assms(2,4) unfolding CreatePodVolumes_def simple_pod_def
    by (intro runs_then [OF clean]) (simp add: runs_ret del: act_simps)
qed

lemma runs_create:
  assumes "podman_up env" "simple_pod env pod"
  shows "runs pod p (\<lambda>(i, ids). is_plain i \<and> (\<forall>i \<in> snd ` set ids. is_plain i)) (create_in_podman env cniNet p coord)"
  unfolding create_in_podman_def
proof (rule runs_bind [OF runs_read], rule runs_then, rule runs_volumes [OF assms], blast, blast,
    rule runs_bind [OF runs_PodCreate [OF assms(1)]], rule runs_then [OF runs_table(1)],
    rule runs_bind [OF runs_PodInspect [OF assms(1)]], assumption, rule runs_bind)
  fix q creation insp
  assume q: "kp_meta q = kp_meta pod \<and> kp_spec q = kp_spec pod"
    and i: "is_plain (pcr_Id creation)" "is_plain (ip_InfraContainerID insp)"
  show "runs pod p (\<lambda>_. True) (GrabPullSecrets env (pm_ns (kp_meta q)) (sp_pull_secrets (kp_spec q)))"
    using q assms(2) by (simp add: simple_pod_def GrabPullSecrets_def runs_ret del: act_simps(1))
  show "runs pod p (\<lambda>(i, ids). is_plain i \<and> (\<forall>i \<in> snd ` set ids. is_plain i))
    (bindR (foldR (create_container env p secrets (pcr_Id creation)) (sp_containers (kp_spec q))
                [(''_infra'', ip_InfraContainerID insp)]) (\<lambda>containerIDs.
       thenR (SetContainerIDs coord containerIDs) (ret (pcr_Id creation, containerIDs))))" for secrets
    by (rule runs_bind [where V = "\<lambda>ids. \<forall>i \<in> snd ` set ids. is_plain i"],
        rule runs_fold [OF runs_create_container [OF assms]])
      (use q i in \<open>simp_all add: runs_then [OF runs_table(2)] runs_ret\<close>)
qed

lemma runs_start:
  assumes "disk_up env" "podman_up env" "is_plain i" "\<forall>i \<in> snd ` set ids. is_plain i"
  shows "runs pod p (\<lambda>_. True) (start_in_podman env cniNet p (i, ids))"
proof -
  note reg = runs_then [OF runs_ignore [OF runs_RegisterPod [OF assms(1)]]]
  have entries: "runs pod p (\<lambda>es. \<forall>i \<in> snd ` set es. is_plain i) (range_map env ids)"
    unfolding range_map_def by (rule runs_get) (use assms(4) in \<open>simp add: set_visit\<close>)
  have inspects: "runs pod p (\<lambda>_. True) (foldR (inspect_container env cniNet p) es [])"
    if "\<forall>i \<in> snd ` set es. is_plain i" for es
    by (rule runs_fold) (use that runs_inspect_container [OF assms(2)] in \<open>auto simp: image_iff\<close>)
  have statuses: "runs pod p (\<lambda>_. True) (foldR (started_status t insps) css [])" for t insps css
  proof (rule runs_fold)
    fix cs rest
    show "runs pod p (\<lambda>_. True) (started_status t insps cs rest)"
      unfolding started_status_def
      by (cases "map_of insps (cst_name cs)") (simp_all only: option.case, rule runs_ret, simp,
          rule runs_then [OF runs_emit], rule runs_ret, simp)
  qed simp
  show ?thesis
    unfolding start_in_podman_def prod.case
    by (rule runs_bind [OF runs_now], rule runs_then [OF runs_set_status],
        rule runs_then [OF runs_set_statuses], rule runs_then [OF runs_notify], rule reg,
        rule runs_bind [OF runs_now], rule runs_then [OF runs_PodStart [OF assms(2,3)]],
        rule runs_then [OF runs_set_status], rule runs_then [OF runs_notify], rule reg,
        rule runs_bind [OF entries], rule runs_bind [OF inspects], assumption,
        rule runs_bind [OF runs_now], rule runs_then [OF runs_set_status],
        rule runs_bind [OF runs_read], rule runs_bind [OF statuses], rule runs_then [OF runs_set_status],
        rule runs_then [OF runs_notify], rule runs_ignore [OF runs_RegisterPod [OF assms(1)]])
qed

lemma CreatePod_runs:
  assumes "disk_up env" "podman_up env" "simple_pod env (n_heap n p)"
  obtains n' where "CreatePod env cniNet p n = (Ok (), n')"
proof -
  let ?pod = "n_heap n p"
  have "runs ?pod p (\<lambda>_. True) (if is_static q then ret ()
       else
         bindR (now env) (\<lambda>t.
         thenR (set_pod p (on_status (\<lambda>_. creating_status t)))
         (thenR (notify p)
         (bindR (RegisterPod env p) (\<lambda>podCoord.
          bindR (create_in_podman env cniNet p podCoord) (start_in_podman env cniNet p))))))" for q
  proof (cases "is_static q")
    case False
    have "runs ?pod p (\<lambda>_. True) (bindR (create_in_podman env cniNet p podCoord) (start_in_podman env cniNet p))"
      for podCoord
      by (rule runs_bind [OF runs_create [OF assms(2,3)]]) (auto intro: runs_start [OF assms(1,2)])
    then show ?thesis using False
      by (simp, intro runs_bind [OF runs_now] runs_then [OF runs_set_status] runs_then [OF runs_notify]
          runs_bind [OF runs_RegisterPod [OF assms(1)]])
  qed (simp only: if_True runs_ret)
  then have "runs ?pod p (\<lambda>_. True) (CreatePod env cniNet p)"
    unfolding CreatePod_def by (rule runs_bind [OF runs_read])
  moreover have "holds_pod ?pod p n" by (simp add: holds_pod_def)
  ultimately obtain n' where "CreatePod env cniNet p n = (Ok (), n')" by (rule runsE) simp
  with that show thesis .
qed

end
