(* ===== verification/Create_Props.thy ===== *)
theory Create_Props
  imports Create_Live
begin

text \<open>The creation of a pod: it returns in a cooperative environment, and what the pod looks like then.\<close>

subsection \<open>An environment and a pod\<close>

definition ex_create_env :: env where
  "ex_create_env = ex_env
     (\<lambda>tr rq. Inr \<lparr>rs_code = 200, rs_status = ''200 OK'', rs_body = rq_path rq\<rparr>)
     (\<lambda>b. Inr (if b = ''/v1.0.0/libpod/volumes/json'' then JArr []
               else JObj [(''Id'', JStr ''x1''), (''NetworkSettings'', JObj [])]))"

definition ex_create_node :: node where
  "ex_create_node = ex_node\<lparr>n_heap := (\<lambda>_. ex_pod\<lparr>kp_spec := (kp_spec ex_pod)\<lparr>sp_containers := [ex_container]\<rparr>\<rparr>)\<rparr>"

lemma ex_disk_up: "disk_up ex_create_env"
  by (simp add: disk_up_def ex_create_env_def ex_env_def)

lemma ex_answers:
  assumes "path \<noteq> ''/libpod/volumes/json''"
    "snd (dec (JObj [(''Id'', JStr ''x1''), (''NetworkSettings'', JObj [])]) out)"
    "Q (fst (dec (JObj [(''Id'', JStr ''x1''), (''NetworkSettings'', JObj [])]) out))"
  shows "answers ex_create_env path dec out Q"
proof -
  have "api_prefix @ path \<noteq> ''/v1.0.0/libpod/volumes/json''"
    using assms(1) by (simp add: api_prefix_def)
  then show ?thesis using assms(2,3)
    by (simp add: answers_def ex_create_env_def ex_env_def happy_status_def)
qed

lemma ex_decoded:
  "PodCreateReport_decoder (JObj [(''Id'', JStr ''x1''), (''NetworkSettings'', JObj [])]) \<lparr>pcr_Id = []\<rparr> = (\<lparr>pcr_Id = ''x1''\<rparr>, True)"
  "case InspectPodData_decoder (JObj [(''Id'', JStr ''x1''), (''NetworkSettings'', JObj [])]) zero_InspectPodData of (r, ok) \<Rightarrow> ok \<and> ip_InfraContainerID r = []"
  "snd (PodActionReport_decoder (JObj [(''Id'', JStr ''x1''), (''NetworkSettings'', JObj [])]) zero_PodActionReport)"
  "case InspectContainerData_decoder (JObj [(''Id'', JStr ''x1''), (''NetworkSettings'', JObj [])]) zero_InspectContainerData of (r, ok) \<Rightarrow> ok \<and> map_option ins_Networks (ic_NetworkSettings r) = Some []"
  "ContainerCreateReport_decoder (JObj [(''Id'', JStr ''x1''), (''NetworkSettings'', JObj [])]) \<lparr>ccr_Id = [], ccr_Warnings = []\<rparr> = (\<lparr>ccr_Id = ''x1'', ccr_Warnings = []\<rparr>, True)"
  by code_simp+

lemma ex_podman_up: "podman_up ex_create_env"
proof -
  have vols: "answers ex_create_env ''/libpod/volumes/json''
      (dec_list VolumeInfo_decoder zero_VolumeInfo (\<lambda>xs _. xs)) [] (\<lambda>vs. vs = [])"
    by (simp add: answers_def ex_create_env_def ex_env_def happy_status_def api_prefix_def dec_list_def dec_elems_def)
  show ?thesis
    unfolding podman_up_def using ex_decoded
    by (intro conjI [OF vols] conjI allI impI ex_answers)
      (auto simp: is_plain_def path_safe_def networks_given_def split: prod.splits)
qed

lemma ex_simple_pod: "simple_pod ex_create_env (n_heap ex_create_node p)"
  by (simp add: simple_pod_def ex_create_node_def ex_node_def ex_pod_def is_plain_def path_safe_def
    ex_container_def ex_create_env_def ex_env_def wrap64_def)

definition is_running :: "container_state \<Rightarrow> bool" where
  "is_running s = (case s of Running t \<Rightarrow> True | _ \<Rightarrow> False)"

lemma ex_created: "created ex_create_env cons nm i \<Longrightarrow> i = ''x1''"
proof -
  assume "created ex_create_env cons nm i"
  then obtain spec s r t where c: "ContainerCreate ex_create_env spec s = (Ok (r, None), t)" "ccr_Id r = i"
    unfolding created_def by blast
  have "answers ex_create_env ''/libpod/containers/create'' ContainerCreateReport_decoder
         \<lparr>ccr_Id = [], ccr_Warnings = []\<rparr> (\<lambda>r. ccr_Id r = ''x1'')"
    using ex_decoded(5) by (intro ex_answers) simp_all
  from runs_get_post(2) [OF this plain_lib(6)]
  have "runs (n_heap s 0) 0 (\<lambda>r. snd r = None \<and> ccr_Id (fst r) = ''x1'') (ContainerCreate ex_create_env spec)"
    unfolding ContainerCreate_def .
  then show ?thesis by (rule runsE [where s = s]) (use c in \<open>auto simp: holds_pod_def\<close>)
qed

text \<open>C4 (liveness): with a disk that takes every file and a podman that answers as its API says,
  the creation of a simple pod returns, without error and without panic: nothing else in the
  environment (the order in which Go visits maps, the clock, the addresses of the containers) can stop
  it. A simple pod (\<open>simple_pod\<close>) has a UID of URL-safe characters, no volumes, no pull secrets, a
  priority, no container that always pulls, and no container with a security context of its own unless
  the pod has one; and the host reports its memory. The conditions are needed: a pod without a
  priority makes the code panic.\<close>

theorem CreatePod_succeeds:
  assumes "disk_up env" "podman_up env" "simple_pod env (n_heap n p)"
  shows "\<exists>n'. CreatePod env cniNet p n = (Ok (), n')"
  using assms by (rule CreatePod_runs) blast

theorem CreatePod_succeeds_witness: "\<exists>n'. CreatePod ex_create_env ''net'' 0 ex_create_node = (Ok (), n')"
  by (rule CreatePod_succeeds [OF ex_disk_up ex_podman_up ex_simple_pod])

text \<open>C5 (functional): what a pod looks like once its creation has returned without error: its phase is
  \<^verbatim>\<open>Running\<close>, all three conditions are true, and it has one status per container, in their order and
  with their names and images. Each has the identifier that podman gave when it took the container's
  specification; it is ready and running, with the restart count and the image of an inspection of
  that identifier that podman answered, or it still waits to be initialised and an inspection of that
  identifier failed. With a podman that answers as its API says all are ready. The pod's metadata and
  its spec are those it came with.\<close>

theorem CreatePod_ok_status:
  assumes "\<not> is_static (n_heap n p)" "CreatePod env cniNet p n = (Ok (), n')"
  shows "kp_meta (n_heap n' p) = kp_meta (n_heap n p) \<and> kp_spec (n_heap n' p) = kp_spec (n_heap n p)
    \<and> ps_phase (kp_status (n_heap n' p)) = ''Running''
    \<and> cond_pairs (kp_status (n_heap n' p))
        = [(PodScheduled, ''True''), (PodInitialized, ''True''), (PodReady, ''True'')]
    \<and> list_all2 (container_settled env (sp_containers (kp_spec (n_heap n p))))
        (sp_containers (kp_spec (n_heap n p))) (ps_containers (kp_status (n_heap n' p)))
    \<and> (podman_up env \<longrightarrow> (\<forall>cs \<in> set (ps_containers (kp_status (n_heap n' p))). cst_ready cs))"
proof -
  let ?P = "progress (n_heap n p) p ''ContainerCreating'' False False (\<lambda>css. css = [])"
  let ?cons = "sp_containers (kp_spec (n_heap n p))"
  let ?Q = "progress (n_heap n p) p ''Running'' True True (list_all2 (container_settled env ?cons) ?cons)"
  have begins: "triple (\<lambda>s. s = n) (set_pod p (on_status (\<lambda>_. creating_status t))) (\<lambda>_. ?P)" for t
    by (simp add: triple_def progress_def on_status_def creating_status_def cond_pairs_def zero_status_def)
  have reg: "triple ?P (RegisterPod env p) (\<lambda>_. ?P)"
    by (rule progress_frame [OF RegisterPod_heap])
  have cip: "triple ?P (bindR (create_in_podman env cniNet p coord) (start_in_podman env cniNet p)) (\<lambda>_. ?Q)"
    for coord
    by (rule triple_bind [OF create_progress], rule triple_pure, metis prod.collapse snd_conv start_progress)
  have t: "triple (\<lambda>s. s = n) (bindR (now env) (\<lambda>t.
         thenR (set_pod p (on_status (\<lambda>_. creating_status t)))
         (thenR (notify p)
         (bindR (RegisterPod env p) (\<lambda>podCoord.
          bindR (create_in_podman env cniNet p podCoord) (start_in_podman env cniNet p)))))) (\<lambda>_. ?Q)"
  proof (rule triple_bind)
    show "triple (\<lambda>s. s = n) (now env) (\<lambda>_ s. s = n)" by (simp add: triple_def)
    show "triple (\<lambda>s. s = n) (thenR (set_pod p (on_status (\<lambda>_. creating_status t)))
         (thenR (notify p)
         (bindR (RegisterPod env p) (\<lambda>podCoord.
          bindR (create_in_podman env cniNet p podCoord) (start_in_podman env cniNet p))))) (\<lambda>_. ?Q)" for t
      by (rule triple_then [OF begins], rule triple_then [OF quiet_progress(1)], rule triple_bind [OF reg],
          rule cip)
  qed
  have r: "bindR (now env) (\<lambda>t.
         thenR (set_pod p (on_status (\<lambda>_. creating_status t)))
         (thenR (notify p)
         (bindR (RegisterPod env p) (\<lambda>podCoord.
          bindR (create_in_podman env cniNet p podCoord) (start_in_podman env cniNet p))))) n = (Ok (), n')"
    using assms unfolding CreatePod_def by simp
  have "?Q n'" by (rule tripleD [OF t refl r])
  moreover from this have "cst_ready cs"
    if "podman_up env" "cs \<in> set (ps_containers (kp_status (n_heap n' p)))" for cs
    using podman_up_ready [OF that(1)] that(2) unfolding progress_def by (metis list_all2_conv_all_nth in_set_conv_nth)
  ultimately show ?thesis unfolding progress_def by simp
qed

text \<open>The witness: the container is ready and runs.\<close>

theorem CreatePod_ok_status_witness:
  "map (\<lambda>cs. (cst_name cs, cst_container_id cs, cst_ready cs, is_running (cst_state cs)))
     (ps_containers (kp_status (n_heap (snd (CreatePod ex_create_env ''net'' 0 ex_create_node)) 0)))
   = [(''app'', ''podman://x1'', True, True)]"
proof -
  obtain n' where run: "CreatePod ex_create_env ''net'' 0 ex_create_node = (Ok (), n')"
    by (rule CreatePod_runs [OF ex_disk_up ex_podman_up ex_simple_pod])
  have "\<not> is_static (n_heap ex_create_node 0)" by code_simp
  from CreatePod_ok_status [OF this run] ex_podman_up obtain cs where cs:
    "ps_containers (kp_status (n_heap n' 0)) = [cs]" "container_settled ex_create_env [ex_container] ex_container cs"
    "cst_ready cs"
    by (auto simp: ex_create_node_def list_all2_Cons1)
  then have "cst_container_id cs = ''podman://x1''" "cst_name cs = ''app''" "is_running (cst_state cs)"
    using ex_created by (auto simp: container_settled_def ex_container_def is_running_def)
  with run cs show ?thesis by simp
qed

end
