(* ===== verification/Go_Codec.thy ===== *)
theory Go_Codec
  imports Go_Net Go_Encoding
begin

text \<open>
  The decoders of Go's \<^verbatim>\<open>encoding/base64\<close> (standard alphabet, padded, not strict) and
  \<^verbatim>\<open>encoding/hex\<close>, and \<open>net.ParseCIDR\<close>, with the proofs that they read back what the encoders print.
\<close>

unbundle bit_operations_syntax

subsection \<open>Base64\<close>

fun index_of :: "char \<Rightarrow> string \<Rightarrow> nat option" where
  "index_of c [] = None"
| "index_of c (d # ds) = (if c = d then Some 0 else map_option Suc (index_of c ds))"

definition b64_val :: "char \<Rightarrow> nat option" where
  "b64_val c = index_of c b64_alphabet"

definition b64_quad :: "char \<Rightarrow> char \<Rightarrow> char \<Rightarrow> char \<Rightarrow> nat option" where
  "b64_quad a b c d =
     (case (b64_val a, b64_val b, b64_val c, b64_val d) of
        (Some w, Some x, Some y, Some z) \<Rightarrow> Some (((w * 64 + x) * 64 + y) * 64 + z)
      | _ \<Rightarrow> None)"

text \<open>Line breaks are skipped; padding is allowed in the last four characters only; the bits that
  padding leaves over are ignored.\<close>

fun b64_quads :: "string \<Rightarrow> bytes option" where
  "b64_quads [] = Some []"
| "b64_quads (a # b # c # d # r) =
     (if d = CHR ''='' then
        if r \<noteq> [] then None
        else if c = CHR ''='' then
          map_option (\<lambda>n. [of_nat (n div 65536)]) (b64_quad a b (CHR ''A'') (CHR ''A''))
        else map_option (\<lambda>n. [of_nat (n div 65536), of_nat (n div 256)]) (b64_quad a b c (CHR ''A''))
      else case b64_quad a b c d of
             None \<Rightarrow> None
           | Some n \<Rightarrow>
               map_option (\<lambda>bs. of_nat (n div 65536) # of_nat (n div 256) # of_nat n # bs) (b64_quads r))"
| "b64_quads _ = None"

definition b64_decode :: "string \<Rightarrow> bytes option" where
  "b64_decode s = b64_quads (filter (\<lambda>c. c \<noteq> CHR 0x0A \<and> c \<noteq> CHR 0x0D) s)"

lemma index_of_nth: "distinct cs \<Longrightarrow> k < length cs \<Longrightarrow> index_of (cs ! k) cs = Some k"
  by (induction cs arbitrary: k) (auto simp: nth_Cons split: nat.split)

lemma b64_alphabet_facts:
  "distinct b64_alphabet" "length b64_alphabet = 64" "CHR ''='' \<notin> set b64_alphabet"
  "CHR 0x0A \<notin> set b64_alphabet" "CHR 0x0D \<notin> set b64_alphabet"
  by (simp_all add: b64_alphabet_def)

lemma b64_val_char [simp]: "k < 64 \<Longrightarrow> b64_val (b64_char k) = Some k"
  by (simp add: b64_val_def b64_char_def index_of_nth b64_alphabet_facts)

lemma b64_char_neq [simp]:
  assumes "k < 64"
  shows "b64_char k \<noteq> CHR ''=''" "b64_char k \<noteq> CHR 0x0A" "b64_char k \<noteq> CHR 0x0D"
proof -
  have "b64_char k \<in> set b64_alphabet"
    unfolding b64_char_def using assms by (intro nth_mem) (simp add: b64_alphabet_facts)
  then show "b64_char k \<noteq> CHR ''=''" "b64_char k \<noteq> CHR 0x0A" "b64_char k \<noteq> CHR 0x0D"
    using b64_alphabet_facts by auto
qed

lemma b64_val_A: "b64_val (CHR ''A'') = Some 0"
  by (simp add: b64_val_def b64_alphabet_def)

text \<open>The four digits of a 24-bit number give it back.\<close>

lemma b64_quad_digits:
  assumes "n < 16777216"
  shows "b64_quad (b64_char (n div 262144)) (b64_char (n div 4096 mod 64)) (b64_char (n div 64 mod 64))
           (b64_char (n mod 64)) = Some n"
proof -
  have top: "n div 262144 < 64" using assms by (simp add: less_mult_imp_div_less)
  have "n div 64 div 64 = n div 4096" "n div 4096 div 64 = n div 262144"
    by (simp_all flip: div_mult2_eq)
  then have "n div 262144 * 64 + n div 4096 mod 64 = n div 4096"
    "n div 4096 * 64 + n div 64 mod 64 = n div 64" "n div 64 * 64 + n mod 64 = n"
    using div_mult_mod_eq [of "n div 4096" 64] div_mult_mod_eq [of "n div 64" 64] div_mult_mod_eq [of n 64]
    by simp_all
  then have "((n div 262144 * 64 + n div 4096 mod 64) * 64 + n div 64 mod 64) * 64 + n mod 64 = n"
    by simp
  with top show ?thesis by (simp add: b64_quad_def)
qed

lemma b64_bytes:
  fixes a b c :: u8
  assumes "n = unat a * 65536 + unat b * 256 + unat c"
  shows "of_nat (n div 65536) = a" "of_nat (n div 256) = b" "of_nat n = c" "n < 16777216"
proof -
  have lt: "unat a < 256" "unat b < 256" "unat c < 256" by simp_all
  have low: "unat b * 256 + unat c < 65536" using lt by linarith
  have split: "n = (unat b * 256 + unat c) + unat a * 65536" "n = unat c + (unat a * 256 + unat b) * 256"
    using assms by simp_all
  have "(r + k * m) div m = k" if "r < m" for r k m :: nat using that by simp
  from this [OF low, of "unat a"] this [OF lt(3), of "unat a * 256 + unat b"]
  have "n div 65536 = unat a" "n div 256 = unat a * 256 + unat b" by (simp_all only: split(1)[symmetric] split(2)[symmetric])
  have "(of_nat (unat w + k * 256) :: u8) = w" for k w
  proof -
    have "(256 :: u8) = 0" by simp
    then have "(of_nat (k * 256) :: u8) = 0" by (simp only: of_nat_mult of_nat_numeral mult_zero_right)
    then show ?thesis by (simp only: of_nat_add) simp
  qed
  note w = this
  show "of_nat (n div 65536) = a" using \<open>n div 65536 = unat a\<close> by simp
  show "of_nat (n div 256) = b"
    using w [of b "unat a"] by (simp only: \<open>n div 256 = unat a * 256 + unat b\<close> add.commute)
  show "of_nat n = c" using w [of c "unat a * 256 + unat b"] by (simp only: split(2))
  show "n < 16777216" using lt assms by linarith
qed

lemma b64_encode_chars:
  "\<forall>c \<in> set (b64_encode bs). c \<noteq> CHR 0x0A \<and> c \<noteq> CHR 0x0D"
proof (induction bs rule: b64_encode.induct)
  case (2 a)
  have "unat a * 65536 div 262144 < 64" using b64_bytes(4) [of _ a 0 0] by (simp add: less_mult_imp_div_less)
  then show ?case by (simp add: Let_def)
next
  case (3 a b)
  have "(unat a * 65536 + unat b * 256) div 262144 < 64"
    using b64_bytes(4) [of _ a b 0] by (simp add: less_mult_imp_div_less)
  then show ?case by (simp add: Let_def)
next
  case (4 a b c bs)
  have "(unat a * 65536 + unat b * 256 + unat c) div 262144 < 64"
    using b64_bytes(4) [of _ a b c] by (simp add: less_mult_imp_div_less)
  with 4 show ?case by (auto simp: Let_def)
qed simp

lemma b64_char_0: "b64_char 0 = CHR ''A''"
  by (simp add: b64_char_def b64_alphabet_def)

lemma b64_quads_encode: "b64_quads (b64_encode bs) = Some bs"
proof (induction bs rule: b64_encode.induct)
  case (2 a)
  define n where "n = unat a * 65536"
  have b: "of_nat (n div 65536) = a" "n < 16777216" using b64_bytes [of n a 0 0] by (simp_all add: n_def)
  have z: "n mod 64 = 0" "n div 64 mod 64 = 0"
  proof -
    have "n = (unat a * 1024) * 64" by (simp add: n_def)
    then have "n div 64 = (unat a * 16) * 64" "n mod 64 = 0" by simp_all
    then show "n mod 64 = 0" "n div 64 mod 64 = 0" by simp_all
  qed
  from b64_quad_digits [OF b(2)] have "b64_quad (b64_char (n div 262144)) (b64_char (n div 4096 mod 64))
      (CHR ''A'') (CHR ''A'') = Some n" by (simp only: z b64_char_0)
  then show ?case using b(1) unfolding b64_encode.simps Let_def n_def [symmetric] by simp
next
  case (3 a b)
  define n where "n = unat a * 65536 + unat b * 256"
  have b: "of_nat (n div 65536) = a" "of_nat (n div 256) = b" "n < 16777216"
    using b64_bytes [of n a b 0] by (simp_all add: n_def)
  have z: "n mod 64 = 0"
  proof -
    have "n = (unat a * 1024 + unat b * 4) * 64" by (simp add: n_def)
    then show ?thesis by simp
  qed
  from b64_quad_digits [OF b(3)] have "b64_quad (b64_char (n div 262144)) (b64_char (n div 4096 mod 64))
      (b64_char (n div 64 mod 64)) (CHR ''A'') = Some n" by (simp only: z b64_char_0)
  then show ?case using b(1,2) unfolding b64_encode.simps Let_def n_def [symmetric] by simp
next
  case (4 a b c bs)
  define n where "n = unat a * 65536 + unat b * 256 + unat c"
  have b: "of_nat (n div 65536) = a" "of_nat (n div 256) = b" "of_nat n = c" "n < 16777216"
    using b64_bytes [of n a b c] by (simp_all add: n_def)
  then show ?case using 4 b64_quad_digits [OF b(4)] unfolding b64_encode.simps Let_def n_def [symmetric] by simp
qed simp

lemma b64_roundtrip [simp]: "b64_decode (b64_encode bs) = Some bs"
proof -
  have "filter (\<lambda>c. c \<noteq> CHR 0x0A \<and> c \<noteq> CHR 0x0D) (b64_encode bs) = b64_encode bs"
    using b64_encode_chars by (simp add: filter_id_conv)
  then show ?thesis by (simp add: b64_decode_def b64_quads_encode)
qed

subsection \<open>Hexadecimal\<close>

fun hex_decode :: "string \<Rightarrow> bytes option" where
  "hex_decode [] = Some []"
| "hex_decode [c] = None"
| "hex_decode (h # l # r) =
     (case (hex_digit_val h, hex_digit_val l) of
        (Some a, Some b) \<Rightarrow> map_option (\<lambda>bs. of_nat (16 * a + b) # bs) (hex_decode r)
      | _ \<Rightarrow> None)"

lemma hex_digit_val_digit: "d < 16 \<Longrightarrow> hex_digit_val (hex_digit d) = Some d"
proof -
  assume d: "d < 16"
  have "(of_char (hex_digit d) :: nat) = (if d < 10 then 48 + d else 87 + d)"
    using d by (simp add: hex_digit_def digit_char_def)
  then show ?thesis using d by (auto simp: hex_digit_val_def Let_def)
qed

lemma hex_roundtrip [simp]: "hex_decode (hex_string bs) = Some bs"
proof (induction bs)
  case (Cons b bs)
  have "unat b div 16 < 16" using unat_u8_bound(1) [of b] by (simp add: less_mult_imp_div_less)
  moreover have "16 * (unat b div 16) + unat b mod 16 = unat b" by simp
  ultimately show ?case using Cons
    by (simp add: hex_string_def hex_byte_def hex_digit_val_digit)
qed (simp add: hex_string_def)

lemma length_hex_string [simp]: "length (hex_string bs) = 2 * length bs"
  by (induction bs) (simp_all add: hex_string_def hex_byte_def)

subsection \<open>Networks\<close>

text \<open>\<open>net.CIDRMask\<close>, by bytes.\<close>

fun cidr_mask :: "nat \<Rightarrow> nat \<Rightarrow> bytes" where
  "cidr_mask 0 n = []"
| "cidr_mask (Suc l) n = (if n \<ge> 8 then 255 # cidr_mask l (n - 8) else NOT (drop_bit n 255) # cidr_mask l 0)"

definition ip_mask :: "ip \<Rightarrow> bytes \<Rightarrow> ip" where
  "ip_mask ip m =
     (let ip = (if length m = 4 \<and> length ip = 16 \<and> take 12 ip = replicate 10 0 @ [255, 255]
                then drop 12 ip else ip)
      in map2 (AND) ip m)"

text \<open>The prefix length is a plain decimal number of the family's range.\<close>

definition ParseCIDR :: "string \<Rightarrow> (ip \<times> ipnet) option" where
  "ParseCIDR s =
     (let addr = takeWhile (\<lambda>c. c \<noteq> CHR ''/'') s; rest = dropWhile (\<lambda>c. c \<noteq> CHR ''/'') s
      in if rest = [] then None
         else
           let (ip, l) = (case parseIPv4 addr of Some ip \<Rightarrow> (Some ip, 4) | None \<Rightarrow> (parseIPv6 addr, 16))
           in case (ip, dtoi (tl rest)) of
                (Some ip, Some (n, r)) \<Rightarrow>
                  if r \<noteq> [] \<or> n > 8 * l then None
                  else Some (ip, \<lparr>net_ip = ip_mask ip (cidr_mask l n), net_mask = cidr_mask l n\<rparr>)
              | _ \<Rightarrow> None)"

lemma mask_length: "l \<le> 32 \<Longrightarrow> simpleMaskLength (cidr_mask 4 l) = Some l"
proof -
  have "\<forall>l \<in> set [0..<33]. simpleMaskLength (cidr_mask 4 l) = Some l" by code_simp
  moreover assume "l \<le> 32"
  then have "l \<in> set [0..<33]" by simp
  ultimately show ?thesis by blast
qed

lemma length_cidr_mask [simp]: "length (cidr_mask k n) = k"
  by (induction k n rule: cidr_mask.induct) auto

lemma slash_v4_string: "length p = 4 \<Longrightarrow> CHR ''/'' \<notin> set (v4_string p)"
proof -
  assume "length p = 4"
  then obtain a b c d where p: "p = [a, b, c, d]" by (rule v4_cases)
  show ?thesis by (simp add: p v4_string_def not_in_nat_dec)
qed

text \<open>What reading an IPv4 prefix gives: the network's address, whose host bits are zero.\<close>

lemma ParseCIDR_v4:
  assumes "length p = 4" "l \<le> 32"
  shows "ParseCIDR (v4_string p @ ''/'' @ nat_dec l)
     = Some (IPv4 p, \<lparr>net_ip = map2 (AND) p (cidr_mask 4 l), net_mask = cidr_mask 4 l\<rparr>)"
proof -
  let ?s = "v4_string p @ ''/'' @ nat_dec l"
  have all: "\<forall>x \<in> set (v4_string p). x \<noteq> CHR ''/''" using slash_v4_string [OF assms(1)] by blast
  then have "takeWhile (\<lambda>c. c \<noteq> CHR ''/'') ?s = v4_string p" "dropWhile (\<lambda>c. c \<noteq> CHR ''/'') ?s = ''/'' @ nat_dec l"
    by simp_all
  moreover have "parseIPv4 (v4_string p) = Some (IPv4 p)" by (simp add: parseIPv4_def parse_v4_string [OF assms(1)])
  moreover have "dtoi (nat_dec l) = Some (l, [])" using dtoi_nat_dec [of l "[]"] assms(2) by simp
  moreover have "ip_mask (IPv4 p) (cidr_mask 4 l) = map2 (AND) p (cidr_mask 4 l)"
    using assms(1) by (simp add: ip_mask_def IPv4_def)
  ultimately show ?thesis using assms(2) by (simp add: ParseCIDR_def Let_def)
qed

definition v4_net :: "bytes \<Rightarrow> nat \<Rightarrow> ipnet" where
  "v4_net p l = \<lparr>net_ip = p, net_mask = cidr_mask 4 l\<rparr>"

lemma IPNet_String_v4:
  assumes "length p = 4" "l \<le> 32"
  shows "IPNet_String (v4_net p l) = v4_string p @ ''/'' @ nat_dec l"
proof -
  have "p \<noteq> []" "To4 p = p" using assms(1) by (auto simp: To4_def)
  with assms(1) show ?thesis
    by (simp add: IPNet_String_def networkNumberAndMask_def v4_net_def Let_def mask_length [OF assms(2)] IP_String_def)
qed

text \<open>A network in normal form is read back from what \<open>IPNet.String\<close> prints.\<close>

lemma ParseCIDR_IPNet_String:
  assumes "length p = 4" "l \<le> 32" "map2 (AND) p (cidr_mask 4 l) = p"
  shows "ParseCIDR (IPNet_String (v4_net p l)) = Some (IPv4 p, v4_net p l)"
  unfolding IPNet_String_v4 [OF assms(1,2)] ParseCIDR_v4 [OF assms(1,2)] assms(3) by (simp add: v4_net_def)

lemma masked_twice:
  assumes "length p = 4"
  shows "map2 (AND) (map2 (AND) p (cidr_mask 4 l)) (cidr_mask 4 l) = map2 (AND) p (cidr_mask 4 l)"
  by (rule nth_equalityI) (simp_all add: assms and.assoc)

end
