(* ===== verification/Host_World.thy ===== *)
theory Host_World
  imports Node_World Go_Codec
begin

text \<open>
  What the host-level components run on: files of the host by their absolute paths, commands, and
  writes to the Kubernetes API. Whether an operation fails is the environment's choice; a write that
  fails leaves the file as it was, when it could not be opened, or cut.
\<close>

definition disk_put :: "string \<Rightarrow> string \<Rightarrow> unit run" where
  "disk_put path content = modifyR (\<lambda>n. n\<lparr>n_disk := AList.update path content (n_disk n)\<rparr>)"

definition missing_file :: "string \<Rightarrow> go_error" where
  "missing_file path = FileErr True (''open '' @ path @ '': no such file or directory'')"

text \<open>\<^verbatim>\<open>ioutil.ReadFile\<close> and \<^verbatim>\<open>ioutil.WriteFile\<close>.\<close>

definition disk_read :: "env \<Rightarrow> string \<Rightarrow> string run" where
  "disk_read env path =
     bindR (getR (\<lambda>n. env_disk env (n_trace n) path)) (\<lambda>r.
     thenR (emit (DiskRead path))
       (case r of
          Some e \<Rightarrow> failR e
        | None \<Rightarrow>
            bindR (getR (\<lambda>n. map_of (n_disk n) path)) (\<lambda>file.
              case file of None \<Rightarrow> failR (missing_file path) | Some content \<Rightarrow> ret content)))"

definition disk_write :: "env \<Rightarrow> string \<Rightarrow> string \<Rightarrow> unit run" where
  "disk_write env path content =
     bindR (getR (\<lambda>n. env_disk env (n_trace n) path)) (\<lambda>opening.
     thenR (emit (DiskWrite path content))
       (case opening of
          Some e \<Rightarrow> failR e
        | None \<Rightarrow>
            bindR (getR (\<lambda>n. env_disk env (n_trace n) path)) (\<lambda>writing.
              case writing of
                Some e \<Rightarrow> bindR (getR (\<lambda>n. env_cut env (n_trace n))) (\<lambda>cut. thenR (disk_put path cut) (failR e))
              | None \<Rightarrow> disk_put path content)))"

text \<open>\<^verbatim>\<open>exec.Command(\<dots>).Output()\<close>.\<close>

definition run_command :: "env \<Rightarrow> string list \<Rightarrow> string run" where
  "run_command env args =
     bindR (getR (\<lambda>n. env_command env (n_trace n) args)) (\<lambda>r.
     thenR (emit (Ran args)) (case r of Inl e \<Rightarrow> failR (PlainErr e) | Inr out \<Rightarrow> ret out))"

text \<open>A write to the Kubernetes API.\<close>

definition kube_write :: "env \<Rightarrow> effect \<Rightarrow> unit run" where
  "kube_write env e =
     bindR (getR (\<lambda>n. env_kube env (n_trace n) e)) (\<lambda>r.
     thenR (emit e) (case r of None \<Rightarrow> ret () | Some err \<Rightarrow> failR (PlainErr err)))"

definition get_configmap :: "env \<Rightarrow> string \<Rightarrow> string \<Rightarrow> smap run" where
  "get_configmap env ns name =
     bindR (getR (\<lambda>n. env_configmap env (n_trace n) ns name)) (\<lambda>r.
     thenR (emit (KubeGet ''ConfigMap'' ns name))
       (case r of Inl e \<Rightarrow> failR (PlainErr e) | Inr data \<Rightarrow> ret data))"

subsection \<open>What these do to the node\<close>

lemma disk_read_node:
  "disk_read env path n =
     (case env_disk env (n_trace n) path of
        Some e \<Rightarrow> Err e
      | None \<Rightarrow> (case map_of (n_disk n) path of None \<Rightarrow> Err (missing_file path) | Some c \<Rightarrow> Ok c),
      n\<lparr>n_trace := n_trace n @ [DiskRead path]\<rparr>)"
  by (simp add: disk_read_def emit_def thenR_def split: option.split)

lemma disk_write_Ok:
  "disk_write env path content n = (Ok u, n') \<longleftrightarrow>
     env_disk env (n_trace n) path = None \<and> env_disk env (n_trace n @ [DiskWrite path content]) path = None
     \<and> n' = n\<lparr>n_trace := n_trace n @ [DiskWrite path content], n_disk := AList.update path content (n_disk n)\<rparr>"
  by (auto simp: disk_write_def disk_put_def emit_def thenR_def split: option.splits)

end
