(* ===== verification/Wireguard.thy ===== *)
theory Wireguard
  imports Host_World
begin

text \<open>
  \<^verbatim>\<open>pkg/wireguard\<close>: the persistent configuration of a WireGuard interface (printing it, and reading it
  through the INI library, a parameter), the key material and its text forms, and
  \<open>EnsureKeyMaterial\<close>. Reading random bytes and the scalar multiplication of Curve25519 are parameters.
\<close>

subsection \<open>Configuration\<close>

record peer_config =
  pc_Comment :: string
  pc_PublicKey :: string
  pc_PresharedKey :: string
  pc_Endpoint :: string
  pc_PersistentKeepalive :: int
  pc_AllowedIPs :: "ipnet list"

record wg_config =
  wg_Comment :: string
  wg_PrivateKey :: string
  wg_Addresses :: "ipnet list"
  wg_ListenPort :: int
  wg_FirewallMark :: int
  wg_Peers :: "peer_config list"

definition nl :: char where "nl = CHR 0x0A"

definition config_line :: "string \<Rightarrow> string \<Rightarrow> string" where
  "config_line key val = key @ '' = '' @ val @ [nl]"

definition text_line :: "string \<Rightarrow> string \<Rightarrow> string" where
  "text_line key val = (if val \<noteq> [] then config_line key val else [])"

definition int_line :: "string \<Rightarrow> int \<Rightarrow> string" where
  "int_line key i = (if i \<ge> 0 then config_line key (int_dec i) else [])"

definition section_line :: "string \<Rightarrow> string \<Rightarrow> string" where
  "section_line name comment = ''['' @ name @ '']'' @ (if comment \<noteq> [] then '' # '' @ comment else []) @ [nl]"

definition Stringify_peer :: "peer_config \<Rightarrow> string" where
  "Stringify_peer p =
     [nl] @ section_line ''Peer'' (pc_Comment p)
     @ text_line ''PublicKey'' (pc_PublicKey p)
     @ text_line ''PresharedKey'' (pc_PresharedKey p)
     @ concat (map (\<lambda>addr. config_line ''AllowedIPs'' (IPNet_String addr)) (pc_AllowedIPs p))
     @ text_line ''Endpoint'' (pc_Endpoint p)
     @ int_line ''PersistentKeepalive'' (pc_PersistentKeepalive p)"

definition Stringify :: "wg_config \<Rightarrow> string" where
  "Stringify cfg =
     section_line ''Interface'' (wg_Comment cfg)
     @ text_line ''PrivateKey'' (wg_PrivateKey cfg)
     @ concat (map (\<lambda>addr. config_line ''Address'' (IPNet_String addr)) (wg_Addresses cfg))
     @ int_line ''ListenPort'' (wg_ListenPort cfg)
     @ int_line ''FirewallMark'' (wg_FirewallMark cfg)
     @ concat (map Stringify_peer (wg_Peers cfg))"

text \<open>Only the network of each prefix is kept, not the address that was written.\<close>


definition parseNetworkList :: "string \<Rightarrow> ini_key \<Rightarrow> string + ipnet list" where
  "parseNetworkList name key =
     foldE (\<lambda>value netList.
         if length value < 2 then Inr netList
         else case ParseCIDR value of
                None \<Rightarrow> Inl (''Parsing '' @ name @ '' '' @ value @ '': invalid CIDR address: '' @ value)
              | Some (_, ipNet) \<Rightarrow> Inr (netList @ [ipNet]))
       (ik_strings key) []"

definition comment_of :: "ini_section \<Rightarrow> string" where
  "comment_of s = (if length (is_comment s) > 2 then drop 2 (is_comment s) else [])"

definition must_int :: "ini_key \<Rightarrow> int \<Rightarrow> int" where
  "must_int k d = (case ik_int k of None \<Rightarrow> d | Some i \<Rightarrow> i)"

definition parse_peer :: "ini_section \<Rightarrow> string + peer_config" where
  "parse_peer s =
     (case parseNetworkList ''AllowedIPs'' (is_key s ''AllowedIPs'') of
        Inl e \<Rightarrow> Inl e
      | Inr nets \<Rightarrow> Inr
          \<lparr>pc_Comment = comment_of s,
           pc_PublicKey = ik_string (is_key s ''PublicKey''),
           pc_PresharedKey = ik_string (is_key s ''PresharedKey''),
           pc_Endpoint = ik_string (is_key s ''Endpoint''),
           pc_PersistentKeepalive = must_int (is_key s ''PersistentKeepalive'') (-1),
           pc_AllowedIPs = nets\<rparr>)"

text \<open>The error for a file without peers is ignored.\<close>

definition ParseWgQuickConfig :: "env \<Rightarrow> string \<Rightarrow> string + wg_config" where
  "ParseWgQuickConfig env data =
     (case env_ini env True data of
        Inl e \<Rightarrow> Inl e
      | Inr file \<Rightarrow>
          let s = if_section file ''Interface'';
              peers = (case if_sections file ''Peer'' of Inl _ \<Rightarrow> [] | Inr ps \<Rightarrow> ps)
          in case parseNetworkList ''Address'' (is_key s ''Address'') of
               Inl e \<Rightarrow> Inl e
             | Inr nets \<Rightarrow>
                 (case foldE (\<lambda>p ps. case parse_peer p of Inl e \<Rightarrow> Inl e | Inr c \<Rightarrow> Inr (ps @ [c])) peers [] of
                    Inl e \<Rightarrow> Inl e
                  | Inr ps \<Rightarrow> Inr
                      \<lparr>wg_Comment = comment_of s,
                       wg_PrivateKey = ik_string (is_key s ''PrivateKey''),
                       wg_Addresses = nets,
                       wg_ListenPort = must_int (is_key s ''ListenPort'') (-1),
                       wg_FirewallMark = must_int (is_key s ''FirewallMark'') (-1),
                       wg_Peers = ps\<rparr>))"

subsection \<open>Files\<close>

definition config_path :: "string \<Rightarrow> string" where
  "config_path iface = ''/etc/wireguard/'' @ iface @ ''.conf''"

definition ReadPersistentConfig :: "env \<Rightarrow> string \<Rightarrow> wg_config run" where
  "ReadPersistentConfig env iface =
     bindR (disk_read env (config_path iface)) (\<lambda>raw.
       case ParseWgQuickConfig env raw of Inl e \<Rightarrow> failR (PlainErr e) | Inr cfg \<Rightarrow> ret cfg)"

definition WritePersistentConfig :: "env \<Rightarrow> string \<Rightarrow> wg_config \<Rightarrow> unit run" where
  "WritePersistentConfig env iface cfg = disk_write env (config_path iface) (Stringify cfg)"

definition GetInstalledWgVersion :: "env \<Rightarrow> string run" where
  "GetInstalledWgVersion env = run_command env [''wg'', ''version'']"

unbundle bit_operations_syntax

subsection \<open>Keys\<close>

type_synonym noise_key = bytes

definition zero_key :: noise_key where
  "zero_key = replicate 32 0"

definition clamp :: "noise_key \<Rightarrow> noise_key" where
  "clamp sk = (let sk = sk[0 := sk ! 0 AND 248] in sk[31 := (sk ! 31 AND 127) OR 64])"

definition newPrivateKey :: "env \<Rightarrow> noise_key run" where
  "newPrivateKey env =
     bindR (getR (\<lambda>n. env_random env (n_trace n))) (\<lambda>r.
       case r of Inl e \<Rightarrow> failR (PlainErr e) | Inr bs \<Rightarrow> ret (clamp (take 32 (bs @ zero_key))))"

definition load_exact :: "string \<Rightarrow> bytes option \<Rightarrow> noise_key \<Rightarrow> noise_key \<times> string option" where
  "load_exact kind decoded dst =
     (case decoded of
        None \<Rightarrow> (dst, Some (''illegal '' @ kind @ '' data''))
      | Some bs \<Rightarrow> if length bs \<noteq> length dst then (dst, Some (kind @ '' string does not fit the slice''))
                  else (bs, None))"

definition loadExactHex :: "noise_key \<Rightarrow> string \<Rightarrow> noise_key \<times> string option" where
  "loadExactHex dst src = load_exact ''hex'' (hex_decode src) dst"

definition loadExactBase64 :: "noise_key \<Rightarrow> string \<Rightarrow> noise_key \<times> string option" where
  "loadExactBase64 dst src = load_exact ''base64'' (b64_decode src) dst"

text \<open>The private key is clamped even when its text was wrong.\<close>

definition readPrivateKeyFromHex :: "string \<Rightarrow> noise_key \<times> string option" where
  "readPrivateKeyFromHex src = (case loadExactHex zero_key src of (sk, err) \<Rightarrow> (clamp sk, err))"

definition readPrivateKeyFromBase64 :: "string \<Rightarrow> noise_key \<times> string option" where
  "readPrivateKeyFromBase64 src = (case loadExactBase64 zero_key src of (sk, err) \<Rightarrow> (clamp sk, err))"

definition IsZero :: "noise_key \<Rightarrow> bool" where
  "IsZero k \<longleftrightarrow> k = zero_key"

definition private_FromHex :: "noise_key \<Rightarrow> string \<Rightarrow> noise_key \<times> string option" where
  "private_FromHex sk src = (case loadExactHex sk src of (sk, err) \<Rightarrow> (clamp sk, err))"

definition private_FromMaybeZeroHex :: "noise_key \<Rightarrow> string \<Rightarrow> noise_key \<times> string option" where
  "private_FromMaybeZeroHex sk src =
     (case loadExactHex sk src of (sk, err) \<Rightarrow> if IsZero sk then (sk, err) else (clamp sk, err))"

definition ToHex :: "noise_key \<Rightarrow> string" where "ToHex k = hex_string k"
definition ToBase64 :: "noise_key \<Rightarrow> string" where "ToBase64 k = b64_encode k"

definition public_FromHex :: "noise_key \<Rightarrow> string \<Rightarrow> noise_key \<times> string option" where
  "public_FromHex k src = loadExactHex k src"

definition is_not_exist :: "go_error \<Rightarrow> bool" where
  "is_not_exist e = (case e of FileErr missing _ \<Rightarrow> missing | _ \<Rightarrow> False)"

definition blank_config :: wg_config where
  "blank_config = \<lparr>wg_Comment = [], wg_PrivateKey = [], wg_Addresses = [], wg_ListenPort = -1,
     wg_FirewallMark = -1, wg_Peers = []\<rparr>"

text \<open>The answer for a configuration: the public part of its key, or of a new one that is stored.\<close>

definition ensure_key :: "env \<Rightarrow> string \<Rightarrow> wg_config \<Rightarrow> string run" where
  "ensure_key env iface config =
     (if wg_PrivateKey config \<noteq> [] then
        (case readPrivateKeyFromBase64 (wg_PrivateKey config) of
           (privkey, Some e) \<Rightarrow> failR (PlainErr e)
         | (privkey, None) \<Rightarrow> ret (ToBase64 (env_public_key env privkey)))
      else
        bindR (newPrivateKey env) (\<lambda>newKey.
        thenR (WritePersistentConfig env iface (config\<lparr>wg_PrivateKey := ToBase64 newKey\<rparr>))
          (ret (ToBase64 (env_public_key env newKey)))))"

definition EnsureKeyMaterial :: "env \<Rightarrow> string \<Rightarrow> string run" where
  "EnsureKeyMaterial env iface =
     bindR (tryR (ReadPersistentConfig env iface)) (\<lambda>r.
     bindR (case r of
              Inr config \<Rightarrow> ret config
            | Inl err \<Rightarrow> if is_not_exist err then ret blank_config else failR err)
       (ensure_key env iface))"

subsection \<open>Facts about keys\<close>

lemma length_clamp [simp]: "length (clamp sk) = length sk"
  by (simp add: clamp_def Let_def)

lemma length_zero_key [simp]: "length zero_key = 32"
  by (simp add: zero_key_def)

lemma clamp_high: "((x AND 127) OR 64) AND 127 OR 64 = (x AND 127) OR (64 :: u8)"
  by (simp add: bit.conj_disj_distrib2 and.assoc or.assoc)

lemma clamp_idem [simp]: "length sk = 32 \<Longrightarrow> clamp (clamp sk) = clamp sk"
  by (simp add: clamp_def Let_def list_update_swap and.assoc clamp_high)

lemma read_back_b64: "length bs = 32 \<Longrightarrow> readPrivateKeyFromBase64 (ToBase64 bs) = (clamp bs, None)"
  by (simp add: readPrivateKeyFromBase64_def loadExactBase64_def load_exact_def ToBase64_def)

lemma ToBase64_nonempty: "length bs = 32 \<Longrightarrow> ToBase64 bs \<noteq> []"
  using length_b64_encode [of bs] by (auto simp: ToBase64_def)

end
