(* ===== verification/Ini_Text.thy ===== *)
theory Ini_Text
  imports Wireguard
begin

text \<open>
  What the INI library (\<^verbatim>\<open>gopkg.in/ini.v1\<close>, not under \<^verbatim>\<open>src/\<close>) makes of a text. The library is a
  parameter of the model; its documented behaviour on plain texts is stated by \<open>ini_text\<close>, a reader of
  section headers with a comment, of \<open>key = value\<close> lines and of blank lines, and by \<open>ini_library\<close>: on a
  text that \<open>ini_text\<close> reads, the library gives these sections and values. Everything else that the
  library knows (quotes, escapes, line continuations, comments in values, substitutions, repeated
  values, which it drops) is not plain and is left open. Then: what \<open>Stringify\<close> prints is plain, and
  reads as the fields of the configuration.
\<close>

subsection \<open>Entries of a section\<close>

text \<open>What a printed configuration holds: in each section, by key, the values that were printed.\<close>

definition text_entry :: "string \<Rightarrow> string \<Rightarrow> smap" where
  "text_entry key val = (if val \<noteq> [] then [(key, val)] else [])"

definition int_entry :: "string \<Rightarrow> int \<Rightarrow> smap" where
  "int_entry key i = (if i \<ge> 0 then [(key, int_dec i)] else [])"

definition interface_entries :: "wg_config \<Rightarrow> smap" where
  "interface_entries cfg =
     text_entry ''PrivateKey'' (wg_PrivateKey cfg)
     @ map (\<lambda>a. (''Address'', IPNet_String a)) (wg_Addresses cfg)
     @ int_entry ''ListenPort'' (wg_ListenPort cfg) @ int_entry ''FirewallMark'' (wg_FirewallMark cfg)"

definition peer_entries :: "peer_config \<Rightarrow> smap" where
  "peer_entries p =
     text_entry ''PublicKey'' (pc_PublicKey p) @ text_entry ''PresharedKey'' (pc_PresharedKey p)
     @ map (\<lambda>a. (''AllowedIPs'', IPNet_String a)) (pc_AllowedIPs p)
     @ text_entry ''Endpoint'' (pc_Endpoint p)
     @ int_entry ''PersistentKeepalive'' (pc_PersistentKeepalive p)"

definition values_of :: "smap \<Rightarrow> string \<Rightarrow> string list" where
  "values_of kvs k = map snd (filter (\<lambda>kv. fst kv = k) kvs)"

definition reads_section :: "string \<Rightarrow> smap \<Rightarrow> ini_section \<Rightarrow> bool" where
  "reads_section comment kvs s \<longleftrightarrow>
     is_comment s = (if comment = [] then [] else ''# '' @ comment)
     \<and> (\<forall>k. ik_string (is_key s k) = (case values_of kvs k of [] \<Rightarrow> [] | v # _ \<Rightarrow> v)
          \<and> ((\<forall>v \<in> set (values_of kvs k). CHR '','' \<notin> set v) \<longrightarrow>
               filter (\<lambda>v. 2 \<le> length v) (ik_strings (is_key s k)) = filter (\<lambda>v. 2 \<le> length v) (values_of kvs k))
          \<and> (\<forall>i. values_of kvs k = [int_dec i] \<longrightarrow> ik_int (is_key s k) = Some i)
          \<and> (values_of kvs k = [] \<longrightarrow> ik_int (is_key s k) = None))"

definition ini_reads :: "env \<Rightarrow> wg_config \<Rightarrow> bool" where
  "ini_reads env cfg \<longleftrightarrow>
     (\<exists>file. env_ini env True (Stringify cfg) = Inr file
        \<and> reads_section (wg_Comment cfg) (interface_entries cfg) (if_section file ''Interface'')
        \<and> (case if_sections file ''Peer'' of
             Inl _ \<Rightarrow> wg_Peers cfg = []
           | Inr ss \<Rightarrow> list_all2 (\<lambda>p s. reads_section (pc_Comment p) (peer_entries p) s) (wg_Peers cfg) ss))"

lemma entries_values:
  "values_of (a @ b) k = values_of a k @ values_of b k"
  "values_of (text_entry key val) k = (if key = k \<and> val \<noteq> [] then [val] else [])"
  "values_of (int_entry key i) k = (if key = k \<and> i \<ge> 0 then [int_dec i] else [])"
  "values_of (map (\<lambda>a. (key, f a)) xs) k = (if key = k then map f xs else [])"
  by (auto simp: values_of_def text_entry_def int_entry_def filter_map comp_def)

subsection \<open>A reader of plain texts\<close>

datatype ini_line = Blank | Header string string | Entry string string

definition is_letter :: "char \<Rightarrow> bool" where
  "is_letter c \<longleftrightarrow> CHR ''A'' \<le> c \<and> c \<le> CHR ''Z'' \<or> CHR ''a'' \<le> c \<and> c \<le> CHR ''z''"

definition plain_name :: "string \<Rightarrow> bool" where
  "plain_name s \<longleftrightarrow> s \<noteq> [] \<and> list_all is_letter s"

text \<open>Printable characters but the hash, the semicolon, the three quotes, the backslash and the percent
  sign.\<close>

definition value_char :: "char \<Rightarrow> bool" where
  "value_char c \<longleftrightarrow> CHR ''!'' \<le> c \<and> c \<le> CHR ''~''
     \<and> c \<notin> {CHR ''#'', CHR '';'', CHR 0x22, CHR 0x27, CHR 0x60, CHR 0x5C, CHR 0x25}"

definition plain_value :: "string \<Rightarrow> bool" where
  "plain_value v \<longleftrightarrow> v \<noteq> [] \<and> list_all value_char v"

definition plain_comment :: "string \<Rightarrow> bool" where
  "plain_comment c \<longleftrightarrow> c \<noteq> [] \<and> hd c \<noteq> CHR '' '' \<and> last c \<noteq> CHR '' ''
     \<and> list_all (\<lambda>x. CHR '' '' \<le> x \<and> x \<le> CHR ''~'' \<and> x \<noteq> CHR '']'') c"

fun read_line :: "string \<Rightarrow> ini_line option" where
  "read_line [] = Some Blank"
| "read_line (c # cs) =
     (if c = CHR ''['' then
        (let name = takeWhile (\<lambda>x. x \<noteq> CHR '']'') cs; rest = drop (length name) cs
         in if \<not> plain_name name then None
            else if rest = '']'' then Some (Header name [])
            else if take 4 rest = ''] # '' \<and> plain_comment (drop 4 rest) then Some (Header name (drop 4 rest))
            else None)
      else
        (let key = takeWhile (\<lambda>x. x \<noteq> CHR '' '') (c # cs); rest = drop (length key) (c # cs)
         in if plain_name key \<and> take 3 rest = '' = '' \<and> plain_value (drop 3 rest)
            then Some (Entry key (drop 3 rest)) else None))"

text \<open>The entries before the first header, and the sections.\<close>

fun gather :: "ini_line list \<Rightarrow> smap \<times> (string \<times> string \<times> smap) list" where
  "gather [] = ([], [])"
| "gather (Blank # ls) = gather ls"
| "gather (Entry k v # ls) = (case gather ls of (kvs, ss) \<Rightarrow> ((k, v) # kvs, ss))"
| "gather (Header n c # ls) = (case gather ls of (kvs, ss) \<Rightarrow> ([], (n, c, kvs) # ss))"

definition ini_text :: "string \<Rightarrow> (string \<times> string \<times> smap) list option" where
  "ini_text t =
     (case those (map read_line (split_on nl t)) of
        None \<Rightarrow> None
      | Some ls \<Rightarrow>
          (case gather ls of (kvs, ss) \<Rightarrow>
             if distinct kvs \<and> list_all (\<lambda>(n, c, kvs). n \<noteq> ''DEFAULT'' \<and> distinct kvs) ss
             then Some ((''DEFAULT'', [], kvs) # ss) else None))"

text \<open>A file that holds these sections, as far as the program looks: the first section of a name, an
  empty one without it, and all sections of a name, an error without any.\<close>

definition gives :: "(string \<times> string \<times> smap) list \<Rightarrow> ini_file \<Rightarrow> bool" where
  "gives secs doc \<longleftrightarrow> (\<forall>name.
     (case filter (\<lambda>s. fst s = name) secs of
        [] \<Rightarrow> reads_section [] [] (if_section doc name) \<and> (\<exists>e. if_sections doc name = Inl e)
      | s # ss \<Rightarrow> reads_section (fst (snd s)) (snd (snd s)) (if_section doc name)
          \<and> (\<exists>xs. if_sections doc name = Inr xs
               \<and> list_all2 (\<lambda>s x. reads_section (fst (snd s)) (snd (snd s)) x) (s # ss) xs)))"

definition ini_library :: "env \<Rightarrow> bool" where
  "ini_library env \<longleftrightarrow>
     (\<forall>t secs. ini_text t = Some secs \<longrightarrow> (\<exists>doc. env_ini env True t = Inr doc \<and> gives secs doc))"

subsection \<open>Printing lines\<close>

definition line_text :: "ini_line \<Rightarrow> string" where
  "line_text l = (case l of
       Blank \<Rightarrow> []
     | Header n c \<Rightarrow> ''['' @ n @ '']'' @ (if c \<noteq> [] then '' # '' @ c else [])
     | Entry k v \<Rightarrow> k @ '' = '' @ v)"

definition lines_text :: "ini_line list \<Rightarrow> string" where
  "lines_text ls = concat (map (\<lambda>l. line_text l @ [nl]) ls)"

fun plain_line :: "ini_line \<Rightarrow> bool" where
  "plain_line Blank \<longleftrightarrow> True"
| "plain_line (Header n c) \<longleftrightarrow> plain_name n \<and> (c = [] \<or> plain_comment c)"
| "plain_line (Entry k v) \<longleftrightarrow> plain_name k \<and> plain_value v"

lemma letter_not: "is_letter c \<Longrightarrow> c \<noteq> CHR '' '' \<and> c \<noteq> CHR ''['' \<and> c \<noteq> CHR '']'' \<and> c \<noteq> nl"
proof -
  have "\<not> is_letter (CHR '' '')" "\<not> is_letter (CHR ''['')" "\<not> is_letter (CHR '']'')" "\<not> is_letter nl"
    by (simp_all add: is_letter_def nl_def less_eq_char_def)
  then show "is_letter c \<Longrightarrow> c \<noteq> CHR '' '' \<and> c \<noteq> CHR ''['' \<and> c \<noteq> CHR '']'' \<and> c \<noteq> nl" by metis
qed

lemma plain_name_not:
  assumes "plain_name s"
  shows "\<forall>c \<in> set s. c \<noteq> CHR '' ''" "\<forall>c \<in> set s. c \<noteq> CHR '']''" "\<forall>c \<in> set s. c \<noteq> CHR ''[''" "nl \<notin> set s" "s \<noteq> []"
  using assms letter_not by (auto simp: plain_name_def list_all_iff)

lemma plain_value_not: "plain_value v \<Longrightarrow> nl \<notin> set v"
proof -
  have "\<not> value_char nl" by (simp add: value_char_def nl_def less_eq_char_def)
  then show "plain_value v \<Longrightarrow> nl \<notin> set v" unfolding plain_value_def list_all_iff by blast
qed

lemma plain_comment_not: "plain_comment v \<Longrightarrow> nl \<notin> set v"
proof -
  have "\<not> CHR '' '' \<le> nl" by (simp add: nl_def less_eq_char_def)
  then show "plain_comment v \<Longrightarrow> nl \<notin> set v" unfolding plain_comment_def list_all_iff by blast
qed

lemma line_text_no_newline: "plain_line l \<Longrightarrow> nl \<notin> set (line_text l)"
proof -
  have "nl \<noteq> CHR ''['' \<and> nl \<noteq> CHR '']'' \<and> nl \<noteq> CHR '' '' \<and> nl \<noteq> CHR ''='' \<and> nl \<noteq> CHR ''#''"
    by (simp add: nl_def)
  then show "plain_line l \<Longrightarrow> nl \<notin> set (line_text l)"
    by (cases l) (auto simp: line_text_def plain_name_not plain_value_not plain_comment_not)
qed

lemma read_line_text: "plain_line l \<Longrightarrow> read_line (line_text l) = Some l"
proof (cases l)
  case (Header n c)
  assume "plain_line l"
  with Header have n: "plain_name n" and c: "c = [] \<or> plain_comment c" by auto
  have "takeWhile (\<lambda>x. x \<noteq> CHR '']'') (n @ CHR '']'' # r) = n" for r
    using plain_name_not(2) [OF n] by (simp add: takeWhile_append2)
  then show ?thesis using n c Header
    by (auto simp: line_text_def plain_comment_def)
next
  case (Entry k v)
  assume "plain_line l"
  with Entry have k: "plain_name k" and v: "plain_value v" by auto
  then obtain x xs where x: "k = x # xs" "x \<noteq> CHR ''[''" using plain_name_not(3,5) [OF k] by (cases k) auto
  have w: "takeWhile (\<lambda>y. y \<noteq> CHR '' '') (k @ CHR '' '' # r) = k" for r
    using plain_name_not(1) [OF k] by (simp add: takeWhile_append2)
  have "read_line (x # (xs @ '' = '' @ v)) = Some (Entry k v)"
    using x(2) k v w [of "''= '' @ v"] by (simp only: read_line.simps if_False Let_def) (simp add: x(1))
  then show ?thesis by (simp add: line_text_def Entry x(1))
qed (simp add: line_text_def)

lemma split_lines: "list_all plain_line ls \<Longrightarrow> split_on nl (lines_text ls) = map line_text ls @ [[]]"
  by (induction ls) (simp_all add: lines_text_def line_text_no_newline)

lemma those_Some: "(\<And>x. x \<in> set xs \<Longrightarrow> f x = Some (g x)) \<Longrightarrow> those (map f xs) = Some (map g xs)"
  by (induction xs) simp_all

lemma read_lines:
  assumes "list_all plain_line ls"
  shows "those (map read_line (split_on nl (lines_text ls))) = Some (ls @ [Blank])"
proof -
  have all: "those (map read_line (map line_text (ls @ [Blank]))) = Some (map (\<lambda>l. l) (ls @ [Blank]))"
    unfolding map_map
  proof (rule those_Some)
    fix l assume "l \<in> set (ls @ [Blank])"
    then have "plain_line l" using assms by (auto simp: list_all_iff)
    then show "(read_line \<circ> line_text) l = Some l" by (simp only: comp_apply read_line_text)
  qed
  have "map line_text (ls @ [Blank]) = split_on nl (lines_text ls)"
    by (simp add: split_lines [OF assms] line_text_def)
  from all [unfolded this] show ?thesis by simp
qed

lemma lines_text_simps [simp]:
  "lines_text [] = []" "lines_text (l # ls) = line_text l @ [nl] @ lines_text ls"
  "lines_text (ls @ ls') = lines_text ls @ lines_text ls'"
  by (simp_all add: lines_text_def)

subsection \<open>The lines of a configuration\<close>

definition entry_lines :: "smap \<Rightarrow> ini_line list" where
  "entry_lines kvs = map (\<lambda>(k, v). Entry k v) kvs"

definition config_lines :: "wg_config \<Rightarrow> ini_line list" where
  "config_lines cfg =
     Header ''Interface'' (wg_Comment cfg) # entry_lines (interface_entries cfg)
     @ concat (map (\<lambda>p. Blank # Header ''Peer'' (pc_Comment p) # entry_lines (peer_entries p)) (wg_Peers cfg))"

lemma entry_lines_simps [simp]:
  "entry_lines [] = []" "entry_lines (kv # kvs) = Entry (fst kv) (snd kv) # entry_lines kvs"
  "entry_lines (kvs @ kvs') = entry_lines kvs @ entry_lines kvs'"
  by (simp_all add: entry_lines_def case_prod_beta)

lemma entry_texts:
  "lines_text (entry_lines (text_entry key val)) = text_line key val"
  "lines_text (entry_lines (int_entry key i)) = int_line key i"
  "lines_text (entry_lines (map (\<lambda>a. (key, f a)) xs)) = concat (map (\<lambda>a. config_line key (f a)) xs)"
proof -
  show "lines_text (entry_lines (map (\<lambda>a. (key, f a)) xs)) = concat (map (\<lambda>a. config_line key (f a)) xs)"
    by (induction xs) (simp_all add: line_text_def config_line_def)
qed (simp_all add: text_entry_def text_line_def int_entry_def int_line_def config_line_def line_text_def)

lemma header_text: "lines_text [Header n c] = section_line n c"
  by (simp add: section_line_def line_text_def)

lemma Stringify_lines: "Stringify cfg = lines_text (config_lines cfg)"
proof -
  have peer: "Stringify_peer p = lines_text (Blank # Header ''Peer'' (pc_Comment p) # entry_lines (peer_entries p))" for p
    using header_text [of "''Peer''" "pc_Comment p"]
    by (simp add: Stringify_peer_def peer_entries_def entry_texts del: entry_lines_def) (simp add: line_text_def)
  have "concat (map Stringify_peer ps) = lines_text
      (concat (map (\<lambda>p. Blank # Header ''Peer'' (pc_Comment p) # entry_lines (peer_entries p)) ps))" for ps
    by (induction ps) (simp_all add: peer)
  then show ?thesis
    using header_text [of "''Interface''" "wg_Comment cfg"]
    by (simp add: Stringify_def config_lines_def interface_entries_def entry_texts)
qed

lemma gather_entries: "gather (entry_lines kvs @ ls) = (kvs @ fst (gather ls), snd (gather ls))"
  by (induction kvs) (simp_all add: case_prod_beta)

lemma gather_config:
  "gather (config_lines cfg @ [Blank]) = ([], (''Interface'', wg_Comment cfg, interface_entries cfg)
     # map (\<lambda>p. (''Peer'', pc_Comment p, peer_entries p)) (wg_Peers cfg))"
proof -
  have "gather (concat (map (\<lambda>p. Blank # Header ''Peer'' (pc_Comment p) # entry_lines (peer_entries p)) ps) @ [Blank])
      = ([], map (\<lambda>p. (''Peer'', pc_Comment p, peer_entries p)) ps)" for ps
    by (induction ps) (simp_all add: gather_entries)
  then show ?thesis by (simp add: config_lines_def gather_entries)
qed

subsection \<open>Plain configurations\<close>

text \<open>The fields that are texts are empty or plain, and no address is there twice.\<close>

definition plain_field :: "string \<Rightarrow> bool" where
  "plain_field v \<longleftrightarrow> v = [] \<or> plain_value v"

definition plain_peer :: "peer_config \<Rightarrow> bool" where
  "plain_peer p \<longleftrightarrow> (pc_Comment p = [] \<or> plain_comment (pc_Comment p)) \<and> plain_field (pc_PublicKey p)
     \<and> plain_field (pc_PresharedKey p) \<and> plain_field (pc_Endpoint p)
     \<and> distinct (map IPNet_String (pc_AllowedIPs p))"

definition plain_config :: "wg_config \<Rightarrow> bool" where
  "plain_config cfg \<longleftrightarrow> (wg_Comment cfg = [] \<or> plain_comment (wg_Comment cfg)) \<and> plain_field (wg_PrivateKey cfg)
     \<and> distinct (map IPNet_String (wg_Addresses cfg)) \<and> list_all plain_peer (wg_Peers cfg)"

lemma plain_digits: "(\<And>c. c \<in> set v \<Longrightarrow> is_digit c \<or> c \<in> {CHR ''.'', CHR ''/'', CHR ''-''}) \<Longrightarrow> v \<noteq> [] \<Longrightarrow> plain_value v"
proof -
  have "is_digit c \<Longrightarrow> value_char c" for c
    by (auto simp: is_digit_def value_char_def less_eq_char_def)
  moreover have "value_char (CHR ''.'')" "value_char (CHR ''/'')" "value_char (CHR ''-'')"
    by (simp_all add: value_char_def less_eq_char_def)
  ultimately show "(\<And>c. c \<in> set v \<Longrightarrow> is_digit c \<or> c \<in> {CHR ''.'', CHR ''/'', CHR ''-''}) \<Longrightarrow> v \<noteq> [] \<Longrightarrow> plain_value v"
    unfolding plain_value_def list_all_iff by blast
qed

lemma plain_int: "0 \<le> i \<Longrightarrow> plain_value (int_dec i)"
  using nat_dec_digits [of "nat i"] by (intro plain_digits) (auto simp: int_dec_def)

lemma plain_prefix:
  assumes "length p = 4" "l \<le> 32"
  shows "plain_value (IPNet_String (v4_net p l))"
proof -
  obtain a b c d where p: "p = [a, b, c, d]" using assms(1) by (rule v4_cases)
  have "IPNet_String (v4_net p l) = v4_string [a, b, c, d] @ ''/'' @ nat_dec l"
    using IPNet_String_v4 [OF assms] p by simp
  then show ?thesis
    by (intro plain_digits) (use nat_dec_digits in \<open>auto simp: v4_string_def\<close>)
qed

lemma distinct_keyed: "distinct (map (\<lambda>a. (key, f a)) xs) \<longleftrightarrow> distinct (map f xs)"
  by (induction xs) auto

end
