(* ===== verification/Wireguard_Props.thy ===== *)
theory Wireguard_Props
  imports Ini_Text Podman_Props
begin

text \<open>The properties of the WireGuard package: text forms of keys, the configuration file, and the
  stability of the node's key.\<close>

unbundle bit_operations_syntax

subsection \<open>Keys\<close>

text \<open>C35 (roundtrip): the text forms of keys. A key that was written in hexadecimal or base64 is read
  back as it was, up to the clamping of private keys, which does nothing a second time: every
  private key that was read, even from wrong text, has its three lowest bits and its highest bit
  clear and the second highest set. A text of another length is refused, and only the method for
  maybe-zero keys leaves the zero key alone.\<close>

theorem key_texts_roundtrip:
  assumes "length k = 32"
  shows "readPrivateKeyFromBase64 (ToBase64 k) = (clamp k, None) \<and> readPrivateKeyFromHex (ToHex k) = (clamp k, None)
    \<and> public_FromHex zero_key (ToHex k) = (k, None) \<and> clamp (clamp k) = clamp k
    \<and> private_FromMaybeZeroHex k (ToHex zero_key) = (zero_key, None)
    \<and> private_FromHex k (ToHex zero_key) \<noteq> (zero_key, None)
    \<and> (\<forall>s. length (fst (readPrivateKeyFromBase64 s)) = 32 \<and> fst (readPrivateKeyFromBase64 s) ! 0 AND 7 = 0
          \<and> fst (readPrivateKeyFromBase64 s) ! 31 AND 192 = 64)
    \<and> (\<forall>bs. length bs \<noteq> 32 \<longrightarrow> snd (readPrivateKeyFromBase64 (ToBase64 bs)) \<noteq> None
          \<and> snd (readPrivateKeyFromHex (ToHex bs)) \<noteq> None)"
proof (intro conjI allI impI)
  show "readPrivateKeyFromBase64 (ToBase64 k) = (clamp k, None)" by (rule read_back_b64 [OF assms])
  show "readPrivateKeyFromHex (ToHex k) = (clamp k, None)" "public_FromHex zero_key (ToHex k) = (k, None)"
    using assms by (simp_all add: readPrivateKeyFromHex_def public_FromHex_def loadExactHex_def load_exact_def ToHex_def)
  show "clamp (clamp k) = clamp k" using assms by simp
  show "private_FromMaybeZeroHex k (ToHex zero_key) = (zero_key, None)"
    using assms by (simp add: private_FromMaybeZeroHex_def loadExactHex_def load_exact_def ToHex_def IsZero_def)
  have "clamp zero_key ! 31 \<noteq> zero_key ! 31" by (simp add: clamp_def zero_key_def Let_def)
  then show "private_FromHex k (ToHex zero_key) \<noteq> (zero_key, None)"
    using assms by (auto simp: private_FromHex_def loadExactHex_def load_exact_def ToHex_def)
  fix s
  obtain sk where sk: "fst (readPrivateKeyFromBase64 s) = clamp sk" "length sk = 32"
  proof -
    obtain sk err where l: "loadExactBase64 zero_key s = (sk, err)" by fastforce
    then have "length sk = 32" by (auto simp: loadExactBase64_def load_exact_def split: option.splits if_splits)
    with l that show thesis by (simp add: readPrivateKeyFromBase64_def)
  qed
  show "length (fst (readPrivateKeyFromBase64 s)) = 32" using sk by simp
  have "(x AND 248) AND 7 = (0 :: u8)" "((x AND 127) OR 64) AND 192 = (64 :: u8)" for x
    by (simp_all add: and.assoc bit.conj_disj_distrib2)
  then show "fst (readPrivateKeyFromBase64 s) ! 0 AND 7 = 0" "fst (readPrivateKeyFromBase64 s) ! 31 AND 192 = 64"
    using sk by (simp_all add: clamp_def Let_def)
next
  fix bs :: bytes assume "length bs \<noteq> 32"
  then show "snd (readPrivateKeyFromBase64 (ToBase64 bs)) \<noteq> None" "snd (readPrivateKeyFromHex (ToHex bs)) \<noteq> None"
    by (simp_all add: readPrivateKeyFromBase64_def loadExactBase64_def readPrivateKeyFromHex_def loadExactHex_def
        load_exact_def ToBase64_def ToHex_def)
qed

theorem key_texts_roundtrip_witness:
  "readPrivateKeyFromBase64 (ToBase64 (replicate 32 255)) = (clamp (replicate 32 255), None)"
  using key_texts_roundtrip [of "replicate 32 255"] by simp

subsection \<open>The configuration file\<close>

text \<open>Configurations over IPv4 with at most one way to write their numbers.\<close>

definition v4_prefix :: "ipnet \<Rightarrow> bool" where
  "v4_prefix n \<longleftrightarrow> (\<exists>p l. n = v4_net p l \<and> length p = 4 \<and> l \<le> 32)"

definition mask_net :: "ipnet \<Rightarrow> ipnet" where
  "mask_net n = \<lparr>net_ip = map2 (AND) (net_ip n) (net_mask n), net_mask = net_mask n\<rparr>"

definition peer_ok :: "peer_config \<Rightarrow> bool" where
  "peer_ok p \<longleftrightarrow> -1 \<le> pc_PersistentKeepalive p \<and> list_all v4_prefix (pc_AllowedIPs p)"

definition config_ok :: "wg_config \<Rightarrow> bool" where
  "config_ok cfg \<longleftrightarrow> -1 \<le> wg_ListenPort cfg \<and> -1 \<le> wg_FirewallMark cfg \<and> list_all v4_prefix (wg_Addresses cfg)
     \<and> list_all peer_ok (wg_Peers cfg)"

definition mask_config :: "wg_config \<Rightarrow> wg_config" where
  "mask_config cfg = cfg\<lparr>wg_Addresses := map mask_net (wg_Addresses cfg),
     wg_Peers := map (\<lambda>p. p\<lparr>pc_AllowedIPs := map mask_net (pc_AllowedIPs p)\<rparr>) (wg_Peers cfg)\<rparr>"

lemma parse_v4_prefix:
  assumes "v4_prefix n"
  shows "\<exists>ip. ParseCIDR (IPNet_String n) = Some (ip, mask_net n)" "CHR '','' \<notin> set (IPNet_String n)"
    "2 \<le> length (IPNet_String n)"
proof -
  from assms obtain p l where n: "n = v4_net p l" "length p = 4" "l \<le> 32" unfolding v4_prefix_def by blast
  show "\<exists>ip. ParseCIDR (IPNet_String n) = Some (ip, mask_net n)"
    unfolding n(1) IPNet_String_v4 [OF n(2,3)] ParseCIDR_v4 [OF n(2,3)] by (simp add: mask_net_def v4_net_def)
  obtain a b c d where "p = [a, b, c, d]" using n(2) by (rule v4_cases)
  moreover have "\<not> is_digit (CHR '','')" by (simp add: is_digit_def less_eq_char_def)
  ultimately show "CHR '','' \<notin> set (IPNet_String n)" "2 \<le> length (IPNet_String n)"
    using n by (simp_all add: IPNet_String_v4 v4_string_def not_in_nat_dec)
qed

lemma parse_networks:
  assumes "list_all v4_prefix nets" "filter (\<lambda>v. 2 \<le> length v) vs = filter (\<lambda>v. 2 \<le> length v) (map IPNet_String nets)"
    "ik_strings key = vs"
  shows "parseNetworkList name key = Inr (map mask_net nets)"
proof -
  let ?step = "\<lambda>value netList. if length value < 2 then Inr netList
         else case ParseCIDR value of
                None \<Rightarrow> Inl (''Parsing '' @ name @ '' '' @ value @ '': invalid CIDR address: '' @ value)
              | Some (_, ipNet) \<Rightarrow> Inr (netList @ [ipNet])"
  have skip: "foldE ?step vs acc = foldE ?step (filter (\<lambda>v. 2 \<le> length v) vs) acc" for acc vs
    by (induction vs arbitrary: acc) (auto split: sum.split)
  have all: "foldE ?step (map IPNet_String nets) acc = Inr (acc @ map mask_net nets)" for acc
    using assms(1)
  proof (induction nets arbitrary: acc)
    case (Cons n nets)
    then obtain ip where "ParseCIDR (IPNet_String n) = Some (ip, mask_net n)" "2 \<le> length (IPNet_String n)"
      using parse_v4_prefix [of n] by auto
    with Cons show ?case by simp
  qed simp
  have "foldE ?step vs [] = foldE ?step (map IPNet_String nets) []"
    using skip [of vs] skip [of "map IPNet_String nets"] assms(2) by simp
  then show ?thesis using all assms(3) by (simp add: parseNetworkList_def)
qed

text \<open>The values of the keys of a section, by the kind of their entries.\<close>

lemma reads_text:
  "reads_section c kvs s \<Longrightarrow> values_of kvs k = (if v \<noteq> [] then [v] else []) \<Longrightarrow> ik_string (is_key s k) = v"
  by (auto simp: reads_section_def split: if_splits)

lemma reads_int:
  "reads_section c kvs s \<Longrightarrow> values_of kvs k = (if i \<ge> 0 then [int_dec i] else []) \<Longrightarrow> -1 \<le> i \<Longrightarrow>
   must_int (is_key s k) (-1) = i"
  by (cases "i \<ge> 0") (auto simp: reads_section_def must_int_def)

lemma reads_nets:
  assumes "reads_section c kvs s" "values_of kvs k = map IPNet_String nets" "list_all v4_prefix nets"
  shows "parseNetworkList k (is_key s k) = Inr (map mask_net nets)"
proof (rule parse_networks [OF assms(3) _ refl])
  have "\<forall>v \<in> set (values_of kvs k). CHR '','' \<notin> set v"
    using assms(3) parse_v4_prefix(2) by (auto simp: assms(2) list_all_iff)
  then show "filter (\<lambda>v. 2 \<le> length v) (ik_strings (is_key s k)) = filter (\<lambda>v. 2 \<le> length v) (map IPNet_String nets)"
    using assms(1,2) unfolding reads_section_def by simp
qed

lemma reads_comment: "reads_section c kvs s \<Longrightarrow> comment_of s = c"
  by (cases c) (simp_all add: reads_section_def comment_of_def)

lemma parse_peer_reads:
  assumes "reads_section (pc_Comment p) (peer_entries p) s" "peer_ok p"
  shows "parse_peer s = Inr (p\<lparr>pc_AllowedIPs := map mask_net (pc_AllowedIPs p)\<rparr>)"
proof -
  have ok: "list_all v4_prefix (pc_AllowedIPs p)" "-1 \<le> pc_PersistentKeepalive p"
    using assms(2) by (simp_all add: peer_ok_def)
  have "ik_string (is_key s ''PublicKey'') = pc_PublicKey p" "ik_string (is_key s ''PresharedKey'') = pc_PresharedKey p"
    "ik_string (is_key s ''Endpoint'') = pc_Endpoint p"
    by (rule reads_text [OF assms(1)], simp add: peer_entries_def entries_values)+
  moreover have "must_int (is_key s ''PersistentKeepalive'') (-1) = pc_PersistentKeepalive p"
    by (rule reads_int [OF assms(1) _ ok(2)]) (simp add: peer_entries_def entries_values)
  moreover have "parseNetworkList ''AllowedIPs'' (is_key s ''AllowedIPs'') = Inr (map mask_net (pc_AllowedIPs p))"
    by (rule reads_nets [OF assms(1) _ ok(1)]) (simp add: peer_entries_def entries_values)
  ultimately show ?thesis by (simp add: parse_peer_def reads_comment [OF assms(1)])
qed

lemma parse_peers:
  assumes "list_all2 (\<lambda>p s. reads_section (pc_Comment p) (peer_entries p) s) ps ss" "list_all peer_ok ps"
  shows "foldE (\<lambda>s cs. case parse_peer s of Inl e \<Rightarrow> Inl e | Inr c \<Rightarrow> Inr (cs @ [c])) ss acc
     = Inr (acc @ map (\<lambda>p. p\<lparr>pc_AllowedIPs := map mask_net (pc_AllowedIPs p)\<rparr>) ps)"
  using assms
proof (induction arbitrary: acc rule: list_all2_induct)
  case (Cons p ps s ss)
  then show ?case by (simp add: parse_peer_reads)
qed simp

lemma mask_id: "v4_prefix n \<Longrightarrow> mask_net (mask_net n) = mask_net n"
  by (auto simp: v4_prefix_def mask_net_def v4_net_def masked_twice)

lemma ParseWgQuickConfig_reads:
  assumes "config_ok cfg" "ini_reads env cfg"
  shows "ParseWgQuickConfig env (Stringify cfg) = Inr (mask_config cfg)"
proof -
  from assms(1) have ok: "-1 \<le> wg_ListenPort cfg" "-1 \<le> wg_FirewallMark cfg" "list_all v4_prefix (wg_Addresses cfg)"
    "list_all peer_ok (wg_Peers cfg)" by (simp_all add: config_ok_def)
  from assms(2) obtain doc where f: "env_ini env True (Stringify cfg) = Inr doc"
    and s: "reads_section (wg_Comment cfg) (interface_entries cfg) (if_section doc ''Interface'')"
    and ps: "case if_sections doc ''Peer'' of Inl _ \<Rightarrow> wg_Peers cfg = []
           | Inr ss \<Rightarrow> list_all2 (\<lambda>p s. reads_section (pc_Comment p) (peer_entries p) s) (wg_Peers cfg) ss"
    unfolding ini_reads_def by blast
  let ?s = "if_section doc ''Interface''"
  have "ik_string (is_key ?s ''PrivateKey'') = wg_PrivateKey cfg"
    by (rule reads_text [OF s], simp add: interface_entries_def entries_values)
  moreover have "must_int (is_key ?s ''ListenPort'') (-1) = wg_ListenPort cfg"
    by (rule reads_int [OF s _ ok(1)]) (simp add: interface_entries_def entries_values)
  moreover have "must_int (is_key ?s ''FirewallMark'') (-1) = wg_FirewallMark cfg"
    by (rule reads_int [OF s _ ok(2)]) (simp add: interface_entries_def entries_values)
  moreover have "parseNetworkList ''Address'' (is_key ?s ''Address'') = Inr (map mask_net (wg_Addresses cfg))"
    by (rule reads_nets [OF s _ ok(3)]) (simp add: interface_entries_def entries_values)
  moreover have "foldE (\<lambda>s cs. case parse_peer s of Inl e \<Rightarrow> Inl e | Inr c \<Rightarrow> Inr (cs @ [c]))
      (case if_sections doc ''Peer'' of Inl _ \<Rightarrow> [] | Inr ps \<Rightarrow> ps) []
      = Inr (map (\<lambda>p. p\<lparr>pc_AllowedIPs := map mask_net (pc_AllowedIPs p)\<rparr>) (wg_Peers cfg))"
    using ps parse_peers [OF _ ok(4), of _ "[]"] by (auto split: sum.splits)
  ultimately show ?thesis
    by (simp add: ParseWgQuickConfig_def f Let_def reads_comment [OF s] mask_config_def)
qed

text \<open>What is printed is plain, so the library reads it.\<close>

lemma plain_entries:
  assumes "list_all v4_prefix nets" "distinct (map IPNet_String nets)" "plain_name key"
  shows "list_all plain_line (entry_lines (map (\<lambda>a. (key, IPNet_String a)) nets))"
proof -
  have "plain_value (IPNet_String a)" if "v4_prefix a" for a
    using that plain_prefix by (auto simp: v4_prefix_def)
  with assms show ?thesis by (auto simp: list_all_iff entry_lines_def)
qed

lemma plain_text_entry:
  "plain_field v \<Longrightarrow> plain_name k \<Longrightarrow> list_all plain_line (entry_lines (text_entry k v))"
  "plain_name k \<Longrightarrow> list_all plain_line (entry_lines (int_entry k i))"
  by (auto simp: text_entry_def plain_field_def int_entry_def plain_int)

lemma key_names:
  "plain_name ''PrivateKey''" "plain_name ''Address''" "plain_name ''ListenPort''" "plain_name ''FirewallMark''"
  "plain_name ''PublicKey''" "plain_name ''PresharedKey''" "plain_name ''AllowedIPs''" "plain_name ''Endpoint''"
  "plain_name ''PersistentKeepalive''" "plain_name ''Interface''" "plain_name ''Peer''"
  by (simp_all add: plain_name_def is_letter_def less_eq_char_def)

lemma plain_sections:
  assumes "config_ok cfg" "plain_config cfg"
  shows "list_all plain_line (entry_lines (interface_entries cfg))" "distinct (interface_entries cfg)"
    "p \<in> set (wg_Peers cfg) \<Longrightarrow> list_all plain_line (entry_lines (peer_entries p)) \<and> distinct (peer_entries p)"
proof -
  show "list_all plain_line (entry_lines (interface_entries cfg))"
    using assms plain_entries plain_text_entry key_names
    by (simp add: interface_entries_def plain_config_def config_ok_def)
  show "distinct (interface_entries cfg)"
    using assms(2) by (auto simp: interface_entries_def plain_config_def text_entry_def int_entry_def distinct_keyed)
  assume "p \<in> set (wg_Peers cfg)"
  then have p: "plain_peer p" "peer_ok p" using assms by (auto simp: plain_config_def config_ok_def list_all_iff)
  show "list_all plain_line (entry_lines (peer_entries p)) \<and> distinct (peer_entries p)"
  proof
    show "list_all plain_line (entry_lines (peer_entries p))"
      using p plain_entries plain_text_entry key_names by (simp add: peer_entries_def plain_peer_def peer_ok_def)
    show "distinct (peer_entries p)"
      using p(1) by (auto simp: peer_entries_def plain_peer_def text_entry_def int_entry_def distinct_keyed)
  qed
qed

lemma plain_config_lines:
  assumes "config_ok cfg" "plain_config cfg"
  shows "list_all plain_line (config_lines cfg)"
proof -
  have "list_all plain_line (Blank # Header ''Peer'' (pc_Comment p) # entry_lines (peer_entries p))"
    if "p \<in> set (wg_Peers cfg)" for p
    using plain_sections(3) [OF assms that] that assms(2) key_names
    by (auto simp: plain_config_def plain_peer_def list_all_iff)
  then have "list_all plain_line
      (concat (map (\<lambda>p. Blank # Header ''Peer'' (pc_Comment p) # entry_lines (peer_entries p)) (wg_Peers cfg)))"
    unfolding list_all_iff set_concat set_map by blast
  then show ?thesis
    using plain_sections(1) [OF assms] assms(2) key_names by (simp add: config_lines_def plain_config_def)
qed

lemma ini_text_Stringify:
  assumes "config_ok cfg" "plain_config cfg"
  shows "ini_text (Stringify cfg) = Some ((''DEFAULT'', [], []) # (''Interface'', wg_Comment cfg, interface_entries cfg)
     # map (\<lambda>p. (''Peer'', pc_Comment p, peer_entries p)) (wg_Peers cfg))"
  using plain_sections(2,3) [OF assms]
  by (simp add: ini_text_def Stringify_lines read_lines [OF plain_config_lines [OF assms]] gather_config list_all_iff)

lemma library_reads:
  assumes "ini_library env" "config_ok cfg" "plain_config cfg"
  shows "ini_reads env cfg"
proof -
  let ?secs = "(''DEFAULT'', [], []) # (''Interface'', wg_Comment cfg, interface_entries cfg)
     # map (\<lambda>p. (''Peer'', pc_Comment p, peer_entries p)) (wg_Peers cfg)"
  obtain doc where doc: "env_ini env True (Stringify cfg) = Inr doc" and g: "gives ?secs doc"
    using assms(1) ini_text_Stringify [OF assms(2,3)] unfolding ini_library_def by blast
  have "filter (\<lambda>s. fst s = ''Peer'') (map (\<lambda>p. (''Peer'', pc_Comment p, peer_entries p)) ps)
      = map (\<lambda>p. (''Peer'', pc_Comment p, peer_entries p)) ps" for ps
    by (induction ps) simp_all
  then have peers: "filter (\<lambda>s. fst s = ''Peer'') ?secs
      = map (\<lambda>p. (''Peer'', pc_Comment p, peer_entries p)) (wg_Peers cfg)" by simp
  have "reads_section (wg_Comment cfg) (interface_entries cfg) (if_section doc ''Interface'')"
    using g [unfolded gives_def, rule_format, of "''Interface''"] by simp
  moreover have "case if_sections doc ''Peer'' of
             Inl _ \<Rightarrow> wg_Peers cfg = []
           | Inr ss \<Rightarrow> list_all2 (\<lambda>p s. reads_section (pc_Comment p) (peer_entries p) s) (wg_Peers cfg) ss"
    using g [unfolded gives_def, rule_format, of "''Peer''"] unfolding peers
    by (cases "wg_Peers cfg") (auto simp: list_all2_Cons1 list_all2_map1)
  ultimately show ?thesis using doc unfolding ini_reads_def by blast
qed


text \<open>A library for the witnesses: it gives back one configuration, whatever the text.\<close>

definition read_int :: "string \<Rightarrow> int" where
  "read_int s = (case s of [] \<Rightarrow> 0
     | c # ds \<Rightarrow> if c = CHR ''-'' then - int (foldl (\<lambda>n c. n * 10 + digit_val c) 0 ds)
                 else int (foldl (\<lambda>n c. n * 10 + digit_val c) 0 s))"

lemma read_int_dec: "read_int (int_dec i) = i"
proof -
  obtain c ds where c: "nat_dec (nat i) = c # ds" by (meson nat_dec_nonempty neq_Nil_conv)
  then have "c \<noteq> CHR ''-''" using nat_dec_digits [of "nat i"] by (auto simp: is_digit_def less_eq_char_def)
  with c show ?thesis using foldl_nat_dec [of "nat i"] foldl_nat_dec [of "nat (- i)"]
    by (simp add: int_dec_def read_int_def)
qed

definition given_key :: "smap \<Rightarrow> string \<Rightarrow> ini_key" where
  "given_key kvs k =
     \<lparr>ik_string = (case values_of kvs k of [] \<Rightarrow> [] | v # _ \<Rightarrow> v), ik_strings = values_of kvs k,
      ik_int = (case values_of kvs k of [] \<Rightarrow> None | v # _ \<Rightarrow> Some (read_int v))\<rparr>"

definition given_section :: "string \<Rightarrow> smap \<Rightarrow> ini_section" where
  "given_section c kvs = \<lparr>is_comment = (if c = [] then [] else ''# '' @ c), is_key = given_key kvs, is_hash = kvs\<rparr>"

definition given_file :: "wg_config \<Rightarrow> ini_file" where
  "given_file cfg = \<lparr>if_section = (\<lambda>_. given_section (wg_Comment cfg) (interface_entries cfg)),
     if_sections = (\<lambda>_. Inr (map (\<lambda>p. given_section (pc_Comment p) (peer_entries p)) (wg_Peers cfg)))\<rparr>"

lemma given_reads: "reads_section c kvs (given_section c kvs)"
  by (simp add: reads_section_def given_section_def given_key_def read_int_dec)

lemma given_ini_reads: "(\<And>s. env_ini env True s = Inr (given_file cfg)) \<Longrightarrow> ini_reads env cfg"
  by (simp add: ini_reads_def given_file_def given_reads list_all2_map2 list_all2_same)

definition ex_wg :: wg_config where
  "ex_wg = \<lparr>wg_Comment = ''pet-1'', wg_PrivateKey = ''k='', wg_Addresses = [v4_net [10, 6, 1, 5] 24],
     wg_ListenPort = 51820, wg_FirewallMark = -1,
     wg_Peers = [\<lparr>pc_Comment = [], pc_PublicKey = ''p='', pc_PresharedKey = [], pc_Endpoint = ''192.0.2.1:51820'',
       pc_PersistentKeepalive = 25, pc_AllowedIPs = [v4_net [10, 6, 0, 0] 16]\<rparr>]\<rparr>"

text \<open>A library that is nothing but the reader of plain texts.\<close>

definition file_of :: "(string \<times> string \<times> smap) list \<Rightarrow> ini_file" where
  "file_of secs = \<lparr>
     if_section = (\<lambda>name. case filter (\<lambda>s. fst s = name) secs of
        [] \<Rightarrow> given_section [] [] | s # _ \<Rightarrow> given_section (fst (snd s)) (snd (snd s))),
     if_sections = (\<lambda>name. case filter (\<lambda>s. fst s = name) secs of
        [] \<Rightarrow> Inl ''no section'' | ss \<Rightarrow> Inr (map (\<lambda>s. given_section (fst (snd s)) (snd (snd s))) ss))\<rparr>"

definition ex_ini_env :: env where
  "ex_ini_env = (ex_env ex_missing ex_missing_body)\<lparr>env_ini := (\<lambda>_ t.
     case ini_text t of None \<Rightarrow> Inl ''not a plain text'' | Some secs \<Rightarrow> Inr (file_of secs))\<rparr>"

lemma ex_ini_library: "ini_library ex_ini_env"
proof -
  have same: "list_all2 (\<lambda>s x. reads_section (fst (snd s)) (snd (snd s)) x) ss
      (map (\<lambda>s. given_section (fst (snd s)) (snd (snd s))) ss)" for ss :: "(string \<times> string \<times> smap) list"
    by (induction ss) (simp_all add: given_reads)
  have "gives secs (file_of secs)" for secs
    unfolding gives_def
  proof
    fix name
    show "case filter (\<lambda>s. fst s = name) secs of
        [] \<Rightarrow> reads_section [] [] (if_section (file_of secs) name) \<and> (\<exists>e. if_sections (file_of secs) name = Inl e)
      | s # ss \<Rightarrow> reads_section (fst (snd s)) (snd (snd s)) (if_section (file_of secs) name)
          \<and> (\<exists>xs. if_sections (file_of secs) name = Inr xs
               \<and> list_all2 (\<lambda>s x. reads_section (fst (snd s)) (snd (snd s)) x) (s # ss) xs)"
      using same by (cases "filter (\<lambda>s. fst s = name) secs") (simp_all add: file_of_def given_reads)
  qed
  then show ?thesis by (simp add: ini_library_def ex_ini_env_def)
qed

lemma ex_wg_plain: "config_ok ex_wg" "plain_config ex_wg"
proof -
  show "config_ok ex_wg"
    unfolding config_ok_def ex_wg_def peer_ok_def v4_prefix_def by (force intro: exI [of _ "[10, 6, 1, 5]"])
  show "plain_config ex_wg" by code_simp
qed


subsection \<open>The key of the node\<close>

text \<open>The configuration that the file gives, a blank one without a file.\<close>

definition config_before :: "env \<Rightarrow> string \<Rightarrow> node \<Rightarrow> wg_config" where
  "config_before env iface n =
     (case map_of (n_disk n) (config_path iface) of
        None \<Rightarrow> blank_config
      | Some raw \<Rightarrow> (case ParseWgQuickConfig env raw of Inl _ \<Rightarrow> blank_config | Inr cfg \<Rightarrow> cfg))"

text \<open>An absent file is the only reason for the error that says so.\<close>

definition disk_law :: "env \<Rightarrow> bool" where
  "disk_law env \<longleftrightarrow> (\<forall>tr path e. env_disk env tr path = Some e \<longrightarrow> \<not> is_not_exist e)"

lemma EnsureKeyMaterial_reads:
  assumes "disk_law env" "EnsureKeyMaterial env iface n = (Ok pub, n')"
  shows "ensure_key env iface (config_before env iface n) (n\<lparr>n_trace := n_trace n @ [DiskRead (config_path iface)]\<rparr>)
     = (Ok pub, n')"
proof -
  have "env_disk env (n_trace n) (config_path iface) = None"
    using assms unfolding EnsureKeyMaterial_def ReadPersistentConfig_def disk_law_def
    by (auto simp: bindR_def tryR_def disk_read_node split: option.splits)
  with assms(2) show ?thesis
    unfolding EnsureKeyMaterial_def ReadPersistentConfig_def config_before_def
    by (auto simp: bindR_def tryR_def disk_read_node missing_file_def is_not_exist_def
        split: option.splits sum.splits)
qed

lemma ensure_key_new:
  assumes "ensure_key env iface cfg n = (Ok pub, n1)" "wg_PrivateKey cfg = []"
  obtains sk where "length sk = 32" "clamp sk = sk" "pub = ToBase64 (env_public_key env sk)"
    "n_disk n1 = AList.update (config_path iface) (Stringify (cfg\<lparr>wg_PrivateKey := ToBase64 sk\<rparr>)) (n_disk n)"
proof (cases "env_random env (n_trace n)")
  case (Inr bs)
  let ?sk = "clamp (take 32 (bs @ zero_key))"
  have "newPrivateKey env n = (Ok ?sk, n)" using Inr by (simp add: newPrivateKey_def)
  with assms have "thenR (disk_write env (config_path iface) (Stringify (cfg\<lparr>wg_PrivateKey := ToBase64 ?sk\<rparr>)))
      (ret (ToBase64 (env_public_key env ?sk))) n = (Ok pub, n1)"
    unfolding ensure_key_def WritePersistentConfig_def by simp
  then show thesis
    by (elim thenR_OkE) (rule that [of ?sk], auto simp: disk_write_Ok)
qed (use assms in \<open>simp add: ensure_key_def newPrivateKey_def bindR_def\<close>)

lemma EnsureKeyMaterial_with_key:
  assumes "map_of (n_disk n) (config_path iface) = Some raw" "ParseWgQuickConfig env raw = Inr cfg"
    "wg_PrivateKey cfg \<noteq> []" "readPrivateKeyFromBase64 (wg_PrivateKey cfg) = (sk, None)"
    "env_disk env (n_trace n) (config_path iface) = None"
  shows "EnsureKeyMaterial env iface n
     = (Ok (ToBase64 (env_public_key env sk)), n\<lparr>n_trace := n_trace n @ [DiskRead (config_path iface)]\<rparr>)"
  using assms unfolding EnsureKeyMaterial_def ReadPersistentConfig_def ensure_key_def
  by (simp add: bindR_def tryR_def disk_read_node)

text \<open>C21 (safety): the node keeps its key. A configuration with a private key is left as it is, and the
  answer is that key's public key. Without one, a new clamped key is put into the configuration that
  was there, other files stay as they were, and the answer is the public key of what was written. In
  both cases every later run on that file, whatever else has changed on the node, gives the same
  public key and writes nothing.\<close>

theorem EnsureKeyMaterial_stable:
  fixes n n1 :: node
  assumes "disk_law env" "EnsureKeyMaterial env iface n = (Ok pub, n1)"
    and "config_ok (config_before env iface n)"
    and "\<forall>sk. length sk = 32 \<longrightarrow> ini_reads env (config_before env iface n\<lparr>wg_PrivateKey := ToBase64 sk\<rparr>)"
  shows "(wg_PrivateKey (config_before env iface n) \<noteq> [] \<longrightarrow> n_disk n1 = n_disk n)
    \<and> (wg_PrivateKey (config_before env iface n) = [] \<longrightarrow>
         (\<exists>sk. length sk = 32 \<and> clamp sk = sk \<and> pub = ToBase64 (env_public_key env sk)
            \<and> map_of (n_disk n1) (config_path iface)
                = Some (Stringify (config_before env iface n\<lparr>wg_PrivateKey := ToBase64 sk\<rparr>))))
    \<and> (\<forall>path. path \<noteq> config_path iface \<longrightarrow> map_of (n_disk n1) path = map_of (n_disk n) path)
    \<and> (\<forall>n2 :: node. map_of (n_disk n2) (config_path iface) = map_of (n_disk n1) (config_path iface) \<longrightarrow>
         env_disk env (n_trace n2) (config_path iface) = None \<longrightarrow>
         EnsureKeyMaterial env iface n2 = (Ok pub, n2\<lparr>n_trace := n_trace n2 @ [DiskRead (config_path iface)]\<rparr>))"
proof (cases "wg_PrivateKey (config_before env iface n) = []")
  case False
  let ?cfg = "config_before env iface n"
  obtain raw where raw: "map_of (n_disk n) (config_path iface) = Some raw" "ParseWgQuickConfig env raw = Inr ?cfg"
    using False by (auto simp: config_before_def blank_config_def split: option.splits sum.splits)
  obtain sk err where k: "readPrivateKeyFromBase64 (wg_PrivateKey ?cfg) = (sk, err)" by fastforce
  from EnsureKeyMaterial_reads [OF assms(1,2)] False k
  have r: "err = None" "pub = ToBase64 (env_public_key env sk)" "n_disk n1 = n_disk n"
    by (auto simp: ensure_key_def split: option.splits)
  then show ?thesis
    using EnsureKeyMaterial_with_key [OF _ raw(2) False k [unfolded r(1)]] raw(1) False by simp
next
  case True
  let ?cfg = "\<lambda>sk. config_before env iface n\<lparr>wg_PrivateKey := ToBase64 sk\<rparr>"
  obtain sk where sk: "length sk = 32" "clamp sk = sk" and pub: "pub = ToBase64 (env_public_key env sk)"
    and d: "n_disk n1 = AList.update (config_path iface) (Stringify (?cfg sk)) (n_disk n)"
    by (rule ensure_key_new [OF EnsureKeyMaterial_reads [OF assms(1,2)] True]) simp
  have ok: "config_ok (?cfg sk)" using assms(3) by (simp add: config_ok_def)
  have "ParseWgQuickConfig env (Stringify (?cfg sk)) = Inr (mask_config (?cfg sk))"
    using assms(4) sk(1) by (intro ParseWgQuickConfig_reads [OF ok]) blast
  moreover have "wg_PrivateKey (mask_config (?cfg sk)) = ToBase64 sk" by (simp add: mask_config_def)
  moreover have "readPrivateKeyFromBase64 (ToBase64 sk) = (sk, None)" using read_back_b64 [OF sk(1)] sk(2) by simp
  ultimately have again: "EnsureKeyMaterial env iface n2
      = (Ok pub, n2\<lparr>n_trace := n_trace n2 @ [DiskRead (config_path iface)]\<rparr>)"
    if "map_of (n_disk n2) (config_path iface) = Some (Stringify (?cfg sk))"
      "env_disk env (n_trace n2) (config_path iface) = None" for n2 :: node
    unfolding pub using EnsureKeyMaterial_with_key [OF that(1) _ _ _ that(2)] ToBase64_nonempty [OF sk(1)] by simp
  show ?thesis
    using True sk pub again by (auto simp: d update_conv')
qed

definition ex_key_env :: env where
  "ex_key_env = (ex_env ex_missing ex_missing_body)\<lparr>env_ini := (\<lambda>_ s. Inr (given_file
     (blank_config\<lparr>wg_PrivateKey := takeWhile (\<lambda>c. c \<noteq> nl) (drop 25 s)\<rparr>)))\<rparr>"

lemma ex_key_reads: "ini_reads ex_key_env (blank_config\<lparr>wg_PrivateKey := ToBase64 sk\<rparr>)"
proof (cases "ToBase64 sk = []")
  case True
  then show ?thesis
    by (simp add: ini_reads_def given_file_def given_reads ex_key_env_def blank_config_def Stringify_def
        section_line_def text_line_def int_line_def)
next
  case False
  have "\<forall>c \<in> set (ToBase64 sk). c \<noteq> nl" using b64_encode_chars [of sk] by (simp add: ToBase64_def nl_def)
  then have "takeWhile (\<lambda>c. c \<noteq> nl) (ToBase64 sk @ [nl]) = ToBase64 sk" by simp
  moreover have "drop 25 (Stringify (blank_config\<lparr>wg_PrivateKey := ToBase64 sk\<rparr>)) = ToBase64 sk @ [nl]"
    using False
    by (simp add: blank_config_def Stringify_def section_line_def text_line_def int_line_def config_line_def)
  ultimately show ?thesis
    by (simp add: ini_reads_def given_file_def given_reads ex_key_env_def) (simp add: blank_config_def)
qed

theorem EnsureKeyMaterial_stable_witness:
  "\<exists>pub n1. EnsureKeyMaterial ex_key_env ''wg0'' ex_node = (Ok pub, n1)
     \<and> fst (EnsureKeyMaterial ex_key_env ''wg0'' (n1\<lparr>n_known := []\<rparr>)) = Ok pub"
proof -
  have before: "config_before ex_key_env ''wg0'' ex_node = blank_config" by (simp add: config_before_def ex_node_def)
  have law: "disk_law ex_key_env" by (simp add: disk_law_def ex_key_env_def ex_env_def)
  have disk: "env_disk ex_key_env tr p = None" for tr p by (simp add: ex_key_env_def ex_env_def)
  obtain pub n1 where run: "EnsureKeyMaterial ex_key_env ''wg0'' ex_node = (Ok pub, n1)"
  proof -
    have "ReadPersistentConfig ex_key_env ''wg0'' ex_node
        = (Err (missing_file (config_path ''wg0'')), ex_node\<lparr>n_trace := [DiskRead (config_path ''wg0'')]\<rparr>)"
      by (simp add: ReadPersistentConfig_def disk_read_node bindR_def disk) (simp add: ex_node_def)
    moreover have "\<exists>pub n1. ensure_key ex_key_env ''wg0'' blank_config n = (Ok pub, n1)" for n
    proof -
      have k: "newPrivateKey ex_key_env n = (Ok (clamp zero_key), n)"
        by (simp add: newPrivateKey_def ex_key_env_def ex_env_def zero_key_def)
      have "\<exists>n1. WritePersistentConfig ex_key_env ''wg0'' cfg n = (Ok (), n1)" for cfg
        unfolding WritePersistentConfig_def disk_write_Ok using disk by blast
      then obtain n1 where "WritePersistentConfig ex_key_env ''wg0'' (blank_config\<lparr>wg_PrivateKey := ToBase64 (clamp zero_key)\<rparr>) n = (Ok (), n1)"
        by blast
      with k show ?thesis by (simp add: ensure_key_def) (simp add: blank_config_def)
    qed
    ultimately have "\<exists>pub n1. EnsureKeyMaterial ex_key_env ''wg0'' ex_node = (Ok pub, n1)"
      by (simp add: EnsureKeyMaterial_def missing_file_def is_not_exist_def)
    with that show thesis by blast
  qed
  have "config_ok blank_config" by (simp add: config_ok_def blank_config_def)
  then have "EnsureKeyMaterial ex_key_env ''wg0'' (n1\<lparr>n_known := []\<rparr>)
      = (Ok pub, (n1\<lparr>n_known := []\<rparr>)\<lparr>n_trace := n_trace n1 @ [DiskRead (config_path ''wg0'')]\<rparr>)"
    using EnsureKeyMaterial_stable [OF law run, unfolded before] ex_key_reads disk by simp
  then show ?thesis using run by auto
qed

end
