(* ===== verification/Json_Text.thy ===== *)
theory Json_Text
  imports Podman_Api
begin

text \<open>
  \<^verbatim>\<open>json.MarshalIndent(v, "", "  ")\<close> on values made of maps, slices and what \<^verbatim>\<open>json.Unmarshal\<close>
  puts into an \<^verbatim>\<open>interface{}\<close>: maps print their keys in order. Strings are printed for ASCII, as in
  \<open>quoted\<close>. Go reads a number into a \<^verbatim>\<open>float64\<close> on the way, here it keeps its text: the two agree on
  integers below \<open>2^53\<close>, which is what the model covers (the numbers that the program itself puts there,
  like the MTU, are such integers); a larger integer would be rounded, and a fraction printed in its
  shortest form.
\<close>

definition spaces :: "nat \<Rightarrow> string" where
  "spaces d = replicate (2 * d) (CHR '' '')"

definition eol :: char where "eol = CHR 0x0A"

text \<open>Items between brackets, one on each line at depth \<open>d + 1\<close>.\<close>

definition bracketed :: "char \<Rightarrow> char \<Rightarrow> nat \<Rightarrow> string list \<Rightarrow> string" where
  "bracketed l r d items =
     (if items = [] then [l, r]
      else l # eol # concat (map (\<lambda>i. spaces (Suc d) @ i @ [CHR '','', eol]) (butlast items))
             @ spaces (Suc d) @ last items @ [eol] @ spaces d @ [r])"

lemma size_json_pair: "kv \<in> set kvs \<Longrightarrow> size (snd kv) < size (JObj kvs)"
proof -
  assume "kv \<in> set kvs"
  then have "size_prod (\<lambda>_. 0) size kv \<le> size_list (size_prod (\<lambda>_. 0) size) kvs"
    by (rule size_list_estimation') simp
  then show ?thesis by (cases kv) simp
qed

function (sequential) json_indent :: "nat \<Rightarrow> json \<Rightarrow> string" where
  "json_indent d JNull = ''null''"
| "json_indent d (JBool b) = (if b then ''true'' else ''false'')"
| "json_indent d (JNum i) = int_dec i"
| "json_indent d (JFloat t) = t"
| "json_indent d (JStr s) = quoted s"
| "json_indent d (JArr js) = bracketed (CHR ''['') (CHR '']'') d (map (json_indent (Suc d)) js)"
| "json_indent d (JObj kvs) = bracketed (CHR ''{'') (CHR ''}'') d
     (map (\<lambda>kv. quoted (fst kv) @ '': '' @ json_indent (Suc d) (snd kv)) (sort_key fst kvs))"
  by pat_completeness auto

termination
  by (relation "measure (\<lambda>(d, j). size j)")
    (auto simp: less_Suc_eq_le size_list_estimation' dest: size_json_pair)

text \<open>The value of an \<^verbatim>\<open>interface{}\<close>: of a key that occurs twice the last value counts.\<close>

definition last_of :: "(string \<times> 'a) list \<Rightarrow> (string \<times> 'a) list" where
  "last_of kvs = fold (\<lambda>(k, v) acc. AList.update k v acc) kvs []"

function (sequential) as_interface :: "json \<Rightarrow> json" where
  "as_interface (JArr js) = JArr (map as_interface js)"
| "as_interface (JObj kvs) = JObj (last_of (map (\<lambda>kv. (fst kv, as_interface (snd kv))) kvs))"
| "as_interface j = j"
  by pat_completeness auto

termination
  by (relation "measure size") (auto simp: less_Suc_eq_le size_list_estimation' dest: size_json_pair)

end
