(* ===== verification/Provision.thy ===== *)
theory Provision
  imports Wireguard Fs_Inject Json_Text
begin

text \<open>
  \<^verbatim>\<open>controllers/selfprovision\<close>: configuring the node's network from what the cluster publishes. The
  local variables that the closures of \<open>Perform\<close> share are the record \<open>provision\<close>; an observation
  of the node object is one step on it. An error of a step is a panic of the agent, so the record is
  passed on by successful steps only.
\<close>

subsection \<open>The cluster's configuration\<close>

record cluster_cfg =
  cc_NodeRange :: ipnet
  cc_PodRange :: ipnet
  cc_ServiceRange :: ipnet
  cc_WireguardMode :: string
  cc_CniNumber :: int
  cc_CniMtu :: int

definition parse_range :: "string \<Rightarrow> ini_section \<Rightarrow> string + ipnet" where
  "parse_range name s =
     (let value = ik_string (is_key s name)
      in case ParseCIDR value of
           None \<Rightarrow> Inl (''Parsing '' @ name @ '': invalid CIDR address: '' @ value)
         | Some (_, net) \<Rightarrow> Inr net)"

definition must_string :: "ini_key \<Rightarrow> string \<Rightarrow> string" where
  "must_string k d = (if ik_string k = [] then d else ik_string k)"

definition ParseClusterNetworkingCfg :: "env \<Rightarrow> string \<Rightarrow> string + cluster_cfg" where
  "ParseClusterNetworkingCfg env data =
     (case env_ini env False data of
        Inl e \<Rightarrow> Inl e
      | Inr file \<Rightarrow>
          let s = if_section file ''DEFAULT''
          in case parse_range ''NodeRange'' s of
               Inl e \<Rightarrow> Inl e
             | Inr nodeRange \<Rightarrow> (case parse_range ''PodRange'' s of
                 Inl e \<Rightarrow> Inl e
               | Inr podRange \<Rightarrow> (case parse_range ''ServiceRange'' s of
                   Inl e \<Rightarrow> Inl e
                 | Inr serviceRange \<Rightarrow> Inr
                     \<lparr>cc_NodeRange = nodeRange, cc_PodRange = podRange, cc_ServiceRange = serviceRange,
                      cc_WireguardMode = must_string (is_key s ''WireguardMode'') ''Manual'',
                      cc_CniNumber = must_int (is_key s ''CniNumber'') 51,
                      cc_CniMtu = must_int (is_key s ''CniMtu'') 1460\<rparr>)))"

subsection \<open>State\<close>

text \<open>The controller; \<open>pvc_uid\<close> is the result of \<^verbatim>\<open>os.Getuid\<close>.\<close>

record provision_ctl =
  pvc_vpnIface :: string
  pvc_cniNet :: string
  pvc_uid :: int

record provision =
  pv_cluster_key :: string
  pv_node_key :: string
  pv_pub_key :: string
  pv_cfg :: "cluster_cfg option"
  pv_done :: bool

definition start_provision :: provision where
  "start_provision = \<lparr>pv_cluster_key = [], pv_node_key = [], pv_pub_key = [], pv_cfg = None, pv_done = False\<rparr>"

definition clusterCfgAnnotation :: string where "clusterCfgAnnotation = ''pet.wg69.net/cluster-configmap''"
definition nodeCfgAnnotation :: string where "nodeCfgAnnotation = ''pet.wg69.net/node-configmap''"
definition wgPubKeyAnnotation :: string where "wgPubKeyAnnotation = ''pet.wg69.net/wg-pubkey''"

subsection \<open>Steps\<close>

definition SystemctlUnitAction :: "env \<Rightarrow> int \<Rightarrow> string \<Rightarrow> string \<Rightarrow> unit run" where
  "SystemctlUnitAction env uid unitName action =
     bindR (run_command env ((if uid = 1 then [] else [''sudo'']) @ [''systemctl'', action, unitName]))
       (\<lambda>_. ret ())"

text \<open>A key names a config map as namespace, slash, name; without the slash the index panics.\<close>

definition config_map_ref :: "string \<Rightarrow> (string \<times> string) option" where
  "config_map_ref val = (case split_on (CHR ''/'') val of ns # name # _ \<Rightarrow> Some (ns, name) | _ \<Rightarrow> None)"

definition config_map_at :: "env \<Rightarrow> string \<Rightarrow> smap run" where
  "config_map_at env val = bindR (derefR (config_map_ref val)) (\<lambda>(ns, name). get_configmap env ns name)"

definition processClusterConfigMap :: "env \<Rightarrow> string \<Rightarrow> provision \<Rightarrow> provision run" where
  "processClusterConfigMap env val pv =
     bindR (config_map_at env val) (\<lambda>data.
       case map_of data ''Networking'' of
         None \<Rightarrow> failR (PlainErr (''No 'Networking' key found on '' @ val))
       | Some clusterData \<Rightarrow>
           (case ParseClusterNetworkingCfg env clusterData of
              Inl e \<Rightarrow> failR (PlainErr e)
            | Inr cfg \<Rightarrow> ret (pv\<lparr>pv_cluster_key := val, pv_cfg := Some cfg\<rparr>)))"

definition conflist_json :: "cluster_cfg \<Rightarrow> string \<Rightarrow> json \<Rightarrow> json" where
  "conflist_json cfg cniNet ipam = JObj
     [(''cniVersion'', JStr ''0.4.0''),
      (''name'', JStr cniNet),
      (''plugins'', JArr
         [JObj [(''type'', JStr ''ptp''), (''mtu'', JNum (cc_CniMtu cfg)), (''ipam'', ipam)],
          JObj [(''type'', JStr ''portmap''), (''capabilities'', JObj [(''portMappings'', JBool True)]),
                (''noSnat'', JBool True)],
          JObj [(''type'', JStr ''firewall'')]])]"

text \<open>Step 6. The IPAM configuration must be an object (or null); the cluster's configuration is
  dereferenced for its MTU.\<close>

definition write_cni :: "env \<Rightarrow> string \<Rightarrow> cluster_cfg option \<Rightarrow> string \<Rightarrow> unit run" where
  "write_cni env cniNet clusterCfg ipamJSON =
     bindR (liftE (case env_unmarshal env ipamJSON of
                     Inl e \<Rightarrow> Inl (PlainErr e)
                   | Inr (JObj kvs) \<Rightarrow> Inr (as_interface (JObj kvs))
                   | Inr JNull \<Rightarrow> Inr JNull
                   | Inr _ \<Rightarrow> Inl (PlainErr ''json: cannot unmarshal into map''))) (\<lambda>ipamCfg.
     bindR (derefR clusterCfg) (\<lambda>cfg.
     bindR (StartArchiveExtraction env ''/etc/cni/net.d'') (\<lambda>(cniTar, _).
     bindR (WriteFile env (int_dec (cc_CniNumber cfg) @ ''-'' @ cniNet @ ''.conflist'') 420
              (json_indent 0 (conflist_json cfg cniNet ipamCfg)) cniTar) (\<lambda>cniTar.
       Finish env cniTar))))"

text \<open>Steps 7 to 9: the template with the key that is on disk, then the unit.\<close>

definition write_wireguard :: "env \<Rightarrow> provision_ctl \<Rightarrow> string \<Rightarrow> unit run" where
  "write_wireguard env ctl wgTempl =
     bindR (liftE (case ParseWgQuickConfig env wgTempl of Inl e \<Rightarrow> Inl (PlainErr e) | Inr c \<Rightarrow> Inr c)) (\<lambda>parsedTempl.
     bindR (ReadPersistentConfig env (pvc_vpnIface ctl)) (\<lambda>liveConfig.
     thenR (WritePersistentConfig env (pvc_vpnIface ctl)
              (parsedTempl\<lparr>wg_PrivateKey := wg_PrivateKey liveConfig\<rparr>))
     (thenR (emit (Slept 2000000000))
     (thenR (SystemctlUnitAction env (pvc_uid ctl) (''wg-quick@'' @ pvc_vpnIface ctl @ ''.service'') ''enable'')
            (SystemctlUnitAction env (pvc_uid ctl) (''wg-quick@'' @ pvc_vpnIface ctl @ ''.service'') ''start'')))))"

definition processNodeConfigMap :: "env \<Rightarrow> provision_ctl \<Rightarrow> string \<Rightarrow> provision \<Rightarrow> provision run" where
  "processNodeConfigMap env ctl val pv =
     bindR (config_map_at env val) (\<lambda>data.
     thenR (case map_of data ''IpamJson'' of
              Some ipamJSON \<Rightarrow> write_cni env (pvc_cniNet ctl) (pv_cfg pv) ipamJSON
            | None \<Rightarrow> ret ())
     (thenR (case map_of data ''WireguardConfig'' of
              Some wgTempl \<Rightarrow> write_wireguard env ctl wgTempl
            | None \<Rightarrow> ret ())
       (ret (pv\<lparr>pv_node_key := val, pv_done := True\<rparr>))))"

subsection \<open>Observing the node object\<close>

definition observe_cluster :: "env \<Rightarrow> smap \<Rightarrow> provision \<Rightarrow> provision run" where
  "observe_cluster env annotations pv =
     (case map_of annotations clusterCfgAnnotation of
        Some val \<Rightarrow> if val \<noteq> pv_cluster_key pv then processClusterConfigMap env val pv else ret pv
      | None \<Rightarrow> ret pv)"

definition self_provisioned :: "provision \<Rightarrow> bool" where
  "self_provisioned pv \<longleftrightarrow> (\<exists>cfg \<in> set_option (pv_cfg pv). cc_WireguardMode cfg = ''SelfProvision'')"

definition publish_key :: "env \<Rightarrow> provision_ctl \<Rightarrow> string \<Rightarrow> smap \<Rightarrow> provision \<Rightarrow> provision run" where
  "publish_key env ctl nodeName annotations pv =
     (if self_provisioned pv then
        bindR (if pv_pub_key pv = [] then EnsureKeyMaterial env (pvc_vpnIface ctl) else ret (pv_pub_key pv)) (\<lambda>wgPubKey.
        thenR (if map_of annotations wgPubKeyAnnotation \<noteq> Some wgPubKey
               then kube_write env (KubePatch nodeName [(wgPubKeyAnnotation, wgPubKey)])
               else ret ())
          (ret (pv\<lparr>pv_pub_key := wgPubKey\<rparr>)))
      else ret pv)"

definition observe_node_config :: "env \<Rightarrow> provision_ctl \<Rightarrow> smap \<Rightarrow> provision \<Rightarrow> provision run" where
  "observe_node_config env ctl annotations pv =
     (case map_of annotations nodeCfgAnnotation of
        Some val \<Rightarrow> if val \<noteq> pv_node_key pv then processNodeConfigMap env ctl val pv else ret pv
      | None \<Rightarrow> ret pv)"

definition observeNode :: "env \<Rightarrow> provision_ctl \<Rightarrow> string \<Rightarrow> smap \<Rightarrow> provision \<Rightarrow> provision run" where
  "observeNode env ctl nodeName annotations pv =
     bindR (observe_cluster env annotations pv) (\<lambda>pv.
     bindR (publish_key env ctl nodeName annotations pv) (\<lambda>pv.
       observe_node_config env ctl annotations pv))"

text \<open>\<open>Perform\<close> on a sequence of notifications from the informer: \<open>Some\<close> the annotations of an added or
  updated node, \<open>None\<close> for its deletion. It returns when it is done; an error, like the deletion,
  panics. The result is \<open>False\<close> when it is still waiting.\<close>

fun Perform :: "env \<Rightarrow> provision_ctl \<Rightarrow> string \<Rightarrow> smap option list \<Rightarrow> provision \<Rightarrow> bool run" where
  "Perform env ctl nodeName [] pv = ret False"
| "Perform env ctl nodeName (None # es) pv = panicR"
| "Perform env ctl nodeName (Some annotations # es) pv =
     bindR (tryR (observeNode env ctl nodeName annotations pv)) (\<lambda>r.
       case r of
         Inl e \<Rightarrow> panicR
       | Inr pv' \<Rightarrow> if pv_done pv' then ret True else Perform env ctl nodeName es pv')"

end
