(* ===== verification/Provision_Props.thy ===== *)
theory Provision_Props
  imports Provision Wireguard_Props
begin

text \<open>The properties of self-provisioning: what a successful step has done, that one key is published,
  and where the agent panics.\<close>

subsection \<open>Applying the node's configuration\<close>

definition unit_name :: "provision_ctl \<Rightarrow> string" where
  "unit_name ctl = ''wg-quick@'' @ pvc_vpnIface ctl @ ''.service''"

definition systemctl :: "provision_ctl \<Rightarrow> string \<Rightarrow> effect" where
  "systemctl ctl action = Ran ((if pvc_uid ctl = 1 then [] else [''sudo'']) @ [''systemctl'', action, unit_name ctl])"

lemma run_command_Ok:
  "run_command env args n = (Ok out, n') \<longleftrightarrow>
     env_command env (n_trace n) args = Inr out \<and> n' = n\<lparr>n_trace := n_trace n @ [Ran args]\<rparr>"
  by (auto simp: run_command_def emit_def thenR_def split: sum.splits)

lemma write_wireguard_Ok:
  assumes "write_wireguard env ctl t n = (Ok u, n')"
  obtains raw live templ where "map_of (n_disk n) (config_path (pvc_vpnIface ctl)) = Some raw"
    "ParseWgQuickConfig env raw = Inr live" "ParseWgQuickConfig env t = Inr templ"
    "n' = n\<lparr>n_trace := n_trace n @ [DiskRead (config_path (pvc_vpnIface ctl)),
         DiskWrite (config_path (pvc_vpnIface ctl)) (Stringify (templ\<lparr>wg_PrivateKey := wg_PrivateKey live\<rparr>)),
         Slept 2000000000, systemctl ctl ''enable'', systemctl ctl ''start''],
       n_disk := AList.update (config_path (pvc_vpnIface ctl))
         (Stringify (templ\<lparr>wg_PrivateKey := wg_PrivateKey live\<rparr>)) (n_disk n)\<rparr>"
proof -
  let ?p = "config_path (pvc_vpnIface ctl)"
  from assms obtain templ n1 live n2 n3 n4 n5 where
    t: "liftE (case ParseWgQuickConfig env t of Inl e \<Rightarrow> Inl (PlainErr e) | Inr c \<Rightarrow> Inr c) n = (Ok templ, n1)"
    and l: "ReadPersistentConfig env (pvc_vpnIface ctl) n1 = (Ok live, n2)"
    and w: "disk_write env ?p (Stringify (templ\<lparr>wg_PrivateKey := wg_PrivateKey live\<rparr>)) n2 = (Ok (), n3)"
    and s: "emit (Slept 2000000000) n3 = (Ok (), n4)"
    and e: "SystemctlUnitAction env (pvc_uid ctl) (unit_name ctl) ''enable'' n4 = (Ok (), n5)"
    and g: "SystemctlUnitAction env (pvc_uid ctl) (unit_name ctl) ''start'' n5 = (Ok (), n')"
    unfolding write_wireguard_def WritePersistentConfig_def unit_name_def
    by (elim bindR_OkE thenR_OkE) auto
  from t have t: "ParseWgQuickConfig env t = Inr templ" "n1 = n"
    by (auto simp: liftE_def split: sum.splits)
  from l t(2) obtain raw where l: "map_of (n_disk n) ?p = Some raw" "ParseWgQuickConfig env raw = Inr live"
    "n2 = n\<lparr>n_trace := n_trace n @ [DiskRead ?p]\<rparr>"
    unfolding ReadPersistentConfig_def
    by (auto elim!: bindR_OkE simp: disk_read_node split: option.splits sum.splits)
  from e g have c: "n' = n4\<lparr>n_trace := n_trace n4 @ [systemctl ctl ''enable'', systemctl ctl ''start'']\<rparr>"
    unfolding SystemctlUnitAction_def systemctl_def
    by (auto elim!: bindR_OkE simp: run_command_Ok)
  show thesis
    by (rule that [OF l(1,2) t(1)]) (use w s c l(3) in \<open>auto simp: disk_write_Ok emit_def\<close>)
qed

lemma config_map_at_Ok:
  assumes "config_map_at env val n = (Ok data, n0)"
  shows "\<exists>ns nm. config_map_ref val = Some (ns, nm) \<and> n0 = n\<lparr>n_trace := n_trace n @ [KubeGet ''ConfigMap'' ns nm]\<rparr>"
  using assms unfolding config_map_at_def get_configmap_def
  by (auto simp: derefR_def thenR_def split: option.splits sum.splits)

text \<open>The plugin's IPAM part: an object, with the last of equal keys, or null.\<close>

definition ipam_of :: "env \<Rightarrow> string \<Rightarrow> json \<Rightarrow> bool" where
  "ipam_of env j ipam \<longleftrightarrow>
     (\<exists>kvs. env_unmarshal env j = Inr (JObj kvs) \<and> ipam = as_interface (JObj kvs))
     \<or> env_unmarshal env j = Inr JNull \<and> ipam = JNull"

definition conflist_effects :: "env \<Rightarrow> string \<Rightarrow> cluster_cfg \<Rightarrow> json \<Rightarrow> effect list" where
  "conflist_effects env cniNet cfg ipam =
     [TarStart (tar_command (env_uid env) ''/etc/cni/net.d''),
      TarFile (int_dec (cc_CniNumber cfg) @ ''-'' @ cniNet @ ''.conflist'') 420
        (json_indent 0 (conflist_json cfg cniNet ipam)),
      TarClose, PipeClose, TarWait]"

lemma first_error_Ok: "first_error es n = (Ok u, n') \<longleftrightarrow> n' = n \<and> (\<forall>e \<in> set es. e = None)"
  by (induction es rule: first_error.induct) auto

lemma archive_Ok:
  assumes "WriteFile env name mode body ae n = (Ok ae', n1)" "Finish env ae' n1 = (Ok u, n')"
  shows "n' = n\<lparr>n_trace := n_trace n @ [TarFile name mode body, TarClose, PipeClose, TarWait]\<rparr>"
  using assms
  by (auto simp: WriteFile_def Finish_def tar_error_def thenR_def first_error_Ok split: option.splits)

lemma write_cni_Ok:
  assumes "write_cni env cniNet clusterCfg j n = (Ok u, n')"
  shows "\<exists>cfg ipam. clusterCfg = Some cfg \<and> ipam_of env j ipam
    \<and> n' = n\<lparr>n_trace := n_trace n @ conflist_effects env cniNet cfg ipam\<rparr>"
proof -
  from assms obtain ipam n1 cfg n2 p n3 ae' n4 where
    i: "liftE (case env_unmarshal env j of
                     Inl e \<Rightarrow> Inl (PlainErr e)
                   | Inr (JObj kvs) \<Rightarrow> Inr (as_interface (JObj kvs))
                   | Inr JNull \<Rightarrow> Inr JNull
                   | Inr _ \<Rightarrow> Inl (PlainErr ''json: cannot unmarshal into map'')) n = (Ok ipam, n1)"
    and c: "derefR clusterCfg n1 = (Ok cfg :: (go_error, cluster_cfg) res, n2)"
    and p: "StartArchiveExtraction env ''/etc/cni/net.d'' n2 = (Ok p, n3)"
    and wr: "WriteFile env (int_dec (cc_CniNumber cfg) @ ''-'' @ cniNet @ ''.conflist'') 420
              (json_indent 0 (conflist_json cfg cniNet ipam)) (fst p) n3 = (Ok ae', n4)"
    and fi: "Finish env ae' n4 = (Ok u, n')"
    unfolding write_cni_def case_prod_beta by (elim bindR_OkE) (rule that)
  obtain ae t where st: "StartArchiveExtraction env ''/etc/cni/net.d'' n2 = (Ok (ae, t), n3)" using p by (cases p) simp
  from i have "ipam_of env j ipam" "n1 = n"
    unfolding ipam_of_def by (auto simp: liftE_def split: sum.splits json.splits)
  moreover from c have "clusterCfg = Some cfg" "n2 = n1" by (auto simp: derefR_def split: option.splits)
  moreover from st have "n3 = n2\<lparr>n_trace := n_trace n2 @ [TarStart (tar_command (env_uid env) ''/etc/cni/net.d'')]\<rparr>"
    by (auto simp: StartArchiveExtraction_def thenR_def split: option.splits)
  ultimately show ?thesis using archive_Ok [OF wr fi]
    by (intro exI [of _ cfg] exI [of _ ipam]) (simp add: conflist_effects_def)
qed

text \<open>C13 (functional): what has happened when the node's own configuration was applied without error:
  exactly this, in this order. The config map was fetched. With an IPAM part, the cluster's
  configuration was known, and the conflist was extracted below \<^verbatim>\<open>/etc/cni/net.d\<close> under its number
  and the network's name, as the only file. With a WireGuard part, the interface's file was read,
  and written once, with the template and the private key that the file had before, whatever key
  the template had; two seconds later the unit was enabled and then started, each once; all other
  files of the host are as they were. Without that part no file of the host has changed. Only then the
  step is done.\<close>

theorem node_config_applied:
  assumes "processNodeConfigMap env ctl val pv n = (Ok pv', n')"
    and "config_map_at env val n = (Ok data, n0)"
  shows "pv' = pv\<lparr>pv_node_key := val, pv_done := True\<rparr>
    \<and> (\<exists>ns nm cni wg. config_map_ref val = Some (ns, nm)
         \<and> n_trace n' = n_trace n @ [KubeGet ''ConfigMap'' ns nm] @ cni @ wg
         \<and> (case map_of data ''IpamJson'' of
              None \<Rightarrow> cni = []
            | Some j \<Rightarrow> (\<exists>cfg ipam. pv_cfg pv = Some cfg \<and> ipam_of env j ipam
                \<and> cni = [TarStart (tar_command (env_uid env) ''/etc/cni/net.d''),
                         TarFile (int_dec (cc_CniNumber cfg) @ ''-'' @ pvc_cniNet ctl @ ''.conflist'') 420
                           (json_indent 0 (conflist_json cfg (pvc_cniNet ctl) ipam)),
                         TarClose, PipeClose, TarWait]))
         \<and> (case map_of data ''WireguardConfig'' of
              None \<Rightarrow> wg = [] \<and> n_disk n' = n_disk n
            | Some t \<Rightarrow> (\<exists>raw live templ.
                map_of (n_disk n) (config_path (pvc_vpnIface ctl)) = Some raw
                \<and> ParseWgQuickConfig env raw = Inr live \<and> ParseWgQuickConfig env t = Inr templ
                \<and> n_disk n' = AList.update (config_path (pvc_vpnIface ctl))
                    (Stringify (templ\<lparr>wg_PrivateKey := wg_PrivateKey live\<rparr>)) (n_disk n)
                \<and> wg = [DiskRead (config_path (pvc_vpnIface ctl)),
                        DiskWrite (config_path (pvc_vpnIface ctl))
                          (Stringify (templ\<lparr>wg_PrivateKey := wg_PrivateKey live\<rparr>)),
                        Slept 2000000000, systemctl ctl ''enable'', systemctl ctl ''start''])))"
proof -
  let ?p = "config_path (pvc_vpnIface ctl)"
  from assms obtain n1 where
    c: "(case map_of data ''IpamJson'' of
              Some ipamJSON \<Rightarrow> write_cni env (pvc_cniNet ctl) (pv_cfg pv) ipamJSON
            | None \<Rightarrow> ret ()) n0 = (Ok (), n1)"
    and w: "(case map_of data ''WireguardConfig'' of
              Some wgTempl \<Rightarrow> write_wireguard env ctl wgTempl
            | None \<Rightarrow> ret ()) n1 = (Ok (), n')"
    and r: "pv' = pv\<lparr>pv_node_key := val, pv_done := True\<rparr>"
    unfolding processNodeConfigMap_def by (auto elim!: bindR_OkE thenR_OkE)
  from config_map_at_Ok [OF assms(2)] obtain ns nm where
    g: "config_map_ref val = Some (ns, nm)" "n0 = n\<lparr>n_trace := n_trace n @ [KubeGet ''ConfigMap'' ns nm]\<rparr>" by blast
  have "\<exists>cni. n1 = n0\<lparr>n_trace := n_trace n0 @ cni\<rparr> \<and> (case map_of data ''IpamJson'' of
              None \<Rightarrow> cni = []
            | Some j \<Rightarrow> (\<exists>cfg ipam. pv_cfg pv = Some cfg \<and> ipam_of env j ipam
                \<and> cni = conflist_effects env (pvc_cniNet ctl) cfg ipam))"
    using c write_cni_Ok by (auto split: option.splits) fastforce
  then obtain cni where cni: "n1 = n0\<lparr>n_trace := n_trace n0 @ cni\<rparr>" "case map_of data ''IpamJson'' of
              None \<Rightarrow> cni = []
            | Some j \<Rightarrow> (\<exists>cfg ipam. pv_cfg pv = Some cfg \<and> ipam_of env j ipam
                \<and> cni = conflist_effects env (pvc_cniNet ctl) cfg ipam)" by blast
  have d: "n_disk n1 = n_disk n" by (simp add: cni(1) g(2))
  have "\<exists>wg. n_trace n' = n_trace n1 @ wg \<and> (case map_of data ''WireguardConfig'' of
              None \<Rightarrow> wg = [] \<and> n_disk n' = n_disk n
            | Some t \<Rightarrow> (\<exists>raw live templ. map_of (n_disk n) ?p = Some raw
                \<and> ParseWgQuickConfig env raw = Inr live \<and> ParseWgQuickConfig env t = Inr templ
                \<and> n_disk n' = AList.update ?p (Stringify (templ\<lparr>wg_PrivateKey := wg_PrivateKey live\<rparr>)) (n_disk n)
                \<and> wg = [DiskRead ?p, DiskWrite ?p (Stringify (templ\<lparr>wg_PrivateKey := wg_PrivateKey live\<rparr>)),
                        Slept 2000000000, systemctl ctl ''enable'', systemctl ctl ''start'']))"
  proof (cases "map_of data ''WireguardConfig''")
    case (Some t)
    with w have "write_wireguard env ctl t n1 = (Ok (), n')" by simp
    then obtain raw live templ where t: "map_of (n_disk n) ?p = Some raw"
      "ParseWgQuickConfig env raw = Inr live" "ParseWgQuickConfig env t = Inr templ"
      "n_trace n' = n_trace n1 @ [DiskRead ?p, DiskWrite ?p (Stringify (templ\<lparr>wg_PrivateKey := wg_PrivateKey live\<rparr>)),
         Slept 2000000000, systemctl ctl ''enable'', systemctl ctl ''start'']"
      "n_disk n' = AList.update ?p (Stringify (templ\<lparr>wg_PrivateKey := wg_PrivateKey live\<rparr>)) (n_disk n)"
      by (rule write_wireguard_Ok) (simp add: d)
    then show ?thesis unfolding Some option.case by blast
  qed (use w d in simp)
  then obtain wg where "n_trace n' = n_trace n1 @ wg" "case map_of data ''WireguardConfig'' of
              None \<Rightarrow> wg = [] \<and> n_disk n' = n_disk n
            | Some t \<Rightarrow> (\<exists>raw live templ. map_of (n_disk n) ?p = Some raw
                \<and> ParseWgQuickConfig env raw = Inr live \<and> ParseWgQuickConfig env t = Inr templ
                \<and> n_disk n' = AList.update ?p (Stringify (templ\<lparr>wg_PrivateKey := wg_PrivateKey live\<rparr>)) (n_disk n)
                \<and> wg = [DiskRead ?p, DiskWrite ?p (Stringify (templ\<lparr>wg_PrivateKey := wg_PrivateKey live\<rparr>)),
                        Slept 2000000000, systemctl ctl ''enable'', systemctl ctl ''start''])" by blast
  moreover have "n_trace n1 = n_trace n @ [KubeGet ''ConfigMap'' ns nm] @ cni" by (simp add: cni(1) g(2))
  ultimately show ?thesis using r g(1) cni(2) [unfolded conflist_effects_def]
    by (intro conjI exI [of _ ns] exI [of _ nm] exI [of _ cni] exI [of _ wg]) simp_all
qed

subsection \<open>One key is published\<close>

definition patch_of :: "string \<Rightarrow> string option \<Rightarrow> effect \<Rightarrow> bool" where
  "patch_of nodeName key e =
     (case e of
        KubePatch nd kvs \<Rightarrow> (\<exists>k \<in> set_option key. nd = nodeName \<and> kvs = [(wgPubKeyAnnotation, k)])
      | _ \<Rightarrow> True)"

lemma no_patches_weaken: "keeps (sends (patch_of nd None)) m \<Longrightarrow> keeps (sends (patch_of nd k)) m"
  by (erule sends_weaken) (auto simp: patch_of_def split: effect.splits)

lemma quiet_patches:
  "keeps (sends (patch_of nd k)) (getR f)" "keeps (sends (patch_of nd k)) (derefR q)"
  "keeps (sends (patch_of nd k)) (liftE r)" "keeps (sends (patch_of nd k)) (disk_put path c)"
  "keeps (sends (patch_of nd k)) (now env)" "keeps (sends (patch_of nd k)) (first_error es)"
  by (simp_all add: keeps_def sends_def derefR_def liftE_def disk_put_def now_def split: option.split sum.split)
    (induction es rule: first_error.induct, simp_all)

lemma host_patches:
  "keeps (sends (patch_of nd k)) (disk_read env path)"
  "keeps (sends (patch_of nd k)) (disk_write env path c)"
  "keeps (sends (patch_of nd k)) (run_command env args)"
  "keeps (sends (patch_of nd k)) (config_map_at env val)"
  unfolding disk_read_def disk_write_def run_command_def config_map_at_def get_configmap_def
  by (intro sends_frame.keeps_intros quiet_patches sends_emit; simp add: patch_of_def)+

lemma wireguard_patches:
  "keeps (sends (patch_of nd k)) (ReadPersistentConfig env iface)"
  "keeps (sends (patch_of nd k)) (WritePersistentConfig env iface cfg)"
  "keeps (sends (patch_of nd k)) (EnsureKeyMaterial env iface)"
proof -
  show r: "keeps (sends (patch_of nd k)) (ReadPersistentConfig env iface)"
    unfolding ReadPersistentConfig_def by (intro sends_frame.keeps_intros host_patches)
  show w: "keeps (sends (patch_of nd k)) (WritePersistentConfig env iface cfg)" for cfg
    unfolding WritePersistentConfig_def by (rule host_patches)
  show "keeps (sends (patch_of nd k)) (EnsureKeyMaterial env iface)"
    unfolding EnsureKeyMaterial_def ensure_key_def newPrivateKey_def
    by (intro sends_frame.keeps_intros r w quiet_patches)
qed

lemma config_patches:
  "keeps (sends (patch_of nd k)) (observe_cluster env annotations pv)"
  "keeps (sends (patch_of nd k)) (observe_node_config env ctl annotations pv)"
  unfolding observe_cluster_def processClusterConfigMap_def observe_node_config_def processNodeConfigMap_def
    write_cni_def write_wireguard_def StartArchiveExtraction_def WriteFile_def Finish_def tar_error_def
    SystemctlUnitAction_def
  by (intro sends_frame.keeps_intros quiet_patches host_patches wireguard_patches sends_emit;
      simp add: patch_of_def)+

lemma config_keys:
  "yields (\<lambda>pv'. pv_pub_key pv' = pv_pub_key pv) (observe_cluster env annotations pv)"
  "yields (\<lambda>pv'. pv_pub_key pv' = pv_pub_key pv) (observe_node_config env ctl annotations pv)"
  unfolding observe_cluster_def processClusterConfigMap_def observe_node_config_def processNodeConfigMap_def
  by (auto intro!: yields_intros split: option.split sum.split)

lemma EnsureKeyMaterial_nonempty:
  assumes "\<forall>k. env_public_key env k \<noteq> []"
  shows "yields (\<lambda>pub. pub \<noteq> []) (EnsureKeyMaterial env iface)"
proof -
  have "ToBase64 bs \<noteq> []" if "bs \<noteq> []" for bs
    using that length_b64_encode [of bs] by (cases bs) (auto simp: ToBase64_def)
  with assms show ?thesis
    unfolding EnsureKeyMaterial_def ensure_key_def
    by (auto intro!: yields_intros split: prod.split option.split)
qed

text \<open>The public part of the private key that the interface's file holds: of the key that the INI library
  reads there, or of a key that stands there on a line of its own.\<close>

definition key_on_disk :: "env \<Rightarrow> string \<Rightarrow> node \<Rightarrow> string \<Rightarrow> bool" where
  "key_on_disk env iface n pub \<longleftrightarrow>
     (\<exists>raw sk. map_of (n_disk n) (config_path iface) = Some raw \<and> pub = ToBase64 (env_public_key env sk)
        \<and> ((\<exists>cfg. ParseWgQuickConfig env raw = Inr cfg \<and> readPrivateKeyFromBase64 (wg_PrivateKey cfg) = (sk, None))
           \<or> (\<exists>above below. raw = above @ [nl] @ ''PrivateKey = '' @ ToBase64 sk @ [nl] @ below)))"

lemma ReadPersistentConfig_Ok:
  "ReadPersistentConfig env iface n = (Ok cfg, n') \<Longrightarrow>
   (\<exists>raw. map_of (n_disk n) (config_path iface) = Some raw \<and> ParseWgQuickConfig env raw = Inr cfg)
   \<and> n_disk n' = n_disk n"
  unfolding ReadPersistentConfig_def
  by (auto elim!: bindR_OkE simp: disk_read_node split: option.splits sum.splits)

lemma Stringify_key:
  "k \<noteq> [] \<Longrightarrow> \<exists>above below. Stringify (cfg\<lparr>wg_PrivateKey := k\<rparr>) = above @ [nl] @ ''PrivateKey = '' @ k @ [nl] @ below"
proof -
  assume "k \<noteq> []"
  then have "Stringify (cfg\<lparr>wg_PrivateKey := k\<rparr>)
      = (''[Interface]'' @ (if wg_Comment cfg \<noteq> [] then '' # '' @ wg_Comment cfg else []))
        @ [nl] @ ''PrivateKey = '' @ k @ [nl]
        @ (concat (map (\<lambda>addr. config_line ''Address'' (IPNet_String addr)) (wg_Addresses cfg))
           @ int_line ''ListenPort'' (wg_ListenPort cfg) @ int_line ''FirewallMark'' (wg_FirewallMark cfg)
           @ concat (map Stringify_peer (wg_Peers cfg)))"
    by (simp add: Stringify_def section_line_def text_line_def config_line_def)
  then show ?thesis by blast
qed

lemma ensure_key_on_disk:
  assumes "ensure_key env iface cfg n = (Ok pub, n')"
    and "wg_PrivateKey cfg \<noteq> [] \<Longrightarrow> \<exists>raw. map_of (n_disk n) (config_path iface) = Some raw \<and> ParseWgQuickConfig env raw = Inr cfg"
  shows "key_on_disk env iface n' pub"
proof (cases "wg_PrivateKey cfg = []")
  case False
  with assms(1) obtain sk where sk: "readPrivateKeyFromBase64 (wg_PrivateKey cfg) = (sk, None)"
    "pub = ToBase64 (env_public_key env sk)" "n' = n"
    by (auto simp: ensure_key_def split: prod.splits option.splits)
  with assms(2) [OF False] show ?thesis unfolding key_on_disk_def by blast
next
  case True
  with assms(1) obtain sk n1 where k: "newPrivateKey env n = (Ok sk, n1)"
    and w: "WritePersistentConfig env iface (cfg\<lparr>wg_PrivateKey := ToBase64 sk\<rparr>) n1 = (Ok (), n')"
    and pub: "pub = ToBase64 (env_public_key env sk)"
    by (auto simp: ensure_key_def elim!: bindR_OkE thenR_OkE)
  from k have "length sk = 32" by (auto simp: newPrivateKey_def split: sum.splits)
  then have "ToBase64 sk \<noteq> []" by (rule ToBase64_nonempty)
  moreover from w have "map_of (n_disk n') (config_path iface) = Some (Stringify (cfg\<lparr>wg_PrivateKey := ToBase64 sk\<rparr>))"
    by (auto simp: WritePersistentConfig_def disk_write_Ok update_conv')
  ultimately show ?thesis using Stringify_key pub unfolding key_on_disk_def by blast
qed

lemma EnsureKeyMaterial_on_disk:
  assumes "EnsureKeyMaterial env iface n = (Ok pub, n')"
  shows "key_on_disk env iface n' pub"
proof -
  obtain q n1 where q: "ReadPersistentConfig env iface n = (q, n1)" by fastforce
  show ?thesis
  proof (cases q)
    case (Ok cfg)
    with assms q have "ensure_key env iface cfg n1 = (Ok pub, n')"
      by (simp add: EnsureKeyMaterial_def)
    then show ?thesis
      by (rule ensure_key_on_disk) (use ReadPersistentConfig_Ok [OF q [unfolded Ok]] in simp)
  next
    case (Err e)
    with assms q have "ensure_key env iface blank_config n1 = (Ok pub, n')"
      by (simp add: EnsureKeyMaterial_def split: if_splits)
    then show ?thesis by (rule ensure_key_on_disk) (simp add: blank_config_def)
  qed (use assms q in \<open>simp add: EnsureKeyMaterial_def\<close>)
qed

text \<open>One step, on a key that may be in force already: all it publishes is that key, or one key that is
  in force afterwards and was in the interface's file before it was published.\<close>

definition one_key :: "env \<Rightarrow> string \<Rightarrow> string \<Rightarrow> string \<Rightarrow> string \<Rightarrow> node \<Rightarrow> node \<Rightarrow> bool" where
  "one_key env iface nd before after n n' \<longleftrightarrow>
     (if before \<noteq> [] then after = before \<and> sends (patch_of nd (Some before)) n n'
      else if after \<noteq> [] then
        (\<exists>m. sends (patch_of nd None) n m \<and> key_on_disk env iface m after \<and> sends (patch_of nd (Some after)) m n')
      else sends (patch_of nd None) n n')"

lemma publish_key_step:
  assumes "\<forall>k. env_public_key env k \<noteq> []" "publish_key env ctl nd annotations pv n = (r, n')"
  shows "\<exists>k. one_key env (pvc_vpnIface ctl) nd (pv_pub_key pv) k n n' \<and> (\<forall>pv'. r = Ok pv' \<longrightarrow> pv_pub_key pv' = k)"
proof (cases "self_provisioned pv")
  case False
  then show ?thesis using assms(2) by (auto simp: publish_key_def one_key_def sends_frame.R_refl)
next
  case True
  have wr: "keeps (sends (patch_of nd (Some k)))
      (thenR (if map_of annotations wgPubKeyAnnotation \<noteq> Some k
               then kube_write env (KubePatch nd [(wgPubKeyAnnotation, k)]) else ret ())
          (ret (pv\<lparr>pv_pub_key := k\<rparr>)))" for k
    unfolding kube_write_def
    by (intro sends_frame.keeps_intros quiet_patches sends_emit) (simp add: patch_of_def)
  have key: "yields (\<lambda>pv'. pv_pub_key pv' = k)
      (thenR (if map_of annotations wgPubKeyAnnotation \<noteq> Some k
               then kube_write env (KubePatch nd [(wgPubKeyAnnotation, k)]) else ret ())
          (ret (pv\<lparr>pv_pub_key := k\<rparr>)))" for k
    by (intro yields_intros) simp
  show ?thesis
  proof (cases "pv_pub_key pv = []")
    case False
    let ?k = "pv_pub_key pv"
    have run: "thenR (if map_of annotations wgPubKeyAnnotation \<noteq> Some ?k
               then kube_write env (KubePatch nd [(wgPubKeyAnnotation, ?k)]) else ret ())
          (ret (pv\<lparr>pv_pub_key := ?k\<rparr>)) n = (r, n')"
      using assms(2) True False by (simp add: publish_key_def)
    have "sends (patch_of nd (Some ?k)) n n'" by (rule keepsD [OF wr run])
    moreover have "pv_pub_key pv' = ?k" if "r = Ok pv'" for pv'
      by (rule yieldsD [OF key]) (use run that in simp)
    ultimately show ?thesis using False by (auto simp: one_key_def)
  next
    case unset: True
    obtain r1 n1 where e: "EnsureKeyMaterial env (pvc_vpnIface ctl) n = (r1, n1)" by fastforce
    have s: "sends (patch_of nd k) n n1" for k by (rule keepsD [OF wireguard_patches(3) e])
    show ?thesis
    proof (cases r1)
      case (Ok k)
      then have ne: "k \<noteq> []" using yieldsD [OF EnsureKeyMaterial_nonempty [OF assms(1)]] e by blast
      have run: "thenR (if map_of annotations wgPubKeyAnnotation \<noteq> Some k
               then kube_write env (KubePatch nd [(wgPubKeyAnnotation, k)]) else ret ())
          (ret (pv\<lparr>pv_pub_key := k\<rparr>)) n1 = (r, n')"
        using assms(2) True unset e Ok by (simp add: publish_key_def)
      have "\<exists>m. sends (patch_of nd None) n m \<and> key_on_disk env (pvc_vpnIface ctl) m k \<and> sends (patch_of nd (Some k)) m n'"
        using s keepsD [OF wr run] EnsureKeyMaterial_on_disk [OF e [unfolded Ok]] by blast
      moreover have "pv_pub_key pv' = k" if "r = Ok pv'" for pv'
        by (rule yieldsD [OF key]) (use run that in simp)
      ultimately show ?thesis using unset ne by (auto simp: one_key_def)
    next
      case (Err err)
      with assms(2) True unset e have "r = Err err \<and> n' = n1" by (simp add: publish_key_def)
      then show ?thesis using s unset by (auto simp: one_key_def)
    next
      case Panic
      with assms(2) True unset e have "r = Panic \<and> n' = n1" by (simp add: publish_key_def)
      then show ?thesis using s unset by (auto simp: one_key_def)
    qed
  qed
qed

lemma one_key_quiet: "(\<And>k. sends (patch_of nd k) n n') \<Longrightarrow> one_key env iface nd k k n n'"
  by (simp add: one_key_def)

lemma sends_none: "sends (patch_of nd None) n n' \<Longrightarrow> sends (patch_of nd k) n n'"
  unfolding sends_def by (auto simp: patch_of_def list_all_iff split: effect.splits)

lemma one_key_trans:
  assumes "one_key env iface nd a b n n1" "one_key env iface nd b c n1 n2"
  shows "one_key env iface nd a c n n2"
proof -
  consider (set) "a \<noteq> []" | (later) "a = []" "b = []" | (now) "a = []" "b \<noteq> []" by blast
  then show ?thesis
  proof cases
    case set
    with assms have "b = a" "c = a" "sends (patch_of nd (Some a)) n n1" "sends (patch_of nd (Some a)) n1 n2"
      by (simp_all add: one_key_def)
    with set show ?thesis by (simp add: one_key_def) (rule sends_frame.R_trans)
  next
    case later
    with assms(1) have s: "sends (patch_of nd None) n n1" by (simp add: one_key_def)
    show ?thesis
    proof (cases "c = []")
      case True
      with assms(2) later have "sends (patch_of nd None) n1 n2" by (simp add: one_key_def)
      from sends_frame.R_trans [OF s this] True later show ?thesis by (simp add: one_key_def)
    next
      case False
      with assms(2) later obtain m where m: "sends (patch_of nd None) n1 m" "key_on_disk env iface m c"
        "sends (patch_of nd (Some c)) m n2" by (auto simp: one_key_def)
      from sends_frame.R_trans [OF s m(1)] m(2,3) False later show ?thesis by (auto simp: one_key_def)
    qed
  next
    case now
    with assms obtain m where m: "c = b" "sends (patch_of nd None) n m" "key_on_disk env iface m b"
      "sends (patch_of nd (Some b)) m n1" "sends (patch_of nd (Some b)) n1 n2"
      by (auto simp: one_key_def)
    from sends_frame.R_trans [OF m(4,5)] m(1-3) now show ?thesis by (auto simp: one_key_def)
  qed
qed

lemma observeNode_step:
  assumes "\<forall>k. env_public_key env k \<noteq> []" "observeNode env ctl nd annotations pv n = (r, n')"
  shows "\<exists>k. one_key env (pvc_vpnIface ctl) nd (pv_pub_key pv) k n n' \<and> (\<forall>pv'. r = Ok pv' \<longrightarrow> pv_pub_key pv' = k)"
proof -
  obtain r1 n1 where c: "observe_cluster env annotations pv n = (r1, n1)" by fastforce
  have k1: "one_key env (pvc_vpnIface ctl) nd (pv_pub_key pv) (pv_pub_key pv) n n1"
    by (rule one_key_quiet) (rule keepsD [OF config_patches(1) c])
  show ?thesis
  proof (cases "\<exists>pv1. r1 = Ok pv1")
    case False
    then have "n' = n1" "\<nexists>pv'. r = Ok pv'"
      using assms(2) c unfolding observeNode_def by (cases r1; simp)+
    with k1 show ?thesis by blast
  next
    case True
    then obtain pv1 where pv1: "r1 = Ok pv1" "pv_pub_key pv1 = pv_pub_key pv"
      using c yieldsD [OF config_keys(1)] by blast
    obtain r2 n2 where p: "publish_key env ctl nd annotations pv1 n1 = (r2, n2)" by fastforce
    from publish_key_step [OF assms(1) p] obtain k where
      k2: "one_key env (pvc_vpnIface ctl) nd (pv_pub_key pv) k n1 n2" "\<And>pv'. r2 = Ok pv' \<Longrightarrow> pv_pub_key pv' = k"
      unfolding pv1(2) by blast
    have k12: "one_key env (pvc_vpnIface ctl) nd (pv_pub_key pv) k n n2" by (rule one_key_trans [OF k1 k2(1)])
    show ?thesis
    proof (cases "\<exists>pv2. r2 = Ok pv2")
      case False
      then have "n' = n2" "\<nexists>pv'. r = Ok pv'"
        using assms(2) c pv1(1) p unfolding observeNode_def by (cases r2; simp)+
      with k12 show ?thesis by blast
    next
      case True
      then obtain pv2 where pv2: "r2 = Ok pv2" "pv_pub_key pv2 = k" using k2(2) by blast
      have o: "observe_node_config env ctl annotations pv2 n2 = (r, n')"
        using assms(2) c pv1(1) p pv2(1) unfolding observeNode_def by simp
      have "one_key env (pvc_vpnIface ctl) nd k k n2 n'" by (rule one_key_quiet) (rule keepsD [OF config_patches(2) o])
      moreover have "pv_pub_key pv' = k" if "r = Ok pv'" for pv'
        using yieldsD [OF config_keys(2)] o that pv2(2) by metis
      ultimately show ?thesis using one_key_trans [OF k12] by blast
    qed
  qed
qed

lemma Perform_one_key:
  assumes "\<forall>k. env_public_key env k \<noteq> []" "Perform env ctl nd es pv n = (r, n')"
  shows "\<exists>k. one_key env (pvc_vpnIface ctl) nd (pv_pub_key pv) k n n'"
  using assms(2)
proof (induction es arbitrary: pv n)
  case Nil
  then have "n' = n" by simp
  then have "one_key env (pvc_vpnIface ctl) nd (pv_pub_key pv) (pv_pub_key pv) n n'"
    using one_key_quiet sends_frame.R_refl by blast
  then show ?case ..
next
  case (Cons e es)
  show ?case
  proof (cases e)
    case None
    with Cons.prems have "n' = n" by simp
    then have "one_key env (pvc_vpnIface ctl) nd (pv_pub_key pv) (pv_pub_key pv) n n'"
      using one_key_quiet sends_frame.R_refl by blast
    then show ?thesis ..
  next
    case (Some an)
    obtain r1 n1 where o: "observeNode env ctl nd an pv n = (r1, n1)" by fastforce
    from observeNode_step [OF assms(1) o] obtain k where
      k: "one_key env (pvc_vpnIface ctl) nd (pv_pub_key pv) k n n1" "\<And>pv'. r1 = Ok pv' \<Longrightarrow> pv_pub_key pv' = k" by blast
    show ?thesis
    proof (cases "\<exists>pv'. r1 = Ok pv' \<and> \<not> pv_done pv'")
      case True
      then obtain pv' where pv': "r1 = Ok pv'" "\<not> pv_done pv'" by blast
      then have "Perform env ctl nd es pv' n1 = (r, n')" using Cons.prems Some o by simp
      from Cons.IH [OF this] one_key_trans [OF k(1)] k(2) [OF pv'(1)] show ?thesis by metis
    next
      case False
      then have "n' = n1" using Cons.prems Some o by (cases r1) (simp_all split: if_splits)
      with k(1) show ?thesis by blast
    qed
  qed
qed


subsection \<open>An environment\<close>

definition ex_prov_data :: smap where
  "ex_prov_data = [(''IpamJson'', ''{}''), (''WireguardConfig'', Stringify ex_wg)]"

definition ex_prov_env :: env where
  "ex_prov_env = ex_ini_env\<lparr>env_configmap := (\<lambda>_ _ _. Inr ex_prov_data), env_unmarshal := (\<lambda>_. Inr (JObj [])),
     env_public_key := (\<lambda>_. [7])\<rparr>"

definition ex_live :: wg_config where
  "ex_live = ex_wg\<lparr>wg_PrivateKey := ''live=''\<rparr>"

definition ex_prov_node :: node where
  "ex_prov_node = ex_node\<lparr>n_disk := [(config_path ''wg0'', Stringify ex_live)]\<rparr>"

definition ex_prov_ctl :: provision_ctl where
  "ex_prov_ctl = \<lparr>pvc_vpnIface = ''wg0'', pvc_cniNet = ''kube-pet-net'', pvc_uid = 1000\<rparr>"

definition ex_cluster_cfg :: cluster_cfg where
  "ex_cluster_cfg = \<lparr>cc_NodeRange = v4_net [10, 6, 0, 0] 24, cc_PodRange = v4_net [10, 6, 0, 0] 16,
     cc_ServiceRange = v4_net [10, 7, 0, 0] 16, cc_WireguardMode = ''SelfProvision'', cc_CniNumber = 51, cc_CniMtu = 1420\<rparr>"

definition ex_provision :: provision where
  "ex_provision = start_provision\<lparr>pv_cfg := Some ex_cluster_cfg\<rparr>"

lemma ex_prov_world:
  "env_disk ex_prov_env tr path = None" "env_command ex_prov_env tr args = Inr []"
  "env_configmap ex_prov_env tr ns nm = Inr ex_prov_data" "env_unmarshal ex_prov_env j = Inr (JObj [])"
  "env_tar_start ex_prov_env tr = None" "env_tar_error ex_prov_env tr = None" "env_kube ex_prov_env tr e = None"
  "env_random ex_prov_env tr = Inr (replicate 32 0)" "env_uid ex_prov_env = 1000"
  by (simp_all add: ex_prov_env_def ex_ini_env_def ex_env_def)

lemma ex_prov_parse:
  "ParseWgQuickConfig ex_prov_env (Stringify ex_wg) = Inr (mask_config ex_wg)"
  "ParseWgQuickConfig ex_prov_env (Stringify ex_live) = Inr (mask_config ex_live)"
proof -
  have lib: "ini_library ex_prov_env" using ex_ini_library by (simp add: ini_library_def ex_prov_env_def)
  show "ParseWgQuickConfig ex_prov_env (Stringify ex_wg) = Inr (mask_config ex_wg)"
    using ParseWgQuickConfig_reads library_reads [OF lib] ex_wg_plain by blast
  have "config_ok ex_live" using ex_wg_plain(1) by (simp add: config_ok_def ex_live_def)
  moreover have "plain_config ex_live" by code_simp
  ultimately show "ParseWgQuickConfig ex_prov_env (Stringify ex_live) = Inr (mask_config ex_live)"
    using ParseWgQuickConfig_reads library_reads [OF lib] by blast
qed

lemma ex_prov_map:
  "config_map_at ex_prov_env ''kube-system/pet'' n
     = (Ok ex_prov_data, n\<lparr>n_trace := n_trace n @ [KubeGet ''ConfigMap'' ''kube-system'' ''pet'']\<rparr>)"
proof -
  have "config_map_ref ''kube-system/pet'' = Some (''kube-system'', ''pet'')" by code_simp
  then show ?thesis
    by (simp add: config_map_at_def derefR_def get_configmap_def ex_prov_world emit_def thenR_def)
qed

lemma ex_prov_cni:
  "\<exists>n'. write_cni ex_prov_env net (Some cfg) j n = (Ok (), n') \<and> n_disk n' = n_disk n"
  by (simp add: write_cni_def liftE_def derefR_def StartArchiveExtraction_def WriteFile_def Finish_def tar_error_def
      ex_prov_world thenR_def)

lemma ex_prov_wireguard:
  assumes "n_disk n = [(config_path ''wg0'', Stringify ex_live)]"
  shows "\<exists>n'. write_wireguard ex_prov_env ex_prov_ctl (Stringify ex_wg) n = (Ok (), n')"
proof -
  let ?cfg = "mask_config ex_wg\<lparr>wg_PrivateKey := wg_PrivateKey (mask_config ex_live)\<rparr>"
  let ?n1 = "n\<lparr>n_trace := n_trace n @ [DiskRead (config_path ''wg0'')]\<rparr>"
  have read: "ReadPersistentConfig ex_prov_env ''wg0'' n = (Ok (mask_config ex_live), ?n1)"
    using assms by (simp add: ReadPersistentConfig_def bindR_def disk_read_node ex_prov_world ex_prov_parse)
  have wr: "\<exists>n'. WritePersistentConfig ex_prov_env ''wg0'' cfg m = (Ok (), n')" for cfg m
    unfolding WritePersistentConfig_def disk_write_Ok by (auto simp: ex_prov_world)
  have sys: "\<exists>n'. SystemctlUnitAction ex_prov_env u a b m = (Ok (), n')" for u a b m
    by (simp add: SystemctlUnitAction_def run_command_def emit_def thenR_def ex_prov_world)
  obtain n2 where 2: "WritePersistentConfig ex_prov_env ''wg0'' ?cfg ?n1 = (Ok (), n2)" using wr by blast
  let ?n3 = "n2\<lparr>n_trace := n_trace n2 @ [Slept 2000000000]\<rparr>"
  obtain n4 where 4: "SystemctlUnitAction ex_prov_env 1000 ''wg-quick@wg0.service'' ''enable'' ?n3 = (Ok (), n4)"
    using sys by blast
  obtain n5 where 5: "SystemctlUnitAction ex_prov_env 1000 ''wg-quick@wg0.service'' ''start'' n4 = (Ok (), n5)"
    using sys by blast
  from 2 4 5 show ?thesis
    by (simp add: write_wireguard_def ex_prov_parse liftE_def ex_prov_ctl_def read emit_def)
qed

lemma ex_prov_run:
  "\<exists>n'. processNodeConfigMap ex_prov_env ex_prov_ctl ''kube-system/pet'' ex_provision ex_prov_node
     = (Ok (ex_provision\<lparr>pv_node_key := ''kube-system/pet'', pv_done := True\<rparr>), n')"
proof -
  let ?n0 = "ex_prov_node\<lparr>n_trace := n_trace ex_prov_node @ [KubeGet ''ConfigMap'' ''kube-system'' ''pet'']\<rparr>"
  obtain n1 where c: "write_cni ex_prov_env ''kube-pet-net'' (Some ex_cluster_cfg) ''{}'' ?n0 = (Ok (), n1)"
    "n_disk n1 = n_disk ?n0" using ex_prov_cni by blast
  then obtain n2 where "write_wireguard ex_prov_env ex_prov_ctl (Stringify ex_wg) n1 = (Ok (), n2)"
    using ex_prov_wireguard [of n1] by (auto simp: ex_prov_node_def)
  moreover have "map_of ex_prov_data ''IpamJson'' = Some ''{}''"
    "map_of ex_prov_data ''WireguardConfig'' = Some (Stringify ex_wg)" by (simp_all add: ex_prov_data_def)
  moreover have "pvc_cniNet ex_prov_ctl = ''kube-pet-net''" "pv_cfg ex_provision = Some ex_cluster_cfg"
    by (simp_all add: ex_prov_ctl_def ex_provision_def)
  ultimately show ?thesis using c(1) by (simp add: processNodeConfigMap_def ex_prov_map thenR_def)
qed

theorem node_config_applied_witness:
  "\<exists>n'. processNodeConfigMap ex_prov_env ex_prov_ctl ''kube-system/pet'' ex_provision ex_prov_node
          = (Ok (ex_provision\<lparr>pv_node_key := ''kube-system/pet'', pv_done := True\<rparr>), n')
        \<and> map_of (n_disk n') (config_path ''wg0'') = Some (Stringify (mask_config ex_wg\<lparr>wg_PrivateKey := ''live=''\<rparr>))
        \<and> drop (length (n_trace n') - 2) (n_trace n')
            = [Ran [''sudo'', ''systemctl'', ''enable'', ''wg-quick@wg0.service''],
               Ran [''sudo'', ''systemctl'', ''start'', ''wg-quick@wg0.service'']]"
proof -
  obtain n' where run: "processNodeConfigMap ex_prov_env ex_prov_ctl ''kube-system/pet'' ex_provision ex_prov_node
      = (Ok (ex_provision\<lparr>pv_node_key := ''kube-system/pet'', pv_done := True\<rparr>), n')"
    using ex_prov_run by blast
  have w: "map_of ex_prov_data ''WireguardConfig'' = Some (Stringify ex_wg)" by (simp add: ex_prov_data_def)
  have raw: "map_of (n_disk ex_prov_node) (config_path ''wg0'') = Some (Stringify ex_live)"
    by (simp add: ex_prov_node_def)
  have key: "wg_PrivateKey (mask_config ex_live) = ''live=''" by (simp add: mask_config_def ex_live_def)
  from node_config_applied [OF run ex_prov_map] obtain pre where
    "n_disk n' = AList.update (config_path ''wg0'') (Stringify (mask_config ex_wg\<lparr>wg_PrivateKey := ''live=''\<rparr>)) (n_disk ex_prov_node)"
    "n_trace n' = pre @ [systemctl ex_prov_ctl ''enable'', systemctl ex_prov_ctl ''start'']"
    unfolding w option.case
    by (elim conjE exE) (auto simp: ex_prov_ctl_def raw ex_prov_parse key)
  with run show ?thesis by (auto simp: update_conv' systemctl_def unit_name_def ex_prov_ctl_def)
qed

text \<open>A host without a key, and a node object without annotations.\<close>

lemma ex_prov_key:
  obtains pub n1 where "EnsureKeyMaterial ex_prov_env ''wg0'' ex_node = (Ok pub, n1)"
proof -
  have "ReadPersistentConfig ex_prov_env ''wg0'' ex_node
      = (Err (missing_file (config_path ''wg0'')), ex_node\<lparr>n_trace := [DiskRead (config_path ''wg0'')]\<rparr>)"
    by (simp add: ReadPersistentConfig_def disk_read_node bindR_def ex_prov_world) (simp add: ex_node_def)
  moreover have "\<exists>pub n1. ensure_key ex_prov_env ''wg0'' blank_config n = (Ok pub, n1)" for n
  proof -
    have k: "newPrivateKey ex_prov_env n = (Ok (clamp zero_key), n)"
      by (simp add: newPrivateKey_def ex_prov_world zero_key_def)
    have "\<exists>n1. WritePersistentConfig ex_prov_env ''wg0'' cfg n = (Ok (), n1)" for cfg
      unfolding WritePersistentConfig_def disk_write_Ok using ex_prov_world by blast
    then obtain n1 where "WritePersistentConfig ex_prov_env ''wg0'' (blank_config\<lparr>wg_PrivateKey := ToBase64 (clamp zero_key)\<rparr>) n = (Ok (), n1)"
      by blast
    with k show ?thesis by (simp add: ensure_key_def) (simp add: blank_config_def)
  qed
  ultimately have "\<exists>pub n1. EnsureKeyMaterial ex_prov_env ''wg0'' ex_node = (Ok pub, n1)"
    by (simp add: EnsureKeyMaterial_def missing_file_def is_not_exist_def)
  with that show thesis by blast
qed

lemma ex_prov_published:
  "\<exists>k n'. Perform ex_prov_env ex_prov_ctl ''pet-1'' [Some []] ex_provision ex_node = (Ok False, n')
     \<and> KubePatch ''pet-1'' [(wgPubKeyAnnotation, k)] \<in> set (n_trace n')"
proof -
  obtain pub n1 where e: "EnsureKeyMaterial ex_prov_env ''wg0'' ex_node = (Ok pub, n1)" by (rule ex_prov_key)
  have "publish_key ex_prov_env ex_prov_ctl ''pet-1'' [] ex_provision ex_node
      = (Ok (ex_provision\<lparr>pv_pub_key := pub\<rparr>),
         n1\<lparr>n_trace := n_trace n1 @ [KubePatch ''pet-1'' [(wgPubKeyAnnotation, pub)]]\<rparr>)"
    using e by (simp add: publish_key_def self_provisioned_def ex_provision_def ex_cluster_cfg_def start_provision_def
        ex_prov_ctl_def kube_write_def ex_prov_world thenR_def)
  then have "observeNode ex_prov_env ex_prov_ctl ''pet-1'' [] ex_provision ex_node
      = (Ok (ex_provision\<lparr>pv_pub_key := pub\<rparr>),
         n1\<lparr>n_trace := n_trace n1 @ [KubePatch ''pet-1'' [(wgPubKeyAnnotation, pub)]]\<rparr>)"
    by (simp add: observeNode_def observe_cluster_def observe_node_config_def)
  then show ?thesis by (auto simp: ex_provision_def start_provision_def)
qed


subsection \<open>Panics\<close>

text \<open>The agent panics when a config map is named without its namespace, and when the node's config map
  has an IPAM part before the cluster's configuration was published.\<close>

lemma provision_panics:
  "CHR ''/'' \<notin> set val \<Longrightarrow> fst (processNodeConfigMap env ctl val pv n) = Panic"
  "pv_cfg pv = None \<Longrightarrow> config_map_at env val n = (Ok data, n1) \<Longrightarrow> map_of data ''IpamJson'' = Some j \<Longrightarrow>
   env_unmarshal env j = Inr (JObj kvs) \<Longrightarrow> fst (processNodeConfigMap env ctl val pv n) = Panic"
proof -
  assume "CHR ''/'' \<notin> set val"
  then have "split_on (CHR ''/'') val = [val]" by (rule split_on_none)
  then show "fst (processNodeConfigMap env ctl val pv n) = Panic"
    by (simp add: processNodeConfigMap_def config_map_at_def config_map_ref_def derefR_def)
next
  assume "pv_cfg pv = None" "config_map_at env val n = (Ok data, n1)" "map_of data ''IpamJson'' = Some j"
    "env_unmarshal env j = Inr (JObj kvs)"
  then show "fst (processNodeConfigMap env ctl val pv n) = Panic"
    by (simp add: processNodeConfigMap_def write_cni_def liftE_def derefR_def thenR_def bindR_def)
qed

end
