(* ===== verification/Auto_Upgrade.thy ===== *)
theory Auto_Upgrade
  imports Host_World
begin

text \<open>
  \<^verbatim>\<open>controllers/autoupgrade\<close>: which release of the agent the cluster wants, whether this host may
  install it, and the loop that does so. Parameters (\<open>upgrade_lib\<close>): the semantic versions of
  \<^verbatim>\<open>go-semver\<close>, the sections of the release file as the INI library maps them to structs, and the
  platform the agent was built for.
\<close>

subsection \<open>Releases\<close>

record target_platform =
  tp_OS :: string
  tp_Arch :: string
  tp_DebUrl :: string
  tp_RpmUrl :: string

record target_release =
  tr_Version :: string
  tr_BaseUrl :: string
  tr_AutoUpgrade :: bool
  tr_Platforms :: "target_platform list"

record release_doc =
  rd_default :: "string + target_release"
  rd_platforms :: "string + (string + target_platform) list"

record 'v upgrade_lib =
  ul_newVersion :: "string \<Rightarrow> string + 'v"
  ul_lessThan :: "'v \<Rightarrow> 'v \<Rightarrow> bool"
  ul_load :: "string \<Rightarrow> string + release_doc"
  ul_goos :: string
  ul_goarch :: string

text \<open>The sections are mapped in order; the first error ends it.\<close>

definition ParseTargetRelease :: "'v upgrade_lib \<Rightarrow> string \<Rightarrow> string + target_release" where
  "ParseTargetRelease lib data =
     (case ul_load lib data of
        Inl e \<Rightarrow> Inl e
      | Inr file \<Rightarrow> (case rd_default file of
          Inl e \<Rightarrow> Inl e
        | Inr release \<Rightarrow> (case rd_platforms file of
            Inl e \<Rightarrow> Inl e
          | Inr sects \<Rightarrow>
              (case foldE (\<lambda>s ps. case s of Inl e \<Rightarrow> Inl e | Inr p \<Rightarrow> Inr (ps @ [p])) sects [] of
                 Inl e \<Rightarrow> Inl e
               | Inr ps \<Rightarrow> Inr (release\<lparr>tr_Platforms := ps\<rparr>)))))"

subsection \<open>The package manager\<close>

record pkg_tools =
  hasDpkg :: bool
  hasDnf :: bool

definition succeeds :: "env \<Rightarrow> string list \<Rightarrow> bool run" where
  "succeeds env args = bindR (tryR (run_command env args)) (\<lambda>r. ret (case r of Inl _ \<Rightarrow> False | Inr _ \<Rightarrow> True))"

definition find_tools :: "env \<Rightarrow> pkg_tools run" where
  "find_tools env =
     bindR (succeeds env [''/usr/bin/env'', ''which'', ''dpkg-query'']) (\<lambda>dpkg.
     bindR (succeeds env [''/usr/bin/env'', ''which'', ''dnf'']) (\<lambda>dnf.
       ret \<lparr>hasDpkg = dpkg, hasDnf = dnf\<rparr>))"

text \<open>Both or neither is a panic.\<close>

definition SystemType :: "pkg_tools \<Rightarrow> string option" where
  "SystemType tools =
     (if hasDpkg tools \<and> hasDnf tools then None
      else if hasDpkg tools then Some ''Deb''
      else if hasDnf tools then Some ''Rpm''
      else None)"

text \<open>The first line of the form key, spaces, colon, space, value, with a value that is not empty.\<close>

definition field_value :: "string \<Rightarrow> string \<Rightarrow> string option" where
  "field_value key line =
     (if has_prefix line key then
        let rest = drop (length key) line;
            gap = takeWhile (\<lambda>c. c = CHR '' '') rest;
            val = dropWhile (\<lambda>c. c = CHR '' '') rest
        in if gap \<noteq> [] \<and> has_prefix val '': '' \<and> drop 2 val \<noteq> [] then Some (drop 2 val) else None
      else None)"

fun first_some :: "('a \<Rightarrow> 'b option) \<Rightarrow> 'a list \<Rightarrow> 'b option" where
  "first_some f [] = None"
| "first_some f (x # xs) = (case f x of None \<Rightarrow> first_some f xs | Some y \<Rightarrow> Some y)"

definition dnf_field :: "string \<Rightarrow> string \<Rightarrow> string option" where
  "dnf_field key out = first_some (field_value key) (split_on (CHR 0x0A) out)"

definition single_quoted :: "string \<Rightarrow> string" where
  "single_quoted s = CHR 0x27 # s @ [CHR 0x27]"

definition dpkg_version :: "string \<Rightarrow> string + string" where
  "dpkg_version out =
     (case split_on (CHR '' '') out of
        [version, want, eflag, status] \<Rightarrow>
          if want \<noteq> ''install'' then
            Inl (''dpkg-query reported our package as '' @ single_quoted want @ '' which wasn't '' @ single_quoted ''install'')
          else if eflag \<noteq> ''ok'' then
            Inl (''dpkg-query reported our package as '' @ single_quoted eflag @ '' which wasn't '' @ single_quoted ''ok'')
          else if status \<noteq> ''installed'' \<and> status \<noteq> ''half-configured'' then
            Inl (''dpkg-query reported our package as '' @ single_quoted status @ '' which wasn't ''
                 @ single_quoted ''installed'' @ '' or '' @ single_quoted ''half-configured'')
          else Inr version
      | parts \<Rightarrow> Inl (''dpkg-query gave '' @ nat_dec (length parts) @ '' fields instead of 4''))"

definition GetInstalledVersion :: "env \<Rightarrow> pkg_tools \<Rightarrow> string \<Rightarrow> string run" where
  "GetInstalledVersion env tools pkgName =
     bindR (derefR (SystemType tools)) (\<lambda>ty.
       if ty = ''Deb'' then
         bindR (run_command env [''dpkg-query'', ''-W'', ''--showformat=${Version} ${Status}'', ''--'', pkgName]) (\<lambda>out.
           liftE (case dpkg_version out of Inl e \<Rightarrow> Inl (PlainErr e) | Inr v \<Rightarrow> Inr v))
       else
         bindR (run_command env [''dnf'', ''info'', ''--installed'', ''--'', pkgName]) (\<lambda>out.
           case dnf_field ''Version'' out of
             None \<Rightarrow> failR (PlainErr ''dnf version pattern didn't match'')
           | Some version \<Rightarrow>
               (case dnf_field ''Release'' out of
                  None \<Rightarrow> failR (PlainErr ''dnf release pattern didn't match'')
                | Some release \<Rightarrow> ret (version @ ''-'' @ release))))"

subsection \<open>The unit\<close>

definition GetUnitStates :: "env \<Rightarrow> string \<Rightarrow> smap run" where
  "GetUnitStates env unitName =
     bindR (run_command env [''systemctl'', ''show'', ''--'', unitName]) (\<lambda>out.
       case env_ini env False out of
         Inl e \<Rightarrow> failR (PlainErr e)
       | Inr file \<Rightarrow>
           ret (map (\<lambda>(k, v). (trim_suffix k ''State'', v))
             (filter (\<lambda>(k, v). has_suffix k ''State'') (is_hash (if_section file ''DEFAULT'')))))"

definition IsUnitRunning :: "env \<Rightarrow> string \<Rightarrow> bool run" where
  "IsUnitRunning env unitName =
     bindR (GetUnitStates env unitName) (\<lambda>states.
       ret (map_of states ''Load'' = Some ''loaded'' \<and> map_of states ''Sub'' = Some ''running''))"

subsection \<open>Our build\<close>

definition build_url :: "string \<Rightarrow> target_platform \<Rightarrow> string" where
  "build_url ty plat = (if ty = ''Deb'' then tp_DebUrl plat else tp_RpmUrl plat)"

text \<open>The loop over the platforms. The package manager is looked at for a matching platform only.\<close>

fun build_loop :: "'v upgrade_lib \<Rightarrow> pkg_tools \<Rightarrow> string \<Rightarrow> target_platform list \<Rightarrow> string option" where
  "build_loop lib tools base [] = Some []"
| "build_loop lib tools base (plat # plats) =
     (if tp_OS plat = ul_goos lib \<and> tp_Arch plat = ul_goarch lib then
        (case SystemType tools of
           None \<Rightarrow> None
         | Some ty \<Rightarrow> if build_url ty plat \<noteq> [] then Some (base @ build_url ty plat)
                      else build_loop lib tools base plats)
      else build_loop lib tools base plats)"

definition GetOurBuildUrl :: "'v upgrade_lib \<Rightarrow> pkg_tools \<Rightarrow> target_release \<Rightarrow> string option" where
  "GetOurBuildUrl lib tools tr = build_loop lib tools (tr_BaseUrl tr) (tr_Platforms tr)"

definition HasBuildForUs :: "'v upgrade_lib \<Rightarrow> pkg_tools \<Rightarrow> target_release \<Rightarrow> bool option" where
  "HasBuildForUs lib tools tr = map_option (\<lambda>u. u \<noteq> []) (GetOurBuildUrl lib tools tr)"

definition ActuallyInstallThisReleaseNow :: "env \<Rightarrow> 'v upgrade_lib \<Rightarrow> pkg_tools \<Rightarrow> target_release \<Rightarrow> unit run" where
  "ActuallyInstallThisReleaseNow env lib tools tr =
     bindR (derefR (GetOurBuildUrl lib tools tr)) (\<lambda>buildUrl.
       if buildUrl = [] then
         failR (PlainErr (''Can't install release '' @ tr_Version tr @ '' because it lacks a URL for us''))
       else
         bindR (derefR (SystemType tools)) (\<lambda>ty.
         bindR (run_command env [''sudo'', ''/opt/kube-pet-node/bin/node-upgrade.sh'', tr_Version tr, ty, buildUrl])
           (\<lambda>_. ret ())))"

subsection \<open>The controller\<close>

record 'v auto_upgrade =
  au_capable :: bool
  au_self :: "'v option"

definition NewAutoUpgrade :: "env \<Rightarrow> 'v upgrade_lib \<Rightarrow> pkg_tools \<Rightarrow> 'v auto_upgrade run" where
  "NewAutoUpgrade env lib tools =
     bindR (tryR (GetInstalledVersion env tools ''kube-pet-node'')) (\<lambda>r.
       case r of
         Inl e \<Rightarrow> ret \<lparr>au_capable = False, au_self = None\<rparr>
       | Inr installedVersion \<Rightarrow>
           (case ul_newVersion lib installedVersion of
              Inl e \<Rightarrow> failR (PlainErr e)
            | Inr parsedVersion \<Rightarrow>
                bindR (IsUnitRunning env ''kube-pet-node.service'') (\<lambda>isRunning.
                  ret (if isRunning then \<lparr>au_capable = True, au_self = Some parsedVersion\<rparr>
                       else \<lparr>au_capable = False, au_self = None\<rparr>))))"

record config_map =
  cm_ns :: string
  cm_name :: string
  cm_data :: smap

definition our_config_map :: "config_map \<Rightarrow> bool" where
  "our_config_map cm \<longleftrightarrow> cm_ns cm = ''kube-system'' \<and> cm_name cm = ''kube-pet-node''"

text \<open>What is sent down the channel for an added or updated config map, and for a deleted one.\<close>

definition enqueueConfigMap :: "'v upgrade_lib \<Rightarrow> config_map \<Rightarrow> target_release option list" where
  "enqueueConfigMap lib res =
     (if our_config_map res then
        (case map_of (cm_data res) ''TargetRelease'' of
           None \<Rightarrow> [None]
         | Some releaseStr \<Rightarrow>
             (case ParseTargetRelease lib releaseStr of Inl e \<Rightarrow> [None] | Inr info \<Rightarrow> [Some info]))
      else [])"

definition enqueueDeleted :: "config_map \<Rightarrow> target_release option list" where
  "enqueueDeleted res = (if our_config_map res then [None] else [])"

text \<open>Whether a received release starts the timer; \<open>None\<close> is a panic.\<close>

definition wants :: "'v upgrade_lib \<Rightarrow> pkg_tools \<Rightarrow> 'v \<Rightarrow> target_release option \<Rightarrow> bool option" where
  "wants lib tools self target =
     (case target of
        None \<Rightarrow> Some False
      | Some rel \<Rightarrow>
          if \<not> tr_AutoUpgrade rel then Some False
          else (case ul_newVersion lib (tr_Version rel) of
                  Inl e \<Rightarrow> Some False
                | Inr targetVersion \<Rightarrow>
                    if \<not> ul_lessThan lib self targetVersion then Some False
                    else HasBuildForUs lib tools rel))"

text \<open>The loop of \<open>Run\<close>: the last received release, the time the timer fires at (in nanoseconds) and
  the release that was installed, after which the loop has ended.\<close>

record upgrade_state =
  us_target :: "target_release option"
  us_timer :: "int option"
  us_installed :: "target_release option"

definition start_upgrade :: upgrade_state where
  "start_upgrade = \<lparr>us_target = None, us_timer = None, us_installed = None\<rparr>"

datatype upgrade_event =
    Received int "target_release option"
  | Fired int

definition receive :: "'v upgrade_lib \<Rightarrow> pkg_tools \<Rightarrow> 'v \<Rightarrow> int \<Rightarrow> target_release option \<Rightarrow> upgrade_state \<Rightarrow> upgrade_state option" where
  "receive lib tools self t target s =
     map_option (\<lambda>w. s\<lparr>us_target := target, us_timer := if w then Some (t + 5000000000) else None\<rparr>)
       (wants lib tools self target)"

text \<open>The steps of the loop, with the effects of the installation on the node.\<close>

inductive upgrade_step ::
  "env \<Rightarrow> 'v upgrade_lib \<Rightarrow> pkg_tools \<Rightarrow> 'v \<Rightarrow> upgrade_state \<times> node \<Rightarrow> upgrade_event \<Rightarrow> upgrade_state \<times> node \<Rightarrow> bool"
  for env lib tools self where
  step_receive:
    "us_installed s = None \<Longrightarrow> receive lib tools self t target s = Some s' \<Longrightarrow>
     upgrade_step env lib tools self (s, n) (Received t target) (s', n)"
| step_install:
    "us_installed s = None \<Longrightarrow> us_timer s = Some deadline \<Longrightarrow> deadline \<le> t \<Longrightarrow> us_target s = Some rel \<Longrightarrow>
     snd (ActuallyInstallThisReleaseNow env lib tools rel n) = n' \<Longrightarrow>
     upgrade_step env lib tools self (s, n) (Fired t) (s\<lparr>us_installed := Some rel\<rparr>, n')"

inductive_cases upgrade_stepE:
  "upgrade_step env lib tools self (s, n) (Received t target) s'"
  "upgrade_step env lib tools self (s, n) (Fired t) s'"

inductive upgrade_run ::
  "env \<Rightarrow> 'v upgrade_lib \<Rightarrow> pkg_tools \<Rightarrow> 'v \<Rightarrow> upgrade_state \<times> node \<Rightarrow> upgrade_event list \<Rightarrow> upgrade_state \<times> node \<Rightarrow> bool"
  for env lib tools self where
  run_start: "upgrade_run env lib tools self c [] c"
| run_step: "upgrade_run env lib tools self c es d \<Longrightarrow> upgrade_step env lib tools self d e d' \<Longrightarrow>
     upgrade_run env lib tools self c (es @ [e]) d'"

end
