(* ===== verification/Upgrade_Props.thy ===== *)
theory Upgrade_Props
  imports Auto_Upgrade Podman_Props
begin

text \<open>The properties of the upgrades: which build is chosen, and when it is installed.\<close>

definition ours :: "'v upgrade_lib \<Rightarrow> target_platform \<Rightarrow> bool" where
  "ours lib p \<longleftrightarrow> tp_OS p = ul_goos lib \<and> tp_Arch p = ul_goarch lib"

text \<open>C34 (equivalence): the loop over the platforms computes what one would look up. On a host with
  exactly one package manager it is the first platform that is ours and has a package for it, the
  path of its Debian package appended to the base address where \<^verbatim>\<open>dpkg-query\<close> was found, that of
  its RPM package where \<^verbatim>\<open>dnf\<close> was; no such platform gives the empty string. A host with both
  package managers, or with neither, panics as soon as one platform is ours, and only then.\<close>

theorem build_url_is_first_match:
  "GetOurBuildUrl lib tools tr =
     (if hasDpkg tools = hasDnf tools then (if list_ex (ours lib) (tr_Platforms tr) then None else Some [])
      else Some (case find (\<lambda>p. ours lib p \<and> (if hasDpkg tools then tp_DebUrl p else tp_RpmUrl p) \<noteq> []) (tr_Platforms tr) of
                   None \<Rightarrow> []
                 | Some p \<Rightarrow> tr_BaseUrl tr @ (if hasDpkg tools then tp_DebUrl p else tp_RpmUrl p)))"
proof -
  have "build_loop lib tools base ps =
     (if hasDpkg tools = hasDnf tools then (if list_ex (ours lib) ps then None else Some [])
      else Some (case find (\<lambda>p. ours lib p \<and> (if hasDpkg tools then tp_DebUrl p else tp_RpmUrl p) \<noteq> []) ps of
                   None \<Rightarrow> [] | Some p \<Rightarrow> base @ (if hasDpkg tools then tp_DebUrl p else tp_RpmUrl p)))" for base ps
    by (induction ps) (auto simp: SystemType_def build_url_def simp flip: ours_def split: option.split)
  then show ?thesis by (simp add: GetOurBuildUrl_def)
qed

lemma wants_True:
  "wants lib tools self (Some rel) = Some True \<longleftrightarrow>
     tr_AutoUpgrade rel \<and> (\<exists>v. ul_newVersion lib (tr_Version rel) = Inr v \<and> ul_lessThan lib self v)
     \<and> (\<exists>url. GetOurBuildUrl lib tools rel = Some url \<and> url \<noteq> [])"
  by (auto simp: wants_def HasBuildForUs_def split: sum.splits)

lemma wants_None: "wants lib tools self None \<noteq> Some True"
  by (simp add: wants_def)

text \<open>While the loop goes on nothing has been done to the host, and a running timer belongs to the
  release that came last.\<close>

definition waiting_ok :: "'v upgrade_lib \<Rightarrow> pkg_tools \<Rightarrow> 'v \<Rightarrow> upgrade_event list \<Rightarrow> upgrade_state \<Rightarrow> bool" where
  "waiting_ok lib tools self es s \<longleftrightarrow>
     (\<forall>d. us_timer s = Some d \<longrightarrow>
        (\<exists>es1 t0 rel. es = es1 @ [Received t0 (Some rel)] \<and> d = t0 + 5000000000 \<and> us_target s = Some rel
           \<and> wants lib tools self (Some rel) = Some True))"

definition installed_ok ::
  "env \<Rightarrow> 'v upgrade_lib \<Rightarrow> pkg_tools \<Rightarrow> 'v \<Rightarrow> upgrade_event list \<Rightarrow> target_release \<Rightarrow> node \<Rightarrow> node \<Rightarrow> bool" where
  "installed_ok env lib tools self es rel n n' \<longleftrightarrow>
     (\<exists>es1 t0 t. es = es1 @ [Received t0 (Some rel), Fired t] \<and> t0 + 5000000000 \<le> t
        \<and> wants lib tools self (Some rel) = Some True
        \<and> n' = snd (ActuallyInstallThisReleaseNow env lib tools rel n))"

lemma upgrade_run_inv:
  assumes "upgrade_run env lib tools self c es d" "c = (start_upgrade, n)"
  shows "case us_installed (fst d) of
       None \<Rightarrow> snd d = n \<and> waiting_ok lib tools self es (fst d)
     | Some rel \<Rightarrow> installed_ok env lib tools self es rel n (snd d)"
  using assms
proof (induction rule: upgrade_run.induct)
  case (run_start c)
  then show ?case by (simp add: start_upgrade_def waiting_ok_def)
next
  case (run_step c es d e d')
  from run_step.hyps(2) show ?case
  proof cases
    case (step_receive s t target s' n1)
    then have "us_installed s' = None" "n1 = n" using run_step by (auto simp: receive_def)
    moreover have "waiting_ok lib tools self (es @ [Received t target]) s'"
      using \<open>receive lib tools self t target s = Some s'\<close> wants_None [of lib tools self]
      by (cases target) (auto simp: waiting_ok_def receive_def split: if_splits)
    ultimately show ?thesis using step_receive by simp
  next
    case (step_install s deadline t rel n1 n')
    then have w: "snd d = n" "waiting_ok lib tools self es s" "n1 = n" using run_step by auto
    with step_install obtain es1 t0 where "es = es1 @ [Received t0 (Some rel)]" "deadline = t0 + 5000000000"
      "wants lib tools self (Some rel) = Some True"
      unfolding waiting_ok_def by fastforce
    with step_install w show ?thesis by (auto simp: installed_ok_def)
  qed
qed

text \<open>C15 (invariant): the agent upgrades itself at most once, and only to what was asked for last. In
  every run of the loop the host is left alone until an installation, which is the last event of the
  run and comes at least five seconds after the release was received, with nothing received in
  between. That release allows automatic upgrades, its version is newer than the agent's own, and the
  one command that is run gets its version, the package manager and the URL of our build.\<close>

theorem upgrades_once_to_last:
  assumes "upgrade_run env lib tools self (start_upgrade, n) es (s, n')"
  shows "(us_installed s = None \<longrightarrow> n' = n)
    \<and> (\<forall>rel. us_installed s = Some rel \<longrightarrow>
         (\<exists>es1 t0 t. es = es1 @ [Received t0 (Some rel), Fired t] \<and> t0 + 5000000000 \<le> t)
         \<and> tr_AutoUpgrade rel \<and> (\<exists>v. ul_newVersion lib (tr_Version rel) = Inr v \<and> ul_lessThan lib self v)
         \<and> (\<exists>ty url. SystemType tools = Some ty \<and> GetOurBuildUrl lib tools rel = Some url \<and> url \<noteq> []
              \<and> n' = n\<lparr>n_trace := n_trace n @ [Ran [''sudo'', ''/opt/kube-pet-node/bin/node-upgrade.sh'',
                                                   tr_Version rel, ty, url]]\<rparr>))
    \<and> (us_installed s \<noteq> None \<longrightarrow> (\<forall>e c. \<not> upgrade_step env lib tools self (s, n') e c))"
proof (intro conjI impI allI)
  note inv = upgrade_run_inv [OF assms refl]
  show "n' = n" if "us_installed s = None" using inv that by simp
  show "\<not> upgrade_step env lib tools self (s, n') e c" if "us_installed s \<noteq> None" for e c
    using that by (auto elim: upgrade_step.cases)
  fix rel assume "us_installed s = Some rel"
  with inv have i: "installed_ok env lib tools self es rel n n'" by simp
  then show "\<exists>es1 t0 t. es = es1 @ [Received t0 (Some rel), Fired t] \<and> t0 + 5000000000 \<le> t"
    unfolding installed_ok_def by blast
  from i have w: "wants lib tools self (Some rel) = Some True" unfolding installed_ok_def by blast
  then show "tr_AutoUpgrade rel" "\<exists>v. ul_newVersion lib (tr_Version rel) = Inr v \<and> ul_lessThan lib self v"
    unfolding wants_True by blast+
  from w obtain url where u: "GetOurBuildUrl lib tools rel = Some url" "url \<noteq> []" unfolding wants_True by blast
  have "SystemType tools \<noteq> None"
  proof
    assume none: "SystemType tools = None"
    have "build_loop lib tools base ps = None \<or> build_loop lib tools base ps = Some []" for base ps
      by (induction ps) (simp_all add: none)
    with u show False by (simp add: GetOurBuildUrl_def) (metis option.distinct(1) option.inject)
  qed
  then obtain ty where ty: "SystemType tools = Some ty" by blast
  have "n' = snd (ActuallyInstallThisReleaseNow env lib tools rel n)" using i unfolding installed_ok_def by blast
  also have "\<dots> = n\<lparr>n_trace := n_trace n @ [Ran [''sudo'', ''/opt/kube-pet-node/bin/node-upgrade.sh'',
                                                   tr_Version rel, ty, url]]\<rparr>"
    using u ty by (simp add: ActuallyInstallThisReleaseNow_def derefR_def run_command_def emit_def thenR_def
        bindR_def split: sum.split)
  finally show "\<exists>ty url. SystemType tools = Some ty \<and> GetOurBuildUrl lib tools rel = Some url \<and> url \<noteq> []
              \<and> n' = n\<lparr>n_trace := n_trace n @ [Ran [''sudo'', ''/opt/kube-pet-node/bin/node-upgrade.sh'',
                                                   tr_Version rel, ty, url]]\<rparr>"
    using u ty by blast
qed

definition ex_lib :: "nat upgrade_lib" where
  "ex_lib = \<lparr>ul_newVersion = (\<lambda>s. Inr (length s)), ul_lessThan = (<), ul_load = (\<lambda>_. Inl ''no file''),
     ul_goos = ''linux'', ul_goarch = ''amd64''\<rparr>"

definition ex_release :: target_release where
  "ex_release = \<lparr>tr_Version = ''0.2.0'', tr_BaseUrl = ''https://x/'', tr_AutoUpgrade = True,
     tr_Platforms = [\<lparr>tp_OS = ''linux'', tp_Arch = ''arm'', tp_DebUrl = ''arm.deb'', tp_RpmUrl = []\<rparr>,
                     \<lparr>tp_OS = ''linux'', tp_Arch = ''amd64'', tp_DebUrl = ''pet.deb'', tp_RpmUrl = []\<rparr>]\<rparr>"

definition ex_tools :: pkg_tools where
  "ex_tools = \<lparr>hasDpkg = True, hasDnf = False\<rparr>"

theorem upgrades_once_to_last_witness:
  "n_trace (snd (ActuallyInstallThisReleaseNow (ex_env ex_missing ex_missing_body) ex_lib ex_tools ex_release ex_node))
     = [Ran [''sudo'', ''/opt/kube-pet-node/bin/node-upgrade.sh'', ''0.2.0'', ''Deb'', ''https://x/pet.deb'']]"
proof -
  let ?env = "ex_env ex_missing ex_missing_body"
  let ?s1 = "start_upgrade\<lparr>us_target := Some ex_release, us_timer := Some 5000000007\<rparr>"
  let ?n' = "snd (ActuallyInstallThisReleaseNow ?env ex_lib ex_tools ex_release ex_node)"
  have url: "GetOurBuildUrl ex_lib ex_tools ex_release = Some ''https://x/pet.deb''" by code_simp
  have "wants ex_lib ex_tools 0 (Some ex_release) = Some True" by code_simp
  then have "upgrade_step ?env ex_lib ex_tools 0 (start_upgrade, ex_node) (Received 7 (Some ex_release)) (?s1, ex_node)"
    by (intro step_receive) (simp_all add: receive_def start_upgrade_def)
  note s1 = this
  have s2: "upgrade_step ?env ex_lib ex_tools 0 (?s1, ex_node) (Fired 6000000000)
      (?s1\<lparr>us_installed := Some ex_release\<rparr>, ?n')"
    by (intro step_install [where deadline = 5000000007]) (simp_all add: start_upgrade_def)
  have "upgrade_run ?env ex_lib ex_tools 0 (start_upgrade, ex_node)
      (([] @ [Received 7 (Some ex_release)]) @ [Fired 6000000000]) (?s1\<lparr>us_installed := Some ex_release\<rparr>, ?n')"
    by (rule run_step [OF run_step [OF run_start s1] s2])
  from upgrades_once_to_last [OF this] url show ?thesis
    by (auto simp: SystemType_def ex_tools_def ex_release_def ex_node_def)
qed

text \<open>The same release on a host with \<^verbatim>\<open>dpkg-query\<close>, on one with \<^verbatim>\<open>dnf\<close>, and on one with both.\<close>

definition ex_two_packages :: target_release where
  "ex_two_packages = \<lparr>tr_Version = ''0.2.0'', tr_BaseUrl = ''https://x/'', tr_AutoUpgrade = True,
     tr_Platforms = [\<lparr>tp_OS = ''linux'', tp_Arch = ''amd64'', tp_DebUrl = ''pet.deb'', tp_RpmUrl = ''pet.rpm''\<rparr>]\<rparr>"

theorem build_url_is_first_match_witness:
  "GetOurBuildUrl ex_lib ex_tools ex_two_packages = Some ''https://x/pet.deb''
   \<and> GetOurBuildUrl ex_lib \<lparr>hasDpkg = False, hasDnf = True\<rparr> ex_two_packages = Some ''https://x/pet.rpm''
   \<and> GetOurBuildUrl ex_lib \<lparr>hasDpkg = True, hasDnf = True\<rparr> ex_two_packages = None"
  unfolding build_url_is_first_match
  by (simp add: ex_two_packages_def ex_lib_def ex_tools_def ours_def)

end
