(* ===== verification/Podman_Reports.thy ===== *)
theory Podman_Reports
  imports Podman_Api
begin

text \<open>
  The rest of \<^verbatim>\<open>pkg/podman\<close>: statistics (\<^verbatim>\<open>client-container.go\<close>, \<^verbatim>\<open>stats.go\<close>), networks
  (\<^verbatim>\<open>client-network.go\<close>), versions (\<^verbatim>\<open>client-system.go\<close>), images (\<^verbatim>\<open>client-image.go\<close>), the stream of
  events (\<^verbatim>\<open>client-events.go\<close>), the options of networks (\<^verbatim>\<open>shared.go\<close>) and the sessions of
  \<^verbatim>\<open>client-exec.go\<close>. A float is kept as its text.
\<close>

subsection \<open>Statistics\<close>

record ContainerStatsEntry =
  cs_ContainerID :: string
  cs_Name :: string
  cs_PerCPU :: "int list"
  cs_CPU :: string
  cs_CPUNano :: int
  cs_CPUSystemNano :: int
  cs_SystemNano :: int
  cs_MemUsage :: int
  cs_MemLimit :: int
  cs_MemPerc :: string
  cs_NetInput :: int
  cs_NetOutput :: int
  cs_BlockInput :: int
  cs_BlockOutput :: int
  cs_PIDs :: int

definition zero_ContainerStatsEntry :: ContainerStatsEntry where
  "zero_ContainerStatsEntry = \<lparr>cs_ContainerID = [], cs_Name = [], cs_PerCPU = [], cs_CPU = ''0'',
     cs_CPUNano = 0, cs_CPUSystemNano = 0, cs_SystemNano = 0, cs_MemUsage = 0, cs_MemLimit = 0,
     cs_MemPerc = ''0'', cs_NetInput = 0, cs_NetOutput = 0, cs_BlockInput = 0, cs_BlockOutput = 0, cs_PIDs = 0\<rparr>"

definition ContainerStatsEntry_decoder :: "ContainerStatsEntry decoder" where
  "ContainerStatsEntry_decoder = dec_struct
     [(''ContainerID'', dec_str (\<lambda>x s. s\<lparr>cs_ContainerID := x\<rparr>)),
      (''Name'', dec_str (\<lambda>x s. s\<lparr>cs_Name := x\<rparr>)),
      (''PerCPU'', dec_list plain_uint 0 (\<lambda>x s. s\<lparr>cs_PerCPU := x\<rparr>)),
      (''CPU'', dec_float (\<lambda>x s. s\<lparr>cs_CPU := x\<rparr>)),
      (''CPUNano'', dec_uint 64 (\<lambda>x s. s\<lparr>cs_CPUNano := x\<rparr>)),
      (''CPUSystemNano'', dec_uint 64 (\<lambda>x s. s\<lparr>cs_CPUSystemNano := x\<rparr>)),
      (''SystemNano'', dec_uint 64 (\<lambda>x s. s\<lparr>cs_SystemNano := x\<rparr>)),
      (''MemUsage'', dec_uint 64 (\<lambda>x s. s\<lparr>cs_MemUsage := x\<rparr>)),
      (''MemLimit'', dec_uint 64 (\<lambda>x s. s\<lparr>cs_MemLimit := x\<rparr>)),
      (''MemPerc'', dec_float (\<lambda>x s. s\<lparr>cs_MemPerc := x\<rparr>)),
      (''NetInput'', dec_uint 64 (\<lambda>x s. s\<lparr>cs_NetInput := x\<rparr>)),
      (''NetOutput'', dec_uint 64 (\<lambda>x s. s\<lparr>cs_NetOutput := x\<rparr>)),
      (''BlockInput'', dec_uint 64 (\<lambda>x s. s\<lparr>cs_BlockInput := x\<rparr>)),
      (''BlockOutput'', dec_uint 64 (\<lambda>x s. s\<lparr>cs_BlockOutput := x\<rparr>)),
      (''PIDs'', dec_uint 64 (\<lambda>x s. s\<lparr>cs_PIDs := x\<rparr>))]"

record ContainerStatsReport =
  csr_Error :: string
  csr_Stats :: "ContainerStatsEntry list"

definition zero_ContainerStatsReport :: ContainerStatsReport where
  "zero_ContainerStatsReport = \<lparr>csr_Error = [], csr_Stats = []\<rparr>"

definition ContainerStatsReport_decoder :: "ContainerStatsReport decoder" where
  "ContainerStatsReport_decoder = dec_struct
     [(''Error'', dec_str (\<lambda>x s. s\<lparr>csr_Error := x\<rparr>)),
      (''Stats'', dec_list ContainerStatsEntry_decoder zero_ContainerStatsEntry (\<lambda>x s. s\<lparr>csr_Stats := x\<rparr>))]"

definition ContainerStats :: "env \<Rightarrow> ContainerStatsReport outcome run" where
  "ContainerStats env =
     performGet env ''/libpod/containers/stats?stream=false'' ContainerStatsReport_decoder zero_ContainerStatsReport"

record PodStatsReport =
  psr_CPU :: string
  psr_MemUsage :: string
  psr_Mem :: string
  psr_NetIO :: string
  psr_BlockIO :: string
  psr_PIDS :: string
  psr_Pod :: string
  psr_CID :: string
  psr_Name :: string

definition zero_PodStatsReport :: PodStatsReport where
  "zero_PodStatsReport = \<lparr>psr_CPU = [], psr_MemUsage = [], psr_Mem = [], psr_NetIO = [],
     psr_BlockIO = [], psr_PIDS = [], psr_Pod = [], psr_CID = [], psr_Name = []\<rparr>"

definition PodStatsReport_decoder :: "PodStatsReport decoder" where
  "PodStatsReport_decoder = dec_struct
     [(''CPU'', dec_str (\<lambda>x s. s\<lparr>psr_CPU := x\<rparr>)),
      (''MemUsage'', dec_str (\<lambda>x s. s\<lparr>psr_MemUsage := x\<rparr>)),
      (''Mem'', dec_str (\<lambda>x s. s\<lparr>psr_Mem := x\<rparr>)),
      (''NetIO'', dec_str (\<lambda>x s. s\<lparr>psr_NetIO := x\<rparr>)),
      (''BlockIO'', dec_str (\<lambda>x s. s\<lparr>psr_BlockIO := x\<rparr>)),
      (''PIDS'', dec_str (\<lambda>x s. s\<lparr>psr_PIDS := x\<rparr>)),
      (''Pod'', dec_str (\<lambda>x s. s\<lparr>psr_Pod := x\<rparr>)),
      (''CID'', dec_str (\<lambda>x s. s\<lparr>psr_CID := x\<rparr>)),
      (''Name'', dec_str (\<lambda>x s. s\<lparr>psr_Name := x\<rparr>))]"

definition PodStats :: "env \<Rightarrow> PodStatsReport option list outcome run" where
  "PodStats env =
     performGet env ''/libpod/pods/stats'' (dec_pointers PodStatsReport_decoder zero_PodStatsReport) []"

subsection \<open>Networks\<close>

record NetworkIpamRange =
  nir_Gateway :: string
  nir_Subnet :: string
  nir_RangeStart :: string
  nir_RangeEnd :: string

definition zero_NetworkIpamRange :: NetworkIpamRange where
  "zero_NetworkIpamRange = \<lparr>nir_Gateway = [], nir_Subnet = [], nir_RangeStart = [], nir_RangeEnd = []\<rparr>"

definition NetworkIpamRange_decoder :: "NetworkIpamRange decoder" where
  "NetworkIpamRange_decoder = dec_struct
     [(''Gateway'', dec_str (\<lambda>x s. s\<lparr>nir_Gateway := x\<rparr>)),
      (''Subnet'', dec_str (\<lambda>x s. s\<lparr>nir_Subnet := x\<rparr>)),
      (''RangeStart'', dec_str (\<lambda>x s. s\<lparr>nir_RangeStart := x\<rparr>)),
      (''RangeEnd'', dec_str (\<lambda>x s. s\<lparr>nir_RangeEnd := x\<rparr>))]"

record NetworkIpamRoute =
  nrt_Dst :: string
  nrt_Gw :: string

definition zero_NetworkIpamRoute :: NetworkIpamRoute where
  "zero_NetworkIpamRoute = \<lparr>nrt_Dst = [], nrt_Gw = []\<rparr>"

definition NetworkIpamRoute_decoder :: "NetworkIpamRoute decoder" where
  "NetworkIpamRoute_decoder = dec_struct
     [(''Dst'', dec_str (\<lambda>x s. s\<lparr>nrt_Dst := x\<rparr>)),
      (''Gw'', dec_str (\<lambda>x s. s\<lparr>nrt_Gw := x\<rparr>))]"

record NetworkIpamInspect =
  nii_Type :: string
  nii_Subnet :: string
  nii_Ranges :: "NetworkIpamRange list list"
  nii_Routes :: "NetworkIpamRoute list"

definition zero_NetworkIpamInspect :: NetworkIpamInspect where
  "zero_NetworkIpamInspect = \<lparr>nii_Type = [], nii_Subnet = [], nii_Ranges = [], nii_Routes = []\<rparr>"

definition NetworkIpamInspect_decoder :: "NetworkIpamInspect decoder" where
  "NetworkIpamInspect_decoder = dec_struct
     [(''Type'', dec_str (\<lambda>x s. s\<lparr>nii_Type := x\<rparr>)),
      (''Subnet'', dec_str (\<lambda>x s. s\<lparr>nii_Subnet := x\<rparr>)),
      (''Ranges'', dec_list (dec_list NetworkIpamRange_decoder zero_NetworkIpamRange (\<lambda>xs _. xs)) [] (\<lambda>x s. s\<lparr>nii_Ranges := x\<rparr>)),
      (''Routes'', dec_list NetworkIpamRoute_decoder zero_NetworkIpamRoute (\<lambda>x s. s\<lparr>nii_Routes := x\<rparr>))]"

record NetworkPluginInspect =
  npi_Type :: string
  npi_Ipam :: "NetworkIpamInspect option"

definition zero_NetworkPluginInspect :: NetworkPluginInspect where
  "zero_NetworkPluginInspect = \<lparr>npi_Type = [], npi_Ipam = None\<rparr>"

definition NetworkPluginInspect_decoder :: "NetworkPluginInspect decoder" where
  "NetworkPluginInspect_decoder = dec_struct
     [(''Type'', dec_str (\<lambda>x s. s\<lparr>npi_Type := x\<rparr>)),
      (''Ipam'', dec_ptr NetworkIpamInspect_decoder zero_NetworkIpamInspect npi_Ipam (\<lambda>x s. s\<lparr>npi_Ipam := x\<rparr>))]"

record NetworkInspectReport =
  nin_Name :: string
  nin_CNIVersion :: string
  nin_DisableCheck :: bool
  nin_Plugins :: "NetworkPluginInspect list"

definition zero_NetworkInspectReport :: NetworkInspectReport where
  "zero_NetworkInspectReport = \<lparr>nin_Name = [], nin_CNIVersion = [], nin_DisableCheck = False,
     nin_Plugins = []\<rparr>"

definition NetworkInspectReport_decoder :: "NetworkInspectReport decoder" where
  "NetworkInspectReport_decoder = dec_struct
     [(''Name'', dec_str (\<lambda>x s. s\<lparr>nin_Name := x\<rparr>)),
      (''CNIVersion'', dec_str (\<lambda>x s. s\<lparr>nin_CNIVersion := x\<rparr>)),
      (''DisableCheck'', dec_bool (\<lambda>x s. s\<lparr>nin_DisableCheck := x\<rparr>)),
      (''Plugins'', dec_list NetworkPluginInspect_decoder zero_NetworkPluginInspect (\<lambda>x s. s\<lparr>nin_Plugins := x\<rparr>))]"

definition NetworkInspect :: "env \<Rightarrow> string \<Rightarrow> NetworkInspectReport option list outcome run" where
  "NetworkInspect env nameOrId = named nameOrId [] (\<lambda>encoded.
     performGet env (''/libpod/networks/'' @ encoded @ ''/json'')
       (dec_pointers NetworkInspectReport_decoder zero_NetworkInspectReport) [])"

text \<open>A slice of bytes is kept as the text that encodes it, an \<^verbatim>\<open>interface{}\<close> as the value itself.\<close>

record NetworkConfig =
  ncf_Network :: "(string \<times> json) list"
  ncf_Bytes :: string

definition zero_NetworkConfig :: NetworkConfig where
  "zero_NetworkConfig = \<lparr>ncf_Network = [], ncf_Bytes = []\<rparr>"

definition NetworkConfig_decoder :: "NetworkConfig decoder" where
  "NetworkConfig_decoder = dec_struct
     [(''Network'', dec_map (\<lambda>j _. (j, True)) JNull ncf_Network (\<lambda>x s. s\<lparr>ncf_Network := x\<rparr>)),
      (''Bytes'', dec_str (\<lambda>x s. s\<lparr>ncf_Bytes := x\<rparr>))]"

record NetworkConfigList =
  ncl_Name :: string
  ncl_CNIVersion :: string
  ncl_DisableCheck :: bool
  ncl_Plugins :: "NetworkConfig option list"
  ncl_Bytes :: string

definition zero_NetworkConfigList :: NetworkConfigList where
  "zero_NetworkConfigList = \<lparr>ncl_Name = [], ncl_CNIVersion = [], ncl_DisableCheck = False,
     ncl_Plugins = [], ncl_Bytes = []\<rparr>"

definition NetworkConfigList_decoder :: "NetworkConfigList decoder" where
  "NetworkConfigList_decoder = dec_struct
     [(''Name'', dec_str (\<lambda>x s. s\<lparr>ncl_Name := x\<rparr>)),
      (''CNIVersion'', dec_str (\<lambda>x s. s\<lparr>ncl_CNIVersion := x\<rparr>)),
      (''DisableCheck'', dec_bool (\<lambda>x s. s\<lparr>ncl_DisableCheck := x\<rparr>)),
      (''Plugins'', (\<lambda>j s. case dec_pointers NetworkConfig_decoder zero_NetworkConfig j [] of (x, ok) \<Rightarrow> (s\<lparr>ncl_Plugins := x\<rparr>, ok))),
      (''Bytes'', dec_str (\<lambda>x s. s\<lparr>ncl_Bytes := x\<rparr>))]"

definition NetworkList :: "env \<Rightarrow> NetworkConfigList option list outcome run" where
  "NetworkList env =
     performGet env ''/libpod/networks/json'' (dec_pointers NetworkConfigList_decoder zero_NetworkConfigList) []"

subsection \<open>Versions\<close>

record DockerVersionPlatform =
  dvp_Name :: string

definition zero_DockerVersionPlatform :: DockerVersionPlatform where
  "zero_DockerVersionPlatform = \<lparr>dvp_Name = []\<rparr>"

definition DockerVersionPlatform_decoder :: "DockerVersionPlatform decoder" where
  "DockerVersionPlatform_decoder = dec_struct
     [(''Name'', dec_str (\<lambda>x s. s\<lparr>dvp_Name := x\<rparr>))]"

record DockerVersionComponent =
  dvc_Name :: string
  dvc_Version :: string
  dvc_Details :: smap

definition zero_DockerVersionComponent :: DockerVersionComponent where
  "zero_DockerVersionComponent = \<lparr>dvc_Name = [], dvc_Version = [], dvc_Details = []\<rparr>"

definition DockerVersionComponent_decoder :: "DockerVersionComponent decoder" where
  "DockerVersionComponent_decoder = dec_struct
     [(''Name'', dec_str (\<lambda>x s. s\<lparr>dvc_Name := x\<rparr>)),
      (''Version'', dec_str (\<lambda>x s. s\<lparr>dvc_Version := x\<rparr>)),
      (''Details'', dec_map plain_str [] dvc_Details (\<lambda>x s. s\<lparr>dvc_Details := x\<rparr>))]"

record DockerVersionReport =
  dv_Platform :: DockerVersionPlatform
  dv_Components :: "DockerVersionComponent list"
  dv_APIVersion :: string
  dv_Arch :: string
  dv_BuildTime :: string
  dv_Experimental :: bool
  dv_GitCommit :: string
  dv_GoVersion :: string
  dv_KernelVersion :: string
  dv_MinAPIVersion :: string
  dv_Os :: string
  dv_Version :: string

definition zero_DockerVersionReport :: DockerVersionReport where
  "zero_DockerVersionReport = \<lparr>dv_Platform = zero_DockerVersionPlatform, dv_Components = [],
     dv_APIVersion = [], dv_Arch = [], dv_BuildTime = [], dv_Experimental = False, dv_GitCommit = [],
     dv_GoVersion = [], dv_KernelVersion = [], dv_MinAPIVersion = [], dv_Os = [], dv_Version = []\<rparr>"

definition DockerVersionReport_decoder :: "DockerVersionReport decoder" where
  "DockerVersionReport_decoder = dec_struct
     [(''Platform'', (\<lambda>j s. case DockerVersionPlatform_decoder j (dv_Platform s) of (x, ok) \<Rightarrow> (s\<lparr>dv_Platform := x\<rparr>, ok))),
      (''Components'', dec_list DockerVersionComponent_decoder zero_DockerVersionComponent (\<lambda>x s. s\<lparr>dv_Components := x\<rparr>)),
      (''APIVersion'', dec_str (\<lambda>x s. s\<lparr>dv_APIVersion := x\<rparr>)),
      (''Arch'', dec_str (\<lambda>x s. s\<lparr>dv_Arch := x\<rparr>)),
      (''BuildTime'', dec_str (\<lambda>x s. s\<lparr>dv_BuildTime := x\<rparr>)),
      (''Experimental'', dec_bool (\<lambda>x s. s\<lparr>dv_Experimental := x\<rparr>)),
      (''GitCommit'', dec_str (\<lambda>x s. s\<lparr>dv_GitCommit := x\<rparr>)),
      (''GoVersion'', dec_str (\<lambda>x s. s\<lparr>dv_GoVersion := x\<rparr>)),
      (''KernelVersion'', dec_str (\<lambda>x s. s\<lparr>dv_KernelVersion := x\<rparr>)),
      (''MinAPIVersion'', dec_str (\<lambda>x s. s\<lparr>dv_MinAPIVersion := x\<rparr>)),
      (''Os'', dec_str (\<lambda>x s. s\<lparr>dv_Os := x\<rparr>)),
      (''Version'', dec_str (\<lambda>x s. s\<lparr>dv_Version := x\<rparr>))]"

definition Version :: "env \<Rightarrow> DockerVersionReport outcome run" where
  "Version env = performGet env ''/libpod/version'' DockerVersionReport_decoder zero_DockerVersionReport"

subsection \<open>Images\<close>

record ImageSummary =
  ims_ID :: string
  ims_ParentId :: string
  ims_RepoTags :: "string list"
  ims_Created :: string
  ims_Size :: int
  ims_SharedSize :: int
  ims_VirtualSize :: int
  ims_Labels :: smap
  ims_Containers :: int
  ims_ReadOnly :: bool
  ims_Dangling :: bool
  ims_Names :: "string list"
  ims_Digest :: string
  ims_Digests :: "string list"
  ims_ConfigDigest :: string
  ims_History :: "string list"

definition zero_ImageSummary :: ImageSummary where
  "zero_ImageSummary = \<lparr>ims_ID = [], ims_ParentId = [], ims_RepoTags = [], ims_Created = [],
     ims_Size = 0, ims_SharedSize = 0, ims_VirtualSize = 0, ims_Labels = [], ims_Containers = 0,
     ims_ReadOnly = False, ims_Dangling = False, ims_Names = [], ims_Digest = [], ims_Digests = [],
     ims_ConfigDigest = [], ims_History = []\<rparr>"

definition ImageSummary_decoder :: "ImageSummary decoder" where
  "ImageSummary_decoder = dec_struct
     [(''Id'', dec_str (\<lambda>x s. s\<lparr>ims_ID := x\<rparr>)),
      (''ParentId'', dec_str (\<lambda>x s. s\<lparr>ims_ParentId := x\<rparr>)),
      (''RepoTags'', dec_list plain_str [] (\<lambda>x s. s\<lparr>ims_RepoTags := x\<rparr>)),
      (''Created'', dec_str (\<lambda>x s. s\<lparr>ims_Created := x\<rparr>)),
      (''Size'', dec_int 64 (\<lambda>x s. s\<lparr>ims_Size := x\<rparr>)),
      (''SharedSize'', dec_int 64 (\<lambda>x s. s\<lparr>ims_SharedSize := x\<rparr>)),
      (''VirtualSize'', dec_int 64 (\<lambda>x s. s\<lparr>ims_VirtualSize := x\<rparr>)),
      (''Labels'', dec_map plain_str [] ims_Labels (\<lambda>x s. s\<lparr>ims_Labels := x\<rparr>)),
      (''Containers'', dec_int 64 (\<lambda>x s. s\<lparr>ims_Containers := x\<rparr>)),
      (''ReadOnly'', dec_bool (\<lambda>x s. s\<lparr>ims_ReadOnly := x\<rparr>)),
      (''Dangling'', dec_bool (\<lambda>x s. s\<lparr>ims_Dangling := x\<rparr>)),
      (''Names'', dec_list plain_str [] (\<lambda>x s. s\<lparr>ims_Names := x\<rparr>)),
      (''Digest'', dec_str (\<lambda>x s. s\<lparr>ims_Digest := x\<rparr>)),
      (''Digests'', dec_list plain_str [] (\<lambda>x s. s\<lparr>ims_Digests := x\<rparr>)),
      (''ConfigDigest'', dec_str (\<lambda>x s. s\<lparr>ims_ConfigDigest := x\<rparr>)),
      (''History'', dec_list plain_str [] (\<lambda>x s. s\<lparr>ims_History := x\<rparr>))]"

definition ImageList :: "env \<Rightarrow> ImageSummary list outcome run" where
  "ImageList env =
     performGet env ''/libpod/images/json'' (dec_list ImageSummary_decoder zero_ImageSummary (\<lambda>xs _. xs)) []"

subsection \<open>Events\<close>

record EventActor =
  eva_ID :: string
  eva_Attributes :: smap

definition zero_EventActor :: EventActor where
  "zero_EventActor = \<lparr>eva_ID = [], eva_Attributes = []\<rparr>"

definition EventActor_decoder :: "EventActor decoder" where
  "EventActor_decoder = dec_struct
     [(''ID'', dec_str (\<lambda>x s. s\<lparr>eva_ID := x\<rparr>)),
      (''Attributes'', dec_map plain_str [] eva_Attributes (\<lambda>x s. s\<lparr>eva_Attributes := x\<rparr>))]"

record Event =
  evt_Status :: string
  evt_ID :: string
  evt_From :: string
  evt_Type :: string
  evt_Action :: string
  evt_Actor :: EventActor
  evt_Scope :: string
  evt_Time :: int
  evt_TimeNano :: int

definition zero_Event :: Event where
  "zero_Event = \<lparr>evt_Status = [], evt_ID = [], evt_From = [], evt_Type = [], evt_Action = [],
     evt_Actor = zero_EventActor, evt_Scope = [], evt_Time = 0, evt_TimeNano = 0\<rparr>"

definition Event_decoder :: "Event decoder" where
  "Event_decoder = dec_struct
     [(''status'', dec_str (\<lambda>x s. s\<lparr>evt_Status := x\<rparr>)),
      (''id'', dec_str (\<lambda>x s. s\<lparr>evt_ID := x\<rparr>)),
      (''from'', dec_str (\<lambda>x s. s\<lparr>evt_From := x\<rparr>)),
      (''Type'', dec_str (\<lambda>x s. s\<lparr>evt_Type := x\<rparr>)),
      (''Action'', dec_str (\<lambda>x s. s\<lparr>evt_Action := x\<rparr>)),
      (''Actor'', (\<lambda>j s. case EventActor_decoder j (evt_Actor s) of (x, ok) \<Rightarrow> (s\<lparr>evt_Actor := x\<rparr>, ok))),
      (''scope'', dec_str (\<lambda>x s. s\<lparr>evt_Scope := x\<rparr>)),
      (''time'', dec_int 64 (\<lambda>x s. s\<lparr>evt_Time := x\<rparr>)),
      (''timeNano'', dec_int 64 (\<lambda>x s. s\<lparr>evt_TimeNano := x\<rparr>))]"

text \<open>The lines of the stream up to the first that does not decode.\<close>

fun event_lines :: "env \<Rightarrow> string list \<Rightarrow> Event list" where
  "event_lines env [] = []"
| "event_lines env (chunk # chunks) =
     (case decode_into (env_unmarshal env chunk) Event_decoder zero_Event of
        (event, None) \<Rightarrow> event # event_lines env chunks
      | (_, Some e) \<Rightarrow> [])"

definition StreamEvents :: "env \<Rightarrow> Event list run" where
  "StreamEvents env =
     bindR (performRawRequest env ''GET'' ''/libpod/events'') (\<lambda>resp.
       ret (event_lines env (scan_lines (rs_body resp))))"

subsection \<open>Sessions\<close>

record ExecProcessConfig =
  epc_Arguments :: "string list"
  epc_Entrypoint :: string
  epc_Privileged :: bool
  epc_Tty :: bool
  epc_User :: string

definition zero_ExecProcessConfig :: ExecProcessConfig where
  "zero_ExecProcessConfig = \<lparr>epc_Arguments = [], epc_Entrypoint = [], epc_Privileged = False,
     epc_Tty = False, epc_User = []\<rparr>"

definition ExecProcessConfig_decoder :: "ExecProcessConfig decoder" where
  "ExecProcessConfig_decoder = dec_struct
     [(''arguments'', dec_list plain_str [] (\<lambda>x s. s\<lparr>epc_Arguments := x\<rparr>)),
      (''entrypoint'', dec_str (\<lambda>x s. s\<lparr>epc_Entrypoint := x\<rparr>)),
      (''privileged'', dec_bool (\<lambda>x s. s\<lparr>epc_Privileged := x\<rparr>)),
      (''tty'', dec_bool (\<lambda>x s. s\<lparr>epc_Tty := x\<rparr>)),
      (''user'', dec_str (\<lambda>x s. s\<lparr>epc_User := x\<rparr>))]"

record ExecInspectResult =
  eir_CanRemove :: bool
  eir_ContainerID :: string
  eir_DetachKeys :: string
  eir_ExitCode :: int
  eir_ID :: string
  eir_OpenStderr :: bool
  eir_OpenStdin :: bool
  eir_OpenStdout :: bool
  eir_Running :: bool
  eir_Pid :: int
  eir_ProcessConfig :: "ExecProcessConfig option"

definition zero_ExecInspectResult :: ExecInspectResult where
  "zero_ExecInspectResult = \<lparr>eir_CanRemove = False, eir_ContainerID = [], eir_DetachKeys = [],
     eir_ExitCode = 0, eir_ID = [], eir_OpenStderr = False, eir_OpenStdin = False, eir_OpenStdout = False,
     eir_Running = False, eir_Pid = 0, eir_ProcessConfig = None\<rparr>"

definition ExecInspectResult_decoder :: "ExecInspectResult decoder" where
  "ExecInspectResult_decoder = dec_struct
     [(''CanRemove'', dec_bool (\<lambda>x s. s\<lparr>eir_CanRemove := x\<rparr>)),
      (''ContainerID'', dec_str (\<lambda>x s. s\<lparr>eir_ContainerID := x\<rparr>)),
      (''DetachKeys'', dec_str (\<lambda>x s. s\<lparr>eir_DetachKeys := x\<rparr>)),
      (''ExitCode'', dec_int 64 (\<lambda>x s. s\<lparr>eir_ExitCode := x\<rparr>)),
      (''ID'', dec_str (\<lambda>x s. s\<lparr>eir_ID := x\<rparr>)),
      (''OpenStderr'', dec_bool (\<lambda>x s. s\<lparr>eir_OpenStderr := x\<rparr>)),
      (''OpenStdin'', dec_bool (\<lambda>x s. s\<lparr>eir_OpenStdin := x\<rparr>)),
      (''OpenStdout'', dec_bool (\<lambda>x s. s\<lparr>eir_OpenStdout := x\<rparr>)),
      (''Running'', dec_bool (\<lambda>x s. s\<lparr>eir_Running := x\<rparr>)),
      (''Pid'', dec_int 64 (\<lambda>x s. s\<lparr>eir_Pid := x\<rparr>)),
      (''ProcessConfig'', dec_ptr ExecProcessConfig_decoder zero_ExecProcessConfig eir_ProcessConfig (\<lambda>x s. s\<lparr>eir_ProcessConfig := x\<rparr>))]"

definition ExecInspect :: "env \<Rightarrow> ExecSession \<Rightarrow> ExecInspectResult outcome run" where
  "ExecInspect env es =
     performGet env (''/libpod/exec/'' @ es_Id es @ ''/json'') ExecInspectResult_decoder zero_ExecInspectResult"

text \<open>The headers are set before the error of the construction is looked at, on a request that is nil
  then. The connection is the answer's body; it is also the writer of the input after an upgrade.\<close>

definition start_headers :: smap where
  "start_headers = [(''content-type'', ''application/json''), (''connection'', ''upgrade''), (''upgrade'', ''tcp'')]"

definition ExecStart :: "env \<Rightarrow> ExecSession \<Rightarrow> (bool \<times> string) run" where
  "ExecStart env es =
     bindR (derefR (new_request ''POST'' (''/libpod/exec/'' @ es_Id es @ ''/start'') start_headers (Some (JObj [])))) (\<lambda>req.
     bindR (performRequest env req) (\<lambda>resp.
       ret (rs_code resp = 101, rs_body resp)))"

subsection \<open>Percentages and sizes\<close>

text \<open>Parameters: \<^verbatim>\<open>strconv.ParseFloat\<close>, \<^verbatim>\<open>units.FromHumanSize\<close> (in bytes, or nothing for a text it does
  not read). A product of floats is another parameter. An empty text panics.\<close>

record units_lib =
  un_float :: "string \<Rightarrow> string \<times> string option"
  un_times100 :: "string \<Rightarrow> string"
  un_human :: "string \<Rightarrow> string + int"

definition readPercentString :: "units_lib \<Rightarrow> string \<Rightarrow> (string \<times> string option) run" where
  "readPercentString lib encoded =
     (case encoded of
        [] \<Rightarrow> panicR
      | c # _ \<Rightarrow>
          if c = CHR ''-'' then ret (''0'', None)
          else case un_float lib (trim_suffix encoded ''%'') of (f, err) \<Rightarrow> ret (un_times100 lib f, err))"

definition ReadCpuPercent :: "units_lib \<Rightarrow> PodStatsReport \<Rightarrow> (string \<times> string option) run" where
  "ReadCpuPercent lib psr = readPercentString lib (psr_CPU psr)"

definition ReadMemPerecent :: "units_lib \<Rightarrow> PodStatsReport \<Rightarrow> (string \<times> string option) run" where
  "ReadMemPerecent lib psr = readPercentString lib (psr_Mem psr)"

text \<open>An \<open>i\<close> is put before the last character; an empty text panics.\<close>

definition fromHumanBinarySize :: "units_lib \<Rightarrow> string \<Rightarrow> int run" where
  "fromHumanBinarySize lib size' =
     (if size' = [] then panicR
      else liftE (case un_human lib (butlast size' @ ''i'' @ [last size']) of
                    Inl e \<Rightarrow> Inl (PlainErr e) | Inr n \<Rightarrow> Inr n))"

text \<open>\<^verbatim>\<open>strings.Split(s, " / ")\<close>.\<close>

fun split_slash :: "string \<Rightarrow> string \<Rightarrow> string list" where
  "split_slash acc [] = [rev acc]"
| "split_slash acc (c # cs) =
     (if has_prefix (c # cs) '' / '' then rev acc # split_slash [] (drop 2 cs) else split_slash (c # acc) cs)"

definition splitHumanValues :: "units_lib \<Rightarrow> string \<Rightarrow> (u64 \<times> u64) run" where
  "splitHumanValues lib combined =
     (case combined of
        [] \<Rightarrow> panicR
      | c # _ \<Rightarrow>
          if c = CHR ''-'' then ret (0, 0)
          else let parts = split_slash [] combined
               in bindR (fromHumanBinarySize lib (hd parts)) (\<lambda>left.
                  bindR (derefR (case parts of _ # p # _ \<Rightarrow> Some p | _ \<Rightarrow> None)) (\<lambda>p.
                  bindR (fromHumanBinarySize lib p) (\<lambda>right.
                    ret (of_int left, of_int right)))))"

definition ReadMemUsage :: "units_lib \<Rightarrow> PodStatsReport \<Rightarrow> (u64 \<times> u64) run" where
  "ReadMemUsage lib psr = splitHumanValues lib (psr_MemUsage psr)"

definition ReadNetIO :: "units_lib \<Rightarrow> PodStatsReport \<Rightarrow> (u64 \<times> u64) run" where
  "ReadNetIO lib psr = splitHumanValues lib (psr_NetIO psr)"

definition ReadBlockIO :: "units_lib \<Rightarrow> PodStatsReport \<Rightarrow> (u64 \<times> u64) run" where
  "ReadBlockIO lib psr = splitHumanValues lib (psr_BlockIO psr)"

text \<open>\<^verbatim>\<open>strconv.ParseUint(s, 10, 32)\<close>.\<close>

definition parse_uint32 :: "string \<Rightarrow> string + u64" where
  "parse_uint32 s =
     (if s = [] \<or> \<not> list_all is_digit s then Inl (''strconv.ParseUint: parsing '' @ s @ '': invalid syntax'')
      else let n = foldl (\<lambda>n c. n * 10 + digit_val c) 0 s
           in if n \<ge> 2 ^ 32 then Inl (''strconv.ParseUint: parsing '' @ s @ '': value out of range'')
              else Inr (of_nat n))"

definition ReadPids :: "units_lib \<Rightarrow> PodStatsReport \<Rightarrow> u64 run" where
  "ReadPids lib psr =
     (case psr_PIDS psr of
        [] \<Rightarrow> panicR
      | c # _ \<Rightarrow> if c = CHR ''-'' then ret 0
                 else liftE (case parse_uint32 (psr_PIDS psr) of Inl e \<Rightarrow> Inl (PlainErr e) | Inr n \<Rightarrow> Inr n))"

end
