(* ===== verification/Go_Float.thy ===== *)
theory Go_Float
  imports Pet_Prelude "HOL-Library.Log_Nat"
begin

text \<open>
  The part of Go's \<^verbatim>\<open>float64\<close> that the statistics use: values that are not negative, as rational
  numbers. \<open>f64\<close> rounds an exact result to 53 significant bits, to even on a tie, as IEEE 754
  does within the range of the exponents. That range is not modelled: the numbers here lie between
  \<open>2 powi (-64)\<close> and \<open>2 ^ 96\<close>. A conversion to \<^verbatim>\<open>uint64\<close> drops the fraction; of a number that
  does not fit, the result depends on the machine and is a parameter.
\<close>

definition round_even :: "rat \<Rightarrow> int" where
  "round_even q =
     (let f = \<lfloor>q\<rfloor>; d = q - of_int f
      in if d < 1 / 2 \<or> (d = 1 / 2 \<and> even f) then f else f + 1)"

text \<open>The exponent of a positive number: the difference of the lengths of numerator and denominator,
  or one less.\<close>

definition exponent :: "rat \<Rightarrow> int" where
  "exponent q =
     (case quotient_of q of
        (a, b) \<Rightarrow>
          let e = int (floorlog 2 (nat a)) - int (floorlog 2 (nat b))
          in if 2 powi e \<le> q then e else e - 1)"

definition f64 :: "rat \<Rightarrow> rat" where
  "f64 q =
     (if q = 0 then 0
      else let unit' = 2 powi (exponent q - 52) in of_int (round_even (q / unit')) * unit')"

definition to_uint64 :: "(rat \<Rightarrow> u64) \<Rightarrow> rat \<Rightarrow> u64" where
  "to_uint64 outside q = (if q < 2 ^ 64 then of_int \<lfloor>q\<rfloor> else outside q)"

definition of_uint64 :: "u64 \<Rightarrow> rat" where
  "of_uint64 w = f64 (of_nat (unat w))"

subsection \<open>Rounding\<close>

lemma round_even_near: "\<bar>of_int (round_even q) - q\<bar> \<le> 1 / 2"
proof -
  have "of_int \<lfloor>q\<rfloor> \<le> q" "q < of_int \<lfloor>q\<rfloor> + 1" by linarith+
  then show ?thesis by (auto simp: round_even_def Let_def abs_le_iff)
qed

lemma exponent_bounds:
  assumes "0 < q"
  shows "2 powi exponent q \<le> q" "q < 2 powi (exponent q + 1)"
proof -
  obtain a b where ab: "quotient_of q = (a, b)" by (cases "quotient_of q")
  then have b: "0 < b" and q: "q = of_int a / of_int b"
    by (auto dest: quotient_of_denom_pos quotient_of_div)
  with assms have a: "0 < a" by (simp add: zero_less_divide_iff)
  define m n where "m = floorlog 2 (nat a)" and "n = floorlog 2 (nat b)"
  have bits: "1 \<le> floorlog 2 k" if "0 < k" for k :: nat
    using that floorlog_eq_zero_iff [of 2 k] by (simp add: Suc_le_eq)
  have m: "1 \<le> m" "2 ^ (m - 1) \<le> nat a" "nat a < 2 ^ m"
    using floorlog_bounds [of "nat a" 2] bits [of "nat a"] a by (simp_all add: m_def)
  have n: "1 \<le> n" "2 ^ (n - 1) \<le> nat b" "nat b < 2 ^ n"
    using floorlog_bounds [of "nat b" 2] bits [of "nat b"] b by (simp_all add: n_def)
  define A B where "A = (of_int a :: rat)" and "B = (of_int b :: rat)"
  have nat_rat: "of_int k = (of_nat (nat k) :: rat)" if "0 < k" for k
    using that by simp
  have A: "2 powi (int m - 1) \<le> A" "A < 2 powi int m"
  proof -
    have "(of_nat (2 ^ (m - 1)) :: rat) \<le> of_nat (nat a)" "(of_nat (nat a) :: rat) < of_nat (2 ^ m)"
      using m(2,3) by (simp_all only: of_nat_le_iff of_nat_less_iff)
    with m(1) show "2 powi (int m - 1) \<le> A" "A < 2 powi int m"
      unfolding A_def nat_rat [OF a] by (simp_all add: power_int_def nat_diff_distrib)
  qed
  have B: "2 powi (int n - 1) \<le> B" "B < 2 powi int n"
  proof -
    have "(of_nat (2 ^ (n - 1)) :: rat) \<le> of_nat (nat b)" "(of_nat (nat b) :: rat) < of_nat (2 ^ n)"
      using n(2,3) by (simp_all only: of_nat_le_iff of_nat_less_iff)
    with n(1) show "2 powi (int n - 1) \<le> B" "B < 2 powi int n"
      unfolding B_def nat_rat [OF b] by (simp_all add: power_int_def nat_diff_distrib)
  qed
  have pos: "0 < B" using b by (simp add: B_def)
  have qAB: "q = A / B" using q by (simp add: A_def B_def)
  have upper: "q < 2 powi (int m - int n + 1)"
  proof -
    have "A < 2 powi (int m - int n + 1) * 2 powi (int n - 1)"
      using A(2) by (simp add: power_int_add [symmetric])
    also have "\<dots> \<le> 2 powi (int m - int n + 1) * B" using B(1) by simp
    finally show ?thesis using pos by (simp add: qAB pos_divide_less_eq)
  qed
  have lower: "2 powi (int m - int n - 1) \<le> q"
  proof -
    have "2 powi (int m - int n - 1) * B \<le> 2 powi (int m - int n - 1) * 2 powi int n" using B(2) by simp
    also have "\<dots> = 2 powi ((int m - int n - 1) + int n)" by (subst power_int_add) simp_all
    also have "\<dots> = 2 powi (int m - 1)" by (rule arg_cong [of _ _ "\<lambda>k. 2 powi k"]) simp
    also have "\<dots> \<le> A" by (rule A(1))
    finally show ?thesis using pos by (simp add: qAB pos_le_divide_eq)
  qed
  have e: "exponent q = (if 2 powi (int m - int n) \<le> q then int m - int n else int m - int n - 1)"
    by (simp add: exponent_def ab Let_def m_def n_def)
  show "2 powi exponent q \<le> q" using lower by (simp add: e)
  show "q < 2 powi (exponent q + 1)" using upper by (simp add: e not_le)
qed

text \<open>The relative error of rounding.\<close>

definition ulp :: rat where "ulp = 1 / 2 ^ 53"

lemma f64_error:
  assumes "0 \<le> q"
  shows "\<bar>f64 q - q\<bar> \<le> q * ulp"
proof (cases "q = 0")
  case False
  with assms have q: "0 < q" by simp
  define u where "u = (2 :: rat) powi (exponent q - 52)"
  have u: "0 < u" by (simp add: u_def)
  have "f64 q - q = (of_int (round_even (q / u)) - q / u) * u"
    using False u by (simp add: f64_def Let_def u_def [symmetric] left_diff_distrib)
  then have "\<bar>f64 q - q\<bar> \<le> 1 / 2 * u"
    using mult_right_mono [OF round_even_near [of "q / u"], of u] u by (simp add: abs_mult)
  also have "1 / 2 * u = 2 powi exponent q * ulp"
    by (simp add: u_def ulp_def power_int_diff)
  also have "\<dots> \<le> q * ulp"
    using exponent_bounds(1) [OF q] by (intro mult_right_mono) (simp_all add: ulp_def)
  finally show ?thesis .
qed (simp add: f64_def)

lemma f64_nonneg: "0 \<le> q \<Longrightarrow> 0 \<le> f64 q"
proof -
  assume "0 \<le> q"
  then have "q * ulp \<le> q * 1" by (intro mult_left_mono) (simp_all add: ulp_def)
  with f64_error [OF \<open>0 \<le> q\<close>] show ?thesis by linarith
qed

lemma f64_pos: "0 < q \<Longrightarrow> 0 < f64 q"
proof -
  assume "0 < q"
  then have "q * ulp < q * 1" by (intro mult_strict_left_mono) (simp_all add: ulp_def)
  with f64_error [of q] \<open>0 < q\<close> show ?thesis by linarith
qed

lemma f64_zero [simp]: "f64 0 = 0"
  by (simp add: f64_def)

text \<open>Errors of a sequence of operations. A number \<open>y\<close> is within \<open>d\<close> of \<open>x\<close>, relatively.\<close>

definition near :: "rat \<Rightarrow> rat \<Rightarrow> rat \<Rightarrow> bool" where
  "near d x y \<longleftrightarrow> x * (1 - d) \<le> y \<and> y \<le> x * (1 + d)"

lemma near_f64:
  assumes "near d x y" "0 \<le> x" "0 \<le> d" "d \<le> 1"
  shows "near (d + 2 * ulp) x (f64 y)"
proof -
  have y: "x * (1 - d) \<le> y" "y \<le> x * (1 + d)" using assms(1) by (simp_all add: near_def)
  have "0 \<le> x * (1 - d)" using assms(2,4) by simp
  with y have y0: "0 \<le> y" by linarith
  have "y * ulp \<le> x * (1 + d) * ulp" using y(2) by (intro mult_right_mono) (simp_all add: ulp_def)
  also have "\<dots> \<le> x * 2 * ulp"
    using assms(2,4) by (intro mult_right_mono mult_left_mono) (simp_all add: ulp_def)
  finally have "\<bar>f64 y - y\<bar> \<le> x * (2 * ulp)" using f64_error [OF y0] by (simp add: mult.assoc)
  with y have "x * (1 - d) - x * (2 * ulp) \<le> f64 y" "f64 y \<le> x * (1 + d) + x * (2 * ulp)"
    by linarith+
  then show ?thesis by (simp add: near_def algebra_simps)
qed

lemma near_scale: "near d x y \<Longrightarrow> 0 \<le> c \<Longrightarrow> near d (x * c) (y * c)"
  using mult_right_mono [of "x * (1 - d)" y c] mult_right_mono [of y "x * (1 + d)" c]
  by (simp add: near_def mult_ac)

lemma near_start: "0 \<le> x \<Longrightarrow> near ulp x (f64 x)"
  using f64_error [of x] by (simp add: near_def algebra_simps abs_le_iff)

text \<open>The quotient of two rounded numbers.\<close>

lemma near_quotient:
  assumes "near ulp a A" "near ulp b B" "0 \<le> a" "0 < b"
  shows "near (4 * ulp) (a / b) (A / B)"
proof -
  have A: "a * (1 - ulp) \<le> A" "A \<le> a * (1 + ulp)" and B: "b * (1 - ulp) \<le> B" "B \<le> b * (1 + ulp)"
    using assms(1,2) by (simp_all add: near_def)
  have u: "0 < ulp" "ulp < 1 / 4" "0 < 1 - ulp" by (simp_all add: ulp_def)
  have b0: "0 < b * (1 - ulp)" using assms(4) u by simp
  have B0: "0 < B" using b0 B(1) by linarith
  have A0: "0 \<le> A" using A(1) assms(3) u by (meson mult_nonneg_nonneg less_imp_le order_trans)
  have "A / B \<le> (a * (1 + ulp)) / (b * (1 - ulp))"
    using A(2) B(1) b0 A0 by (intro frac_le) simp_all
  also have "\<dots> = (a / b) * ((1 + ulp) / (1 - ulp))" by simp
  also have "\<dots> \<le> (a / b) * (1 + 4 * ulp)"
    using assms(3,4) u by (intro mult_left_mono) (simp_all add: ulp_def)
  finally have up: "A / B \<le> (a / b) * (1 + 4 * ulp)" .
  have "(a / b) * (1 - 4 * ulp) \<le> (a / b) * ((1 - ulp) / (1 + ulp))"
    using assms(3,4) by (intro mult_left_mono) (simp_all add: ulp_def)
  also have "\<dots> = (a * (1 - ulp)) / (b * (1 + ulp))" by simp
  also have "\<dots> \<le> A / B"
    using A(1) B B0 A0 by (intro frac_le) simp_all
  finally show ?thesis using up by (simp add: near_def)
qed

end
