(* ===== verification/Kube_Stats.thy ===== *)
theory Kube_Stats
  imports Pod_Manager Podman_Reports Go_Float
begin

text \<open>
  The statistics of \<^verbatim>\<open>controllers/kubeapi/api-stats.go\<close>, with \<open>GetAllStats\<close> of
  \<^verbatim>\<open>controllers/pods/manager.go\<close>: what podman reports about the containers, put together for each pod,
  and the counters of the host. The readings of the last request are the state. Times are
  nanoseconds; a counter is a \<^verbatim>\<open>uint64\<close> that wraps. What the libraries read from \<^verbatim>\<open>/proc\<close> is a
  parameter, with nothing where the reading failed.
\<close>

subsection \<open>The reports of the pods\<close>

definition reports_by_id :: "ContainerStatsEntry list \<Rightarrow> (string \<times> ContainerStatsEntry) list" where
  "reports_by_id reports = fold (\<lambda>r. AList.update (cs_ContainerID r) r) reports []"

text \<open>The containers of a pod that have a report, by name. A missing one is only logged.\<close>

definition container_reports ::
  "(string \<times> ContainerStatsEntry) list \<Rightarrow> running_pod \<Rightarrow> (string \<times> ContainerStatsEntry) list" where
  "container_reports byId pod =
     List.map_filter (\<lambda>(conName, conID). map_option (Pair conName) (map_of byId conID)) (rp_containers pod)"

text \<open>The metadata of a pod is shared with its object, so it is given as the object's place.\<close>

definition GetAllStats :: "env \<Rightarrow> (nat \<times> (string \<times> ContainerStatsEntry) list) list run" where
  "GetAllStats env =
     bindR (errR (ContainerStats env)) (\<lambda>report.
       if csr_Error report \<noteq> [] then
         failR (PlainErr (''Container stats API gave error: '' @ csr_Error report))
       else
         bindR (getR n_known) (\<lambda>known.
           ret (map (\<lambda>(key, pod). (rp_kube pod, container_reports (reports_by_id (csr_Stats report)) pod)) known)))"

subsection \<open>Counters\<close>

record prev_stat =
  prev_cpu :: u64
  prev_time :: u64

definition calculateCPUFraction :: "u64 \<Rightarrow> u64 \<Rightarrow> u64 \<Rightarrow> u64 \<Rightarrow> rat" where
  "calculateCPUFraction nowCPU previousCPU nowSystem previousSystem =
     (let cpuDelta = of_uint64 (nowCPU - previousCPU);
          systemDelta = of_uint64 (nowSystem - previousSystem)
      in if systemDelta > 0 \<and> cpuDelta > 0 then f64 (cpuDelta / systemDelta) else 0)"

text \<open>\<^verbatim>\<open>uint64(cpuFrac * 1000 * 1000 * 1000)\<close>: three products, each rounded.\<close>

definition nano_cores :: "(rat \<Rightarrow> u64) \<Rightarrow> rat \<Rightarrow> u64" where
  "nano_cores outside fraction = to_uint64 outside (f64 (f64 (f64 (fraction * 1000) * 1000) * 1000))"

text \<open>The usage since the last reading; nothing at the first one.\<close>

definition usage_since :: "(rat \<Rightarrow> u64) \<Rightarrow> prev_stat option \<Rightarrow> prev_stat \<Rightarrow> u64" where
  "usage_since outside before after =
     nano_cores outside
       (case before of
          None \<Rightarrow> 0
        | Some p \<Rightarrow> calculateCPUFraction (prev_cpu after) (prev_cpu p) (prev_time after) (prev_time p))"

subsection \<open>Containers and pods\<close>

record cpu_stats =
  cpu_time :: int
  cpu_nano :: u64
  cpu_cumulative :: u64

record memory_stats =
  mem_time :: int
  mem_available :: "u64 option"
  mem_usage :: "u64 option"
  mem_working :: "u64 option"
  mem_rss :: "u64 option"
  mem_faults :: "u64 option"
  mem_major_faults :: "u64 option"

record interface_stats =
  if_name :: string
  if_rx :: "u64 option"
  if_tx :: "u64 option"
  if_rx_errors :: "u64 option"
  if_tx_errors :: "u64 option"

record network_stats =
  net_time :: int
  net_default :: interface_stats
  net_interfaces :: "interface_stats list"

datatype metric_type = MetricGauge | MetricCumulative

record user_metric =
  um_time :: int
  um_name :: string
  um_type :: metric_type
  um_units :: string
  um_value :: rat

record container_stats =
  cst_Name :: string
  cst_StartTime :: int
  cst_CPU :: cpu_stats
  cst_Memory :: memory_stats
  cst_Metrics :: "user_metric list"

record pod_stats =
  pst_Name :: string
  pst_Namespace :: string
  pst_UID :: string
  pst_StartTime :: int
  pst_Containers :: "container_stats list"
  pst_CPU :: cpu_stats
  pst_Memory :: memory_stats
  pst_Network :: "network_stats option"

definition user_metrics :: "int \<Rightarrow> ContainerStatsEntry \<Rightarrow> user_metric list" where
  "user_metrics t r =
     [\<lparr>um_time = t, um_name = ''podman.pids'', um_type = MetricGauge, um_units = ''count'',
        um_value = of_uint64 (of_int (cs_PIDs r))\<rparr>,
      \<lparr>um_time = t, um_name = ''podman.cpu_system'', um_type = MetricCumulative, um_units = ''nanoseconds'',
        um_value = of_uint64 (of_int (cs_CPUSystemNano r))\<rparr>,
      \<lparr>um_time = t, um_name = ''podman.block_input'', um_type = MetricCumulative, um_units = ''bytes'',
        um_value = of_uint64 (of_int (cs_BlockInput r))\<rparr>,
      \<lparr>um_time = t, um_name = ''podman.block_output'', um_type = MetricCumulative, um_units = ''bytes'',
        um_value = of_uint64 (of_int (cs_BlockOutput r))\<rparr>]"

text \<open>\<^verbatim>\<open>time.Unix(0, int64(report.SystemNano))\<close>.\<close>

definition report_time :: "ContainerStatsEntry \<Rightarrow> int" where
  "report_time r = sint (of_int (cs_SystemNano r) :: u64)"

definition reading :: "ContainerStatsEntry \<Rightarrow> prev_stat" where
  "reading r = \<lparr>prev_cpu = of_int (cs_CPUNano r), prev_time = of_int (cs_SystemNano r)\<rparr>"

definition container_entry :: "string \<Rightarrow> u64 \<Rightarrow> ContainerStatsEntry \<Rightarrow> container_stats" where
  "container_entry conName cpuNano r =
     (let t = report_time r; used = of_int (cs_MemUsage r)
      in \<lparr>cst_Name = conName, cst_StartTime = t,
          cst_CPU = \<lparr>cpu_time = t, cpu_nano = cpuNano, cpu_cumulative = of_int (cs_CPUNano r)\<rparr>,
          cst_Memory = \<lparr>mem_time = t, mem_available = Some (of_int (cs_MemLimit r) - used), mem_usage = Some used,
            mem_working = Some used, mem_rss = None, mem_faults = None, mem_major_faults = None\<rparr>,
          cst_Metrics = user_metrics t r\<rparr>)"

definition infra_network :: "ContainerStatsEntry \<Rightarrow> network_stats" where
  "infra_network r =
     (let i = \<lparr>if_name = ''default'', if_rx = Some (of_int (cs_NetInput r)), if_tx = Some (of_int (cs_NetOutput r)),
               if_rx_errors = None, if_tx_errors = None\<rparr>
      in \<lparr>net_time = report_time r, net_default = i, net_interfaces = [i]\<rparr>)"

text \<open>The variables of the loop over the containers of a pod.\<close>

record pod_totals =
  pt_new :: "(string \<times> prev_stat) list"
  pt_nano :: u64
  pt_time :: u64
  pt_mem :: u64
  pt_net :: "network_stats option"
  pt_containers :: "container_stats list"

definition is_infra :: "string \<Rightarrow> bool" where
  "is_infra conName \<longleftrightarrow> conName = ''_infra''"

definition add_container ::
  "(rat \<Rightarrow> u64) \<Rightarrow> (string \<times> prev_stat) list \<Rightarrow> string \<times> ContainerStatsEntry \<Rightarrow> pod_totals \<Rightarrow> pod_totals" where
  "add_container outside prevStats = (\<lambda>(conName, r) t.
     let cpuNano = usage_since outside (map_of prevStats (cs_ContainerID r)) (reading r)
     in t\<lparr>pt_new := AList.update (cs_ContainerID r) (reading r) (pt_new t),
          pt_nano := pt_nano t + cpuNano,
          pt_time := pt_time t + of_int (cs_CPUNano r),
          pt_mem := pt_mem t + of_int (cs_MemUsage r),
          pt_net := (if is_infra conName \<and> (cs_NetInput r > 0 \<or> cs_NetOutput r > 0)
                     then Some (infra_network r) else pt_net t),
          pt_containers := (if is_infra conName then pt_containers t
                            else pt_containers t @ [container_entry conName cpuNano r])\<rparr>)"

definition pod_entry :: "int \<Rightarrow> pod_meta \<Rightarrow> pod_totals \<Rightarrow> pod_stats" where
  "pod_entry nowStamp meta t =
     \<lparr>pst_Name = pm_name meta, pst_Namespace = pm_ns meta, pst_UID = pm_uid meta, pst_StartTime = nowStamp,
      pst_Containers = pt_containers t,
      pst_CPU = \<lparr>cpu_time = nowStamp, cpu_nano = pt_nano t, cpu_cumulative = pt_time t\<rparr>,
      pst_Memory = \<lparr>mem_time = nowStamp, mem_available = None, mem_usage = Some (pt_mem t),
        mem_working = Some (pt_mem t), mem_rss = None, mem_faults = None, mem_major_faults = None\<rparr>,
      pst_Network = pt_net t\<rparr>"

text \<open>One pod: the containers in the order of the range, and nothing for a pod without reports.\<close>

definition add_pod ::
  "env \<Rightarrow> (rat \<Rightarrow> u64) \<Rightarrow> (string \<times> prev_stat) list \<Rightarrow> int \<Rightarrow> nat \<times> (string \<times> ContainerStatsEntry) list \<Rightarrow>
   (string \<times> prev_stat) list \<times> pod_stats list \<Rightarrow> ((string \<times> prev_stat) list \<times> pod_stats list) run" where
  "add_pod env outside prevStats nowStamp = (\<lambda>(ref, reports) (newStats, podStats).
     if reports = [] then ret (newStats, podStats)
     else
       bindR (range_map env reports) (\<lambda>entries.
       bindR (read_pod ref) (\<lambda>pod.
         let t = fold (add_container outside prevStats) entries
               \<lparr>pt_new = newStats, pt_nano = 0, pt_time = 0, pt_mem = 0, pt_net = None, pt_containers = []\<rparr>
         in ret (pt_new t, podStats @ [pod_entry nowStamp (kp_meta pod) t]))))"

subsection \<open>The host\<close>

record net_device =
  nd_iface :: string
  nd_rx :: u64
  nd_tx :: u64
  nd_rx_errors :: u64
  nd_tx_errors :: u64

record mem_info =
  mi_total :: u64
  mi_free :: u64
  mi_available :: u64
  mi_anon :: u64
  mi_anon_huge :: u64
  mi_swap_cached :: u64

record proc_files =
  proc_stat :: "(u64 \<times> u64 \<times> u64) option"
  proc_clktck :: "u64 option"
  proc_meminfo :: "mem_info option"
  proc_vmstat :: "(u64 \<times> u64) option"
  proc_net_dev :: "net_device list option"

record node_stats =
  nst_NodeName :: string
  nst_StartTime :: int
  nst_CPU :: "cpu_stats option"
  nst_Memory :: "memory_stats option"
  nst_Network :: "network_stats option"

definition cpu_nanoseconds :: "u64 \<Rightarrow> u64 \<Rightarrow> u64" where
  "cpu_nanoseconds ticks clktck = ticks * 1000 * 1000 * 1000 div clktck"

definition node_memory :: "int \<Rightarrow> proc_files \<Rightarrow> mem_info \<Rightarrow> memory_stats" where
  "node_memory t p m =
     \<lparr>mem_time = t, mem_available = Some (mi_available m * 1024),
      mem_usage = Some ((mi_total m - mi_free m) * 1024),
      mem_working = Some ((mi_total m - mi_available m) * 1024),
      mem_rss = Some ((mi_anon m + mi_anon_huge m + mi_swap_cached m) * 1024),
      mem_faults = map_option fst (proc_vmstat p), mem_major_faults = map_option snd (proc_vmstat p)\<rparr>"

definition counted_device :: "net_device \<Rightarrow> bool" where
  "counted_device d \<longleftrightarrow> nd_iface d \<noteq> ''lo'' \<and> \<not> has_prefix (nd_iface d) ''veth''"

definition device_stats :: "net_device \<Rightarrow> interface_stats" where
  "device_stats d = \<lparr>if_name = nd_iface d, if_rx = Some (nd_rx d), if_tx = Some (nd_tx d),
     if_rx_errors = Some (nd_rx_errors d), if_tx_errors = Some (nd_tx_errors d)\<rparr>"

definition node_network :: "int \<Rightarrow> net_device list \<Rightarrow> network_stats option" where
  "node_network t devices =
     (case map device_stats (filter counted_device devices) of
        [] \<Rightarrow> None
      | i # is \<Rightarrow> Some \<lparr>net_time = t, net_default = i, net_interfaces = i # is\<rparr>)"

subsection \<open>The summary\<close>

record stats_state =
  ss_prev :: "(string \<times> prev_stat) list"
  ss_node :: "prev_stat option"

text \<open>A clock without ticks divides by zero.\<close>

definition node_cpu ::
  "env \<Rightarrow> (rat \<Rightarrow> u64) \<Rightarrow> int \<Rightarrow> proc_files \<Rightarrow> prev_stat option \<Rightarrow> (cpu_stats option \<times> prev_stat option) run" where
  "node_cpu env outside nowStamp proc prev =
     (case proc_stat proc of
        None \<Rightarrow> ret (None, prev)
      | Some (user, nice, system) \<Rightarrow>
          let clktck = (case proc_clktck proc of None \<Rightarrow> 100 | Some c \<Rightarrow> c)
          in if clktck = 0 then panicR
             else bindR (now env) (\<lambda>t.
               let r = \<lparr>prev_cpu = cpu_nanoseconds (user + nice + system) clktck, prev_time = of_int t\<rparr>
               in ret (Some \<lparr>cpu_time = nowStamp, cpu_nano = usage_since outside prev r, cpu_cumulative = prev_cpu r\<rparr>,
                       Some r)))"

definition GetStatsSummary ::
  "env \<Rightarrow> (rat \<Rightarrow> u64) \<Rightarrow> string \<Rightarrow> proc_files \<Rightarrow> stats_state \<Rightarrow> ((node_stats \<times> pod_stats list) \<times> stats_state) run" where
  "GetStatsSummary env outside nodeName proc s =
     bindR (now env) (\<lambda>nowStamp.
     bindR (GetAllStats env) (\<lambda>podReports.
     bindR (range_map env podReports) (\<lambda>podReports.
     bindR (foldR (add_pod env outside (ss_prev s) nowStamp) podReports ([], [])) (\<lambda>(newStats, podStats).
     bindR (node_cpu env outside nowStamp proc (ss_node s)) (\<lambda>(cpu, prevNode).
       ret ((\<lparr>nst_NodeName = nodeName, nst_StartTime = nowStamp, nst_CPU = cpu,
              nst_Memory = map_option (node_memory nowStamp proc) (proc_meminfo proc),
              nst_Network = Option.bind (proc_net_dev proc) (node_network nowStamp)\<rparr>, podStats),
            \<lparr>ss_prev = newStats, ss_node = prevNode\<rparr>))))))"

end
