(* ===== verification/Stats_Props.thy ===== *)
theory Stats_Props
  imports Kube_Stats Podman_Props
begin

text \<open>The properties of the statistics: how exact the reported usage is, what the summary of a pod
  adds up, and how the readings of one request are the start of the next.\<close>

subsection \<open>The rate\<close>

lemma fraction_near:
  assumes "t \<noteq> t0"
  shows "near (6 * ulp) (of_nat (unat (c - c0)) / of_nat (unat (t - t0))) (calculateCPUFraction c c0 t t0)"
proof -
  define a b where "a = (of_nat (unat (c - c0)) :: rat)" and "b = (of_nat (unat (t - t0)) :: rat)"
  have "unat (t - t0) \<noteq> 0" using assms by (simp add: unat_eq_zero)
  then have b: "0 < b" unfolding b_def by (simp only: of_nat_0_less_iff neq0_conv)
  have a: "0 \<le> a" unfolding a_def by (rule of_nat_0_le_iff)
  have B: "0 < f64 b" by (rule f64_pos [OF b])
  have "calculateCPUFraction c c0 t t0 = (if f64 a > 0 then f64 (f64 a / f64 b) else 0)"
    using B by (simp add: calculateCPUFraction_def of_uint64_def a_def b_def)
  also have "\<dots> = f64 (f64 a / f64 b)"
    using f64_nonneg [OF a] by (auto simp: not_less)
  finally have f: "calculateCPUFraction c c0 t t0 = f64 (f64 a / f64 b)" .
  have "near (4 * ulp) (a / b) (f64 a / f64 b)"
    by (rule near_quotient [OF near_start [OF a] near_start a b]) (use b in simp)
  then have "near (4 * ulp + 2 * ulp) (a / b) (f64 (f64 a / f64 b))"
    by (rule near_f64) (use a b in \<open>simp_all add: ulp_def\<close>)
  then show ?thesis by (simp add: f a_def b_def)
qed

lemma nano_near:
  assumes "near (6 * ulp) y f" "0 \<le> y"
  shows "near (12 * ulp) (y * 10 ^ 9) (f64 (f64 (f64 (f * 1000) * 1000) * 1000))"
proof -
  have d: "0 \<le> ulp" "12 * ulp \<le> 1" by (simp_all add: ulp_def)
  have "near (6 * ulp + 2 * ulp) (y * 1000) (f64 (f * 1000))"
    by (rule near_f64 [OF near_scale [OF assms(1)]]) (use assms(2) d in simp_all)
  then have "near (6 * ulp + 2 * ulp + 2 * ulp) (y * 1000 * 1000) (f64 (f64 (f * 1000) * 1000))"
    by (rule near_f64 [OF near_scale]) (use assms(2) d in simp_all)
  then have "near (6 * ulp + 2 * ulp + 2 * ulp + 2 * ulp) (y * 1000 * 1000 * 1000) (f64 (f64 (f64 (f * 1000) * 1000) * 1000))"
    by (rule near_f64 [OF near_scale]) (use assms(2) d in simp_all)
  then show ?thesis by (simp add: near_def)
qed

lemma to_uint64_floor:
  assumes "0 \<le> q" "q < 2 ^ 64"
  shows "of_nat (unat (to_uint64 outside q)) \<le> q" "q < of_nat (unat (to_uint64 outside q)) + 1"
proof -
  have "0 \<le> \<lfloor>q\<rfloor>" "\<lfloor>q\<rfloor> < 2 ^ 64" using assms by (simp_all add: floor_less_iff)
  then have "int (unat (to_uint64 outside q)) = \<lfloor>q\<rfloor>"
    using assms(2) by (simp add: to_uint64_def unsigned_of_int take_bit_eq_mod)
  then have "(of_nat (unat (to_uint64 outside q)) :: rat) = of_int \<lfloor>q\<rfloor>"
    by (metis of_int_of_nat_eq)
  then show "of_nat (unat (to_uint64 outside q)) \<le> q" "q < of_nat (unat (to_uint64 outside q)) + 1"
    by linarith+
qed

lemma unat_difference:
  "unat (c - c0) = (if c0 \<le> c then unat c - unat c0 else 2 ^ 64 - (unat c0 - unat c))" for c c0 :: u64
proof (cases "c0 \<le> c")
  case False
  have less: "unat c < unat c0" using False by (simp add: word_le_nat_alt)
  have "unat c0 < 2 ^ 64" by (rule order_less_le_trans [OF unsigned_less]) simp
  with less have "unat c + 2 ^ 64 - unat c0 = 2 ^ 64 - (unat c0 - unat c)" by linarith
  with less False show ?thesis by (simp add: unat_sub_if' not_le)
qed (simp add: unat_sub)

text \<open>C18 (bounds): how exact the reported usage of a processor is. When the counter has not decreased
  and the clock has advanced, the reported number differs from the exact rate (in billionths of a
  core) by less than one plus the rate's \<open>2^49\<close>th part, as long as the rate fits. The first reading
  reports nothing. A counter that has decreased, as after a restart, is not noticed although the
  code tests the sign of the difference: the difference of unsigned numbers is positive, and the
  rate is computed for \<open>2^64\<close> minus the decrease.\<close>

theorem usage_since_bounds:
  fixes x :: rat
  assumes "prev_time p \<noteq> prev_time a"
    and "x = of_nat (unat (prev_cpu a - prev_cpu p)) * 10 ^ 9 / of_nat (unat (prev_time a - prev_time p))"
    and "x < 2 ^ 63"
  shows "\<bar>of_nat (unat (usage_since outside (Some p) a)) - x\<bar> < 1 + x / 2 ^ 49
    \<and> unat (prev_cpu a - prev_cpu p) = (if prev_cpu p \<le> prev_cpu a then unat (prev_cpu a) - unat (prev_cpu p)
         else 2 ^ 64 - (unat (prev_cpu p) - unat (prev_cpu a)))
    \<and> usage_since outside None a = 0"
proof (intro conjI)
  define y where "y = (of_nat (unat (prev_cpu a - prev_cpu p)) / of_nat (unat (prev_time a - prev_time p)) :: rat)"
  have x: "x = y * 10 ^ 9" by (simp add: assms(2) y_def)
  have y: "0 \<le> y" unfolding y_def by (intro divide_nonneg_nonneg of_nat_0_le_iff)
  define q where "q = f64 (f64 (f64 (calculateCPUFraction (prev_cpu a) (prev_cpu p) (prev_time a) (prev_time p) * 1000) * 1000) * 1000)"
  have "near (6 * ulp) y (calculateCPUFraction (prev_cpu a) (prev_cpu p) (prev_time a) (prev_time p))"
    unfolding y_def by (rule fraction_near [OF assms(1) [symmetric]])
  then have "near (12 * ulp) x q" unfolding x q_def by (rule nano_near) (rule y)
  then have q: "x * (1 - 12 * ulp) \<le> q" "q \<le> x * (1 + 12 * ulp)" by (simp_all add: near_def)
  have x0: "0 \<le> x" using y by (simp add: x)
  have small: "x * (12 * ulp) \<le> x / 2 ^ 49" using x0 by (simp add: ulp_def)
  have q0: "0 \<le> q" using q(1) x0 by (simp add: ulp_def)
  have "x * (1 + 12 * ulp) < 2 ^ 64" using assms(3) by (simp add: ulp_def)
  with q(2) have "q < 2 ^ 64" by linarith
  note r = to_uint64_floor [OF q0 this, of outside]
  have "usage_since outside (Some p) a = to_uint64 outside q" by (simp add: usage_since_def nano_cores_def q_def)
  with r q small show "\<bar>of_nat (unat (usage_since outside (Some p) a)) - x\<bar> < 1 + x / 2 ^ 49"
    by (simp add: abs_less_iff algebra_simps)
  show "unat (prev_cpu a - prev_cpu p) = (if prev_cpu p \<le> prev_cpu a then unat (prev_cpu a) - unat (prev_cpu p)
         else 2 ^ 64 - (unat (prev_cpu p) - unat (prev_cpu a)))"
    by (rule unat_difference)
  show "usage_since outside None a = 0" by (simp add: usage_since_def nano_cores_def to_uint64_def)
qed

lemma usage_since_bounds_witness:
  "\<bar>of_nat (unat (usage_since (\<lambda>_. 0) (Some \<lparr>prev_cpu = 10, prev_time = 1000\<rparr>) \<lparr>prev_cpu = 5, prev_time = 4294968296\<rparr>))
      - (2 ^ 64 - 5) * 10 ^ 9 / 2 ^ 32\<bar> < 1 + (2 ^ 64 - 5) * 10 ^ 9 / 2 ^ 32 / (2 ^ 49 :: rat)"
proof -
  define p a where "p = \<lparr>prev_cpu = 10, prev_time = 1000\<rparr>" and "a = \<lparr>prev_cpu = 5, prev_time = 4294968296\<rparr>"
  define x where "x = ((2 ^ 64 - 5) * 10 ^ 9 / 2 ^ 32 :: rat)"
  have c: "unat (prev_cpu a - prev_cpu p) = 2 ^ 64 - 5" by (simp add: p_def a_def)
  have t: "unat (prev_time a - prev_time p) = 2 ^ 32" "prev_time p \<noteq> prev_time a" by (simp_all add: p_def a_def)
  have "x = of_nat (unat (prev_cpu a - prev_cpu p)) * 10 ^ 9 / of_nat (unat (prev_time a - prev_time p))"
    unfolding c t(1) by (simp add: x_def of_nat_diff)
  moreover have "x < 2 ^ 63" by (simp add: x_def)
  ultimately have "\<bar>of_nat (unat (usage_since (\<lambda>_. 0) (Some p) a)) - x\<bar> < 1 + x / 2 ^ 49"
    using usage_since_bounds [OF t(2)] by blast
  then show ?thesis by (simp only: x_def p_def a_def)
qed

text \<open>The usage of the host is exact until its counter has seen \<open>2^64\<close> nanoseconds, which many cores
  reach within months; then it starts again near zero.\<close>

lemma cpu_nanoseconds_exact:
  assumes "unat ticks * 10 ^ 9 < 2 ^ 64"
  shows "unat (cpu_nanoseconds ticks clktck) = unat ticks * 10 ^ 9 div unat clktck"
proof -
  have "unat (ticks * 1000000000) = unat ticks * 1000000000"
    using assms by (subst unat_mult_lem [THEN iffD1]) simp_all
  then show ?thesis by (simp add: cpu_nanoseconds_def unat_div mult.assoc)
qed

lemma cpu_nanoseconds_wraps: "cpu_nanoseconds 18446744074 100 = 2904483"
  by (simp add: cpu_nanoseconds_def)

subsection \<open>The summary\<close>

definition usage_of :: "(rat \<Rightarrow> u64) \<Rightarrow> (string \<times> prev_stat) list \<Rightarrow> string \<times> ContainerStatsEntry \<Rightarrow> u64" where
  "usage_of outside prev = (\<lambda>(c, r). usage_since outside (map_of prev (cs_ContainerID r)) (reading r))"

definition entry_of :: "(rat \<Rightarrow> u64) \<Rightarrow> (string \<times> prev_stat) list \<Rightarrow> string \<times> ContainerStatsEntry \<Rightarrow> container_stats" where
  "entry_of outside prev = (\<lambda>(c, r). container_entry c (usage_of outside prev (c, r)) r)"

definition has_traffic :: "string \<times> ContainerStatsEntry \<Rightarrow> bool" where
  "has_traffic = (\<lambda>(c, r). is_infra c \<and> (cs_NetInput r > 0 \<or> cs_NetOutput r > 0))"

definition note_reading :: "string \<times> ContainerStatsEntry \<Rightarrow> (string \<times> prev_stat) list \<Rightarrow> (string \<times> prev_stat) list" where
  "note_reading = (\<lambda>(c, r). AList.update (cs_ContainerID r) (reading r))"

text \<open>What the entry of a pod says about the reports of its containers: all of them count for the
  totals, those beside the infra container are listed, with their own usage.\<close>

definition summarises ::
  "(rat \<Rightarrow> u64) \<Rightarrow> (string \<times> prev_stat) list \<Rightarrow> pod_meta \<Rightarrow> (string \<times> ContainerStatsEntry) list \<Rightarrow> pod_stats \<Rightarrow> bool" where
  "summarises outside prev meta reports s \<longleftrightarrow>
     (pst_Namespace s, pst_Name s, pst_UID s) = (pm_ns meta, pm_name meta, pm_uid meta)
     \<and> mset (pst_Containers s) = mset (map (entry_of outside prev) (filter (\<lambda>(c, r). \<not> is_infra c) reports))
     \<and> cpu_nano (pst_CPU s) = sum_list (map (usage_of outside prev) reports)
     \<and> cpu_cumulative (pst_CPU s) = sum_list (map (\<lambda>e. of_int (cs_CPUNano (snd e))) reports)
     \<and> mem_usage (pst_Memory s) = Some (sum_list (map (\<lambda>e. of_int (cs_MemUsage (snd e))) reports))
     \<and> (pst_Network s = None \<longleftrightarrow> \<not> list_ex has_traffic reports)"

lemma add_container_simps:
  "pt_new (add_container outside prev e t) = note_reading e (pt_new t)"
  "pt_nano (add_container outside prev e t) = pt_nano t + usage_of outside prev e"
  "pt_time (add_container outside prev e t) = pt_time t + of_int (cs_CPUNano (snd e))"
  "pt_mem (add_container outside prev e t) = pt_mem t + of_int (cs_MemUsage (snd e))"
  "pt_net (add_container outside prev e t) = (if has_traffic e then Some (infra_network (snd e)) else pt_net t)"
  "pt_containers (add_container outside prev e t)
     = pt_containers t @ (if is_infra (fst e) then [] else [entry_of outside prev e])"
  by (simp_all add: add_container_def Let_def note_reading_def usage_of_def has_traffic_def entry_of_def split_beta)

lemma fold_add_container:
  "pt_new (fold (add_container outside prev) es t) = fold note_reading es (pt_new t)"
  "pt_nano (fold (add_container outside prev) es t) = pt_nano t + sum_list (map (usage_of outside prev) es)"
  "pt_time (fold (add_container outside prev) es t) = pt_time t + sum_list (map (\<lambda>e. of_int (cs_CPUNano (snd e))) es)"
  "pt_mem (fold (add_container outside prev) es t) = pt_mem t + sum_list (map (\<lambda>e. of_int (cs_MemUsage (snd e))) es)"
  "pt_net (fold (add_container outside prev) es t) = None \<longleftrightarrow> pt_net t = None \<and> \<not> list_ex has_traffic es"
  "pt_containers (fold (add_container outside prev) es t)
     = pt_containers t @ map (entry_of outside prev) (filter (\<lambda>(c, r). \<not> is_infra c) es)"
  by (induction es arbitrary: t) (auto simp: add_container_simps add.assoc split_beta)

lemma sum_list_perm: "mset xs = mset ys \<Longrightarrow> sum_list (map f xs) = (sum_list (map f ys) :: u64)"
  by (metis mset_map sum_mset_sum_list)

lemma add_pod_summarises:
  assumes "add_pod env outside prev t (ref, reports) (news, ps) n = (Ok (news', ps'), n')" "reports \<noteq> []"
  shows "n' = n \<and> (\<exists>s es. ps' = ps @ [s] \<and> summarises outside prev (kp_meta (n_heap n ref)) reports s
           \<and> mset es = mset reports \<and> news' = fold note_reading es news)"
proof -
  define es where "es = visit env (n_trace n) reports"
  have es: "mset es = mset reports" by (simp add: es_def)
  define T where "T = fold (add_container outside prev) es
    \<lparr>pt_new = news, pt_nano = 0, pt_time = 0, pt_mem = 0, pt_net = None, pt_containers = []\<rparr>"
  have r: "n' = n" "news' = pt_new T" "ps' = ps @ [pod_entry t (kp_meta (n_heap n ref)) T]"
    using assms by (auto simp: add_pod_def Let_def T_def es_def)
  have "list_ex has_traffic es = list_ex has_traffic reports"
    using mset_eq_setD [OF es] by (simp add: list_ex_iff)
  moreover have "mset (filter (\<lambda>(c, r). \<not> is_infra c) es) = mset (filter (\<lambda>(c, r). \<not> is_infra c) reports)"
    by (simp add: es)
  ultimately have "summarises outside prev (kp_meta (n_heap n ref)) reports (pod_entry t (kp_meta (n_heap n ref)) T)"
    using sum_list_perm [OF es]
    by (simp add: summarises_def pod_entry_def T_def fold_add_container split_beta)
  with r es show ?thesis by (auto simp: T_def fold_add_container)
qed

lemma add_pods_summarise:
  assumes "foldR (add_pod env outside prev t) prs (news, ps) n = (Ok (news', ps'), n')"
  shows "n' = n \<and> (\<exists>added es. ps' = ps @ added
           \<and> list_all2 (\<lambda>(ref, reports) s. summarises outside prev (kp_meta (n_heap n ref)) reports s)
               (filter (\<lambda>(ref, reports). reports \<noteq> []) prs) added
           \<and> mset es = mset (concat (map snd prs)) \<and> news' = fold note_reading es news)"
  using assms
proof (induction prs arbitrary: news ps)
  case Nil
  then show ?case by simp
next
  case (Cons p prs)
  obtain ref reports where p: "p = (ref, reports)" by fastforce
  from Cons.prems obtain a n1 where a: "add_pod env outside prev t (ref, reports) (news, ps) n = (Ok a, n1)"
    and rest: "foldR (add_pod env outside prev t) prs a n1 = (Ok (news', ps'), n')"
    unfolding foldR.simps p by (rule bindR_OkE)
  obtain news1 ps1 where a1: "a = (news1, ps1)" by fastforce
  show ?case
  proof (cases "reports = []")
    case True
    with a a1 have "n1 = n" "news1 = news" "ps1 = ps" by (simp_all add: add_pod_def)
    with Cons.IH [of news ps] rest a1 True p show ?thesis by simp
  next
    case False
    from add_pod_summarises [OF a [unfolded a1] False] obtain s es where s: "n1 = n" "ps1 = ps @ [s]"
      "summarises outside prev (kp_meta (n_heap n ref)) reports s" "mset es = mset reports" "news1 = fold note_reading es news"
      by blast
    from Cons.IH [OF rest [unfolded a1 s(1)]] obtain added es' where i: "n' = n" "ps' = ps1 @ added"
      "list_all2 (\<lambda>(ref, reports) s. summarises outside prev (kp_meta (n_heap n ref)) reports s)
         (filter (\<lambda>(ref, reports). reports \<noteq> []) prs) added"
      "mset es' = mset (concat (map snd prs))" "news' = fold note_reading es' news1"
      by blast
    have "ps' = ps @ (s # added)" "mset (es @ es') = mset (concat (map snd (p # prs)))"
      "news' = fold note_reading (es @ es') news"
      using s i by (simp_all add: p)
    moreover have "list_all2 (\<lambda>(ref, reports) s. summarises outside prev (kp_meta (n_heap n ref)) reports s)
         (filter (\<lambda>(ref, reports). reports \<noteq> []) (p # prs)) (s # added)"
      using i(3) s(3) False by (simp add: p)
    ultimately show ?thesis using i(1) by blast
  qed
qed

text \<open>The readings that are kept do not depend on the order, when every report has its own container.\<close>

lemma fold_note_reading:
  "map_of (fold note_reading es news)
     = map_of (rev (map (\<lambda>(c, r). (cs_ContainerID r, reading r)) es) @ news)"
  by (induction es arbitrary: news) (auto simp: note_reading_def update_conv' map_add_def fun_eq_iff split: option.split)

lemma kept_readings:
  assumes "mset es = mset all" "distinct (map (\<lambda>(c, r). cs_ContainerID r) all)"
  shows "map_of (fold note_reading es []) = map_of (map (\<lambda>(c, r). (cs_ContainerID r, reading r)) all)"
proof -
  let ?f = "\<lambda>(c, r). (cs_ContainerID r, reading r)"
  have k: "map fst (map ?f xs) = map (\<lambda>(c, r). cs_ContainerID r) xs" for xs :: "(string \<times> ContainerStatsEntry) list"
    by (simp add: split_beta)
  have "distinct (map (\<lambda>(c, r). cs_ContainerID r) es)"
    using assms by (metis mset_eq_imp_distinct_iff mset_map)
  then have "distinct (map fst (rev (map ?f es)))" by (simp only: rev_map [symmetric] distinct_rev k)
  moreover have "distinct (map fst (map ?f all))" using assms(2) by (simp only: k)
  moreover have "set (rev (map ?f es)) = set (map ?f all)" using mset_eq_setD [OF assms(1)] by simp
  ultimately show ?thesis by (simp add: fold_note_reading map_of_inject_set)
qed

lemma concat_perm: "mset xs = mset ys \<Longrightarrow> mset (concat (map f xs)) = mset (concat (map f ys))"
  by (simp add: mset_concat) (metis mset_map sum_mset_sum_list)

lemma GetAllStats_heap:
  assumes "GetAllStats env n = (r, n1)"
  shows "n_heap n1 = n_heap n"
proof -
  have "keeps (\<lambda>s t. store_of s = store_of t) (GetAllStats env)"
    unfolding GetAllStats_def ContainerStats_def
    by (intro same_frame.keeps_intros errR_keeps(2) request_store)
  from keepsD [OF this assms] show ?thesis by (simp add: store_of_def)
qed

text \<open>C19 (functional): the summary of the statistics. Every known pod with a report has one entry: it lists
  its containers beside the infra container, each with the usage since the last request; its totals
  are the sums over all its containers, the infra container too; it has network counters when the
  infra container had traffic. The readings of this request, and no older ones, are kept for the next
  request, so a container that was not reported in between starts again without usage.\<close>

theorem GetStatsSummary_adds_up:
  assumes "GetStatsSummary env outside nodeName proc s n = (Ok ((nd, pods), s'), n')"
  shows "\<exists>podReports order.
      fst (GetAllStats env n) = Ok podReports
      \<and> mset order = mset (filter (\<lambda>(ref, reports). reports \<noteq> []) podReports)
      \<and> list_all2 (\<lambda>(ref, reports) e. summarises outside (ss_prev s) (kp_meta (n_heap n ref)) reports e) order pods
      \<and> (distinct (map (\<lambda>(c, r). cs_ContainerID r) (concat (map snd podReports))) \<longrightarrow>
           map_of (ss_prev s') = map_of (map (\<lambda>(c, r). (cs_ContainerID r, reading r)) (concat (map snd podReports))))"
proof -
  from assms obtain podReports n1 where g: "GetAllStats env n = (Ok podReports, n1)"
    and r1: "bindR (range_map env podReports) (\<lambda>podReports.
     bindR (foldR (add_pod env outside (ss_prev s) (env_now env (n_trace n))) podReports ([], [])) (\<lambda>(newStats, podStats).
     bindR (node_cpu env outside (env_now env (n_trace n)) proc (ss_node s)) (\<lambda>(cpu, prevNode).
       ret ((\<lparr>nst_NodeName = nodeName, nst_StartTime = env_now env (n_trace n), nst_CPU = cpu,
              nst_Memory = map_option (node_memory (env_now env (n_trace n)) proc) (proc_meminfo proc),
              nst_Network = Option.bind (proc_net_dev proc) (node_network (env_now env (n_trace n)))\<rparr>, podStats),
            \<lparr>ss_prev = newStats, ss_node = prevNode\<rparr>)))) n1 = (Ok ((nd, pods), s'), n')"
    unfolding GetStatsSummary_def by (elim bindR_OkE) simp
  define order where "order = visit env (n_trace n1) podReports"
  from r1 obtain a n2 where
    f0: "foldR (add_pod env outside (ss_prev s) (env_now env (n_trace n))) order ([], []) n1 = (Ok a, n2)"
    and r2: "(case a of (newStats, podStats) \<Rightarrow>
     bindR (node_cpu env outside (env_now env (n_trace n)) proc (ss_node s)) (\<lambda>(cpu, prevNode).
       ret ((\<lparr>nst_NodeName = nodeName, nst_StartTime = env_now env (n_trace n), nst_CPU = cpu,
              nst_Memory = map_option (node_memory (env_now env (n_trace n)) proc) (proc_meminfo proc),
              nst_Network = Option.bind (proc_net_dev proc) (node_network (env_now env (n_trace n)))\<rparr>, podStats),
            \<lparr>ss_prev = newStats, ss_node = prevNode\<rparr>))) n2 = (Ok ((nd, pods), s'), n')"
    by (elim bindR_OkE) (simp add: order_def)
  obtain news pods1 where a: "a = (news, pods1)" by fastforce
  from r2 have "pods1 = pods \<and> ss_prev s' = news"
    unfolding a prod.case by (elim bindR_OkE) (auto split: prod.splits)
  then have f: "foldR (add_pod env outside (ss_prev s) (env_now env (n_trace n))) order ([], []) n1 = (Ok (news, pods), n2)"
    and s': "ss_prev s' = news" using f0 a by simp_all
  have heap: "n_heap n1 = n_heap n" using GetAllStats_heap [OF g] .
  from add_pods_summarise [OF f] obtain es where
    e: "list_all2 (\<lambda>(ref, reports) e. summarises outside (ss_prev s) (kp_meta (n_heap n ref)) reports e)
          (filter (\<lambda>(ref, reports). reports \<noteq> []) order) pods"
    "mset es = mset (concat (map snd order))" "news = fold note_reading es []"
    unfolding heap append_Nil by blast
  have o: "mset order = mset podReports" by (simp add: order_def)
  have "mset es = mset (concat (map snd podReports))"
    using e(2) concat_perm [OF o] by simp
  from kept_readings [OF this] have "distinct (map (\<lambda>(c, r). cs_ContainerID r) (concat (map snd podReports))) \<longrightarrow>
           map_of (ss_prev s') = map_of (map (\<lambda>(c, r). (cs_ContainerID r, reading r)) (concat (map snd podReports)))"
    unfolding s' e(3) by (rule impI)
  moreover have "mset (filter (\<lambda>(ref, reports). reports \<noteq> []) order) = mset (filter (\<lambda>(ref, reports). reports \<noteq> []) podReports)"
    by (simp add: o)
  ultimately show ?thesis using g e(1) by (intro exI [of _ podReports] exI [of _ "filter (\<lambda>(ref, reports). reports \<noteq> []) order"]) simp
qed

text \<open>Two containers of one pod; podman's answer is given.\<close>

definition ex_stats_env :: env where
  "ex_stats_env = ex_env
     (\<lambda>_ _. Inr \<lparr>rs_code = 200, rs_status = ''200 OK'', rs_body = ''stats''\<rparr>)
     (\<lambda>_. Inr (JObj [(''Error'', JStr []), (''Stats'', JArr
        [JObj [(''ContainerID'', JStr ''c0''), (''CPUNano'', JNum 5), (''SystemNano'', JNum 1000), (''MemUsage'', JNum 100)],
         JObj [(''ContainerID'', JStr ''c1''), (''CPUNano'', JNum 700), (''SystemNano'', JNum 1000), (''MemUsage'', JNum 4000)]])]))"

definition ex_stats_node :: node where
  "ex_stats_node = ex_node\<lparr>n_known := [(''default_web'', \<lparr>rp_kube = 0,
     rp_coord = \<lparr>co_ns = ''default'', co_name = ''web''\<rparr>, rp_pod_id = ''p1'', rp_containers = [(''_infra'', ''c0''), (''app'', ''c1'')]\<rparr>)]\<rparr>"

definition ex_proc :: proc_files where
  "ex_proc = \<lparr>proc_stat = None, proc_clktck = None, proc_meminfo = None, proc_vmstat = None, proc_net_dev = None\<rparr>"

definition ex_stats_state :: stats_state where
  "ex_stats_state = \<lparr>ss_prev = [(''c1'', \<lparr>prev_cpu = 200, prev_time = 0\<rparr>)], ss_node = None\<rparr>"

lemma ex_stats_decoded:
  "case decode_into (env_parse ex_stats_env ''stats'') ContainerStatsReport_decoder zero_ContainerStatsReport of (r, e) \<Rightarrow>
     e = None \<and> csr_Error r = []
     \<and> map (\<lambda>c. (cs_ContainerID c, reading c)) (csr_Stats r)
         = [(''c0'', \<lparr>prev_cpu = 5, prev_time = 1000\<rparr>), (''c1'', \<lparr>prev_cpu = 700, prev_time = 1000\<rparr>)]"
  by code_simp

lemma ex_stats_request:
  "new_request ''GET'' ''/libpod/containers/stats?stream=false'' accept_json None \<noteq> None"
  by code_simp

lemma ex_all_stats:
  obtains r0 r1 n1 where
    "GetAllStats ex_stats_env ex_stats_node = (Ok [(0, [(''_infra'', r0), (''app'', r1)])], n1)"
    "cs_ContainerID r0 = ''c0''" "reading r0 = \<lparr>prev_cpu = 5, prev_time = 1000\<rparr>"
    "cs_ContainerID r1 = ''c1''" "reading r1 = \<lparr>prev_cpu = 700, prev_time = 1000\<rparr>"
proof -
  obtain req where req: "new_request ''GET'' ''/libpod/containers/stats?stream=false'' accept_json None = Some req"
    using ex_stats_request by blast
  obtain rep where rep: "decode_into (env_parse ex_stats_env ''stats'') ContainerStatsReport_decoder zero_ContainerStatsReport = (rep, None)"
    and r: "csr_Error rep = []" "map (\<lambda>c. (cs_ContainerID c, reading c)) (csr_Stats rep)
         = [(''c0'', \<lparr>prev_cpu = 5, prev_time = 1000\<rparr>), (''c1'', \<lparr>prev_cpu = 700, prev_time = 1000\<rparr>)]"
    using ex_stats_decoded by (auto split: prod.splits)
  from r(2) obtain r0 r1 where stats: "csr_Stats rep = [r0, r1]"
    and rs: "cs_ContainerID r0 = ''c0''" "reading r0 = \<lparr>prev_cpu = 5, prev_time = 1000\<rparr>"
      "cs_ContainerID r1 = ''c1''" "reading r1 = \<lparr>prev_cpu = 700, prev_time = 1000\<rparr>"
    by (auto simp: map_eq_Cons_conv)
  have "performRequest ex_stats_env req ex_stats_node
      = (Ok \<lparr>rs_code = 200, rs_status = ''200 OK'', rs_body = ''stats''\<rparr>, ex_stats_node\<lparr>n_trace := [Http req]\<rparr>)"
    by (simp add: performRequest_def ex_stats_env_def ex_env_def happy_status_def ex_stats_node_def ex_node_def)
  then have "errR (ContainerStats ex_stats_env) ex_stats_node = (Ok rep, ex_stats_node\<lparr>n_trace := [Http req]\<rparr>)"
    by (simp add: errR_def ContainerStats_def performGet_def performJsonRequest_def req rep)
  moreover have "reports_by_id [r0, r1] = [(''c0'', r0), (''c1'', r1)]"
    by (simp add: reports_by_id_def rs)
  ultimately have "GetAllStats ex_stats_env ex_stats_node
      = (Ok [(0, [(''_infra'', r0), (''app'', r1)])], ex_stats_node\<lparr>n_trace := [Http req]\<rparr>)"
    by (simp add: GetAllStats_def r(1) stats ex_stats_node_def container_reports_def map_filter_simps)
  with rs that show ?thesis by blast
qed

lemma GetStatsSummary_adds_up_witness:
  "\<exists>nd pods s' n'. GetStatsSummary ex_stats_env (\<lambda>_. 0) ''pet'' ex_proc ex_stats_state ex_stats_node = (Ok ((nd, pods), s'), n')
     \<and> length pods = 1 \<and> map_of (ss_prev s') ''c0'' = Some \<lparr>prev_cpu = 5, prev_time = 1000\<rparr>"
proof -
  obtain r0 r1 n1 where g: "GetAllStats ex_stats_env ex_stats_node = (Ok [(0, [(''_infra'', r0), (''app'', r1)])], n1)"
    and rs: "cs_ContainerID r0 = ''c0''" "reading r0 = \<lparr>prev_cpu = 5, prev_time = 1000\<rparr>" "cs_ContainerID r1 = ''c1''"
    by (rule ex_all_stats) blast
  have one: "visit ex_stats_env tr [x] = [x]" for tr and x :: "nat \<times> (string \<times> ContainerStatsEntry) list"
    by (simp add: visit_def Let_def ex_stats_env_def ex_env_def)
  obtain nd pods s' n' where run: "GetStatsSummary ex_stats_env (\<lambda>_. 0) ''pet'' ex_proc ex_stats_state ex_stats_node = (Ok ((nd, pods), s'), n')"
    by (simp add: GetStatsSummary_def g one add_pod_def Let_def node_cpu_def ex_proc_def)
  from GetStatsSummary_adds_up [OF run] obtain podReports order where p:
    "fst (GetAllStats ex_stats_env ex_stats_node) = Ok podReports"
    "mset order = mset (filter (\<lambda>(ref, reports). reports \<noteq> []) podReports)"
    "list_all2 (\<lambda>(ref, reports) e. summarises (\<lambda>_. 0) (ss_prev ex_stats_state) (kp_meta (n_heap ex_stats_node ref)) reports e) order pods"
    "distinct (map (\<lambda>(c, r). cs_ContainerID r) (concat (map snd podReports))) \<longrightarrow>
         map_of (ss_prev s') = map_of (map (\<lambda>(c, r). (cs_ContainerID r, reading r)) (concat (map snd podReports)))"
    by blast
  have rp: "podReports = [(0, [(''_infra'', r0), (''app'', r1)])]" using p(1) g by simp
  have "length pods = length order" using p(3) by (simp add: list_all2_lengthD)
  also have "\<dots> = 1" using mset_eq_length [OF p(2)] by (simp add: rp)
  finally have "length pods = 1" .
  moreover have "map_of (ss_prev s') ''c0'' = Some \<lparr>prev_cpu = 5, prev_time = 1000\<rparr>"
    using p(4) by (simp add: rp rs)
  ultimately show ?thesis using run by blast
qed

end
