(* ===== verification/Kube_Cert.thy ===== *)
theory Kube_Cert
  imports Host_World Pod_Storage Podman_Client "HOL-Library.While_Combinator"
begin

text \<open>
  The serving certificate of the kubelet API: \<^verbatim>\<open>controllers/kubeapi/storage.go\<close>,
  \<^verbatim>\<open>certificate-request.go\<close> and \<^verbatim>\<open>certificate-flow.go\<close>. The program \<^verbatim>\<open>openssl\<close>, the text that
  the INI library prints and the answers of the Kubernetes API are parameters. The loop that waits
  for the approval may run forever; then the result is \<open>None\<close>.
\<close>

subsection \<open>Storage\<close>

text \<open>\<^verbatim>\<open>filepath.Join\<close> is a slash here: the directory is clean and the names have no slash.\<close>

record key_storage =
  ks_root :: string
  ks_id :: string

definition NewKeyMaterialStorage :: "env \<Rightarrow> go_error + string \<Rightarrow> string \<Rightarrow> key_storage run" where
  "NewKeyMaterialStorage env cacheHome materialId =
     bindR (liftE cacheHome) (\<lambda>home.
       let rootDir = home @ ''/kube-pet-node/key-material''
       in thenR (file_op env (MakeDir rootDir)) (ret \<lparr>ks_root = rootDir, ks_id = materialId\<rparr>))"

definition GetFilePath :: "key_storage \<Rightarrow> string \<Rightarrow> string" where
  "GetFilePath ks extension = ks_root ks @ ''/'' @ ks_id ks @ extension"

text \<open>\<^verbatim>\<open>os.Stat\<close> without an error.\<close>

definition can_stat :: "env \<Rightarrow> string \<Rightarrow> node \<Rightarrow> bool" where
  "can_stat env path n \<longleftrightarrow> env_disk env (n_trace n) path = None \<and> map_of (n_disk n) path \<noteq> None"

definition EnsurePrivateKeyExists :: "env \<Rightarrow> key_storage \<Rightarrow> (string \<Rightarrow> unit run) \<Rightarrow> unit run" where
  "EnsurePrivateKeyExists env ks keygen =
     (let keyPath = GetFilePath ks ''.key''
      in bindR (getR (can_stat env keyPath)) (\<lambda>exists. if exists then ret () else keygen keyPath))"

definition StoreFile :: "env \<Rightarrow> key_storage \<Rightarrow> string \<Rightarrow> string \<Rightarrow> unit run" where
  "StoreFile env ks extension data = disk_write env (GetFilePath ks extension) data"

subsection \<open>The request\<close>

text \<open>What a command does that is fed through a pipe: whether it can be started, whether its input is
  taken, its output, and the errors of waiting for it and of reading.\<close>

record piped =
  pi_start :: "string option"
  pi_write :: "string option"
  pi_out :: string
  pi_wait :: "string option"
  pi_read :: "string option"

type_synonym ini_doc = "(string \<times> smap) list"

text \<open>\<^verbatim>\<open>openssl genrsa -out\<close> leaves the key in the file when it succeeds, and something or nothing
  when it fails.\<close>

record openssl =
  ossl_key :: "effect list \<Rightarrow> string"
  ossl_rest :: "effect list \<Rightarrow> string option"
  ossl_req :: "effect list \<Rightarrow> string list \<Rightarrow> string \<Rightarrow> piped"
  ossl_ini :: "ini_doc \<Rightarrow> string"

definition genrsa :: "env \<Rightarrow> openssl \<Rightarrow> string \<Rightarrow> unit run" where
  "genrsa env ssl keyPath =
     bindR (getR (\<lambda>n. n_trace n)) (\<lambda>tr.
     bindR (tryR (run_command env [''openssl'', ''genrsa'', ''-out'', keyPath, ''2048''])) (\<lambda>r.
       case r of
         Inr _ \<Rightarrow> disk_put keyPath (ossl_key ssl tr)
       | Inl e \<Rightarrow> thenR (case ossl_rest ssl tr of None \<Rightarrow> ret () | Some c \<Rightarrow> disk_put keyPath c) (failR e)))"

definition createServerAuthCsrParams :: "string \<Rightarrow> string \<Rightarrow> ini_doc" where
  "createServerAuthCsrParams nodeName nodeIP =
     [(''req'', [(''days'', ''30''), (''prompt'', ''no''), (''req_extensions'', ''v3_req''),
                 (''distinguished_name'', ''dn'')]),
      (''dn'', [(''O'', ''system:nodes''), (''CN'', ''system:node:'' @ nodeName)]),
      (''v3_req'', [(''subjectAltName'', ''@alt_names''), (''basicConstraints'', ''CA:FALSE''),
                    (''extendedKeyUsage'', ''serverAuth''),
                    (''keyUsage'', ''nonRepudiation, digitalSignature, keyEncipherment'')]),
      (''alt_names'', [(''DNS.1'', nodeName), (''IP.1'', nodeIP)])]"

text \<open>The error of waiting comes before that of reading.\<close>

definition GenerateCertRequest :: "openssl \<Rightarrow> key_storage \<Rightarrow> ini_doc \<Rightarrow> string run" where
  "GenerateCertRequest ssl ks params =
     (let args = [''openssl'', ''req'', ''-new'', ''-key'', GetFilePath ks ''.key'', ''-config'', ''/dev/stdin'',
                  ''-out'', ''/dev/stdout'']
      in bindR (getR (\<lambda>n. ossl_req ssl (n_trace n) args (ossl_ini ssl params))) (\<lambda>p.
         thenR (emit (Ran args))
           (case pi_start p of
              Some e \<Rightarrow> failR (PlainErr e)
            | None \<Rightarrow> (case pi_write p of
                Some e \<Rightarrow> failR (PlainErr e)
              | None \<Rightarrow> (case pi_wait p of
                  Some e \<Rightarrow> failR (PlainErr e)
                | None \<Rightarrow> (case pi_read p of
                    Some e \<Rightarrow> failR (PlainErr e)
                  | None \<Rightarrow> ret (pi_out p)))))))"

subsection \<open>The flow\<close>

record csr =
  csr_certificate :: string
  csr_conditions :: "(string \<times> string \<times> string) list"

record csr_object =
  co_csr_name :: string
  co_labels :: smap
  co_owner :: "string \<times> string \<times> string \<times> string"
  co_request :: string
  co_usages :: "string list"

record csr_api =
  ca_get :: "effect list \<Rightarrow> string \<Rightarrow> string + csr"
  ca_create :: "effect list \<Rightarrow> csr_object \<Rightarrow> string + csr"
  ca_node_uid :: "effect list \<Rightarrow> string \<Rightarrow> string + string"

definition kind_csr :: string where "kind_csr = ''CertificateSigningRequest''"

definition get_csr :: "csr_api \<Rightarrow> string \<Rightarrow> csr run" where
  "get_csr api name =
     bindR (getR (\<lambda>n. ca_get api (n_trace n) name)) (\<lambda>r.
     thenR (emit (KubeGet kind_csr [] name)) (liftE (case r of Inl e \<Rightarrow> Inl (PlainErr e) | Inr c \<Rightarrow> Inr c)))"

definition create_csr :: "csr_api \<Rightarrow> csr_object \<Rightarrow> csr run" where
  "create_csr api ob =
     bindR (getR (\<lambda>n. ca_create api (n_trace n) ob)) (\<lambda>r.
     thenR (emit (KubeCreate kind_csr [] (co_csr_name ob)))
       (liftE (case r of Inl e \<Rightarrow> Inl (PlainErr e) | Inr c \<Rightarrow> Inr c)))"

definition get_node_uid :: "csr_api \<Rightarrow> string \<Rightarrow> string run" where
  "get_node_uid api name =
     bindR (getR (\<lambda>n. ca_node_uid api (n_trace n) name)) (\<lambda>r.
     thenR (emit (KubeGet ''Node'' [] name)) (liftE (case r of Inl e \<Rightarrow> Inl (PlainErr e) | Inr u \<Rightarrow> Inr u)))"

definition csr_name :: "string \<Rightarrow> string" where
  "csr_name nodeName = ''kube-pet-node.'' @ nodeName"

definition new_csr :: "string \<Rightarrow> string \<Rightarrow> string \<Rightarrow> csr_object" where
  "new_csr nodeName uid request =
     \<lparr>co_csr_name = csr_name nodeName, co_labels = [(''kubernetes.io/role'', ''pet'')],
      co_owner = (''v1'', ''Node'', nodeName, uid), co_request = request,
      co_usages = [''digital signature'', ''key encipherment'', ''server auth'']\<rparr>"

definition not_found_text :: "go_error \<Rightarrow> bool" where
  "not_found_text err \<longleftrightarrow> str_contains (errText err) ''not found''"

text \<open>Up to the loop: the key, and the request that is there or a new one.\<close>

definition submit_request :: "env \<Rightarrow> openssl \<Rightarrow> csr_api \<Rightarrow> key_storage \<Rightarrow> string \<Rightarrow> ip \<Rightarrow> csr run" where
  "submit_request env ssl api ks nodeName nodeIP =
     thenR (EnsurePrivateKeyExists env ks (genrsa env ssl))
     (bindR (tryR (get_csr api (csr_name nodeName))) (\<lambda>r.
        case r of
          Inr csr \<Rightarrow> ret csr
        | Inl err \<Rightarrow>
            if \<not> not_found_text err then failR err
            else
              bindR (GenerateCertRequest ssl ks (createServerAuthCsrParams nodeName (IP_String nodeIP))) (\<lambda>request.
              bindR (get_node_uid api nodeName) (\<lambda>uid.
                create_csr api (new_csr nodeName uid request)))))"

definition poll :: "csr_api \<Rightarrow> string \<Rightarrow> csr run" where
  "poll api name = thenR (emit (Slept 5000000000)) (get_csr api name)"

definition pending :: "(go_error, csr) res \<Rightarrow> bool" where
  "pending r = (case r of Ok csr \<Rightarrow> csr_certificate csr = [] | _ \<Rightarrow> False)"

definition wait_for_certificate ::
  "csr_api \<Rightarrow> string \<Rightarrow> (go_error, csr) res \<times> node \<Rightarrow> ((go_error, csr) res \<times> node) option" where
  "wait_for_certificate api name = while_option (\<lambda>(r, n). pending r) (\<lambda>(r, n). poll api name n)"

definition PerformCertificateFlow ::
  "env \<Rightarrow> openssl \<Rightarrow> csr_api \<Rightarrow> key_storage \<Rightarrow> string \<Rightarrow> ip \<Rightarrow> node \<Rightarrow> ((go_error, unit) res \<times> node) option" where
  "PerformCertificateFlow env ssl api ks nodeName nodeIP n =
     map_option (\<lambda>(r, n').
         case r of
           Ok csr \<Rightarrow> StoreFile env ks ''.crt'' (csr_certificate csr) n'
         | Err e \<Rightarrow> (Err e, n')
         | Panic \<Rightarrow> (Panic, n'))
       (wait_for_certificate api (csr_name nodeName) (submit_request env ssl api ks nodeName nodeIP n))"

end
