(* ===== verification/Cert_Props.thy ===== *)
theory Cert_Props
  imports Kube_Cert Podman_Props
begin

text \<open>The properties of the certificate flow: when the loop ends and with what, and that the private key
  stays.\<close>

subsection \<open>Loops\<close>

lemma while_option_after:
  assumes "\<not> b ((c ^^ k) s)" "\<And>j. j < k \<Longrightarrow> b ((c ^^ j) s)"
  shows "while_option b c s = Some ((c ^^ k) s)"
  using assms
proof (induction k arbitrary: s)
  case 0
  then show ?case by (simp add: while_option_unfold)
next
  case (Suc k)
  have "b s" using Suc.prems(2) [of 0] by simp
  then have "while_option b c s = while_option b c (c s)" by (simp add: while_option_unfold)
  also have "\<dots> = Some ((c ^^ k) (c s))"
  proof (rule Suc.IH)
    show "\<not> b ((c ^^ k) (c s))" using Suc.prems(1) by (simp add: funpow_swap1)
    show "b ((c ^^ j) (c s))" if "j < k" for j using Suc.prems(2) [of "Suc j"] that by (simp add: funpow_swap1)
  qed
  finally show ?case by (simp add: funpow_swap1)
qed

lemma while_option_never: "while_option b c s = None \<longleftrightarrow> (\<forall>k. b ((c ^^ k) s))"
  by (simp add: while_option_def)

subsection \<open>Polling\<close>

definition poll_trace :: "string \<Rightarrow> effect list \<Rightarrow> nat \<Rightarrow> effect list" where
  "poll_trace name tr k = tr @ concat (replicate k [Slept 5000000000, KubeGet kind_csr [] name])"

text \<open>What the API answers to the \<open>k\<close>th poll.\<close>

definition answer_at :: "csr_api \<Rightarrow> string \<Rightarrow> effect list \<Rightarrow> nat \<Rightarrow> string + csr" where
  "answer_at api name tr k = ca_get api (poll_trace name tr k @ [Slept 5000000000]) name"

definition decided :: "string + csr \<Rightarrow> bool" where
  "decided r = (case r of Inl _ \<Rightarrow> True | Inr c \<Rightarrow> csr_certificate c \<noteq> [])"

definition as_result :: "string + csr \<Rightarrow> (go_error, csr) res" where
  "as_result r = (case r of Inl e \<Rightarrow> Err (PlainErr e) | Inr c \<Rightarrow> Ok c)"

lemma pending_as_result: "pending (as_result r) \<longleftrightarrow> \<not> decided r"
  by (auto simp: pending_def as_result_def decided_def split: sum.split)

lemma poll_trace_Suc: "poll_trace name tr (Suc k) = poll_trace name tr k @ [Slept 5000000000, KubeGet kind_csr [] name]"
proof -
  have "concat (replicate k xs) @ xs = xs @ concat (replicate k xs)" for xs :: "effect list"
    by (induction k) simp_all
  from this [of "[Slept 5000000000, KubeGet kind_csr [] name]"] show ?thesis by (simp add: poll_trace_def)
qed

lemma poll_node:
  "poll api name n = (as_result (ca_get api (n_trace n @ [Slept 5000000000]) name),
     n\<lparr>n_trace := n_trace n @ [Slept 5000000000, KubeGet kind_csr [] name]\<rparr>)"
  by (auto simp: poll_def get_csr_def as_result_def liftE_def thenR_def split: sum.split)

lemma polls:
  "((\<lambda>(r, n). poll api name n) ^^ k) (r, n)
     = (case k of 0 \<Rightarrow> r | Suc j \<Rightarrow> as_result (answer_at api name (n_trace n) j),
        n\<lparr>n_trace := poll_trace name (n_trace n) k\<rparr>)"
proof (induction k)
  case 0
  then show ?case by (simp add: poll_trace_def)
next
  case (Suc k)
  then show ?case by (simp add: poll_node answer_at_def poll_trace_Suc)
qed

lemma wait_forever:
  assumes "pending r"
  shows "wait_for_certificate api name (r, n) = None \<longleftrightarrow> (\<forall>k. \<not> decided (answer_at api name (n_trace n) k))"
proof -
  have "wait_for_certificate api name (r, n) = None
      \<longleftrightarrow> (\<forall>k. pending (case k of 0 \<Rightarrow> r | Suc j \<Rightarrow> as_result (answer_at api name (n_trace n) j)))"
    by (simp add: wait_for_certificate_def while_option_never polls)
  also have "\<dots> \<longleftrightarrow> (\<forall>k. \<not> decided (answer_at api name (n_trace n) k))"
    using assms by (auto simp: pending_as_result [symmetric] split: nat.split)
  finally show ?thesis .
qed

lemma wait_until:
  assumes "pending r" "decided (answer_at api name (n_trace n) k)"
    and "\<And>j. j < k \<Longrightarrow> \<not> decided (answer_at api name (n_trace n) j)"
  shows "wait_for_certificate api name (r, n)
    = Some (as_result (answer_at api name (n_trace n) k), n\<lparr>n_trace := poll_trace name (n_trace n) (Suc k)\<rparr>)"
proof -
  have "while_option (\<lambda>(r, n). pending r) (\<lambda>(r, n). poll api name n) (r, n)
      = Some (((\<lambda>(r, n). poll api name n) ^^ Suc k) (r, n))"
  proof (rule while_option_after)
    show "\<not> (\<lambda>(r, n). pending r) (((\<lambda>(r, n). poll api name n) ^^ Suc k) (r, n))"
      using assms(2) by (simp only: polls prod.case nat.case pending_as_result not_not)
    show "(\<lambda>(r, n). pending r) (((\<lambda>(r, n). poll api name n) ^^ j) (r, n))" if "j < Suc k" for j
      using assms(1) assms(3) [of "j - 1"] that
      by (cases j) (simp_all add: polls pending_as_result del: funpow.simps)
  qed
  then show ?thesis by (simp only: wait_for_certificate_def polls nat.case)
qed

text \<open>C17 (termination): when the flow returns. With a request that is not approved yet, it returns
  exactly if some poll is answered by a certificate or by an error, with one poll each five seconds
  until then: by an error, which is returned, or by a certificate, which is stored. Nothing else
  ends the loop; a request that is denied leaves no certificate and is waited for forever.\<close>

theorem certificate_flow_ends:
  assumes "submit_request env ssl api ks nodeName nodeIP n = (Ok csr, n1)" "csr_certificate csr = []"
  shows "(PerformCertificateFlow env ssl api ks nodeName nodeIP n = None
          \<longleftrightarrow> (\<forall>k. \<not> decided (answer_at api (csr_name nodeName) (n_trace n1) k)))
    \<and> (decided (answer_at api (csr_name nodeName) (n_trace n1) k)
          \<and> (\<forall>j < k. \<not> decided (answer_at api (csr_name nodeName) (n_trace n1) j)) \<longrightarrow>
        PerformCertificateFlow env ssl api ks nodeName nodeIP n =
          Some (let n2 = n1\<lparr>n_trace := poll_trace (csr_name nodeName) (n_trace n1) (Suc k)\<rparr>
                in case answer_at api (csr_name nodeName) (n_trace n1) k of
                     Inl e \<Rightarrow> (Err (PlainErr e), n2)
                   | Inr c \<Rightarrow> StoreFile env ks ''.crt'' (csr_certificate c) n2))"
proof -
  have p: "pending (Ok csr)" using assms(2) by (simp add: pending_def)
  have "PerformCertificateFlow env ssl api ks nodeName nodeIP n = None
      \<longleftrightarrow> (\<forall>k. \<not> decided (answer_at api (csr_name nodeName) (n_trace n1) k))"
    using wait_forever [OF p] by (simp add: PerformCertificateFlow_def assms(1))
  moreover have "PerformCertificateFlow env ssl api ks nodeName nodeIP n =
          Some (let n2 = n1\<lparr>n_trace := poll_trace (csr_name nodeName) (n_trace n1) (Suc k)\<rparr>
                in case answer_at api (csr_name nodeName) (n_trace n1) k of
                     Inl e \<Rightarrow> (Err (PlainErr e), n2)
                   | Inr c \<Rightarrow> StoreFile env ks ''.crt'' (csr_certificate c) n2)"
    if "decided (answer_at api (csr_name nodeName) (n_trace n1) k)"
      "\<And>j. j < k \<Longrightarrow> \<not> decided (answer_at api (csr_name nodeName) (n_trace n1) j)"
    using wait_until [OF p that]
    by (simp add: PerformCertificateFlow_def assms(1) Let_def as_result_def split: sum.split)
  ultimately show ?thesis by blast
qed

subsection \<open>What the flow writes\<close>

definition is_creation :: "effect \<Rightarrow> bool" where
  "is_creation e = (case e of KubeCreate _ _ _ \<Rightarrow> True | _ \<Rightarrow> False)"

lemma submit_with_key:
  assumes "submit_request env ssl api ks nodeName nodeIP m0 = (r, n1)"
    and key: "EnsurePrivateKeyExists env ks (genrsa env ssl) m0 = (Ok (), n)"
  shows "\<exists>es. n1 = n\<lparr>n_trace := n_trace n @ es\<rparr> \<and> length (filter is_creation es) \<le> 1
    \<and> (\<forall>csr. ca_get api (n_trace n) (csr_name nodeName) = Inr csr \<longrightarrow> r = Ok csr \<and> filter is_creation es = [])"
proof -
  show ?thesis
  proof (cases "ca_get api (n_trace n) (csr_name nodeName)")
    case (Inr csr)
    with assms(1) key show ?thesis
      by (auto simp: submit_request_def get_csr_def thenR_def liftE_def is_creation_def)
  next
    case (Inl e)
    then have g: "get_csr api (csr_name nodeName) n
        = (Err (PlainErr e), n\<lparr>n_trace := n_trace n @ [KubeGet kind_csr [] (csr_name nodeName)]\<rparr>)"
      by (simp add: get_csr_def thenR_def liftE_def)
    have gen: "\<exists>q. GenerateCertRequest ssl ks params m = (q, m\<lparr>n_trace := n_trace m @ [Ran
        [''openssl'', ''req'', ''-new'', ''-key'', GetFilePath ks ''.key'', ''-config'', ''/dev/stdin'',
                  ''-out'', ''/dev/stdout'']]\<rparr>)" for params m
      unfolding GenerateCertRequest_def by (auto simp: Let_def thenR_def split: option.split)
    have uid: "\<exists>q. get_node_uid api nodeName m = (q, m\<lparr>n_trace := n_trace m @ [KubeGet ''Node'' [] nodeName]\<rparr>)" for m
      by (auto simp: get_node_uid_def thenR_def liftE_def split: sum.split)
    have cre: "\<exists>q. create_csr api ob m = (q, m\<lparr>n_trace := n_trace m @ [KubeCreate kind_csr [] (co_csr_name ob)]\<rparr>)" for ob m
      by (auto simp: create_csr_def thenR_def liftE_def split: sum.split)
    show ?thesis
    proof (cases "not_found_text (PlainErr e)")
      case False
      with assms(1) key g Inl show ?thesis
        by (auto simp: submit_request_def thenR_def is_creation_def)
    next
      case True
      define m where "m = n\<lparr>n_trace := n_trace n @ [KubeGet kind_csr [] (csr_name nodeName)]\<rparr>"
      obtain q1 where q1: "GenerateCertRequest ssl ks (createServerAuthCsrParams nodeName (IP_String nodeIP)) m = (q1, m\<lparr>n_trace := n_trace m @ [Ran
        [''openssl'', ''req'', ''-new'', ''-key'', GetFilePath ks ''.key'', ''-config'', ''/dev/stdin'',
                  ''-out'', ''/dev/stdout'']]\<rparr>)" (is "_ = (_, ?m2)") using gen by blast
      obtain q2 where q2: "get_node_uid api nodeName ?m2 = (q2, ?m2\<lparr>n_trace := n_trace ?m2 @ [KubeGet ''Node'' [] nodeName]\<rparr>)"
        (is "_ = (_, ?m3)") using uid by blast
      have sub: "submit_request env ssl api ks nodeName nodeIP m0
        = bindR (GenerateCertRequest ssl ks (createServerAuthCsrParams nodeName (IP_String nodeIP))) (\<lambda>request.
              bindR (get_node_uid api nodeName) (\<lambda>uid. create_csr api (new_csr nodeName uid request))) m"
        by (simp add: submit_request_def key g True m_def)
      show ?thesis
      proof (cases q1)
        case (Ok request)
        show ?thesis
        proof (cases q2)
          fix u assume u: "q2 = Ok u"
          obtain q3 where "create_csr api (new_csr nodeName u request) ?m3
              = (q3, ?m3\<lparr>n_trace := n_trace ?m3 @ [KubeCreate kind_csr [] (co_csr_name (new_csr nodeName u request))]\<rparr>)"
            using cre by blast
          with assms(1) sub q1 q2 Ok u Inl show ?thesis by (auto simp: m_def is_creation_def)
        qed (use assms(1) sub q1 q2 Ok Inl in \<open>auto simp: m_def is_creation_def\<close>)
      qed (use assms(1) sub q1 Inl in \<open>auto simp: m_def is_creation_def\<close>)
    qed
  qed
qed

lemma wait_result:
  assumes "wait_for_certificate api name (r, n) = Some (r', n')"
  shows "\<exists>es. n' = n\<lparr>n_trace := n_trace n @ es\<rparr> \<and> filter is_creation es = [] \<and> \<not> pending r'"
proof -
  from assms have "while_option (\<lambda>(r, n). pending r) (\<lambda>(r, n). poll api name n) (r, n) = Some (r', n')"
    by (simp add: wait_for_certificate_def)
  from while_option_stop2 [OF this] obtain k where
    k: "(r', n') = ((\<lambda>(r, n). poll api name n) ^^ k) (r, n)" "\<not> pending r'" by auto
  have "filter is_creation (concat (replicate k [Slept 5000000000, KubeGet kind_csr [] name])) = []"
    by (induction k) (simp_all add: is_creation_def)
  with k show ?thesis by (auto simp: polls poll_trace_def)
qed

lemma paths_differ: "GetFilePath ks ''.crt'' \<noteq> GetFilePath ks ''.key''"
  by (simp add: GetFilePath_def)

text \<open>The key that is on the disk when the request is made, and the commands run for it.\<close>

definition genrsa_args :: "string \<Rightarrow> string list" where
  "genrsa_args keyPath = [''openssl'', ''genrsa'', ''-out'', keyPath, ''2048'']"

definition key_after :: "env \<Rightarrow> openssl \<Rightarrow> string \<Rightarrow> node \<Rightarrow> string option" where
  "key_after env ssl keyPath n =
     (if can_stat env keyPath n then map_of (n_disk n) keyPath
      else case env_command env (n_trace n) (genrsa_args keyPath) of
             Inr _ \<Rightarrow> Some (ossl_key ssl (n_trace n))
           | Inl _ \<Rightarrow> (case ossl_rest ssl (n_trace n) of Some c \<Rightarrow> Some c | None \<Rightarrow> map_of (n_disk n) keyPath))"

definition key_runs :: "env \<Rightarrow> string \<Rightarrow> node \<Rightarrow> effect list" where
  "key_runs env keyPath n = (if can_stat env keyPath n then [] else [Ran (genrsa_args keyPath)])"

lemma key_ensured:
  assumes "EnsurePrivateKeyExists env ks (genrsa env ssl) n = (r, n0)"
  shows "n_trace n0 = n_trace n @ key_runs env (GetFilePath ks ''.key'') n
    \<and> map_of (n_disk n0) (GetFilePath ks ''.key'') = key_after env ssl (GetFilePath ks ''.key'') n
    \<and> (\<forall>path. path \<noteq> GetFilePath ks ''.key'' \<longrightarrow> map_of (n_disk n0) path = map_of (n_disk n) path)
    \<and> r \<noteq> Panic"
  using assms
  by (auto simp: EnsurePrivateKeyExists_def Let_def genrsa_def run_command_def thenR_def disk_put_def update_conv'
      key_after_def key_runs_def genrsa_args_def split: if_splits sum.splits option.splits)

text \<open>The parts of the flow: the key, the request, the loop, and the certificate's file.\<close>

lemma flow_stages:
  assumes "PerformCertificateFlow env ssl api ks nodeName nodeIP n = Some (r, n')"
  obtains n0 es r2 n2 where
    "EnsurePrivateKeyExists env ks (genrsa env ssl) n = (fst (EnsurePrivateKeyExists env ks (genrsa env ssl) n), n0)"
    "n2 = n0\<lparr>n_trace := n_trace n0 @ es\<rparr>" "length (filter is_creation es) \<le> 1"
    "\<forall>csr. ca_get api (n_trace n0) (csr_name nodeName) = Inr csr \<longrightarrow> filter is_creation es = []"
    "\<not> pending r2"
    "(case r2 of Ok csr \<Rightarrow> StoreFile env ks ''.crt'' (csr_certificate csr) n2
       | Err e \<Rightarrow> (Err e, n2) | Panic \<Rightarrow> (Panic, n2)) = (r, n')"
proof -
  obtain q n0 where key: "EnsurePrivateKeyExists env ks (genrsa env ssl) n = (q, n0)" by fastforce
  obtain r1 n1 where sub: "submit_request env ssl api ks nodeName nodeIP n = (r1, n1)" by fastforce
  have "\<exists>es. n1 = n0\<lparr>n_trace := n_trace n0 @ es\<rparr> \<and> length (filter is_creation es) \<le> 1
    \<and> (\<forall>csr. ca_get api (n_trace n0) (csr_name nodeName) = Inr csr \<longrightarrow> filter is_creation es = [])"
  proof (cases q)
    case (Ok u)
    with submit_with_key [OF sub] key show ?thesis by fastforce
  qed (use sub key in \<open>auto simp: submit_request_def thenR_def intro: exI [of _ "[]"]\<close>)
  then obtain es1 where es1: "n1 = n0\<lparr>n_trace := n_trace n0 @ es1\<rparr>" "length (filter is_creation es1) \<le> 1"
    "\<forall>csr. ca_get api (n_trace n0) (csr_name nodeName) = Inr csr \<longrightarrow> filter is_creation es1 = []" by blast
  from assms sub obtain r2 n2 where w: "wait_for_certificate api (csr_name nodeName) (r1, n1) = Some (r2, n2)"
    and fin: "(case r2 of Ok csr \<Rightarrow> StoreFile env ks ''.crt'' (csr_certificate csr) n2
           | Err e \<Rightarrow> (Err e, n2) | Panic \<Rightarrow> (Panic, n2)) = (r, n')"
    by (auto simp: PerformCertificateFlow_def)
  from wait_result [OF w] obtain es2 where es2: "n2 = n1\<lparr>n_trace := n_trace n1 @ es2\<rparr>"
    "filter is_creation es2 = []" "\<not> pending r2" by blast
  show thesis
    by (rule that [of n0 n2 "es1 @ es2", OF _ _ _ _ es2(3) fin]) (use key es1 es2(1,2) in simp_all)
qed

lemma StoreFile_writes:
  assumes "StoreFile env ks ''.crt'' data m = (q, m')"
  shows "n_trace m' = n_trace m @ [DiskWrite (GetFilePath ks ''.crt'') data]
    \<and> (\<forall>path. path \<noteq> GetFilePath ks ''.crt'' \<longrightarrow> map_of (n_disk m') path = map_of (n_disk m) path)
    \<and> (q = Ok () \<longrightarrow> map_of (n_disk m') (GetFilePath ks ''.crt'') = Some data)"
  using assms
  by (auto simp: StoreFile_def disk_write_def disk_put_def thenR_def update_conv' split: option.splits)


subsection \<open>An approval at the second poll\<close>

definition ex_ks :: key_storage where
  "ex_ks = \<lparr>ks_root = ''/cache'', ks_id = ''kubelet-server''\<rparr>"

definition ex_csr_api :: csr_api where
  "ex_csr_api = \<lparr>ca_get = (\<lambda>tr _. Inr \<lparr>csr_certificate = (if length tr < 4 then [] else ''CERT''), csr_conditions = []\<rparr>),
     ca_create = (\<lambda>_ _. Inl ''exists''), ca_node_uid = (\<lambda>_ _. Inr ''u1'')\<rparr>"

definition ex_ssl :: openssl where
  "ex_ssl = \<lparr>ossl_key = (\<lambda>_. ''KEY2''), ossl_rest = (\<lambda>_. None),
     ossl_req = (\<lambda>_ _ _. \<lparr>pi_start = None, pi_write = None, pi_out = ''CSR'', pi_wait = None, pi_read = None\<rparr>),
     ossl_ini = (\<lambda>_. [])\<rparr>"

definition ex_cert_env :: env where
  "ex_cert_env = ex_env ex_missing ex_missing_body"

definition ex_cert_node :: node where
  "ex_cert_node = ex_node\<lparr>n_disk := [(GetFilePath ex_ks ''.key'', ''KEY'')]\<rparr>"

lemma ex_can_stat: "can_stat ex_cert_env (GetFilePath ex_ks ''.key'') ex_cert_node"
  by (simp add: can_stat_def ex_cert_env_def ex_env_def ex_cert_node_def)

lemma ex_submitted:
  "submit_request ex_cert_env ex_ssl ex_csr_api ex_ks ''pet-a'' [] ex_cert_node
     = (Ok \<lparr>csr_certificate = [], csr_conditions = []\<rparr>,
        ex_cert_node\<lparr>n_trace := [KubeGet kind_csr [] (csr_name ''pet-a'')]\<rparr>)"
  using ex_can_stat
  by (simp add: submit_request_def EnsurePrivateKeyExists_def Let_def get_csr_def thenR_def ex_csr_api_def liftE_def
      ex_cert_node_def ex_node_def)

lemma ex_csr_answers:
  "answer_at ex_csr_api (csr_name ''pet-a'') [KubeGet kind_csr [] (csr_name ''pet-a'')] 0
     = Inr \<lparr>csr_certificate = [], csr_conditions = []\<rparr>"
  "answer_at ex_csr_api (csr_name ''pet-a'') [KubeGet kind_csr [] (csr_name ''pet-a'')] 1
     = Inr \<lparr>csr_certificate = ''CERT'', csr_conditions = []\<rparr>"
  by (simp_all add: answer_at_def ex_csr_api_def poll_trace_def)

lemma ex_stored: "fst (StoreFile ex_cert_env ex_ks ''.crt'' data m) = Ok ()"
  by (simp add: StoreFile_def disk_write_def disk_put_def thenR_def ex_cert_env_def ex_env_def)

lemma certificate_flow_ends_witness:
  "\<exists>n'. PerformCertificateFlow ex_cert_env ex_ssl ex_csr_api ex_ks ''pet-a'' [] ex_cert_node = Some (Ok (), n')"
proof -
  have "PerformCertificateFlow ex_cert_env ex_ssl ex_csr_api ex_ks ''pet-a'' [] ex_cert_node
      = Some (StoreFile ex_cert_env ex_ks ''.crt'' ''CERT''
          (ex_cert_node\<lparr>n_trace := poll_trace (csr_name ''pet-a'') [KubeGet kind_csr [] (csr_name ''pet-a'')] (Suc 1)\<rparr>))"
    using certificate_flow_ends [OF ex_submitted, of 1]
    by (simp add: ex_csr_answers [unfolded One_nat_def] decided_def Let_def)
  moreover note ex_stored
  ultimately show ?thesis by (metis prod.collapse)
qed

lemma ex_flow_runs:
  "\<exists>n'. PerformCertificateFlow ex_cert_env ex_ssl ex_csr_api ex_ks ''pet-a'' [] ex_cert_node = Some (Ok (), n')"
proof -
  have "wait_for_certificate ex_csr_api (csr_name ''pet-a'')
      (Ok \<lparr>csr_certificate = [], csr_conditions = []\<rparr>, ex_cert_node\<lparr>n_trace := [KubeGet kind_csr [] (csr_name ''pet-a'')]\<rparr>)
    = Some (Ok \<lparr>csr_certificate = ''CERT'', csr_conditions = []\<rparr>, ex_cert_node\<lparr>n_trace :=
          poll_trace (csr_name ''pet-a'') [KubeGet kind_csr [] (csr_name ''pet-a'')] (Suc 1)\<rparr>)"
    by (subst wait_until [of _ _ _ _ 1])
      (simp_all add: pending_def ex_csr_answers [unfolded One_nat_def] decided_def as_result_def)
  then have "PerformCertificateFlow ex_cert_env ex_ssl ex_csr_api ex_ks ''pet-a'' [] ex_cert_node
      = Some (StoreFile ex_cert_env ex_ks ''.crt'' ''CERT'' (ex_cert_node\<lparr>n_trace :=
          poll_trace (csr_name ''pet-a'') [KubeGet kind_csr [] (csr_name ''pet-a'')] (Suc 1)\<rparr>))"
    by (simp add: PerformCertificateFlow_def ex_submitted)
  with ex_stored show ?thesis by (metis prod.collapse)
qed

definition ex_failing_api :: csr_api where
  "ex_failing_api = ex_csr_api\<lparr>ca_get := (\<lambda>_ _. Inl ''forbidden'')\<rparr>"

lemma ex_fails: "\<exists>r n'. PerformCertificateFlow ex_cert_env ex_ssl ex_failing_api ex_ks ''pet-a'' [] ex_node = Some (r, n')"
proof -
  have nf: "\<not> not_found_text (PlainErr ''forbidden'')" by code_simp
  have st: "\<not> can_stat ex_cert_env path ex_node" for path by (simp add: can_stat_def ex_node_def)
  have cmd: "env_command ex_cert_env tr args = Inr []" for tr args by (simp add: ex_cert_env_def ex_env_def)
  have "fst (EnsurePrivateKeyExists ex_cert_env ex_ks (genrsa ex_cert_env ex_ssl) ex_node) = Ok ()"
    by (simp add: EnsurePrivateKeyExists_def Let_def genrsa_def run_command_def thenR_def disk_put_def st cmd bindR_def)
  then obtain n0 where "EnsurePrivateKeyExists ex_cert_env ex_ks (genrsa ex_cert_env ex_ssl) ex_node = (Ok (), n0)"
    by (metis prod.collapse)
  with nf have "\<exists>e n1. submit_request ex_cert_env ex_ssl ex_failing_api ex_ks ''pet-a'' [] ex_node = (Err e, n1)"
    by (auto simp: submit_request_def thenR_def get_csr_def liftE_def ex_failing_api_def)
  then obtain e n1 where "submit_request ex_cert_env ex_ssl ex_failing_api ex_ks ''pet-a'' [] ex_node = (Err e, n1)" by blast
  moreover have "wait_for_certificate ex_failing_api name (Err e, n1) = Some (Err e, n1)" for name
    unfolding wait_for_certificate_def by (subst while_option_unfold) (simp add: pending_def)
  ultimately show ?thesis by (simp add: PerformCertificateFlow_def)
qed


end
