(* ===== verification/Kube_Exec.thy ===== *)
theory Kube_Exec
  imports Pod_Manager Podman_Reports Exec_Stream
begin

text \<open>
  Running commands in containers and reading their logs: \<^verbatim>\<open>controllers/kubeapi/api-exec.go\<close> and
  \<^verbatim>\<open>api-logs.go\<close>. The goroutine that passes on the terminal's sizes runs beside the rest: the sizes it
  handles before the start of the session and those it handles while the output is copied are
  arguments. The caller's streams take every write, and copying the input changes nothing here.
  Not modelled is the goroutine of \<^verbatim>\<open>RunInContainer\<close> that writes no bytes to stdout every 15 seconds,
  from the start of the session and for good: a caller with a stdout does not notice it, and without
  one the agent panics at the first of these writes at the latest, also when the call has returned.
\<close>

subsection \<open>Commands\<close>

record attach_io =
  at_tty :: bool
  at_stdin :: bool
  at_stdout :: bool
  at_stderr :: bool

definition exec_options :: "string list \<Rightarrow> attach_io \<Rightarrow> ContainerExecOptions" where
  "exec_options cmd attach =
     \<lparr>ceo_AttachStderr = at_stderr attach, ceo_AttachStdin = at_stdin attach, ceo_AttachStdout = at_stdout attach,
      ceo_Cmd = Some cmd, ceo_DetachKeys = [], ceo_Env = None, ceo_Privileged = False, ceo_Tty = at_tty attach,
      ceo_User = [], ceo_WorkingDir = []\<rparr>"

text \<open>An error of a resize is only logged.\<close>

definition resize_all :: "env \<Rightarrow> ExecSession \<Rightarrow> (u16 \<times> u16) list \<Rightarrow> unit run" where
  "resize_all env session sizes =
     forR (\<lambda>(width, height). ignoreR (ExecResize env session width height)) sizes"

definition exit_error :: "int \<Rightarrow> go_error" where
  "exit_error status = PlainErr (''command terminated with exit code '' @ int_dec status)"

text \<open>What is copied to stdout and stderr; the error of the copy is dropped. A nil stream that is used panics, and the
  demultiplexer closes both of them at the latest at its end.\<close>

definition copy_output :: "attach_io \<Rightarrow> bytes \<Rightarrow> (bytes \<times> bytes) option" where
  "copy_output attach output =
     (if at_tty attach then (if output \<noteq> [] \<and> \<not> at_stdout attach then None else Some (output, []))
      else if \<not> at_stdout attach then None
      else map_option fst (DemuxRawStream (at_stderr attach) False output))"

text \<open>The result is the output together with the error, if any.\<close>

definition RunInContainer ::
  "env \<Rightarrow> pod_coord \<Rightarrow> string \<Rightarrow> string list \<Rightarrow> attach_io \<Rightarrow> (u16 \<times> u16) list \<Rightarrow> (u16 \<times> u16) list \<Rightarrow> (bytes \<times> bytes) outcome run" where
  "RunInContainer env coord containerName cmd attach early late =
     bindR (tryR (StartExecInPod env coord containerName (exec_options cmd attach))) (\<lambda>r.
       case r of
         Inl err \<Rightarrow> ret (([], []), Some err)
       | Inr session \<Rightarrow>
           thenR (resize_all env session early)
           (bindR (tryR (ExecStart env session)) (\<lambda>r.
             case r of
               Inl err \<Rightarrow> ret (([], []), Some err)
             | Inr (writable, output) \<Rightarrow>
                 thenR (resize_all env session late)
                 (bindR (derefR (copy_output attach (bytes_of output))) (\<lambda>outs.
                  bindR (tryR (errR (ExecInspect env session))) (\<lambda>r.
                    ret (outs, case r of
                                 Inl err \<Rightarrow> None
                               | Inr sessResult \<Rightarrow>
                                   if eir_ExitCode sessResult > 0 then Some (exit_error (eir_ExitCode sessResult))
                                   else None)))))))"

subsection \<open>Logs\<close>

record log_opts =
  lo_previous :: bool
  lo_timestamps :: bool
  lo_follow :: bool
  lo_tail :: int

definition logs_options :: "log_opts \<Rightarrow> ContainerLogsOptions" where
  "logs_options opts =
     \<lparr>clo_Follow = lo_follow opts, clo_Since = [], clo_Until = [], clo_Timestamps = lo_timestamps opts,
      clo_Tail = (if lo_tail opts > 0 then int_dec (lo_tail opts) else [])\<rparr>"

text \<open>\<open>DemuxRawStream\<close> with one pipe for both streams: the packets in the order of the stream.\<close>

function merge_loop :: "bool \<Rightarrow> bytes \<Rightarrow> bytes \<Rightarrow> bytes \<times> io_error" where
  "merge_loop addNewLines input out =
     (if input = [] then (out, EOF)
      else if length input < 8 then (out, UnexpectedEOF)
      else
        let rest = drop 8 input;
            pktLen = be32_val (drop 4 (take 8 input));
            pkt = take pktLen rest
        in if length rest < pktLen then (out @ pkt, EOF)
           else merge_loop addNewLines (drop pktLen rest) (out @ pkt @ (if addNewLines then [0x0A] else [])))"
  by pat_completeness auto
termination by (relation "measure (\<lambda>(_, input, _). length input)") auto

declare merge_loop.simps [simp del]

definition no_previous :: string where
  "no_previous = ''TODO: kube-pet-node doesn't support --previous=true''"

definition GetContainerLogs :: "env \<Rightarrow> pod_coord \<Rightarrow> string \<Rightarrow> log_opts \<Rightarrow> bytes run" where
  "GetContainerLogs env coord containerName opts =
     (if lo_previous opts then ret (bytes_of no_previous)
      else bindR (FetchContainerLogs env coord containerName (logs_options opts)) (\<lambda>logs.
             ret (fst (merge_loop True (bytes_of logs) []))))"

end
