(* ===== verification/Exec_Props.thy ===== *)
theory Exec_Props
  imports Kube_Exec Podman_Props
begin

text \<open>The properties of commands and logs: what the caller gets of the output, and when it gets an error.\<close>

subsection \<open>Logs\<close>

lemma merge_step:
  assumes "8 \<le> length inp" "be32_val (drop 4 (take 8 inp)) = length pkt" "drop 8 inp = pkt @ r"
  shows "merge_loop nl inp out = merge_loop nl r (out @ pkt @ (if nl then [0x0A] else []))"
proof -
  have "inp \<noteq> []" "\<not> length inp < 8" using assms(1) by auto
  then show ?thesis by (subst merge_loop.simps) (auto simp: Let_def assms(2,3))
qed

lemma merge_frame:
  assumes "length (snd p) < 2 ^ 32"
  shows "merge_loop nl (frame p @ r) out = merge_loop nl r (out @ snd p @ (if nl then [0x0A] else []))"
  by (rule merge_step) (use frame_parts [OF assms] in \<open>simp_all add: numeral_eq_Suc\<close>)

lemma merge_frames:
  assumes "\<And>p. p \<in> set ps \<Longrightarrow> length (snd p) < 2 ^ 32"
  shows "merge_loop nl (concat (map frame ps) @ r) out
    = merge_loop nl r (out @ concat (map (\<lambda>p. snd p @ (if nl then [0x0A] else [])) ps))"
  using assms
proof (induction ps arbitrary: out)
  case (Cons p ps)
  have "merge_loop nl (frame p @ (concat (map frame ps) @ r)) out
      = merge_loop nl (concat (map frame ps) @ r) (out @ snd p @ (if nl then [0x0A] else []))"
    by (rule merge_frame) (use Cons.prems in simp)
  with Cons show ?case by simp
qed simp

text \<open>The start of a packet that never ends: its header goes, what there is of its data stays.\<close>

lemma merge_cut:
  assumes "length (snd q) < 2 ^ 32" "m < length (frame q)"
  shows "fst (merge_loop nl (take m (frame q)) out) = out @ drop 8 (take m (frame q))"
proof -
  note f = frame_parts(1-3) [OF assms(1), of "[]"] frame_parts(4) [OF assms(1)]
  have m: "length (take m (frame q)) = m" using assms(2) by simp
  show ?thesis
  proof (cases "m < 8")
    case True
    then show ?thesis using m by (subst merge_loop.simps) auto
  next
    case False
    have "be32_val (drop 4 (take 8 (frame q))) = length (snd q)"
      using f(2,4) by (simp add: numeral_eq_Suc)
    moreover have "take 8 (take m (frame q)) = take 8 (frame q)" using False by (simp add: min_def)
    moreover have "length (drop 8 (take m (frame q))) < length (snd q)"
      using m False assms(2) by (simp add: frame_def be32_def)
    moreover have "take m (frame q) \<noteq> []" using m False by auto
    ultimately show ?thesis using m False by (subst merge_loop.simps) (simp add: Let_def)
  qed
qed

text \<open>C30 (roundtrip): the logs of a container. The packets that podman sends, of stdout and stderr alike,
  become lines in the order in which they were sent. The log may end anywhere: after a whole packet
  nothing is added, a cut header is dropped, and a packet that is cut short is delivered as far as it
  goes, without a newline. Asking for the previous container sends nothing to podman.\<close>

theorem GetContainerLogs_lines:
  assumes "FetchContainerLogs env coord name (logs_options opts) n = (Ok logs, n')"
    and "bytes_of logs = concat (map frame ps) @ take m (frame q)" "m < length (frame q)"
    and "\<And>p. p \<in> set (q # ps) \<Longrightarrow> length (snd p) < 2 ^ 32"
    and "\<not> lo_previous opts"
  shows "GetContainerLogs env coord name opts n
      = (Ok (concat (map (\<lambda>p. snd p @ [0x0A]) ps) @ drop 8 (take m (frame q))), n')
    \<and> GetContainerLogs env coord name (opts\<lparr>lo_previous := True\<rparr>) n = (Ok (bytes_of no_previous), n)"
proof -
  have "fst (merge_loop True (bytes_of logs) []) = concat (map (\<lambda>p. snd p @ [0x0A]) ps) @ drop 8 (take m (frame q))"
    using merge_frames [of ps True "take m (frame q)" "[]"] merge_cut [of q m True] assms(2-4) by simp
  then show ?thesis using assms(1,5) by (simp add: GetContainerLogs_def)
qed

text \<open>A packet of each stream, and nothing, a cut header or a cut packet after them.\<close>

definition ex_log_bytes :: "nat \<Rightarrow> bytes" where
  "ex_log_bytes m = concat (map frame [(1, [72, 105]), (2, [33])]) @ take m (frame (2, [34, 35]))"

definition ex_log_env :: "nat \<Rightarrow> env" where
  "ex_log_env m = ex_env (\<lambda>_ _. Inr \<lparr>rs_code = 200, rs_status = ''200 OK'', rs_body = map char_of_byte (ex_log_bytes m)\<rparr>)
     ex_missing_body"

definition ex_log_opts :: log_opts where
  "ex_log_opts = \<lparr>lo_previous = False, lo_timestamps = False, lo_follow = False, lo_tail = 5\<rparr>"

definition ex_coord :: pod_coord where
  "ex_coord = \<lparr>co_ns = ''default'', co_name = ''web''\<rparr>"

lemma ex_log_request:
  "case UrlEncoded (ContainerKey ex_coord ''app'') of None \<Rightarrow> False
     | Some encoded \<Rightarrow> new_request ''GET'' (''/libpod/containers/'' @ encoded @ ''/logs'' @ logs_flags (logs_options ex_log_opts))
         accept_json None \<noteq> None"
  by code_simp

lemma ex_fetched:
  "\<exists>n'. FetchContainerLogs (ex_log_env m) ex_coord ''app'' (logs_options ex_log_opts) n
     = (Ok (map char_of_byte (ex_log_bytes m)), n')"
proof -
  obtain encoded req where e: "UrlEncoded (ContainerKey ex_coord ''app'') = Some encoded"
    and r: "new_request ''GET'' (''/libpod/containers/'' @ encoded @ ''/logs'' @ logs_flags (logs_options ex_log_opts))
         accept_json None = Some req"
    using ex_log_request by (auto split: option.splits)
  have "performRequest (ex_log_env m) req n = (Ok \<lparr>rs_code = 200, rs_status = ''200 OK'',
      rs_body = map char_of_byte (ex_log_bytes m)\<rparr>, n\<lparr>n_trace := n_trace n @ [Http req]\<rparr>)"
    by (simp add: performRequest_def ex_log_env_def ex_env_def happy_status_def)
  then show ?thesis
    using e r by (simp add: FetchContainerLogs_def ContainerLogs_def performRawRequest_def)
qed

lemma GetContainerLogs_lines_witness:
  "(\<exists>n'. GetContainerLogs (ex_log_env 0) ex_coord ''app'' ex_log_opts ex_node = (Ok [72, 105, 0x0A, 33, 0x0A], n'))
   \<and> (\<exists>n'. GetContainerLogs (ex_log_env 5) ex_coord ''app'' ex_log_opts ex_node = (Ok [72, 105, 0x0A, 33, 0x0A], n'))
   \<and> (\<exists>n'. GetContainerLogs (ex_log_env 9) ex_coord ''app'' ex_log_opts ex_node = (Ok [72, 105, 0x0A, 33, 0x0A, 34], n'))"
proof -
  have run: "\<exists>n'. GetContainerLogs (ex_log_env m) ex_coord ''app'' ex_log_opts ex_node
      = (Ok ([72, 105, 0x0A, 33, 0x0A] @ drop 8 (take m (frame (2, [34, 35])))), n')" if "m < 10" for m
  proof -
    obtain n' where f: "FetchContainerLogs (ex_log_env m) ex_coord ''app'' (logs_options ex_log_opts) ex_node
        = (Ok (map char_of_byte (ex_log_bytes m)), n')" using ex_fetched by blast
    have b: "bytes_of (map char_of_byte (ex_log_bytes m))
        = concat (map frame [(1, [72, 105]), (2, [33])]) @ take m (frame (2, [34, 35]))"
      by (simp add: bytes_of_def comp_def ex_log_bytes_def)
    have "GetContainerLogs (ex_log_env m) ex_coord ''app'' ex_log_opts ex_node
        = (Ok (concat (map (\<lambda>p. snd p @ [0x0A]) [(1 :: u8, [72, 105]), (2, [33])]) @ drop 8 (take m (frame (2, [34, 35])))), n')"
      by (rule GetContainerLogs_lines [OF f b, THEN conjunct1]) (use that in \<open>auto simp: ex_log_opts_def frame_def be32_def\<close>)
    then show ?thesis by simp
  qed
  show ?thesis using run [of 0] run [of 5] run [of 9] by (simp add: frame_def be32_def)
qed

subsection \<open>Commands\<close>

text \<open>C29 (error): what the caller of a command gets. Once the session has been started, the output is
  delivered, split into the two streams (in one, for a terminal), whatever happens to the command; an
  exit code above zero is the error, with the code in its text. No error is a success or an exit
  code that could not be read. A caller that takes no stdout, or without a terminal no stderr, makes
  the agent panic.\<close>

theorem RunInContainer_outcome:
  assumes "StartExecInPod env coord name (exec_options cmd attach) n = (Ok session, n1)"
    and "resize_all env session early n1 = (Ok (), n2)"
    and "ExecStart env session n2 = (Ok (writable, output), n3)"
    and "resize_all env session late n3 = (Ok (), n4)"
    and "errR (ExecInspect env session) n4 = (r, n5)" "r \<noteq> Panic"
    and "bytes_of output = concat (map frame ps)" "\<And>p. p \<in> set ps \<Longrightarrow> length (snd p) < 2 ^ 32"
  shows "RunInContainer env coord name cmd attach early late n =
    (if \<not> (if at_tty attach then at_stdout attach \<or> output = [] else at_stdout attach \<and> at_stderr attach)
     then (Panic, n4)
     else (Ok (if at_tty attach then (bytes_of output, []) else streams False ps,
               case r of Ok s \<Rightarrow> if eir_ExitCode s > 0 then Some (exit_error (eir_ExitCode s)) else None
                       | _ \<Rightarrow> None), n5))"
proof -
  have "DemuxRawStream True False (bytes_of output) = Some (streams False ps, EOF)"
    using demux_frames [of ps True False "[]" "([], [])"] assms(7,8)
    by (simp add: DemuxRawStream_def demux_loop.simps [of _ _ "[]"])
  moreover have "DemuxRawStream False False (bytes_of output) = None"
    by (simp add: DemuxRawStream_def split: option.split)
  ultimately have "copy_output attach (bytes_of output)
      = (if \<not> (if at_tty attach then at_stdout attach \<or> output = [] else at_stdout attach \<and> at_stderr attach) then None
         else Some (if at_tty attach then (bytes_of output, []) else streams False ps))"
    by (auto simp: copy_output_def bytes_of_def)
  with assms(1-6) show ?thesis
    by (cases r) (simp_all add: RunInContainer_def thenR_def)
qed

text \<open>A command that prints to both streams and ends with exit code 3.\<close>

definition ex_exec_env :: env where
  "ex_exec_env = ex_env
     (\<lambda>tr _. Inr \<lparr>rs_code = (if length tr = 1 then 101 else 200), rs_status = [],
        rs_body = (if length tr = 0 then ''created'' else if length tr = 1 then
           map char_of_byte (concat (map frame [(1, [72, 105]), (2, [33])])) else ''ended'')\<rparr>)
     (\<lambda>b. if b = ''created'' then Inr (JObj [(''Id'', JStr ''e1'')]) else Inr (JObj [(''ExitCode'', JNum 3)]))"

definition ex_attach :: attach_io where
  "ex_attach = \<lparr>at_tty = False, at_stdin = False, at_stdout = True, at_stderr = True\<rparr>"

lemma ex_exec_requests:
  "case UrlEncoded (ContainerKey ex_coord ''app'') of None \<Rightarrow> False
     | Some encoded \<Rightarrow> new_request ''POST'' (''/libpod/containers/'' @ encoded @ ''/exec'') send_json b \<noteq> None"
  "new_request ''POST'' ''/libpod/exec/e1/start'' start_headers b \<noteq> None"
  "new_request ''GET'' ''/libpod/exec/e1/json'' accept_json None \<noteq> None"
proof -
  have enc: "UrlEncoded (ContainerKey ex_coord ''app'') = Some ''default_web_app''" by code_simp
  have "is_plain (''/libpod/containers/'' @ ''default_web_app'' @ ''/exec'')"
    "is_plain ''/libpod/exec/e1/start''" "is_plain ''/libpod/exec/e1/json''" by code_simp+
  then show "case UrlEncoded (ContainerKey ex_coord ''app'') of None \<Rightarrow> False
     | Some encoded \<Rightarrow> new_request ''POST'' (''/libpod/containers/'' @ encoded @ ''/exec'') send_json b \<noteq> None"
    "new_request ''POST'' ''/libpod/exec/e1/start'' start_headers b \<noteq> None"
    "new_request ''GET'' ''/libpod/exec/e1/json'' accept_json None \<noteq> None"
    unfolding enc option.case by (simp_all only: new_request_plain option.distinct not_False_eq_True)
qed

lemma ex_exec_decoded:
  "decode_into (env_parse ex_exec_env ''created'') (dec_struct [(''Id'', dec_str (\<lambda>x s. s\<lparr>es_Id := x\<rparr>))]) \<lparr>es_Id = []\<rparr>
     = (\<lparr>es_Id = ''e1''\<rparr>, None)"
  "case decode_into (env_parse ex_exec_env ''ended'') ExecInspectResult_decoder zero_ExecInspectResult of (r, e) \<Rightarrow>
     e = None \<and> eir_ExitCode r = 3"
  by code_simp+

lemma ex_exec_request:
  "performRequest ex_exec_env req n = (Ok \<lparr>rs_code = (if length (n_trace n) = 1 then 101 else 200), rs_status = [],
        rs_body = (if length (n_trace n) = 0 then ''created'' else if length (n_trace n) = 1 then
           map char_of_byte (concat (map frame [(1, [72, 105]), (2, [33])])) else ''ended'')\<rparr>,
     n\<lparr>n_trace := n_trace n @ [Http req]\<rparr>)"
  by (simp add: performRequest_def ex_exec_env_def ex_env_def happy_status_def)

lemma ex_exec_stages:
  obtains n1 n3 insp n5 where
    "StartExecInPod ex_exec_env ex_coord ''app'' (exec_options cmd ex_attach) ex_node = (Ok \<lparr>es_Id = ''e1''\<rparr>, n1)"
    "ExecStart ex_exec_env \<lparr>es_Id = ''e1''\<rparr> n1 = (Ok (True, map char_of_byte (concat (map frame [(1, [72, 105]), (2, [33])]))), n3)"
    "errR (ExecInspect ex_exec_env \<lparr>es_Id = ''e1''\<rparr>) n3 = (Ok insp, n5)" "eir_ExitCode insp = 3"
proof -
  obtain encoded r1 where e: "UrlEncoded (ContainerKey ex_coord ''app'') = Some encoded"
    and r1: "new_request ''POST'' (''/libpod/containers/'' @ encoded @ ''/exec'') send_json
      (Some (ContainerExecOptions_json (exec_options cmd ex_attach))) = Some r1"
    using ex_exec_requests(1) [of "Some (ContainerExecOptions_json (exec_options cmd ex_attach))"] by (auto split: option.splits)
  obtain r2 where r2: "new_request ''POST'' ''/libpod/exec/e1/start'' start_headers (Some (JObj [])) = Some r2"
    using ex_exec_requests(2) by blast
  obtain r3 where r3: "new_request ''GET'' ''/libpod/exec/e1/json'' accept_json None = Some r3"
    using ex_exec_requests(3) by blast
  obtain insp where i: "decode_into (env_parse ex_exec_env ''ended'') ExecInspectResult_decoder zero_ExecInspectResult = (insp, None)"
    "eir_ExitCode insp = 3" using ex_exec_decoded(2) by (auto split: prod.splits)
  define n1 where "n1 = ex_node\<lparr>n_trace := [Http r1]\<rparr>"
  define n3 where "n3 = ex_node\<lparr>n_trace := [Http r1, Http r2]\<rparr>"
  have "StartExecInPod ex_exec_env ex_coord ''app'' (exec_options cmd ex_attach) ex_node = (Ok \<lparr>es_Id = ''e1''\<rparr>, n1)"
    using e r1 by (simp add: StartExecInPod_def ContainerExec_def named_def performPost_def errR_def performJsonRequest_def
        ex_exec_request ex_exec_decoded(1) n1_def ex_node_def)
  moreover have "ExecStart ex_exec_env \<lparr>es_Id = ''e1''\<rparr> n1 = (Ok (True, map char_of_byte (concat (map frame [(1, [72, 105]), (2, [33])]))), n3)"
    using r2 by (simp add: ExecStart_def ex_exec_request n1_def n3_def ex_node_def)
  moreover have "errR (ExecInspect ex_exec_env \<lparr>es_Id = ''e1''\<rparr>) n3 = (Ok insp, n3\<lparr>n_trace := n_trace n3 @ [Http r3]\<rparr>)"
    using r3 by (simp add: ExecInspect_def errR_def performGet_def performJsonRequest_def ex_exec_request i(1) n3_def)
  ultimately show ?thesis using i(2) that by blast
qed

lemma RunInContainer_outcome_witness:
  "\<exists>n'. RunInContainer ex_exec_env ex_coord ''app'' [''false''] ex_attach [] [] ex_node
     = (Ok (([72, 105], [33]), Some (exit_error 3)), n')"
proof -
  obtain n1 n3 insp n5 where s:
    "StartExecInPod ex_exec_env ex_coord ''app'' (exec_options [''false''] ex_attach) ex_node = (Ok \<lparr>es_Id = ''e1''\<rparr>, n1)"
    "ExecStart ex_exec_env \<lparr>es_Id = ''e1''\<rparr> n1 = (Ok (True, map char_of_byte (concat (map frame [(1, [72, 105]), (2, [33])]))), n3)"
    "errR (ExecInspect ex_exec_env \<lparr>es_Id = ''e1''\<rparr>) n3 = (Ok insp, n5)" "eir_ExitCode insp = 3"
    by (rule ex_exec_stages)
  have none: "resize_all ex_exec_env session [] n = (Ok (), n)" for session n by (simp add: resize_all_def)
  have b: "bytes_of (map char_of_byte (concat (map frame [(1, [72, 105]), (2, [33])])))
      = concat (map frame [(1, [72, 105]), (2, [33])])" by (simp add: bytes_of_def comp_def)
  have len: "length (snd p) < 2 ^ 32" if "p \<in> set [(1, [72, 105]), (2, [33 :: u8])]" for p :: "u8 \<times> bytes"
    using that by auto
  have "RunInContainer ex_exec_env ex_coord ''app'' [''false''] ex_attach [] [] ex_node
      = (Ok (streams False [(1, [72, 105]), (2, [33])], Some (exit_error 3)), n5)"
    using RunInContainer_outcome [OF s(1) none s(2) none s(3) _ b len] s(4) by (simp add: ex_attach_def)
  then show ?thesis by (simp add: streams_def to_stderr_def)
qed

end
