(* ===== verification/Node_Identity.thy ===== *)
theory Node_Identity
  imports Host_World Pod_Converter
begin

text \<open>
  \<^verbatim>\<open>controllers/nodeidentity\<close>: the Node object of this host. Its metadata (from the one that exists
  already, if any), the status that is computed once, the watch for the host's Internet address, and
  the loop that reports the status. Resource quantities of the Kubernetes library are kept as the
  calls that make them. A Go map that may be nil is an option.
\<close>

subsection \<open>The Internet address\<close>

text \<open>\<open>FetchInternetAddress\<close> on the reply of the server: the body that was read, whatever the status of
  the reply, and even when reading it failed.\<close>

record web_reply =
  wr_status :: int
  wr_body :: string
  wr_read_error :: "string option"

definition FetchInternetAddress :: "string + web_reply \<Rightarrow> string + string" where
  "FetchInternetAddress reply = (case reply of Inl e \<Rightarrow> Inl e | Inr r \<Rightarrow> Inr (wr_body r))"

text \<open>The loop of \<open>WatchInternetAddress\<close>: what goes down the channel for a sequence of fetches.\<close>

fun watch_loop :: "string \<Rightarrow> (string + string) list \<Rightarrow> string list" where
  "watch_loop knownAddr [] = []"
| "watch_loop knownAddr (Inl e # rs) = watch_loop knownAddr rs"
| "watch_loop knownAddr (Inr addr # rs) =
     (if addr \<noteq> knownAddr then addr # watch_loop addr rs else watch_loop knownAddr rs)"

definition WatchInternetAddress :: "(string + web_reply) list \<Rightarrow> string list" where
  "WatchInternetAddress replies = watch_loop [] (map FetchInternetAddress replies)"

subsection \<open>The operating system's name\<close>

text \<open>Lines as \<^verbatim>\<open>bufio.Scanner\<close> gives them: without a carriage return at the end; a line of 64 KiB ends
  the scan with an error. The slice of the line that is returned starts after the character that
  follows the equals sign and leaves out the last one; it panics when the line has fewer than 14
  characters.\<close>

definition drop_cr :: "string \<Rightarrow> string" where
  "drop_cr l = (if l \<noteq> [] \<and> last l = CHR 0x0D then butlast l else l)"

fun pretty_scan :: "string list \<Rightarrow> string run" where
  "pretty_scan [] = ret []"
| "pretty_scan (l # ls) =
     (if length l > 65535 then failR (PlainErr ''bufio.Scanner: token too long'')
      else let line = drop_cr l
           in if has_prefix line ''PRETTY_NAME='' then
                (if length line < 14 then panicR else ret (butlast (drop 13 line)))
              else pretty_scan ls)"

definition findosPrettyName :: "env \<Rightarrow> string \<Rightarrow> string run" where
  "findosPrettyName env fname = bindR (disk_read env fname) (\<lambda>content. pretty_scan (split_on (CHR 0x0A) content))"

subsection \<open>The status\<close>

datatype quantity_term =
    ScaledQuantity int int
  | BinaryQuantity int
  | ParsedQuantity string

record node_address =
  na_type :: string
  na_address :: string

record node_condition =
  nc_type :: string
  nc_status :: string
  nc_reason :: string
  nc_message :: string
  nc_time :: int

record node_info =
  ni_Architecture :: string
  ni_BootID :: string
  ni_MachineID :: string
  ni_KernelVersion :: string
  ni_OSImage :: string
  ni_ContainerRuntimeVersion :: string
  ni_KubeletVersion :: string
  ni_KubeProxyVersion :: string
  ni_OperatingSystem :: string

record node_status =
  ns_Capacity :: "(string \<times> quantity_term) list"
  ns_Allocatable :: "(string \<times> quantity_term) list"
  ns_Conditions :: "node_condition list"
  ns_NodeInfo :: node_info
  ns_Addresses :: "node_address list"
  ns_KubeletPort :: int
  ns_Images :: "string list"

record container_version =
  cv_Arch :: string
  cv_KernelVersion :: string
  cv_Os :: string
  cv_Version :: string

text \<open>\<^verbatim>\<open>strings.Trim(s, "\n")\<close>.\<close>

definition trim_newlines :: "string \<Rightarrow> string" where
  "trim_newlines s =
     rev (dropWhile (\<lambda>c. c = CHR 0x0A) (rev (dropWhile (\<lambda>c. c = CHR 0x0A) s)))"

definition status_resources :: "bool \<Rightarrow> int \<Rightarrow> int \<Rightarrow> int \<Rightarrow> (string \<times> quantity_term) list" where
  "status_resources allocatable cpus memory maxPods =
     [(''cpu'', if allocatable then ScaledQuantity (wrap64 (cpus * 90)) (-2) else ScaledQuantity cpus 0),
      (''memory'', BinaryQuantity (if allocatable then wrap64 (memory - 134217728) else memory)),
      (''pods'', ParsedQuantity (int_dec maxPods)),
      (''ephemeral-storage'', ParsedQuantity (if allocatable then ''1Gi'' else ''10Gi'')),
      (''hugepages-2Mi'', ParsedQuantity ''0'')]"

definition condition :: "string \<Rightarrow> string \<Rightarrow> string \<Rightarrow> string \<Rightarrow> int \<Rightarrow> node_condition" where
  "condition ty status reason message t =
     \<lparr>nc_type = ty, nc_status = status, nc_reason = reason, nc_message = message, nc_time = t\<rparr>"

definition base_conditions :: "int \<Rightarrow> node_condition list" where
  "base_conditions t =
     [condition ''Ready'' ''True'' ''KubeletReady'' ''Hello World'' t,
      condition ''MemoryPressure'' ''False'' ''OK'' ''Hello World'' t,
      condition ''DiskPressure'' ''False'' ''OK'' ''Hello World'' t,
      condition ''PIDPressure'' ''False'' ''OK'' ''Hello World'' t]"

text \<open>With an address the network is there; without one the node is not ready.\<close>

definition network_status :: "ip \<Rightarrow> int \<Rightarrow> node_status \<Rightarrow> node_status" where
  "network_status nodeIP t s =
     (if nodeIP \<noteq> [] then
        s\<lparr>ns_Addresses := ns_Addresses s @ [\<lparr>na_type = ''InternalIP'', na_address = IP_String nodeIP\<rparr>],
          ns_Conditions := ns_Conditions s @ [condition ''NetworkUnavailable'' ''False'' ''OK'' ''Hello World'' t]\<rparr>
      else
        s\<lparr>ns_Conditions := ((ns_Conditions s @
            [condition ''NetworkUnavailable'' ''True'' ''NoAddress''
               ''No node IP detected. Auto provisioning should fix this soon.'' t])
            [0 := (hd (ns_Conditions s))\<lparr>nc_status := ''False'', nc_reason := ''NoAddress'',
                    nc_message := ''No node IP detected''\<rparr>])\<rparr>)"

text \<open>What the first select of the provider receives.\<close>

datatype first_answer = GotAddress string | GotReady | GotTimeout

definition add_external :: "string \<Rightarrow> node_status \<Rightarrow> node_status" where
  "add_external addr s = s\<lparr>ns_Addresses := ns_Addresses s @ [\<lparr>na_type = ''ExternalIP'', na_address = addr\<rparr>]\<rparr>"

definition NewPetNodeProvider ::
  "env \<Rightarrow> string \<Rightarrow> string \<Rightarrow> container_version \<Rightarrow> int \<Rightarrow> int \<Rightarrow> ip \<Rightarrow> first_answer \<Rightarrow> node_status run" where
  "NewPetNodeProvider env nodeName petVersion conVersion cpus maxPods nodeIP answer' =
     bindR (disk_read env ''/etc/machine-id'') (\<lambda>machineID.
     bindR (disk_read env ''/proc/sys/kernel/random/boot_id'') (\<lambda>bootID.
     bindR (findosPrettyName env ''/etc/os-release'') (\<lambda>osPrettyName.
     bindR (now env) (\<lambda>t.
       let memory = wrap64 (env_memory env);
           s = \<lparr>ns_Capacity = status_resources False cpus memory maxPods,
                ns_Allocatable = status_resources True cpus memory maxPods,
                ns_Conditions = base_conditions t,
                ns_NodeInfo = \<lparr>ni_Architecture = cv_Arch conVersion, ni_BootID = trim_newlines bootID,
                  ni_MachineID = trim_newlines machineID, ni_KernelVersion = cv_KernelVersion conVersion,
                  ni_OSImage = osPrettyName, ni_ContainerRuntimeVersion = ''podman://'' @ cv_Version conVersion,
                  ni_KubeletVersion = ''kube-pet/'' @ petVersion,
                  ni_KubeProxyVersion = ''nftables-pet/'' @ petVersion, ni_OperatingSystem = cv_Os conVersion\<rparr>,
                ns_Addresses = [\<lparr>na_type = ''Hostname'', na_address = nodeName\<rparr>,
                                \<lparr>na_type = ''InternalDNS'', na_address = nodeName @ ''.local''\<rparr>],
                ns_KubeletPort = 10250, ns_Images = []\<rparr>;
           s = network_status nodeIP t s
       in ret (case answer' of GotAddress addr \<Rightarrow> add_external addr s | GotReady \<Rightarrow> s | GotTimeout \<Rightarrow> s)))))"

subsection \<open>Reporting\<close>

datatype status_event = ExternalIPV4 string | RefreshTick | FirstRun

text \<open>Every external address with a dot is replaced; without any the new one is added.\<close>

definition is_v4_external :: "node_address \<Rightarrow> bool" where
  "is_v4_external a \<longleftrightarrow> na_type a = ''ExternalIP'' \<and> str_contains (na_address a) ''.''"

definition update_external :: "string \<Rightarrow> node_status \<Rightarrow> node_status" where
  "update_external addr s =
     (if list_ex is_v4_external (ns_Addresses s)
      then s\<lparr>ns_Addresses := map (\<lambda>a. if is_v4_external a then a\<lparr>na_address := addr\<rparr> else a) (ns_Addresses s)\<rparr>
      else add_external addr s)"

definition status_step :: "status_event \<Rightarrow> node_status \<Rightarrow> node_status" where
  "status_step e s =
     (case e of
        ExternalIPV4 addr \<Rightarrow> update_external addr s
      | RefreshTick \<Rightarrow> s\<lparr>ns_Images := []\<rparr>
      | FirstRun \<Rightarrow> s)"

text \<open>The statuses that \<open>NotifyNodeStatus\<close> reports, one for each event.\<close>

fun NotifyNodeStatus :: "status_event list \<Rightarrow> node_status \<Rightarrow> node_status list" where
  "NotifyNodeStatus [] s = []"
| "NotifyNodeStatus (e # es) s = status_step e s # NotifyNodeStatus es (status_step e s)"

subsection \<open>The object\<close>

record node_object =
  no_name :: string
  no_labels :: "smap option"
  no_annotations :: "smap option"
  no_podCIDRs :: "string list"
  no_podCIDR :: string
  no_providerID :: string
  no_taints :: "(string \<times> string \<times> string) list"

text \<open>Assigning to a key of a nil map panics.\<close>

definition set_keys :: "(string \<times> string) list \<Rightarrow> smap option \<Rightarrow> smap option run" where
  "set_keys kvs m = bindR (derefR m) (\<lambda>m. ret (Some (fold (\<lambda>(k, v). AList.update k v) kvs m)))"

text \<open>The lookup of the node that exists already gives its name, labels and annotations, or an error that
  says whether it was not found.\<close>

definition NewNodeObject ::
  "string \<Rightarrow> string \<Rightarrow> string \<Rightarrow> ipnet list \<Rightarrow> (bool \<times> string) + (string \<times> smap option \<times> smap option) \<Rightarrow> node_object run" where
  "NewNodeObject goarch goos nodeName podNets existing =
     (let podCIDRs = map IPNet_String podNets in
      bindR (liftE (case existing of
               Inr meta \<Rightarrow> Inr meta
             | Inl (notFound, e) \<Rightarrow> if notFound then Inr (nodeName, Some [], Some []) else Inl (PlainErr e)))
        (\<lambda>(name, labels, annotations).
      bindR (set_keys [(''purpose'', ''pet''), (''type'', ''virtual-kubelet''), (''lifetime'', ''persistent''),
                       (''kubernetes.io/role'', ''pet''),
                       (''kubernetes.io/hostname'', trim_prefix nodeName ''pet-''),
                       (''kubernetes.io/arch'', goarch), (''kubernetes.io/os'', goos)] labels) (\<lambda>labels.
      bindR (set_keys [(''kubernetes.io/node.class'', ''kube-pet'')] annotations) (\<lambda>annotations.
        ret \<lparr>no_name = name, no_labels = labels, no_annotations = annotations, no_podCIDRs = podCIDRs,
             no_podCIDR = (case podCIDRs of [] \<Rightarrow> [] | c # _ \<Rightarrow> c),
             no_providerID = ''gce://kube-pet-node/kube-pet-node/'' @ nodeName,
             no_taints = [(''kubernetes.io/pet-node'', nodeName, ''NoSchedule'')]\<rparr>))))"

end
