(* ===== verification/Agent_Main.thy ===== *)
theory Agent_Main
  imports Provision Auto_Upgrade Node_Identity Kube_Cert Kube_Stats Firewall_Sync
begin

text \<open>
  The agent: \<^verbatim>\<open>main.go\<close>, \<^verbatim>\<open>controller/node.go\<close>, \<^verbatim>\<open>controller/static-pods.go\<close> and
  \<^verbatim>\<open>controllers/kubeapi/controller.go\<close>, which put the components together. What runs beside the rest
  once it is started is a value of \<open>service\<close>. The constructors of client-go and virtual-kubelet, the
  interfaces of the host and the answers of the Kubernetes API are the record \<open>agent_lib\<close>; the node
  controller is taken to become ready. \<open>Err\<close> is \<^verbatim>\<open>log.Fatalln\<close> in the functions that do not return,
  and \<open>Panic\<close> is \<^verbatim>\<open>panic\<close>.
\<close>

unbundle bit_operations_syntax

subsection \<open>The address of the host\<close>

text \<open>\<^verbatim>\<open>IP.IsGlobalUnicast\<close>, \<^verbatim>\<open>IPMask.Size\<close> and what they call of the package \<^verbatim>\<open>net\<close>.\<close>

definition IP_Equal :: "ip \<Rightarrow> ip \<Rightarrow> bool" where
  "IP_Equal a b \<longleftrightarrow>
     (if length a = length b then a = b
      else if length a = 4 \<and> length b = 16 then b = IPv4 a
      else if length a = 16 \<and> length b = 4 then a = IPv4 b
      else False)"

definition IsUnspecified :: "ip \<Rightarrow> bool" where
  "IsUnspecified ip \<longleftrightarrow> IP_Equal ip (IPv4 [0, 0, 0, 0]) \<or> IP_Equal ip (replicate 16 0)"

definition IsLoopback :: "ip \<Rightarrow> bool" where
  "IsLoopback ip \<longleftrightarrow>
     (if To4 ip \<noteq> [] then hd (To4 ip) = 127 else IP_Equal ip (replicate 15 0 @ [1]))"

definition IsMulticast :: "ip \<Rightarrow> bool" where
  "IsMulticast ip \<longleftrightarrow>
     (if To4 ip \<noteq> [] then hd (To4 ip) AND 0xF0 = 0xE0 else length ip = 16 \<and> hd ip = 0xFF)"

definition IsLinkLocalUnicast :: "ip \<Rightarrow> bool" where
  "IsLinkLocalUnicast ip \<longleftrightarrow>
     (if To4 ip \<noteq> [] then To4 ip ! 0 = 169 \<and> To4 ip ! 1 = 254
      else length ip = 16 \<and> ip ! 0 = 0xFE \<and> ip ! 1 AND 0xC0 = 0x80)"

definition IsGlobalUnicast :: "ip \<Rightarrow> bool" where
  "IsGlobalUnicast ip \<longleftrightarrow>
     (length ip = 4 \<or> length ip = 16) \<and> \<not> IP_Equal ip (IPv4 [255, 255, 255, 255])
     \<and> \<not> IsUnspecified ip \<and> \<not> IsLoopback ip \<and> \<not> IsMulticast ip \<and> \<not> IsLinkLocalUnicast ip"

definition mask_size :: "bytes \<Rightarrow> nat \<times> nat" where
  "mask_size m = (case simpleMaskLength m of None \<Rightarrow> (0, 0) | Some ones \<Rightarrow> (ones, 8 * length m))"

datatype iface_addr = NetAddr ipnet | OtherAddr string

text \<open>The first address that is alone in its network. \<open>Inl\<close> is the error of looking up the interface or
  its addresses; no such address is no error.\<close>

definition single_addr :: "iface_addr \<Rightarrow> ip option" where
  "single_addr a =
     (case a of
        NetAddr net \<Rightarrow>
          (if IsGlobalUnicast (net_ip net) then
             case mask_size (net_mask net) of (ones, bits) \<Rightarrow> if ones = bits then Some (net_ip net) else None
           else None)
      | OtherAddr _ \<Rightarrow> None)"

definition fetchNodeAddressFromInterface :: "(string \<Rightarrow> string + iface_addr list) \<Rightarrow> string \<Rightarrow> string + ip" where
  "fetchNodeAddressFromInterface addrs ifaceName =
     (case addrs ifaceName of
        Inl e \<Rightarrow> Inl e
      | Inr vpnAddrs \<Rightarrow> Inr (case List.map_filter single_addr vpnAddrs of [] \<Rightarrow> [] | ip # _ \<Rightarrow> ip))"

subsection \<open>Static pods\<close>

text \<open>The pod that stands for the host itself. Quantities are their texts.\<close>

record static_meta =
  sm_name :: string
  sm_labels :: smap
  sm_annotations :: smap
  sm_owners :: "(string \<times> bool \<times> string \<times> string \<times> string) list"

record static_spec =
  sts_containers :: "(string \<times> string \<times> smap) list"
  sts_host_network :: bool
  sts_node :: string
  sts_tolerations :: "(string \<times> string) list"

record static_container =
  scs_name :: string
  scs_image :: string
  scs_started :: bool
  scs_ready :: bool
  scs_restarts :: int
  scs_running_since :: int

record static_status =
  stt_conditions :: "(string \<times> int \<times> string) list"
  stt_containers :: "static_container list"
  stt_phase :: string
  stt_start :: int

record static_pod =
  stp_meta :: static_meta
  stp_spec :: static_spec
  stp_status :: static_status

record static_api =
  sa_uptime :: "effect list \<Rightarrow> string + int"
  sa_get :: "effect list \<Rightarrow> string \<Rightarrow> (bool \<times> string) + static_meta"
  sa_create :: "effect list \<Rightarrow> static_pod \<Rightarrow> string option"
  sa_update_status :: "effect list \<Rightarrow> static_pod \<Rightarrow> string option"

definition getBootTime :: "env \<Rightarrow> static_api \<Rightarrow> int run" where
  "getBootTime env api =
     bindR (getR (\<lambda>n. sa_uptime api (n_trace n))) (\<lambda>r.
       case r of
         Inl e \<Rightarrow> failR (PlainErr (''could not get boot time: '' @ e))
       | Inr uptime \<Rightarrow> bindR (now env) (\<lambda>t. ret (t + wrap64 (- wrap64 (uptime * 1000000000)))))"

definition static_pod_spec :: "string \<Rightarrow> static_spec" where
  "static_pod_spec nodeName =
     \<lparr>sts_containers = [(''pet-host'', ''none'', [(''cpu'', ''0''), (''memory'', ''0Ki'')])],
      sts_host_network = True, sts_node = nodeName,
      sts_tolerations = [(''NoExecute'', ''Exists''), (''NoSchedule'', ''Exists'')]\<rparr>"

definition static_pod_status :: "int \<Rightarrow> static_status" where
  "static_pod_status bootTime =
     \<lparr>stt_conditions = [(''Ready'', bootTime, ''True'')],
      stt_containers = [\<lparr>scs_name = ''pet-host'', scs_image = ''none'', scs_started = True, scs_ready = True,
                         scs_restarts = 0, scs_running_since = bootTime\<rparr>],
      stt_phase = ''Running'', stt_start = bootTime\<rparr>"

definition new_static_meta :: "string \<Rightarrow> string \<Rightarrow> static_meta" where
  "new_static_meta nodeName nodeUID =
     \<lparr>sm_name = ''host-'' @ nodeName, sm_labels = [(''component'', ''host''), (''tier'', ''node'')],
      sm_annotations = [(''kubernetes.io/config.source'', ''file'')],
      sm_owners = [(''v1'', True, ''Node'', nodeName, nodeUID)]\<rparr>"

definition write_static ::
  "effect \<Rightarrow> (effect list \<Rightarrow> static_pod \<Rightarrow> string option) \<Rightarrow> static_pod \<Rightarrow> unit run" where
  "write_static e call pod =
     bindR (getR (\<lambda>n. call (n_trace n) pod)) (\<lambda>r.
     thenR (emit e) (case r of None \<Rightarrow> ret () | Some err \<Rightarrow> failR (PlainErr err)))"

definition EnsureStaticPods :: "env \<Rightarrow> static_api \<Rightarrow> string \<Rightarrow> string \<Rightarrow> unit run" where
  "EnsureStaticPods env api nodeName nodeUID =
     bindR (getBootTime env api) (\<lambda>bootTime.
       let podSpec = static_pod_spec nodeName; podStatus = static_pod_status bootTime; name = ''host-'' @ nodeName
       in bindR (getR (\<lambda>n. sa_get api (n_trace n) name)) (\<lambda>r.
          thenR (emit (KubeGet ''Pod'' ''kube-pets'' name))
            (case r of
               Inl (notFound, err) \<Rightarrow>
                 if \<not> notFound then failR (PlainErr err)
                 else write_static (KubeCreate ''Pod'' ''kube-pets'' name) (sa_create api)
                        \<lparr>stp_meta = new_static_meta nodeName nodeUID, stp_spec = podSpec, stp_status = podStatus\<rparr>
             | Inr meta \<Rightarrow>
                 write_static (KubeUpdate ''Pod'' ''kube-pets'' (sm_name meta)) (sa_update_status api)
                   \<lparr>stp_meta = meta, stp_spec = podSpec, stp_status = podStatus\<rparr>)))"

subsection \<open>The kubelet API\<close>

record kube_api =
  ka_storage :: key_storage
  ka_node_name :: string
  ka_node_ip :: ip
  ka_stats :: stats_state
  ka_http :: string
  ka_https :: string

definition NewKubeApi ::
  "env \<Rightarrow> go_error + string \<Rightarrow> (string \<Rightarrow> string option) \<Rightarrow> string \<Rightarrow> ip \<Rightarrow> kube_api run" where
  "NewKubeApi env cacheHome listen nodeName nodeIP =
     (let nodeIP = (if nodeIP = [] then ParseIP ''0.0.0.0'' else nodeIP) in
      bindR (NewKeyMaterialStorage env cacheHome ''kubelet-server'') (\<lambda>keyStorage.
        let httpAddr = IP_String nodeIP @ '':10255''; httpsAddr = IP_String nodeIP @ '':10250''
        in case listen httpAddr of
             Some e \<Rightarrow> failR (PlainErr e)
           | None \<Rightarrow> (case listen httpsAddr of
               Some e \<Rightarrow> failR (PlainErr e)
             | None \<Rightarrow>
                 ret \<lparr>ka_storage = keyStorage, ka_node_name = nodeName, ka_node_ip = nodeIP,
                      ka_stats = \<lparr>ss_prev = [], ss_node = None\<rparr>, ka_http = httpAddr, ka_https = httpsAddr\<rparr>)))"

text \<open>\<^verbatim>\<open>ServeTLS\<close> reads the certificate and the key, and then serves until it fails with \<open>serve\<close>'s error:
  it never returns without one.\<close>

definition ServeTLS :: "env \<Rightarrow> (effect list \<Rightarrow> string \<Rightarrow> string \<Rightarrow> go_error) \<Rightarrow> string \<Rightarrow> string \<Rightarrow> go_error run" where
  "ServeTLS env serve certFile keyFile =
     bindR (tryR (bindR (disk_read env certFile) (\<lambda>cert.
                  bindR (disk_read env keyFile) (\<lambda>key. ret (cert, key))))) (\<lambda>r.
       case r of
         Inl e \<Rightarrow> ret e
       | Inr (cert, key) \<Rightarrow> getR (\<lambda>n. serve (n_trace n) cert key))"

text \<open>The result is the error that ends the agent, or \<open>None\<close> when the flow runs forever. Serving the
  statistics without TLS runs beside it.\<close>

definition KubeApi_Run ::
  "env \<Rightarrow> openssl \<Rightarrow> csr_api \<Rightarrow> (effect list \<Rightarrow> string \<Rightarrow> string \<Rightarrow> go_error) \<Rightarrow> kube_api \<Rightarrow> node \<Rightarrow>
   ((go_error, unit) res \<times> node) option" where
  "KubeApi_Run env ssl api serve ka n =
     (let crt = GetFilePath (ka_storage ka) ''.crt''; key = GetFilePath (ka_storage ka) ''.key''
      in case ServeTLS env serve crt key n of
           (Ok err, n1) \<Rightarrow>
             if \<not> is_not_exist err then Some (Err err, n1)
             else (case PerformCertificateFlow env ssl api (ka_storage ka) (ka_node_name ka) (ka_node_ip ka) n1 of
                None \<Rightarrow> None
              | Some (Ok _, n2) \<Rightarrow> Some (bindR (ServeTLS env serve crt key) failR n2)
              | Some (r, n2) \<Rightarrow> Some (r, n2))
         | (Err e, n1) \<Rightarrow> Some (Err e, n1)
         | (Panic, n1) \<Rightarrow> Some (Panic, n1))"

subsection \<open>The node\<close>

datatype service = FirewallRunner | KubeApiRunner | UpgradeRunner | NodeRunner | PodRunner

text \<open>A looked-up node: its name, labels, annotations and UID.\<close>

type_synonym kube_node = "string \<times> smap option \<times> smap option \<times> string"

record kubeconfig =
  kc_contexts :: smap
  kc_current :: string

record 'v agent_lib =
  al_kubeconfig :: "string + kubeconfig"
  al_rest_config :: "string option"
  al_clientset :: "string option"
  al_cache_home :: "go_error + string"
  al_addrs :: "string \<Rightarrow> string + iface_addr list"
  al_listen :: "string \<Rightarrow> string option"
  al_upgrade :: "'v upgrade_lib"
  al_version_text :: "'v \<Rightarrow> string"
  al_tools :: pkg_tools
  al_arch :: string
  al_os :: string
  al_cpus :: int
  al_uid :: int
  al_get_node :: "effect list \<Rightarrow> string \<Rightarrow> (bool \<times> string) + kube_node"
  al_first :: first_answer
  al_node_controller :: "string option"
  al_pod_controller :: "string option"
  al_static :: static_api

definition get_node :: "'v agent_lib \<Rightarrow> string \<Rightarrow> ((bool \<times> string) + kube_node) run" where
  "get_node lib nodeName =
     bindR (getR (\<lambda>n. al_get_node lib (n_trace n) nodeName)) (\<lambda>r.
     thenR (emit (KubeGet ''Node'' [] nodeName)) (ret r))"

definition RuntimeVersionReport :: "env \<Rightarrow> DockerVersionReport run" where
  "RuntimeVersionReport env = errR (Version env)"

definition report_version :: "DockerVersionReport \<Rightarrow> container_version" where
  "report_version r =
     \<lparr>cv_Arch = dv_Arch r, cv_KernelVersion = dv_KernelVersion r, cv_Os = dv_Os r, cv_Version = dv_Version r\<rparr>"

definition NewNodeIdentity ::
  "env \<Rightarrow> 'v agent_lib \<Rightarrow> string \<Rightarrow> string \<Rightarrow> container_version \<Rightarrow> int \<Rightarrow> ip \<Rightarrow> ipnet list \<Rightarrow> (node_object \<times> node_status) run" where
  "NewNodeIdentity env lib nodeName petVersion conVersion maxPods nodeIP podNets =
     bindR (get_node lib nodeName) (\<lambda>existing.
     bindR (NewNodeObject (al_arch lib) (al_os lib) nodeName podNets
              (map_sum (\<lambda>e. e) (\<lambda>(name, labels, annotations, uid). (name, labels, annotations)) existing)) (\<lambda>pNode.
     bindR (NewPetNodeProvider env (no_name pNode) petVersion conVersion (al_cpus lib) maxPods nodeIP (al_first lib)) (\<lambda>status.
       case al_node_controller lib of Some e \<Rightarrow> failR (PlainErr e) | None \<Rightarrow> ret (pNode, status))))"

record pet_node =
  pn_NodeName :: string
  pn_NodeUID :: string
  pn_object :: node_object
  pn_status :: node_status
  pn_firewall :: "firewall option"
  pn_api :: "kube_api option"
  pn_pods :: bool
  pn_running :: "service list"

text \<open>What only a host with an address runs.\<close>

definition start_controllers ::
  "env \<Rightarrow> 'v agent_lib \<Rightarrow> string \<Rightarrow> string \<Rightarrow> ip \<Rightarrow> ipnet list \<Rightarrow> (firewall \<times> kube_api) run" where
  "start_controllers env lib nodeName vpnIface nodeIP podNets =
     (case al_pod_controller lib of
        Some e \<Rightarrow> failR (PlainErr e)
      | None \<Rightarrow>
          bindR (NewKubeApi env (al_cache_home lib) (al_listen lib) nodeName nodeIP) (\<lambda>api.
            ret (NewFirewallController nodeName vpnIface nodeIP podNets, api)))"

definition NewPetNode ::
  "env \<Rightarrow> 'v agent_lib \<Rightarrow> string \<Rightarrow> int \<Rightarrow> string \<Rightarrow> ip \<Rightarrow> ipnet list \<Rightarrow> pet_node run" where
  "NewPetNode env lib nodeName maxPods vpnIface nodeIP podNets =
     bindR (NewAutoUpgrade env (al_upgrade lib) (al_tools lib)) (\<lambda>autoUpgrade.
       let petVersion = (case au_self autoUpgrade of None \<Rightarrow> ''development'' | Some v \<Rightarrow> al_version_text lib v) in
     bindR (RuntimeVersionReport env) (\<lambda>conVersion.
     bindR (NewNodeIdentity env lib nodeName petVersion (report_version conVersion) maxPods nodeIP podNets)
       (\<lambda>(pNode, status).
     bindR (if nodeIP \<noteq> [] then bindR (start_controllers env lib nodeName vpnIface nodeIP podNets) (\<lambda>c. ret (Some c))
            else ret None) (\<lambda>controllers.
     bindR (get_node lib nodeName) (\<lambda>found.
       case found of
         Inl (_, e) \<Rightarrow> failR (PlainErr e)
       | Inr (_, _, _, nodeUID) \<Rightarrow>
           thenR (if nodeIP = [] then emit (Recorded ''Warning'' ''Configuring'' ''TODO: Configuring kube-pet networking.'')
                  else thenR (ignoreR (EnsureStaticPods env (al_static lib) nodeName nodeUID))
                         (emit (Recorded ''Normal'' ''Starting'' ''Starting kube-pet-node.'')))
             (ret \<lparr>pn_NodeName = nodeName, pn_NodeUID = nodeUID, pn_object = pNode, pn_status = status,
                  pn_firewall = map_option fst controllers, pn_api = map_option snd controllers,
                  pn_pods = (nodeIP \<noteq> []),
                  pn_running = (if nodeIP \<noteq> [] then [FirewallRunner, KubeApiRunner, UpgradeRunner, NodeRunner, PodRunner]
                                else [NodeRunner])\<rparr>))))))"

subsection \<open>The program\<close>

record flags =
  fl_hostname :: string
  fl_podman_socket :: string
  fl_vpn_iface :: string
  fl_cni_net :: string
  fl_max_pods :: int

text \<open>The name of the node: the flag, or what the kubeconfig calls the user. A kubeconfig without its
  current context is a nil dereference.\<close>

definition node_name :: "flags \<Rightarrow> kubeconfig \<Rightarrow> string option" where
  "node_name fl kc =
     map_option (\<lambda>authInfo.
         if fl_hostname fl \<noteq> [] then ''pet-'' @ fl_hostname fl
         else if has_prefix authInfo ''system:node:'' then trim_prefix authInfo ''system:node:'' else [])
       (map_of (kc_contexts kc) (kc_current kc))"

text \<open>The subnets of the plugins of a network. A nil entry and a subnet that does not parse panic.\<close>

definition plugin_net :: "NetworkPluginInspect \<Rightarrow> ipnet list \<Rightarrow> ipnet list option" where
  "plugin_net plugin nets =
     (case npi_Ipam plugin of
        None \<Rightarrow> Some nets
      | Some ipam \<Rightarrow>
          if nii_Subnet ipam = [] then Some nets
          else map_option (\<lambda>(_, ipn). nets @ [ipn]) (ParseCIDR (nii_Subnet ipam)))"

definition network_nets :: "NetworkInspectReport option \<Rightarrow> ipnet list \<Rightarrow> ipnet list option" where
  "network_nets report nets =
     (case report of None \<Rightarrow> None | Some r \<Rightarrow> foldM plugin_net (nin_Plugins r) nets)"

definition pod_networks :: "NetworkInspectReport option list \<Rightarrow> ipnet list option" where
  "pod_networks reports = foldM network_nets reports []"

definition pod_limit :: "int \<Rightarrow> ipnet list \<Rightarrow> int" where
  "pod_limit maxPods podNets = (if podNets = [] \<and> maxPods > 0 then 0 else maxPods)"

text \<open>An error is a panic here.\<close>

definition mustR :: "'a run \<Rightarrow> 'a run" where
  "mustR m = bindR (tryR m) (\<lambda>r. case r of Inl _ \<Rightarrow> panicR | Inr a \<Rightarrow> ret a)"

definition no_name_text :: string where
  "no_name_text =
     ''Hostname is required and also couldn't be detected from the kubeconfig, try passing --hostname=<xyz>''"

definition NewController :: "'v agent_lib \<Rightarrow> flags \<Rightarrow> provision_ctl" where
  "NewController lib fl = \<lparr>pvc_vpnIface = fl_vpn_iface fl, pvc_cniNet = fl_cni_net fl, pvc_uid = al_uid lib\<rparr>"

text \<open>Up to the node, with the name found.\<close>

definition start_node :: "env \<Rightarrow> 'v agent_lib \<Rightarrow> flags \<Rightarrow> string \<Rightarrow> pet_node run" where
  "start_node env lib fl nodeName =
     (let nodeIP = (case fetchNodeAddressFromInterface (al_addrs lib) (fl_vpn_iface fl) of Inl _ \<Rightarrow> [] | Inr ip \<Rightarrow> ip) in
      thenR (if CHR '':'' \<in> set (fl_podman_socket fl) then ret () else panicR)
      (thenR (mustR (NewPodSpecStorage env (al_cache_home lib)))
      (thenR (if al_rest_config lib = None \<and> al_clientset lib = None then ret () else panicR)
      (thenR (mustR (NewPodManager env))
      (bindR (NetworkInspect env (fl_cni_net fl)) (\<lambda>(cniNetworks, _).
       bindR (derefR (pod_networks cniNetworks)) (\<lambda>podNets.
         mustR (NewPetNode env lib nodeName (pod_limit (fl_max_pods fl) podNets) (fl_vpn_iface fl) nodeIP podNets))))))))"

text \<open>The result tells how the provisioning of a host without an address ended (\<open>Perform\<close>), given what the
  informer sends; with an address the agent runs until its pod controller is done.\<close>

definition main :: "env \<Rightarrow> 'v agent_lib \<Rightarrow> flags \<Rightarrow> smap option list \<Rightarrow> (pet_node \<times> bool option) run" where
  "main env lib fl informed =
     (case al_kubeconfig lib of
        Inl _ \<Rightarrow> panicR
      | Inr kc \<Rightarrow>
          bindR (derefR (node_name fl kc)) (\<lambda>nodeName.
            if nodeName = [] then failR (PlainErr no_name_text)
            else
              bindR (start_node env lib fl nodeName) (\<lambda>petNode.
                if pn_pods petNode then ret (petNode, None)
                else bindR (mustR (Perform env (NewController lib fl) nodeName informed start_provision)) (\<lambda>done.
                       ret (petNode, Some done)))))"

end
