(* ===== verification/Identity_Props.thy ===== *)
theory Identity_Props
  imports Node_Identity Podman_Props
begin

text \<open>The properties of the node's identity: the reported Internet address, the name of the operating
  system, readiness, and the labels of a node that exists already.\<close>

subsection \<open>The watch\<close>

text \<open>The addresses of the fetches that succeeded.\<close>

fun fetched :: "(string + web_reply) list \<Rightarrow> string list" where
  "fetched [] = []"
| "fetched (Inl e # rs) = fetched rs"
| "fetched (Inr r # rs) = wr_body r # fetched rs"

text \<open>C37 (equivalence): what the watch for the Internet address sends is its successful answers with
  repetitions left out (the first one is compared with the empty string): no address is sent twice in
  a row, none is lost, and failures in between change nothing. Every body counts as an address, also
  that of an error page and what was read before the connection broke.\<close>

theorem watch_sends_changes:
  "WatchInternetAddress replies = tl (remdups_adj ([] # fetched replies))
   \<and> distinct_adj ([] # WatchInternetAddress replies)
   \<and> fetched (replies @ [Inr \<lparr>wr_status = code, wr_body = b, wr_read_error = err\<rparr>]) = fetched replies @ [b]"
proof -
  have loop: "known # watch_loop known (map FetchInternetAddress rs) = remdups_adj (known # fetched rs)" for known rs
    by (induction rs arbitrary: known rule: fetched.induct) (auto simp: FetchInternetAddress_def)
  then have "[] # WatchInternetAddress replies = remdups_adj ([] # fetched replies)"
    by (simp add: WatchInternetAddress_def)
  moreover from this have "WatchInternetAddress replies = tl (remdups_adj ([] # fetched replies))"
    by (metis list.sel(3))
  moreover have "fetched (rs @ [Inr r]) = fetched rs @ [wr_body r]" for rs r
    by (induction rs rule: fetched.induct) simp_all
  ultimately show ?thesis by (simp add: distinct_adj_remdups_adj del: remdups_adj.simps)
qed

subsection \<open>The reported address\<close>

definition v4_externals :: "node_status \<Rightarrow> string list" where
  "v4_externals s = map na_address (filter is_v4_external (ns_Addresses s))"

definition other_addresses :: "node_status \<Rightarrow> node_address list" where
  "other_addresses s = filter (\<lambda>a. \<not> is_v4_external a) (ns_Addresses s)"

text \<open>The last address that was received, or what there was before.\<close>

fun latest :: "status_event list \<Rightarrow> string list \<Rightarrow> string list" where
  "latest [] old = old"
| "latest (ExternalIPV4 addr # es) old = latest es [addr]"
| "latest (e # es) old = latest es old"

lemma map_replaced:
  assumes "str_contains addr ''.''"
  shows "filter is_v4_external (map (\<lambda>a. if is_v4_external a then a\<lparr>na_address := addr\<rparr> else a) as)
       = map (\<lambda>a. a\<lparr>na_address := addr\<rparr>) (filter is_v4_external as)"
    "filter (\<lambda>a. \<not> is_v4_external a) (map (\<lambda>a. if is_v4_external a then a\<lparr>na_address := addr\<rparr> else a) as)
       = filter (\<lambda>a. \<not> is_v4_external a) as"
  using assms by (induction as) (auto simp: is_v4_external_def)

lemma update_external_dotted:
  assumes "str_contains addr ''.''" "length (v4_externals s) \<le> 1"
  shows "v4_externals (update_external addr s) = [addr]" "other_addresses (update_external addr s) = other_addresses s"
proof -
  have "v4_externals (update_external addr s) = [addr] \<and> other_addresses (update_external addr s) = other_addresses s"
  proof (cases "list_ex is_v4_external (ns_Addresses s)")
    case True
    then have "filter is_v4_external (ns_Addresses s) \<noteq> []" by (simp add: list_ex_iff filter_empty_conv)
    with assms(2) obtain a where "filter is_v4_external (ns_Addresses s) = [a]"
      by (cases "filter is_v4_external (ns_Addresses s)") (auto simp: v4_externals_def)
    with True show ?thesis
      by (simp add: update_external_def v4_externals_def other_addresses_def map_replaced [OF assms(1)])
  next
    case False
    then have "filter is_v4_external (ns_Addresses s) = []" by (simp add: list_ex_iff filter_empty_conv)
    moreover have "is_v4_external \<lparr>na_type = ''ExternalIP'', na_address = addr\<rparr>"
      using assms(1) by (simp add: is_v4_external_def)
    ultimately show ?thesis using False
      by (simp add: update_external_def add_external_def v4_externals_def other_addresses_def)
  qed
  then show "v4_externals (update_external addr s) = [addr]" "other_addresses (update_external addr s) = other_addresses s"
    by simp_all
qed

lemma update_none:
  "\<not> list_ex is_v4_external (ns_Addresses s) \<Longrightarrow> update_external addr s = add_external addr s"
  by (simp add: update_external_def)

lemma dotted_example: "str_contains ''198.51.100.7'' ''.''"
  by code_simp

lemma dotless_stays:
  assumes "\<not> list_ex is_v4_external (ns_Addresses s)"
  shows "map na_address (filter (\<lambda>a. na_type a = ''ExternalIP'') (ns_Addresses (update_external ''198.51.100.7'' (update_external [] s))))
           = map na_address (filter (\<lambda>a. na_type a = ''ExternalIP'') (ns_Addresses s)) @ [[], ''198.51.100.7'']"
proof -
  have "\<not> is_v4_external \<lparr>na_type = ''ExternalIP'', na_address = []\<rparr>" by code_simp
  with assms have "\<not> list_ex is_v4_external (ns_Addresses (add_external [] s))" by (simp add: add_external_def)
  then have "update_external ''198.51.100.7'' (update_external [] s) = add_external ''198.51.100.7'' (add_external [] s)"
    using assms by (simp only: update_none not_False_eq_True)
  then show ?thesis by (simp add: add_external_def)
qed

text \<open>A status as it is before any address of the Internet is known.\<close>

definition ex_status :: node_status where
  "ex_status = \<lparr>ns_Capacity = [], ns_Allocatable = [], ns_Conditions = base_conditions 0,
     ns_NodeInfo = \<lparr>ni_Architecture = ''amd64'', ni_BootID = [], ni_MachineID = [], ni_KernelVersion = [],
       ni_OSImage = [], ni_ContainerRuntimeVersion = [], ni_KubeletVersion = [], ni_KubeProxyVersion = [],
       ni_OperatingSystem = ''linux''\<rparr>,
     ns_Addresses = [\<lparr>na_type = ''Hostname'', na_address = ''pet-a''\<rparr>], ns_KubeletPort = 10250, ns_Images = []\<rparr>"

lemma status_step_dotted:
  assumes "\<forall>addr. e = ExternalIPV4 addr \<longrightarrow> str_contains addr ''.''" "length (v4_externals s) \<le> 1"
  shows "length (v4_externals (status_step e s)) \<le> 1"
    "v4_externals (status_step e s) = latest [e] (v4_externals s)"
    "other_addresses (status_step e s) = other_addresses s"
proof -
  have "length (v4_externals (status_step e s)) \<le> 1 \<and> v4_externals (status_step e s) = latest [e] (v4_externals s)
      \<and> other_addresses (status_step e s) = other_addresses s"
  proof (cases e)
    case (ExternalIPV4 addr)
    then have "str_contains addr ''.''" using assms(1) by blast
    note u = update_external_dotted [OF this assms(2)]
    show ?thesis by (simp only: ExternalIPV4 status_step_def status_event.case u) simp
  next
    case RefreshTick
    then show ?thesis using assms(2) by (simp add: status_step_def v4_externals_def other_addresses_def)
  next
    case FirstRun
    then show ?thesis using assms(2) by (simp add: status_step_def)
  qed
  then show "length (v4_externals (status_step e s)) \<le> 1"
    "v4_externals (status_step e s) = latest [e] (v4_externals s)"
    "other_addresses (status_step e s) = other_addresses s" by blast+
qed

lemma latest_Cons: "latest (e # es) old = latest es (latest [e] old)"
  by (cases e) simp_all

lemma notified:
  assumes "\<forall>addr. ExternalIPV4 addr \<in> set es \<longrightarrow> str_contains addr ''.''" "length (v4_externals s) \<le> 1"
    and "i < length es"
  shows "v4_externals (NotifyNodeStatus es s ! i) = latest (take (Suc i) es) (v4_externals s)
      \<and> other_addresses (NotifyNodeStatus es s ! i) = other_addresses s"
  using assms
proof (induction es arbitrary: s i)
  case (Cons e es)
  have e: "\<forall>addr. e = ExternalIPV4 addr \<longrightarrow> str_contains addr ''.''" using Cons.prems(1) by auto
  have es: "\<forall>addr. ExternalIPV4 addr \<in> set es \<longrightarrow> str_contains addr ''.''" using Cons.prems(1) by auto
  note st = status_step_dotted [OF e Cons.prems(2)]
  show ?case
  proof (cases i)
    case 0
    then show ?thesis using st(2,3) by simp
  next
    case (Suc j)
    then have "j < length es" using Cons.prems(3) by simp
    from Cons.IH [OF es st(1) this] have
      "v4_externals (NotifyNodeStatus es (status_step e s) ! j) = latest (take (Suc j) es) (latest [e] (v4_externals s))"
      "other_addresses (NotifyNodeStatus es (status_step e s) ! j) = other_addresses s"
      by (simp_all only: st(2,3))
    then show ?thesis by (simp only: Suc NotifyNodeStatus.simps nth_Cons_Suc take_Suc_Cons latest_Cons [of e "take (Suc j) es" "v4_externals s"])
  qed
qed simp

text \<open>C36 (invariant): every reported status has the Internet address that was received last, and only that
  one, with all other addresses as they were, as long as the addresses that are received contain a
  dot. One that does not (the empty body of a broken answer) is reported too, is not recognised
  afterwards, and stays beside the next address.\<close>

theorem reports_latest_address:
  assumes "\<forall>addr. ExternalIPV4 addr \<in> set es \<longrightarrow> str_contains addr ''.''" "length (v4_externals s) \<le> 1"
    and "i < length es"
  shows "length (NotifyNodeStatus es s) = length es
    \<and> v4_externals (NotifyNodeStatus es s ! i) = latest (take (Suc i) es) (v4_externals s)
    \<and> other_addresses (NotifyNodeStatus es s ! i) = other_addresses s
    \<and> (v4_externals s = [] \<longrightarrow>
         map na_address (filter (\<lambda>a. na_type a = ''ExternalIP'') (ns_Addresses (update_external ''198.51.100.7'' (update_external [] s))))
           = map na_address (filter (\<lambda>a. na_type a = ''ExternalIP'') (ns_Addresses s)) @ [[], ''198.51.100.7''])"
proof (intro conjI impI)
  show "length (NotifyNodeStatus es s) = length es" by (induction es arbitrary: s) simp_all
  have "v4_externals (NotifyNodeStatus es s ! i) = latest (take (Suc i) es) (v4_externals s)
      \<and> other_addresses (NotifyNodeStatus es s ! i) = other_addresses s"
    by (rule notified) (fact assms)+
  then show "v4_externals (NotifyNodeStatus es s ! i) = latest (take (Suc i) es) (v4_externals s)"
    "other_addresses (NotifyNodeStatus es s ! i) = other_addresses s" by simp_all
  assume "v4_externals s = []"
  then have "\<not> list_ex is_v4_external (ns_Addresses s)"
    by (simp add: v4_externals_def list_ex_iff filter_empty_conv)
  then show "map na_address (filter (\<lambda>a. na_type a = ''ExternalIP'') (ns_Addresses (update_external ''198.51.100.7'' (update_external [] s))))
           = map na_address (filter (\<lambda>a. na_type a = ''ExternalIP'') (ns_Addresses s)) @ [[], ''198.51.100.7'']"
    by (rule dotless_stays)
qed

lemma reports_latest_address_witness:
  "v4_externals (NotifyNodeStatus [FirstRun, ExternalIPV4 ''198.51.100.7'', RefreshTick] ex_status ! 2)
     = latest [FirstRun, ExternalIPV4 ''198.51.100.7'', RefreshTick] []"
proof -
  define addr where "addr = ''198.51.100.7''"
  define es where "es = [FirstRun, ExternalIPV4 addr, RefreshTick]"
  have none: "v4_externals ex_status = []" by (simp add: v4_externals_def ex_status_def is_v4_external_def)
  have "\<forall>a. ExternalIPV4 a \<in> set es \<longrightarrow> str_contains a ''.''"
    using dotted_example by (simp add: es_def addr_def [symmetric])
  from reports_latest_address [OF this, of ex_status 2] none
  have "v4_externals (NotifyNodeStatus es ex_status ! 2) = latest (take (Suc 2) es) []" by (simp add: es_def)
  then show ?thesis by (simp only: es_def addr_def) simp
qed

subsection \<open>Readiness\<close>

definition condition_status :: "string \<Rightarrow> node_status \<Rightarrow> string option" where
  "condition_status ty s = map_of (map (\<lambda>c. (nc_type c, nc_status c)) (ns_Conditions s)) ty"

text \<open>The status that \<open>NewPetNodeProvider\<close> builds is decided by the address of the node: with one the node
  is ready and the address is announced, without one it is not ready and no internal address is
  announced. In both cases the other conditions are good and the name comes first.\<close>

lemma provider_status:
  assumes "NewPetNodeProvider env nodeName ver con cpus maxPods nodeIP ans n = (Ok s, n')"
  shows "condition_status ''Ready'' s = Some (if nodeIP = [] then ''False'' else ''True'')
    \<and> condition_status ''NetworkUnavailable'' s = Some (if nodeIP = [] then ''True'' else ''False'')
    \<and> map na_address (filter (\<lambda>a. na_type a = ''InternalIP'') (ns_Addresses s)) = (if nodeIP = [] then [] else [IP_String nodeIP])
    \<and> length (v4_externals s) \<le> 1"
  using assms unfolding NewPetNodeProvider_def
  by (elim bindR_OkE) (cases "nodeIP = []"; cases ans;
    auto simp: Let_def network_status_def base_conditions_def condition_def condition_status_def
      add_external_def v4_externals_def is_v4_external_def)

subsection \<open>The name of the operating system\<close>

lemma pretty_scan_quoted:
  assumes "l = ''PRETTY_NAME='' @ [q] @ name @ [q']" "length l \<le> 65535" "q' \<noteq> CHR 0x0D"
  shows "pretty_scan (l # ls) = ret name"
  using assms by (simp add: drop_cr_def has_prefix_def Let_def)

subsection \<open>A node that exists\<close>

lemma existing_node_without_maps:
  "NewNodeObject arch os nodeName nets (Inr (name, None, annotations)) = panicR"
  "NewNodeObject arch os nodeName nets (Inr (name, Some labels, None)) = panicR"
  by (simp_all add: NewNodeObject_def set_keys_def derefR_def liftE_def fun_eq_iff)

end
