(* ===== verification/Agent_Props.thy ===== *)
theory Agent_Props
  imports Agent_Main Identity_Props Podman_Props
begin

text \<open>The properties of the agent as a whole: what it starts, and that its parts agree on the name, the
  address and the networks of the host.\<close>

subsection \<open>The address\<close>

lemma fetched_address:
  assumes "fetchNodeAddressFromInterface addrs ifc = Inr ip" "ip \<noteq> []"
  shows "\<exists>as net. addrs ifc = Inr as \<and> NetAddr net \<in> set as \<and> net_ip net = ip \<and> IsGlobalUnicast ip
    \<and> fst (mask_size (net_mask net)) = snd (mask_size (net_mask net))"
proof -
  obtain as where as: "addrs ifc = Inr as" and ip: "List.map_filter single_addr as \<noteq> []"
    "hd (List.map_filter single_addr as) = ip"
    using assms by (auto simp: fetchNodeAddressFromInterface_def split: sum.splits list.splits)
  then have "ip \<in> set (List.map_filter single_addr as)" using hd_in_set by blast
  then obtain a where "a \<in> set as" "single_addr a = Some ip"
    by (auto simp: List.map_filter_def split: option.splits)
  then show ?thesis using as
    by (auto simp: single_addr_def split: iface_addr.splits if_splits prod.splits)
qed

subsection \<open>Actions that must succeed\<close>

lemma mustR_Ok [simp]: "mustR m n = (Ok a, n') \<longleftrightarrow> m n = (Ok a, n')"
  by (cases "m n"; cases "fst (m n)") (auto simp: mustR_def)

lemma ok_if: "(if b then ret () else panicR) n = (Ok (), n') \<longleftrightarrow> b \<and> n' = n" by auto

subsection \<open>The node\<close>

lemma provider_capacity:
  assumes "NewPetNodeProvider env nodeName ver con cpus maxPods nodeIP ans n = (Ok s, n')"
  shows "map_of (ns_Capacity s) ''pods'' = Some (ParsedQuantity (int_dec maxPods))
    \<and> map_of (ns_Allocatable s) ''pods'' = Some (ParsedQuantity (int_dec maxPods))"
  using assms unfolding NewPetNodeProvider_def
  by (elim bindR_OkE) (cases "nodeIP = []"; cases ans;
    auto simp: Let_def network_status_def add_external_def status_resources_def)

lemma provider_hostname:
  assumes "NewPetNodeProvider env nodeName ver con cpus maxPods nodeIP ans n = (Ok s, n')"
  shows "map na_address (filter (\<lambda>a. na_type a = ''Hostname'') (ns_Addresses s)) = [nodeName]"
  using assms unfolding NewPetNodeProvider_def
  by (elim bindR_OkE) (cases "nodeIP = []"; cases ans;
    auto simp: Let_def network_status_def add_external_def)

lemma object_fields:
  assumes "NewNodeObject arch os nodeName nets existing n = (Ok ob, n')"
    and "\<And>r. existing = Inr r \<Longrightarrow> fst r = nodeName"
  shows "no_podCIDRs ob = map IPNet_String nets" "no_name ob = nodeName"
    "no_taints ob = [(''kubernetes.io/pet-node'', nodeName, ''NoSchedule'')]"
  using assms unfolding NewNodeObject_def Let_def
  by (elim bindR_OkE; auto elim!: bindR_OkE simp: liftE_def split: prod.splits sum.splits if_splits)+

text \<open>What the API promises of a lookup: the node it returns has the name that was asked for.\<close>

definition names_kept :: "'v agent_lib \<Rightarrow> bool" where
  "names_kept lib \<longleftrightarrow> (\<forall>tr nm r. al_get_node lib tr nm = Inr r \<longrightarrow> fst r = nm)"

lemma identity:
  assumes "NewNodeIdentity env lib nodeName ver con maxPods nodeIP nets n = (Ok (ob, s), n')" "names_kept lib"
  shows "no_podCIDRs ob = map IPNet_String nets"
    "no_name ob = nodeName" "no_taints ob = [(''kubernetes.io/pet-node'', nodeName, ''NoSchedule'')]"
    "map na_address (filter (\<lambda>a. na_type a = ''Hostname'') (ns_Addresses s)) = [nodeName]"
    "map_of (ns_Capacity s) ''pods'' = Some (ParsedQuantity (int_dec maxPods))"
    "condition_status ''Ready'' s = Some (if nodeIP = [] then ''False'' else ''True'')"
    "map na_address (filter (\<lambda>a. na_type a = ''InternalIP'') (ns_Addresses s)) = (if nodeIP = [] then [] else [IP_String nodeIP])"
proof -
  from assms(1) obtain found n0 n1 n2 n3 where
    g: "get_node lib nodeName n0 = (Ok found, n1)" and
    o: "NewNodeObject (al_arch lib) (al_os lib) nodeName nets
        (map_sum (\<lambda>e. e) (\<lambda>(name, labels, annotations, uid). (name, labels, annotations)) found) n1 = (Ok ob, n2)"
    and p: "NewPetNodeProvider env (no_name ob) ver con (al_cpus lib) maxPods nodeIP (al_first lib) n2 = (Ok s, n3)"
    unfolding NewNodeIdentity_def by (elim bindR_OkE) (auto split: option.splits)
  have "found = al_get_node lib (n_trace n0) nodeName"
    using g by (simp add: get_node_def)
  then have "found = Inr r \<Longrightarrow> fst r = nodeName" for r
    using assms(2) unfolding names_kept_def by metis
  then have "map_sum (\<lambda>e. e) (\<lambda>(name, labels, annotations, uid). (name, labels, annotations)) found = Inr q
      \<Longrightarrow> fst q = nodeName" for q
    by (cases found) auto
  note ob = object_fields [OF o this]
  show "no_podCIDRs ob = map IPNet_String nets" "no_name ob = nodeName"
    "no_taints ob = [(''kubernetes.io/pet-node'', nodeName, ''NoSchedule'')]"
    using ob by blast+
  show "map na_address (filter (\<lambda>a. na_type a = ''Hostname'') (ns_Addresses s)) = [nodeName]"
    using provider_hostname [OF p] ob(2) by simp
  show "map_of (ns_Capacity s) ''pods'' = Some (ParsedQuantity (int_dec maxPods))"
    using provider_capacity [OF p] by blast
  show "condition_status ''Ready'' s = Some (if nodeIP = [] then ''False'' else ''True'')"
    "map na_address (filter (\<lambda>a. na_type a = ''InternalIP'') (ns_Addresses s)) = (if nodeIP = [] then [] else [IP_String nodeIP])"
    using provider_status [OF p] by blast+
qed

lemma kube_api_new:
  assumes "NewKubeApi env home listen nodeName nodeIP n = (Ok api, n')" "nodeIP \<noteq> []"
  shows "ka_node_name api = nodeName \<and> ka_node_ip api = nodeIP \<and> ka_http api = IP_String nodeIP @ '':10255''
    \<and> ka_https api = IP_String nodeIP @ '':10250'' \<and> listen (ka_http api) = None \<and> listen (ka_https api) = None"
  using assms unfolding NewKubeApi_def Let_def
  by (elim bindR_OkE) (auto split: option.splits)

text \<open>What a node looks like that was started for a name, an address and networks.\<close>

definition announces :: "pet_node \<Rightarrow> int \<Rightarrow> ip \<Rightarrow> ipnet list \<Rightarrow> bool" where
  "announces pet maxPods ip nets \<longleftrightarrow>
     no_name (pn_object pet) = pn_NodeName pet
     \<and> no_taints (pn_object pet) = [(''kubernetes.io/pet-node'', pn_NodeName pet, ''NoSchedule'')]
     \<and> map na_address (filter (\<lambda>a. na_type a = ''Hostname'') (ns_Addresses (pn_status pet))) = [pn_NodeName pet]
     \<and> no_podCIDRs (pn_object pet) = map IPNet_String nets
     \<and> map_of (ns_Capacity (pn_status pet)) ''pods'' = Some (ParsedQuantity (int_dec maxPods))
     \<and> condition_status ''Ready'' (pn_status pet) = Some (if ip = [] then ''False'' else ''True'')
     \<and> map na_address (filter (\<lambda>a. na_type a = ''InternalIP'') (ns_Addresses (pn_status pet)))
         = (if ip = [] then [] else [IP_String ip])"

definition serves :: "pet_node \<Rightarrow> string \<Rightarrow> ip \<Rightarrow> ipnet list \<Rightarrow> bool" where
  "serves pet vpnIface ip nets \<longleftrightarrow>
     (if ip = [] then pn_running pet = [NodeRunner] \<and> pn_firewall pet = None \<and> pn_api pet = None
      else set (pn_running pet) = {FirewallRunner, KubeApiRunner, UpgradeRunner, NodeRunner, PodRunner}
        \<and> (\<exists>fw api. pn_firewall pet = Some fw \<and> pn_api pet = Some api
             \<and> fc_node_name fw = pn_NodeName pet \<and> fc_vpn_iface fw = vpnIface \<and> fc_node_ip fw = ip \<and> fc_pod_nets fw = nets
             \<and> ka_node_name api = pn_NodeName pet \<and> ka_node_ip api = ip \<and> ka_https api = IP_String ip @ '':10250''))"

lemma started:
  assumes "NewPetNode env lib nodeName maxPods vpnIface nodeIP nets n = (Ok pet, n')" "names_kept lib"
  shows "pn_NodeName pet = nodeName \<and> pn_pods pet = (nodeIP \<noteq> []) \<and> announces pet maxPods nodeIP nets
    \<and> serves pet vpnIface nodeIP nets"
proof -
  from assms(1) obtain ver con ob s n1 n2 cs uid where
    i: "NewNodeIdentity env lib nodeName ver con maxPods nodeIP nets n1 = (Ok (ob, s), n2)"
    and c: "\<exists>n3. (if nodeIP \<noteq> [] then bindR (start_controllers env lib nodeName vpnIface nodeIP nets) (\<lambda>c. ret (Some c))
            else ret None) n2 = (Ok cs, n3)"
    and pet: "pet = \<lparr>pn_NodeName = nodeName, pn_NodeUID = uid, pn_object = ob, pn_status = s,
                  pn_firewall = map_option fst cs, pn_api = map_option snd cs, pn_pods = (nodeIP \<noteq> []),
                  pn_running = (if nodeIP \<noteq> [] then [FirewallRunner, KubeApiRunner, UpgradeRunner, NodeRunner, PodRunner]
                                else [NodeRunner])\<rparr>"
    unfolding NewPetNode_def Let_def by (elim bindR_OkE thenR_OkE) (force elim!: bindR_OkE thenR_OkE split: sum.splits prod.splits)
  have "announces pet maxPods nodeIP nets" using identity [OF i assms(2)] by (simp add: announces_def pet)
  moreover have "serves pet vpnIface nodeIP nets"
  proof (cases "nodeIP = []")
    case False
    with c obtain n3 fw api where "start_controllers env lib nodeName vpnIface nodeIP nets n2 = (Ok (fw, api), n3)"
      "cs = Some (fw, api)" by (auto elim!: bindR_OkE)
    then have cs: "cs = Some (NewFirewallController nodeName vpnIface nodeIP nets, api)"
      and "\<exists>n3. NewKubeApi env (al_cache_home lib) (al_listen lib) nodeName nodeIP n2 = (Ok api, n3)"
      by (auto simp: start_controllers_def split: option.splits elim!: bindR_OkE)
    then show ?thesis using kube_api_new [OF _ False] False
      by (auto simp: serves_def pet NewFirewallController_def)
  qed (use c in \<open>simp add: serves_def pet\<close>)
  ultimately show ?thesis by (simp add: pet)
qed

subsection \<open>The program\<close>

text \<open>C7 (functional): how the parts are put together, whenever the agent gets past its start. The name is
  that of the flag or of the kubeconfig's user, and never empty, and all parts carry it: the node object
  and its taint, the host name in its status, the firewall, the kubelet API and the provisioning (the API
  returns a node under the name that was looked up). All parts work with the same address and
  the same networks: the address is that of the VPN interface (a global unicast one, alone in its network),
  the networks are the subnets that podman reports, and the node object, its status, the firewall and the
  kubelet API carry exactly these. Without an address only the node is announced, as not ready, and the
  provisioning is run instead of pods; without networks the node takes no pods, unless the limit was
  negative.\<close>

theorem agent_parts_agree:
  assumes "main env lib fl informed n = (Ok (pet, provisioned), n')"
    and "\<forall>tr nm r. al_get_node lib tr nm = Inr r \<longrightarrow> fst r = nm"
  shows "\<exists>kc ip reports err s s' nets. al_kubeconfig lib = Inr kc
    \<and> node_name fl kc = Some (pn_NodeName pet) \<and> pn_NodeName pet \<noteq> []
    \<and> NetworkInspect env (fl_cni_net fl) s = (Ok (reports, err), s') \<and> pod_networks reports = Some nets
    \<and> announces pet (if nets = [] \<and> fl_max_pods fl > 0 then 0 else fl_max_pods fl) ip nets
    \<and> serves pet (fl_vpn_iface fl) ip nets
    \<and> (provisioned = None) = (ip \<noteq> [])
    \<and> (if ip = [] then \<exists>m d m'. provisioned = Some d
           \<and> Perform env (NewController lib fl) (pn_NodeName pet) informed start_provision m = (Ok d, m')
       else \<exists>as net. al_addrs lib (fl_vpn_iface fl) = Inr as \<and> NetAddr net \<in> set as \<and> net_ip net = ip
           \<and> IsGlobalUnicast ip \<and> fst (mask_size (net_mask net)) = snd (mask_size (net_mask net)))"
proof -
  define ip where "ip = (case fetchNodeAddressFromInterface (al_addrs lib) (fl_vpn_iface fl) of Inl _ \<Rightarrow> [] | Inr ip \<Rightarrow> ip)"
  from assms(1) obtain kc nodeName n1 where kc: "al_kubeconfig lib = Inr kc" "node_name fl kc = Some nodeName" "nodeName \<noteq> []"
    and st: "start_node env lib fl nodeName n = (Ok pet, n1)"
    and prov: "(if pn_pods pet then ret (pet, None)
                else bindR (mustR (Perform env (NewController lib fl) nodeName informed start_provision)) (\<lambda>done.
                       ret (pet, Some done))) n1 = (Ok (pet, provisioned), n')"
    unfolding main_def
    by (auto simp: derefR_def split: sum.splits option.splits if_splits elim!: bindR_OkE)
  from st obtain s s' n2 reports err nets where ni: "NetworkInspect env (fl_cni_net fl) s = (Ok (reports, err), s')"
    and nets: "pod_networks reports = Some nets"
    and pet: "NewPetNode env lib nodeName (pod_limit (fl_max_pods fl) nets) (fl_vpn_iface fl) ip nets s' = (Ok pet, n2)"
    unfolding start_node_def Let_def ip_def [symmetric]
    by (elim bindR_OkE thenR_OkE) (auto simp: derefR_def split: option.splits prod.splits elim!: bindR_OkE)
  have "names_kept lib" using assms(2) by (simp add: names_kept_def)
  note p = started [OF pet this]
  have "(provisioned = None) = (ip \<noteq> [])" "ip = [] \<Longrightarrow> \<exists>m d m'. provisioned = Some d
      \<and> Perform env (NewController lib fl) (pn_NodeName pet) informed start_provision m = (Ok d, m')"
    using prov p by (auto elim!: bindR_OkE split: if_splits) blast
  moreover have "\<exists>as net. al_addrs lib (fl_vpn_iface fl) = Inr as \<and> NetAddr net \<in> set as \<and> net_ip net = ip
           \<and> IsGlobalUnicast ip \<and> fst (mask_size (net_mask net)) = snd (mask_size (net_mask net))" if "ip \<noteq> []"
    using fetched_address [of "al_addrs lib" "fl_vpn_iface fl" ip] that
    by (auto simp: ip_def split: sum.splits)
  ultimately show ?thesis
    using kc ni nets p by (intro exI [of _ kc] exI [of _ ip] exI [of _ reports] exI [of _ err] exI [of _ s] exI [of _ s'] exI [of _ nets])
      (simp add: pod_limit_def)
qed

text \<open>A host on the network \<^verbatim>\<open>10.6.0.0\<close> with its own address and one network of pods: its start, stage by
  stage.\<close>

definition ex_agent_env :: env where
  "ex_agent_env = ex_env
     (\<lambda>tr rq. Inr \<lparr>rs_code = 200, rs_status = ''200 OK'', rs_body = rq_path rq\<rparr>)
     (\<lambda>b. Inr (if has_suffix b ''/pods/json'' then JArr [] else if has_suffix b ''/version'' then JObj []
               else JArr [JObj [(''Plugins'', JArr [JObj [(''Ipam'', JObj [(''Subnet'', JStr ''10.6.22.0/24'')])]])]]))"

definition ex_agent_node :: node where
  "ex_agent_node = ex_node\<lparr>n_disk := [(''/etc/machine-id'', ''m''), (''/proc/sys/kernel/random/boot_id'', ''b''),
     (''/etc/os-release'', ''PRETTY_NAME=[Fedora]'')]\<rparr>"

definition ex_agent_lib :: "unit agent_lib" where
  "ex_agent_lib = \<lparr>al_kubeconfig = Inr \<lparr>kc_contexts = [(''c'', ''system:node:pet-a'')], kc_current = ''c''\<rparr>,
     al_rest_config = None, al_clientset = None, al_cache_home = Inr ''/var/cache'',
     al_addrs = (\<lambda>_. Inr [NetAddr \<lparr>net_ip = [10, 6, 0, 1], net_mask = [255, 255, 0, 0]\<rparr>,
                       NetAddr \<lparr>net_ip = [10, 6, 0, 3], net_mask = [255, 255, 255, 255]\<rparr>]),
     al_listen = (\<lambda>_. None),
     al_upgrade = \<lparr>ul_newVersion = (\<lambda>_. Inl ''none''), ul_lessThan = (\<lambda>_ _. False), ul_load = (\<lambda>_. Inl ''none''),
                   ul_goos = ''linux'', ul_goarch = ''amd64''\<rparr>,
     al_version_text = (\<lambda>_. []), al_tools = \<lparr>hasDpkg = True, hasDnf = False\<rparr>, al_arch = ''amd64'', al_os = ''linux'',
     al_cpus = 4, al_uid = 0, al_get_node = (\<lambda>_ nm. Inr (nm, Some [], Some [], ''uid'')),
     al_first = GotTimeout, al_node_controller = None, al_pod_controller = None,
     al_static = \<lparr>sa_uptime = (\<lambda>_. Inr 60), sa_get = (\<lambda>_ _. Inl (True, ''not found'')), sa_create = (\<lambda>_ _. None),
                  sa_update_status = (\<lambda>_ _. None)\<rparr>\<rparr>"

definition ex_flags :: flags where
  "ex_flags = \<lparr>fl_hostname = [], fl_podman_socket = ''tcp:127.0.0.1:8410'', fl_vpn_iface = ''wg-gke'',
     fl_cni_net = ''kube-pet-net'', fl_max_pods = 25\<rparr>"

text \<open>The stages of the start.\<close>

lemma ex_agent_address:
  "fetchNodeAddressFromInterface (al_addrs ex_agent_lib) ''wg-gke'' = Inr [10, 6, 0, 3]"
  by code_simp

lemma ex_agent_manager:
  "case NewPodManager ex_agent_env (ex_agent_node\<lparr>n_trace := [File (MakeDir ''/var/cache/kube-pet-node/pod-specs'')]\<rparr>) of
     (Ok _, n) \<Rightarrow> n_disk n = n_disk ex_agent_node | _ \<Rightarrow> False"
  by code_simp

lemma ex_agent_paths:
  "UrlEncoded ''kube-pet-net'' = Some ''kube-pet-net''"
  "map_option rq_path (new_request ''GET'' (''/libpod/networks/'' @ ''kube-pet-net'' @ ''/json'') accept_json None)
     = Some ''/v1.0.0/libpod/networks/kube-pet-net/json''"
  "map_option rq_path (new_request ''GET'' ''/libpod/version'' accept_json None) = Some ''/v1.0.0/libpod/version''"
proof -
  have p: "is_plain ''kube-pet-net''" "is_plain (''/libpod/networks/'' @ ''kube-pet-net'' @ ''/json'')" "is_plain ''/libpod/version''"
    by (simp_all add: is_plain_def path_safe_def)
  show "UrlEncoded ''kube-pet-net'' = Some ''kube-pet-net''" by (rule UrlEncoded_plain [OF p(1)])
  show "map_option rq_path (new_request ''GET'' (''/libpod/networks/'' @ ''kube-pet-net'' @ ''/json'') accept_json None)
     = Some ''/v1.0.0/libpod/networks/kube-pet-net/json''"
    "map_option rq_path (new_request ''GET'' ''/libpod/version'' accept_json None) = Some ''/v1.0.0/libpod/version''"
    unfolding new_request_plain [OF p(2)] new_request_plain [OF p(3)] by (simp_all add: rq_path_def api_prefix_def)
qed

lemma ex_agent_parsed:
  "env_parse ex_agent_env ''/v1.0.0/libpod/networks/kube-pet-net/json''
     = Inr (JArr [JObj [(''Plugins'', JArr [JObj [(''Ipam'', JObj [(''Subnet'', JStr ''10.6.22.0/24'')])]])]])"
  "env_parse ex_agent_env ''/v1.0.0/libpod/version'' = Inr (JObj [])"
  by (simp_all add: ex_agent_env_def ex_env_def has_suffix_def)

lemma ex_agent_decoded:
  "case decode_into (Inr (JArr [JObj [(''Plugins'', JArr [JObj [(''Ipam'', JObj [(''Subnet'', JStr ''10.6.22.0/24'')])]])]]))
       (dec_pointers NetworkInspectReport_decoder zero_NetworkInspectReport) [] of
     (reports, err) \<Rightarrow> err = None \<and> map (map_option (\<lambda>r. map (\<lambda>p. map_option nii_Subnet (npi_Ipam p)) (nin_Plugins r))) reports
       = [Some [Some ''10.6.22.0/24'']]"
  "snd (decode_into (Inr (JObj [])) DockerVersionReport_decoder zero_DockerVersionReport) = None"
  by code_simp+

definition ex_agent_net :: ipnet where
  "ex_agent_net = \<lparr>net_ip = [10, 6, 22, 0], net_mask = [255, 255, 255, 0]\<rparr>"

lemma ex_agent_cidr: "\<exists>ip. ParseCIDR ''10.6.22.0/24'' = Some (ip, ex_agent_net)"
proof -
  have "v4_string [10, 6, 22, 0] @ ''/'' @ nat_dec 24 = ''10.6.22.0/24''" by code_simp
  moreover have "cidr_mask 4 24 = [255, 255, 255, 0]" by code_simp
  moreover have "map2 (AND) [10, 6, 22, 0] [255, 255, 255, 0] = [10, 6, 22, 0 :: u8]" by simp
  ultimately show ?thesis using ParseCIDR_v4 [of "[10, 6, 22, 0]" 24] by (simp add: ex_agent_net_def)
qed

lemma ex_agent_subnets:
  "map (map_option (\<lambda>r. map (\<lambda>p. map_option nii_Subnet (npi_Ipam p)) (nin_Plugins r))) reports = [Some [Some ''10.6.22.0/24'']] \<Longrightarrow>
   pod_networks reports = Some [ex_agent_net]"
  using ex_agent_cidr
  by (auto simp: pod_networks_def map_eq_Cons_conv network_nets_def plugin_net_def)

lemma ex_agent_request:
  "performRequest ex_agent_env req n = (Ok \<lparr>rs_code = 200, rs_status = ''200 OK'', rs_body = rq_path req\<rparr>,
     n\<lparr>n_trace := n_trace n @ [Http req]\<rparr>)"
  by (simp add: performRequest_def ex_agent_env_def ex_env_def happy_status_def)

lemma ex_agent_networks:
  "\<exists>reports n'. NetworkInspect ex_agent_env ''kube-pet-net'' n = (Ok (reports, None), n')
     \<and> pod_networks reports = Some [ex_agent_net]
     \<and> n_disk n' = n_disk n"
  using ex_agent_paths(2) ex_agent_decoded(1)
  by (auto simp: ex_agent_paths(1) ex_agent_parsed(1) NetworkInspect_def named_def performGet_def performJsonRequest_def ex_agent_request
      intro: ex_agent_subnets split: option.splits prod.splits)

lemma ex_agent_version:
  "\<exists>r n'. RuntimeVersionReport ex_agent_env n = (Ok r, n') \<and> n_disk n' = n_disk n"
  using ex_agent_paths(3) ex_agent_decoded(2)
  by (auto simp: ex_agent_parsed(2) RuntimeVersionReport_def errR_def Version_def performGet_def performJsonRequest_def ex_agent_request
      split: option.splits prod.splits)

lemma ex_agent_upgrade:
  "\<exists>n'. NewAutoUpgrade ex_agent_env (al_upgrade ex_agent_lib) (al_tools ex_agent_lib) n
     = (Ok \<lparr>au_capable = False, au_self = None\<rparr>, n') \<and> n_disk n' = n_disk n"
proof -
  have "SystemType \<lparr>hasDpkg = True, hasDnf = False\<rparr> = Some ''Deb''" by code_simp
  moreover have "case dpkg_version [] of Inl e \<Rightarrow> True | Inr v \<Rightarrow> False" by code_simp
  then obtain e where "dpkg_version [] = Inl e" by (auto split: sum.splits)
  ultimately show ?thesis
    by (auto simp: NewAutoUpgrade_def GetInstalledVersion_def ex_agent_lib_def run_command_def ex_agent_env_def ex_env_def emit_def thenR_def liftE_def)
qed

lemma ex_agent_identity:
  assumes "n_disk n = n_disk ex_agent_node"
  shows "\<exists>ob s n'. NewNodeIdentity ex_agent_env ex_agent_lib ''pet-a'' ver con k ip nets n = (Ok (ob, s), n')"
proof -
  have disk: "disk_read ex_agent_env path m = (case map_of (n_disk m) path of None \<Rightarrow> Err (missing_file path) | Some c \<Rightarrow> Ok c,
      m\<lparr>n_trace := n_trace m @ [DiskRead path]\<rparr>)" for path m
    by (simp add: disk_read_node ex_agent_env_def ex_env_def)
  have "split_on (CHR 0x0A) ''PRETTY_NAME=[Fedora]'' = [''PRETTY_NAME=[Fedora]'']" by code_simp
  moreover have "has_prefix ''PRETTY_NAME=[Fedora]'' ''PRETTY_NAME=''" by code_simp
  ultimately show ?thesis
    by (simp add: NewNodeIdentity_def get_node_def ex_agent_lib_def NewNodeObject_def set_keys_def liftE_def
        NewPetNodeProvider_def findosPrettyName_def disk assms ex_agent_node_def Let_def drop_cr_def)
qed

lemma ex_agent_api:
  "\<exists>api n'. NewKubeApi ex_agent_env (al_cache_home ex_agent_lib) (al_listen ex_agent_lib) nodeName ip n = (Ok api, n')"
  by (simp add: NewKubeApi_def NewKeyMaterialStorage_def ex_agent_lib_def liftE_def file_op_def ex_agent_env_def ex_env_def Let_def)

lemma ex_agent_node_starts:
  assumes "n_disk n = n_disk ex_agent_node"
  shows "\<exists>pet n'. NewPetNode ex_agent_env ex_agent_lib ''pet-a'' k ifc [10, 6, 0, 3] nets n = (Ok pet, n')"
proof -
  obtain n1 where a: "NewAutoUpgrade ex_agent_env (al_upgrade ex_agent_lib) (al_tools ex_agent_lib) n
     = (Ok \<lparr>au_capable = False, au_self = None\<rparr>, n1)" "n_disk n1 = n_disk n" using ex_agent_upgrade by blast
  obtain r n2 where v: "RuntimeVersionReport ex_agent_env n1 = (Ok r, n2)" "n_disk n2 = n_disk n1" using ex_agent_version by blast
  obtain ob s n3 where i: "NewNodeIdentity ex_agent_env ex_agent_lib ''pet-a'' ''development'' (report_version r) k [10, 6, 0, 3] nets n2
      = (Ok (ob, s), n3)" using ex_agent_identity [of n2] assms a(2) v(2) by metis
  obtain api n4 where c: "NewKubeApi ex_agent_env (al_cache_home ex_agent_lib) (al_listen ex_agent_lib) ''pet-a'' [10, 6, 0, 3] n3 = (Ok api, n4)"
    using ex_agent_api by blast
  have g: "get_node ex_agent_lib ''pet-a'' m = (Ok (Inr (''pet-a'', Some [], Some [], ''uid'')), m\<lparr>n_trace := n_trace m @ [KubeGet ''Node'' [] ''pet-a'']\<rparr>)" for m
    by (simp add: get_node_def ex_agent_lib_def)
  have e: "\<exists>m'. ignoreR (EnsureStaticPods ex_agent_env (al_static ex_agent_lib) ''pet-a'' ''uid'') m = (Ok (), m')" for m
    by (simp add: ignoreR_def EnsureStaticPods_def getBootTime_def ex_agent_lib_def Let_def write_static_def)
  obtain m' where "ignoreR (EnsureStaticPods ex_agent_env (al_static ex_agent_lib) ''pet-a'' ''uid'')
      (n4\<lparr>n_trace := n_trace n4 @ [KubeGet ''Node'' [] ''pet-a'']\<rparr>) = (Ok (), m')" using e by blast
  moreover have "al_pod_controller ex_agent_lib = None" by (simp add: ex_agent_lib_def)
  ultimately show ?thesis
    by (simp add: NewPetNode_def a v i c g Let_def start_controllers_def)
qed

lemma ex_names_kept: "names_kept ex_agent_lib"
  by (simp add: names_kept_def ex_agent_lib_def)

lemma ex_agent_runs:
  "\<exists>pet n'. main ex_agent_env ex_agent_lib ex_flags [] ex_agent_node = (Ok (pet, None), n')"
proof -
  have kc: "al_kubeconfig ex_agent_lib = Inr \<lparr>kc_contexts = [(''c'', ''system:node:pet-a'')], kc_current = ''c''\<rparr>"
    "node_name ex_flags \<lparr>kc_contexts = [(''c'', ''system:node:pet-a'')], kc_current = ''c''\<rparr> = Some ''pet-a''"
    by (simp add: ex_agent_lib_def, code_simp)
  obtain n1 where m: "NewPodManager ex_agent_env (ex_agent_node\<lparr>n_trace := [File (MakeDir ''/var/cache/kube-pet-node/pod-specs'')]\<rparr>)
      = (Ok (), n1)" "n_disk n1 = n_disk ex_agent_node"
    using ex_agent_manager by (auto split: prod.splits res.splits)
  obtain reports n2 where net: "NetworkInspect ex_agent_env ''kube-pet-net'' n1 = (Ok (reports, None), n2)"
    "pod_networks reports = Some [ex_agent_net]" "n_disk n2 = n_disk n1" using ex_agent_networks by blast
  obtain pet n3 where pet: "NewPetNode ex_agent_env ex_agent_lib ''pet-a'' 25 ''wg-gke'' [10, 6, 0, 3] [ex_agent_net] n2 = (Ok pet, n3)"
    using ex_agent_node_starts [of n2] m(2) net(3) by metis
  have "NewPodSpecStorage ex_agent_env (al_cache_home ex_agent_lib) ex_agent_node
      = (Ok ''/var/cache/kube-pet-node/pod-specs'', ex_agent_node\<lparr>n_trace := [File (MakeDir ''/var/cache/kube-pet-node/pod-specs'')]\<rparr>)"
    by (simp add: NewPodSpecStorage_def ex_agent_lib_def liftE_def file_op_def ex_agent_env_def ex_env_def ex_agent_node_def ex_node_def Let_def)
  moreover have "al_rest_config ex_agent_lib = None" "al_clientset ex_agent_lib = None" by (simp_all add: ex_agent_lib_def)
  ultimately have "start_node ex_agent_env ex_agent_lib ex_flags ''pet-a'' ex_agent_node = (Ok pet, n3)"
    using m(1) net(1,2) pet ex_agent_address
    by (simp add: start_node_def Let_def ex_flags_def mustR_def pod_limit_def thenR_def)
  moreover have "pn_pods pet" using started [OF pet] ex_names_kept by simp
  ultimately show ?thesis by (simp add: main_def kc)
qed

lemma agent_parts_agree_witness:
  "\<exists>pet n'. main ex_agent_env ex_agent_lib ex_flags [] ex_agent_node = (Ok (pet, None), n')
     \<and> pn_NodeName pet = ''pet-a'' \<and> no_name (pn_object pet) = ''pet-a'' \<and> PodRunner \<in> set (pn_running pet)
     \<and> (\<exists>fw. pn_firewall pet = Some fw \<and> fc_node_name fw = ''pet-a'' \<and> fc_node_ip fw \<noteq> [])"
proof -
  obtain pet n' where run: "main ex_agent_env ex_agent_lib ex_flags [] ex_agent_node = (Ok (pet, None), n')"
    using ex_agent_runs by blast
  from agent_parts_agree [OF run ex_names_kept [unfolded names_kept_def]] obtain kc ip nets where k: "al_kubeconfig ex_agent_lib = Inr kc"
    "node_name ex_flags kc = Some (pn_NodeName pet)" "serves pet (fl_vpn_iface ex_flags) ip nets" "ip \<noteq> []"
    and an: "announces pet (if nets = [] \<and> fl_max_pods ex_flags > 0 then 0 else fl_max_pods ex_flags) ip nets"
    by auto
  have "node_name ex_flags \<lparr>kc_contexts = [(''c'', ''system:node:pet-a'')], kc_current = ''c''\<rparr> = Some ''pet-a''"
    by code_simp
  with k have "pn_NodeName pet = ''pet-a''" by (simp add: ex_agent_lib_def)
  with run k(3,4) an show ?thesis by (auto simp: serves_def announces_def)
qed

subsection \<open>The pod of the host\<close>

text \<open>Besides the lookup there is exactly one write: of the status of the pod that is there, or of a new pod
  that belongs to this node. Its start is the boot of the host.\<close>

lemma static_pod_written:
  assumes "EnsureStaticPods env api nodeName uid n = (Ok (), n')"
  shows "\<exists>e. n_trace n' = n_trace n @ [KubeGet ''Pod'' ''kube-pets'' (''host-'' @ nodeName), e]
    \<and> (case sa_get api (n_trace n) (''host-'' @ nodeName) of
         Inl (missing, _) \<Rightarrow> missing \<and> e = KubeCreate ''Pod'' ''kube-pets'' (''host-'' @ nodeName)
       | Inr meta \<Rightarrow> e = KubeUpdate ''Pod'' ''kube-pets'' (sm_name meta))"
proof -
  from assms obtain up where "sa_uptime api (n_trace n) = Inr up"
    by (auto simp: EnsureStaticPods_def getBootTime_def Let_def bindR_def split: sum.splits prod.splits)
  with assms show ?thesis
    by (cases "sa_get api (n_trace n) (''host-'' @ nodeName)")
      (auto simp: EnsureStaticPods_def getBootTime_def Let_def write_static_def thenR_def
        split: if_splits option.splits)
qed

subsection \<open>Serving\<close>

text \<open>With a readable certificate and key no request for a certificate is made.\<close>

lemma serves_with_files:
  assumes "\<And>tr path. env_disk env tr path = None"
    and "map_of (n_disk n) (GetFilePath (ka_storage ka) ''.crt'') = Some crt"
    and "map_of (n_disk n) (GetFilePath (ka_storage ka) ''.key'') = Some key"
    and "\<And>tr. \<not> is_not_exist (serve tr crt key)"
  shows "\<exists>n'. KubeApi_Run env ssl api serve ka n = Some (Err (serve (n_trace n') crt key), n')
    \<and> n_trace n' = n_trace n @ [DiskRead (GetFilePath (ka_storage ka) ''.crt''), DiskRead (GetFilePath (ka_storage ka) ''.key'')]"
  by (simp add: KubeApi_Run_def ServeTLS_def disk_read_node assms Let_def)

text \<open>Without a certificate it is the flow's certificate that is served in the end, with the key on disk.\<close>

lemma serves_new_certificate:
  fixes ka
  defines "crt \<equiv> GetFilePath (ka_storage ka) ''.crt''" and "key \<equiv> GetFilePath (ka_storage ka) ''.key''"
  assumes disk: "\<And>tr path. env_disk env tr path = None" and none: "map_of (n_disk n) crt = None"
    and flow: "PerformCertificateFlow env ssl api (ka_storage ka) (ka_node_name ka) (ka_node_ip ka)
      (n\<lparr>n_trace := n_trace n @ [DiskRead crt]\<rparr>) = Some (Ok (), n2)"
    and k: "map_of (n_disk n2) key = Some k"
  shows "\<exists>c n'. map_of (n_disk n2) crt = Some c
    \<and> KubeApi_Run env ssl api serve ka n = Some (Err (serve (n_trace n') c k), n')"
proof -
  let ?w = "wait_for_certificate api (csr_name (ka_node_name ka)) (submit_request env ssl api (ka_storage ka) (ka_node_name ka)
      (ka_node_ip ka) (n\<lparr>n_trace := n_trace n @ [DiskRead crt]\<rparr>))"
  obtain r m where "?w = Some (r, m)" using flow by (auto simp: PerformCertificateFlow_def)
  with flow obtain csr :: csr where "StoreFile env (ka_storage ka) ''.crt'' (csr_certificate csr) m = (Ok (), n2)"
    by (cases r) (auto simp: PerformCertificateFlow_def)
  then have c: "map_of (n_disk n2) crt = Some (csr_certificate csr)"
    by (auto simp: StoreFile_def disk_write_Ok crt_def update_conv')
  have "KubeApi_Run env ssl api serve ka n = Some (bindR (ServeTLS env serve crt key) failR n2)"
    using flow by (simp add: KubeApi_Run_def ServeTLS_def disk_read_node disk none Let_def crt_def [symmetric] key_def [symmetric]
        is_not_exist_def missing_file_def)
  also have "\<dots> = Some (Err (serve (n_trace n2 @ [DiskRead crt, DiskRead key]) (csr_certificate csr) k),
      n2\<lparr>n_trace := n_trace n2 @ [DiskRead crt, DiskRead key]\<rparr>)"
    by (simp add: ServeTLS_def disk_read_node disk c k)
  finally have "KubeApi_Run env ssl api serve ka n
      = Some (Err (serve (n_trace (n2\<lparr>n_trace := n_trace n2 @ [DiskRead crt, DiskRead key]\<rparr>)) (csr_certificate csr) k),
          n2\<lparr>n_trace := n_trace n2 @ [DiskRead crt, DiskRead key]\<rparr>)" by simp
  with c show ?thesis by blast
qed

end
