(* ===== verification/Spec2Isabelle.thy ===== *)
theory Spec2Isabelle
  imports Firewall_Props Podman_Props Volume_Props Create_Props Wireguard_Props Provision_Props Upgrade_Props Stats_Props Cert_Props Exec_Props Agent_Props
begin

text \<open>
  A verification library for \<^verbatim>\<open>kube-pet-node\<close>, an agent that joins a single host (a ``pet'') to a
  Kubernetes cluster: it registers a node object, plays the kubelet through the library
  virtual-kubelet, runs the pods in podman, and programs nftables in place of kube-proxy. All paths
  below are those under \<^verbatim>\<open>src/\<close>; a Go function keeps its name as a definition.

  \<^bold>\<open>How the parts of the program work together\<close>

  \<^verbatim>\<open>main.go\<close> finds the name, the address and the pod networks of the host and constructs the node
  (\<^verbatim>\<open>controller/node.go\<close>). Without an address on the VPN interface it only announces the node, as not
  ready, and runs \<^verbatim>\<open>controllers/selfprovision\<close>, which publishes a WireGuard key and applies the
  network configuration that the cluster answers with. With an address it starts four controllers: the
  pod controller (\<^verbatim>\<open>controllers/pods\<close>, with \<^verbatim>\<open>controllers/volumes\<close>), which drives podman through
  \<^verbatim>\<open>pkg/podman\<close>; the firewall (\<^verbatim>\<open>controllers/firewall\<close>), which writes the cluster's services as one
  nftables table; the kubelet API (\<^verbatim>\<open>controllers/kubeapi\<close>: statistics, commands, logs and its serving
  certificate); and the automatic upgrade (\<^verbatim>\<open>controllers/autoupgrade\<close>). The node object itself is
  reported by \<^verbatim>\<open>controllers/nodeidentity\<close>.

  \<^bold>\<open>The model\<close>

  A Go \<open>string\<close> is a byte string (an HOL \<open>string\<close>), a slice of bytes a list of 8-bit words; integers
  are words where their wrap-around matters, else \<open>int\<close> with \<open>wrap64\<close>. A pure function that may panic
  gives an option. Code with effects is a state transformer (\<open>Go_Monad\<close>) whose result is a value
  (\<open>Ok\<close>), a returned error (\<open>Err\<close>) or a panic (\<open>Panic\<close>). Its state is the record \<open>node\<close>
  (\<open>Node_World\<close>): the trace of everything that was sent to the outside, the stored pod specs, the heap
  of pod objects that the controllers share by pointers, the table of known pods, and the files of the
  host. The outside (podman, the API server, the disk, the clock, random bytes, the order in which Go
  ranges over a map, the text syntax of JSON) is the record \<open>env\<close> of functions of the trace so far, so
  that it may answer differently, or fail, every time. Every theorem holds for all of them, unless it
  names an assumption.

  \<^bold>\<open>The theories\<close>

  Shared: \<open>Pet_Prelude\<close> (texts, bytes, folds that may fail); the parts of Go's library that the program
  computes with: \<open>Go_Net\<close> and \<open>Go_Codec\<close> (addresses, CIDRs, hexadecimal and base64), \<open>Go_Encoding\<close>
  (URLs), \<open>Go_Json\<close> and \<open>Json_Text\<close> (struct tags, decoding into a value, indented text), \<open>Go_Float\<close>
  (rounding of \<^verbatim>\<open>float64\<close>), \<open>Go_Monad\<close>; \<open>Kube_Types\<close> (API objects), \<open>Node_World\<close> and \<open>Host_World\<close>.

  \<^item> Firewall. \<open>Rule_Builder\<close> (\<^verbatim>\<open>rule-builder.go\<close>), \<open>Nft_Writer\<close> (\<^verbatim>\<open>nft-writer.go\<close>), \<open>Hashing_Builder\<close> and
    \<open>Firewall_Sync\<close> (\<^verbatim>\<open>controller.go\<close>), \<open>Firewall_Rules\<close> (\<^verbatim>\<open>firewall-rules.go\<close>, \<open>BuildConfig\<close> in its
    own order). \<open>Nft_Writer\<close> also says what the kernel makes of a batch (\<open>load\<close>): it holds tables, adds to
    a table that is there, deletes tables, and takes a batch as a whole or, with an undeclared target, not at
    all. \<open>Firewall_Ruleset\<close> states the promised ruleset on the cluster objects and proves that
    the writer's operations, loaded into any kernel, leave it in place of the old table; \<open>Nft_Semantics\<close>
    gives a ruleset its meaning for a packet (the fuel
    of \<open>run_chain\<close> bounds the depth of jumps, and a fixed number is shown to be enough for these rulesets).
    \<open>Firewall_Props\<close>: refinement, and, of the ruleset that the kernel holds once it has taken the
    operations of \<open>BuildConfig\<close>, where packets for services go and what is rejected; which jumps
    have no target, order of the inputs, and what a synchronisation installs and records.

  \<^item> Podman. \<open>Podman_Client\<close> (\<^verbatim>\<open>client.go\<close>, \<^verbatim>\<open>urlencode.go\<close>), \<open>Podman_Api\<close>, \<open>Podman_Inspect\<close> and
    \<open>Podman_Reports\<close> (every call of the other files with its report), \<open>Podman_Spec\<close> and
    \<open>Podman_SpecGen\<close> (\<^verbatim>\<open>spec-container.go\<close>, \<^verbatim>\<open>spec-pod.go\<close>, as records with the fields of their
    JSON objects), \<open>Exec_Stream\<close> (\<open>DemuxRawStream\<close>). \<open>Podman_Props\<close>: how answers become errors, that
    requests have no key twice, that a stream is split into what was written.

  \<^item> Pods. \<open>Pod_Coord\<close>, \<open>Pod_Storage\<close>, \<open>Pod_Manager\<close>, \<open>Pod_Converter\<close>, \<open>Image_Pull\<close>, \<open>Pod_Provider\<close>: a theory per
    file of \<^verbatim>\<open>controllers/pods\<close>. \<open>Pods_Props\<close>: the reconciliation at the start, the outcomes of a
    deletion, storage as a map, bounds of the resources, and two lost errors. \<open>Pod_Machine\<close>: all
    handlers, restarts and arrivals as a step relation, with the invariant of every reachable state.
    \<open>Create_Triples\<close>, \<open>Create_Live\<close>, \<open>Create_Props\<close>: the creation of a pod, partially correct in every
    environment and totally in a cooperative one; \<open>container_settled\<close> says which report of podman a
    container's status comes from.

  \<^item> Volumes. \<open>Fs_Inject\<close> (\<^verbatim>\<open>pkg/fsinject\<close>, \<^verbatim>\<open>controllers/caching\<close>), \<open>Volumes\<close>, and \<open>Volume_Layout\<close>: the
    directory that an archive gives and the walk through its links (the fuel of \<open>read_path\<close> is a
    function of the depth of the path and enough for every published file). \<open>Volume_Props\<close>.

  \<^item> Host. \<open>Wireguard\<close> (\<^verbatim>\<open>pkg/wireguard\<close>), \<open>Provision\<close> (\<^verbatim>\<open>controllers/selfprovision\<close>), \<open>Auto_Upgrade\<close>, \<open>Node_Identity\<close>, each
    with its theory of properties: round trips of keys and configurations, one key published over
    any sequence of notifications, that of the key on disk, one installation, of the release received last,
    the latest address reported. \<open>Ini_Text\<close>: the INI library is a parameter; its documented behaviour on plain
    texts is stated by a reader of texts (\<open>ini_text\<close>), and what \<open>Stringify\<close> prints is shown to be such a text.

  \<^item> Kubelet API. \<open>Kube_Stats\<close> (\<^verbatim>\<open>api-stats.go\<close>), \<open>Kube_Cert\<close> (the certificate, its request and its files),
    \<open>Kube_Exec\<close> (\<^verbatim>\<open>api-exec.go\<close>, \<^verbatim>\<open>api-logs.go\<close>). \<open>Stats_Props\<close>: the error of the reported rate, with the
    rounding of every operation, and the sums of a pod. \<open>Cert_Props\<close>: when the loop that waits for
    approval ends (it is a \<open>while_option\<close>, and never ending is the value \<open>None\<close>), what it does to the
    host's files, and when it keeps the key. \<open>Exec_Props\<close>: what the caller of a command gets, and what becomes of a log.

  \<^item> Agent. \<open>Agent_Main\<close> (\<^verbatim>\<open>main.go\<close>, \<^verbatim>\<open>controller/\<close>, \<^verbatim>\<open>kubeapi/controller.go\<close>) puts these together, and
    \<open>Agent_Props\<close> shows that all parts work with one name, one address and the same networks, what is
    written about the host itself, and which certificate the kubelet API serves.

  Interfaces are locales with their interpretation on the model: \<open>io_writer\<close> (the hashing builder as the
  writer's sink), \<open>chain_sink\<close> (the nftables writer as \<open>BuildConfig\<close> uses it), \<open>pod_store\<close> and
  \<open>listed_pod_store\<close> (the directory of specs), \<open>frame_relation\<close> (what an action leaves alone, for
  invariants, parts of the state, and the growth of the trace).

  \<^bold>\<open>Bounds\<close>

  \<^verbatim>\<open>float64\<close> is exact rational arithmetic with rounding to 53 bits, ties to even, for values that are not
  negative and in the normal range, which the code does not leave; a conversion to \<^verbatim>\<open>uint64\<close> out of
  range is a parameter, as Go leaves it open. Streams are finite: all bytes up to their end. Times are
  integers in nanoseconds.

  \<^bold>\<open>Not modelled\<close>

  Log output; contexts, cancellation and signals; locks (every operation that holds one is one step);
  goroutines (the one that keeps a command's session alive included), except as sequences of events (informers, timers, the sizes of a terminal, the watch of the
  address) or as named services that run; the constructors of client-go and virtual-kubelet, event
  broadcasting, and the routes and the plain HTTP server of the kubelet API, which only call
  libraries; the transport of podman's socket; the flags' parser. The file \<^verbatim>\<open>pkg/podman/shared.go\<close> holds
  one type that nothing uses. Parameters stand for code that is not in the repository: semantic
  versions, the INI and units libraries, openssl, Curve25519, the contents of \<^verbatim>\<open>/proc\<close>, JSON's text syntax.
\<close>

end
